(* ===== verification/Prelude.thy ===== *)
theory Prelude
  imports Complex_Main
begin

text \<open>
  Shared foundations of the development: the collections of rules the component theories
  feed and use, the JavaScript error values, and the shape of an imperative JavaScript
  method.

  A method body is a function from the page state to a pair of its outcome and the new
  state: \<open>Inl e\<close> when the body throws \<open>e\<close>, \<open>Inr x\<close> when it completes with \<open>x\<close>. The state is
  part of both outcomes, because a JavaScript exception does not roll anything back.
  Blocks, \<open>try\<close>/\<open>catch\<close> and reads of the state are the combinators below, and the locale
  \<open>state_relation\<close> collects, once, how a reflexive and transitive relation between the state
  before and the state after passes through each of them.
\<close>

named_theorems js_run \<open>evaluation of the statement combinators on a state\<close>
named_theorems js_ops \<open>defining equations of the statement-level operations\<close>

subsection \<open>Errors\<close>

text \<open>
  The error objects the code meets: \<open>new Error(msg)\<close> of the sources, and the ones the
  engine and the browser raise (their message text is not fixed by any standard; see
  the field \<open>engine_message\<close> of the page state).
\<close>

datatype js_error =
    Error string
  | TypeError
  | ReferenceError
  | SyntaxError
  | InvalidStateError

subsection \<open>Statements\<close>

type_synonym ('s, 'a) js = "'s \<Rightarrow> (js_error + 'a) \<times> 's"

definition js_return :: "'a \<Rightarrow> ('s, 'a) js" where
  "js_return x = (\<lambda>s. (Inr x, s))"

definition js_skip :: "('s, unit) js" where
  "js_skip = js_return ()"

definition js_throw :: "js_error \<Rightarrow> ('s, 'a) js" where
  "js_throw e = (\<lambda>s. (Inl e, s))"

definition js_bind :: "('s, 'a) js \<Rightarrow> ('a \<Rightarrow> ('s, 'b) js) \<Rightarrow> ('s, 'b) js" where
  "js_bind m f = (\<lambda>s. case m s of (Inl e, t) \<Rightarrow> (Inl e, t) | (Inr x, t) \<Rightarrow> f x t)"

definition js_try :: "('s, 'a) js \<Rightarrow> (js_error \<Rightarrow> ('s, 'a) js) \<Rightarrow> ('s, 'a) js" where
  "js_try m h = (\<lambda>s. case m s of (Inl e, t) \<Rightarrow> h e t | (Inr x, t) \<Rightarrow> (Inr x, t))"

definition js_get :: "('s \<Rightarrow> 'a) \<Rightarrow> ('a \<Rightarrow> ('s, 'b) js) \<Rightarrow> ('s, 'b) js" where
  "js_get f k = (\<lambda>s. k (f s) s)"

definition js_upd :: "('s \<Rightarrow> 's) \<Rightarrow> ('s, unit) js" where
  "js_upd f = (\<lambda>s. (Inr (), f s))"

text \<open>Evaluation of an expression that may throw but has no effect.\<close>

definition js_lift :: "js_error + 'a \<Rightarrow> ('a \<Rightarrow> ('s, 'b) js) \<Rightarrow> ('s, 'b) js" where
  "js_lift v k = (case v of Inl e \<Rightarrow> js_throw e | Inr x \<Rightarrow> k x)"

text \<open>A block of statements stops at the first one that throws.\<close>

fun js_block :: "('s, unit) js list \<Rightarrow> ('s, unit) js" where
  "js_block [] = js_skip"
| "js_block (c # cs) = js_bind c (\<lambda>_. js_block cs)"

lemma js_return_run [js_run]: "js_return x s = (Inr x, s)"
  by (simp add: js_return_def)

lemma js_skip_run [js_run]: "js_skip s = (Inr (), s)"
  by (simp add: js_skip_def js_return_def)

lemma js_throw_run [js_run]: "js_throw e s = (Inl e, s)"
  by (simp add: js_throw_def)

lemma js_get_run [js_run]: "js_get f k s = k (f s) s"
  by (simp add: js_get_def)

lemma js_upd_run [js_run]: "js_upd f s = (Inr (), f s)"
  by (simp add: js_upd_def)

lemma js_lift_run [js_run]:
  "js_lift (Inl e) k = js_throw e" "js_lift (Inr x) k = k x"
  by (simp_all add: js_lift_def)

lemma js_bind_run [js_run]:
  "js_bind m f s = (case m s of (Inl e, t) \<Rightarrow> (Inl e, t) | (Inr x, t) \<Rightarrow> f x t)"
  by (simp add: js_bind_def)

lemma js_try_run [js_run]:
  "js_try m h s = (case m s of (Inl e, t) \<Rightarrow> h e t | (Inr x, t) \<Rightarrow> (Inr x, t))"
  by (simp add: js_try_def)

lemma js_block_Nil_run [js_run]: "js_block [] s = (Inr (), s)"
  by (simp add: js_run)

lemma js_block_Cons_run [js_run]:
  "js_block (c # cs) s = (case c s of (Inl e, t) \<Rightarrow> (Inl e, t) | (Inr x, t) \<Rightarrow> js_block cs t)"
  by (simp add: js_run)

declare js_block.simps [simp del]

lemma js_block_append:
  "js_block (cs @ ds) = js_bind (js_block cs) (\<lambda>_. js_block ds)"
proof (induction cs)
  case Nil
  show ?case by (rule ext) (simp add: js_run)
next
  case (Cons c cs)
  then show ?case
    by (intro ext) (simp add: js_run split: prod.split sum.split)
qed

text \<open>A statement that cannot throw.\<close>

definition no_throw :: "('s, 'a) js \<Rightarrow> bool" where
  "no_throw m \<longleftrightarrow> (\<forall>s e t. m s \<noteq> (Inl e, t))"

lemma no_throwI: "(\<And>s. \<exists>x t. m s = (Inr x, t)) \<Longrightarrow> no_throw m"
  unfolding no_throw_def by (metis Inr_Inl_False prod.inject)

lemma no_throw_unit: "no_throw (m :: ('s, unit) js) \<Longrightarrow> m s = (Inr (), snd (m s))"
  by (cases "m s"; cases "fst (m s)") (auto simp: no_throw_def)

lemma no_throw_simps [simp]:
  "no_throw (js_return x)" "no_throw js_skip" "no_throw (js_upd f)"
  by (auto simp: no_throw_def js_run)

lemma no_throw_try: "(\<And>e. no_throw (h e)) \<Longrightarrow> no_throw (js_try m h)"
  unfolding no_throw_def js_try_run by (auto split: prod.splits sum.splits)

lemma no_throw_get: "(\<And>x. no_throw (k x)) \<Longrightarrow> no_throw (js_get f k)"
  by (auto simp: no_throw_def js_run)

lemma no_throw_bind: "no_throw m \<Longrightarrow> (\<And>x. no_throw (f x)) \<Longrightarrow> no_throw (js_bind m f)"
  unfolding no_throw_def js_bind_run by (auto split: prod.splits sum.splits)

lemma no_throw_block: "(\<And>c. c \<in> set cs \<Longrightarrow> no_throw c) \<Longrightarrow> no_throw (js_block cs)"
proof (induction cs)
  case Nil
  then show ?case by (simp add: js_block.simps)
next
  case (Cons c cs)
  then show ?case by (simp add: js_block.simps no_throw_bind)
qed

lemmas no_throw_intros = no_throw_try no_throw_get no_throw_bind no_throw_block

subsection \<open>Relations between the state before and the state after\<close>

definition relates :: "('s \<Rightarrow> 's \<Rightarrow> bool) \<Rightarrow> ('s, 'a) js \<Rightarrow> bool" where
  "relates R m \<longleftrightarrow> (\<forall>s. R s (snd (m s)))"

lemma relatesI: "(\<And>s. R s (snd (m s))) \<Longrightarrow> relates R m"
  by (simp add: relates_def)

lemma relatesD: "relates R m \<Longrightarrow> R s (snd (m s))"
  by (simp add: relates_def)

text \<open>
  The contract of a relation that may be followed through a program text: it holds between
  a state and itself and is transitive. Every combinator then keeps it. Frame conditions
  (a field is unchanged), monotonicity (a counter does not decrease, the log only grows)
  and invariants (if it held before, it holds after) are all relations of this kind.
\<close>

locale state_relation =
  fixes R :: "'s \<Rightarrow> 's \<Rightarrow> bool"
  assumes R_refl: "R s s"
    and R_trans: "R s t \<Longrightarrow> R t u \<Longrightarrow> R s u"
begin

lemma rel_return: "relates R (js_return x)"
  by (simp add: relates_def js_run R_refl)

lemma rel_skip: "relates R js_skip"
  by (simp add: relates_def js_run R_refl)

lemma rel_throw: "relates R (js_throw e)"
  by (simp add: relates_def js_run R_refl)

lemma rel_get: "(\<And>x. relates R (k x)) \<Longrightarrow> relates R (js_get f k)"
  by (simp add: relates_def js_run)

lemma rel_get_at: "(\<And>s. R s (snd (k (f s) s))) \<Longrightarrow> relates R (js_get f k)"
  by (simp add: relates_def js_run)

lemma rel_upd: "(\<And>s. R s (f s)) \<Longrightarrow> relates R (js_upd f)"
  by (simp add: relates_def js_run)

lemma rel_lift: "(\<And>x. v = Inr x \<Longrightarrow> relates R (k x)) \<Longrightarrow> relates R (js_lift v k)"
  by (cases v) (simp_all add: js_run rel_throw)

lemma rel_bind:
  assumes "relates R m" "\<And>x. relates R (f x)"
  shows "relates R (js_bind m f)"
proof (rule relatesI)
  fix s
  obtain r t where m: "m s = (r, t)" by (cases "m s")
  with assms(1) have "R s t" by (metis relatesD snd_conv)
  with m assms(2) show "R s (snd (js_bind m f s))"
    by (cases r) (auto simp: js_run intro: R_trans relatesD)
qed

lemma rel_try:
  assumes "relates R m" "\<And>e. relates R (h e)"
  shows "relates R (js_try m h)"
proof (rule relatesI)
  fix s
  obtain r t where m: "m s = (r, t)" by (cases "m s")
  with assms(1) have "R s t" by (metis relatesD snd_conv)
  with m assms(2) show "R s (snd (js_try m h s))"
    by (cases r) (auto simp: js_run intro: R_trans relatesD)
qed

lemma rel_block: "(\<And>c. c \<in> set cs \<Longrightarrow> relates R c) \<Longrightarrow> relates R (js_block cs)"
  by (induction cs) (auto simp: js_block.simps rel_skip intro!: rel_bind)

lemma rel_if: "relates R a \<Longrightarrow> relates R b \<Longrightarrow> relates R (if c then a else b)"
  by simp

lemmas rel_intros = rel_return rel_skip rel_throw rel_get rel_lift rel_bind rel_try
  rel_block rel_if

end

end
