(* ===== verification/JsNumber.thy ===== *)
theory JsNumber
  imports Prelude "HOL-Library.Log_Nat"
begin

text \<open>
  The Number type of JavaScript: IEEE 754 binary64 values. A finite value is kept as the
  rational number it denotes and every arithmetic result is rounded to the nearest
  representable value (ties to even) by \<open>to_double\<close>. The two zeros are identified: the code
  never tells them apart except through \<open>x / -0\<close>.

  The operations are those the sources use: division, product, remainder, \<open>Math.floor\<close>,
  \<open>Math.min\<close>, the comparisons, \<open>toFixed(2)\<close> and the conversion to a string.
\<close>

datatype jsnum = NaN | PInf | NInf | Fin rat

subsection \<open>Rounding\<close>

definition round_half_even :: "rat \<Rightarrow> int" where
  "round_half_even q =
     (let f = \<lfloor>q\<rfloor>; d = q - of_int f
      in if d < 1/2 then f else if 1/2 < d then f + 1 else if even f then f else f + 1)"

text \<open>The binary exponent: \<open>2 powi ilog2 q \<le> q < 2 powi (ilog2 q + 1)\<close> for \<open>q > 0\<close>.\<close>

definition ilog2 :: "rat \<Rightarrow> int" where
  "ilog2 q = (let (a, b) = quotient_of q; e = bitlen a - bitlen b
              in if 2 powi e \<le> q then e else e - 1)"

definition ulp_exp :: "rat \<Rightarrow> int" where
  "ulp_exp q = max (ilog2 q) (-1022) - 52"

definition to_double :: "rat \<Rightarrow> jsnum" where
  "to_double q =
     (if q = 0 then Fin 0
      else let u = 2 powi ulp_exp \<bar>q\<bar>; r = of_int (round_half_even (q / u)) * u
           in if 2 ^ 1024 \<le> r then PInf else if r \<le> - (2 ^ 1024) then NInf else Fin r)"

lemma round_half_even_int [simp]: "round_half_even (of_int n) = n"
  by (simp add: round_half_even_def)

lemma round_half_even_mono: "x \<le> y \<Longrightarrow> round_half_even x \<le> round_half_even y"
proof -
  assume le: "x \<le> y"
  then have f: "\<lfloor>x\<rfloor> \<le> \<lfloor>y\<rfloor>" by (rule floor_mono)
  show ?thesis
  proof (cases "\<lfloor>x\<rfloor> = \<lfloor>y\<rfloor>")
    case True
    with le show ?thesis by (simp add: round_half_even_def Let_def)
  next
    case False
    with f show ?thesis by (auto simp: round_half_even_def Let_def)
  qed
qed

lemma round_half_even_near: "\<bar>of_int (round_half_even x) - x\<bar> \<le> 1/2"
proof -
  have "of_int \<lfloor>x\<rfloor> \<le> x" "x < of_int \<lfloor>x\<rfloor> + 1" by linarith+
  then show ?thesis by (auto simp: round_half_even_def Let_def abs_le_iff)
qed

lemma powi_2_pos [simp]: "0 < (2::rat) powi e"
  by (simp add: zero_less_power_int)

lemma bitlen_powi:
  assumes "0 < a"
  shows "(2::rat) powi (bitlen a - 1) \<le> of_int a" "of_int a < (2::rat) powi bitlen a"
proof -
  have b: "2 ^ nat (bitlen a - 1) \<le> a" "a < 2 ^ nat (bitlen a)"
    using bitlen_bounds [OF assms] by auto
  have n: "0 \<le> bitlen a - 1"
    using assms bitlen_eq_zero_iff [of a] bitlen_nonneg [of a] by linarith
  have "(2::rat) ^ nat (bitlen a - 1) \<le> of_int a"
    using b(1) by (metis of_int_le_iff of_int_numeral of_int_power)
  then show "(2::rat) powi (bitlen a - 1) \<le> of_int a" using n by (simp add: power_int_def)
  have "of_int a < (2::rat) ^ nat (bitlen a)"
    using b(2) by (metis of_int_less_iff of_int_numeral of_int_power)
  then show "of_int a < (2::rat) powi bitlen a" using n by (simp add: power_int_def)
qed

lemma ilog2_bounds:
  assumes "0 < q"
  shows "2 powi ilog2 q \<le> q \<and> q < 2 powi (ilog2 q + 1)"
proof -
  obtain a b where ab: "quotient_of q = (a, b)" by (cases "quotient_of q")
  then have b: "0 < b" by (rule quotient_of_denom_pos)
  have q: "q = of_int a / of_int b" using ab by (rule quotient_of_div)
  with assms b have a: "0 < a" by (simp add: zero_less_divide_iff)
  let ?e = "bitlen a - bitlen b"
  have "q < 2 powi bitlen a / 2 powi (bitlen b - 1)"
    unfolding q by (rule frac_less) (use a b bitlen_powi in \<open>auto simp: less_imp_le\<close>)
  also have "\<dots> = 2 powi (bitlen a - (bitlen b - 1))"
    by (rule power_int_diff [symmetric]) simp
  also have "bitlen a - (bitlen b - 1) = ?e + 1" by simp
  finally have up: "q < 2 powi (?e + 1)" .
  have "?e - 1 = (bitlen a - 1) - bitlen b" by simp
  then have "2 powi (?e - 1) = (2 powi (bitlen a - 1) :: rat) / 2 powi bitlen b"
    by (simp add: power_int_diff)
  also have "\<dots> \<le> q"
    unfolding q by (rule frac_le) (use a b bitlen_powi in \<open>auto simp: less_imp_le\<close>)
  finally have "2 powi (?e - 1) \<le> q" .
  with up show ?thesis by (auto simp: ilog2_def ab Let_def)
qed

lemma ulp_exp_bounds:
  assumes "0 < q" "q < 2 ^ 53"
  shows "ulp_exp q \<le> 0"
proof (rule ccontr)
  assume "\<not> ulp_exp q \<le> 0"
  then have "53 \<le> ilog2 q" by (simp add: ulp_exp_def)
  then have "(2::rat) powi 53 \<le> 2 powi ilog2 q" by (intro power_int_increasing) auto
  also have "\<dots> \<le> q" using ilog2_bounds [OF assms(1)] by simp
  finally show False using assms(2) by simp
qed

lemma div_powi_neg:
  assumes "e \<le> 0"
  shows "(of_int n :: rat) / 2 powi e = of_int (n * 2 ^ nat (- e))"
proof -
  have "(2::rat) powi e = inverse (2 ^ nat (- e))"
    using assms by (auto simp: power_int_def power_one_over inverse_eq_divide)
  then show ?thesis by (simp add: divide_inverse)
qed

text \<open>Integers up to \<open>2 ^ 53\<close> are represented exactly.\<close>

lemma to_double_int:
  assumes "\<bar>n\<bar> \<le> 2 ^ 53"
  shows "to_double (of_int n) = Fin (of_int n)"
proof (cases "n = 0")
  case True
  then show ?thesis by (simp add: to_double_def)
next
  case False
  let ?q = "\<bar>of_int n :: rat\<bar>" let ?u = "(2::rat) powi ulp_exp ?q"
  have q: "0 < ?q" using False by simp
  have "\<exists>k. of_int n / ?u = of_int k"
  proof (cases "\<bar>n\<bar> = 2 ^ 53")
    case True
    then have q53: "?q = 2 ^ 53" by (metis of_int_abs of_int_numeral of_int_power)
    have le: "(2::rat) powi ilog2 ?q \<le> 2 powi 53" "(2::rat) powi 53 < 2 powi (ilog2 ?q + 1)"
      using ilog2_bounds [OF q] q53 by auto
    have "ilog2 ?q \<le> 53" "53 < ilog2 ?q + 1"
      using power_int_strict_increasing [of 53 "ilog2 ?q" "2::rat"]
        power_int_increasing [of "ilog2 ?q + 1" 53 "2::rat"] le by force+
    then have "ilog2 ?q = 53" by simp
    then have u: "?u = 2" by (simp add: ulp_exp_def)
    have "n = 2 * 2 ^ 52 \<or> n = 2 * (- (2 ^ 52))" using True by (simp add: abs_if split: if_splits)
    then obtain k where "n = 2 * k" by blast
    with u show ?thesis by auto
  next
    case False
    then have "\<bar>n\<bar> < 2 ^ 53" using assms by simp
    then have "?q < 2 ^ 53" by (metis of_int_abs of_int_less_iff of_int_numeral of_int_power)
    with ulp_exp_bounds [OF q] have "ulp_exp ?q \<le> 0" by simp
    then show ?thesis by (metis div_powi_neg)
  qed
  then obtain k where k: "of_int n / ?u = of_int k" by blast
  then have r: "of_int (round_half_even (of_int n / ?u)) * ?u = of_int n"
    by (metis divide_eq_eq powi_2_pos round_half_even_int less_irrefl)
  have "\<bar>of_int n :: rat\<bar> \<le> 2 ^ 53"
    using assms by (metis of_int_abs of_int_le_iff of_int_numeral of_int_power)
  moreover have "(2::rat) ^ 53 < 2 ^ 1024" by (rule power_strict_increasing) auto
  ultimately have "\<not> 2 ^ 1024 \<le> (of_int n :: rat)" "\<not> of_int n \<le> - (2 ^ 1024 :: rat)" by linarith+
  with r False show ?thesis by (simp add: to_double_def Let_def)
qed

text \<open>
  The quotient of two safe integers, rounded and then floored, is the integer quotient: the
  rounding error is below \<open>1 / d\<close>, so it never reaches the next integer.
\<close>

lemma floor_double_quotient:
  fixes s d :: int
  assumes s: "0 \<le> s" "s < 2 ^ 53" and d: "0 < d" "d \<le> 2 ^ 53"
  shows "\<exists>r. to_double (of_int s / of_int d) = Fin r \<and> \<lfloor>r\<rfloor> = s div d"
proof (cases "s = 0")
  case True
  then show ?thesis by (simp add: to_double_def)
next
  case False
  let ?q = "(of_int s :: rat) / of_int d" let ?k = "s div d"
  let ?u = "(2::rat) powi ulp_exp ?q" let ?r = "of_int (round_half_even (?q / ?u)) * ?u"
  have q: "0 < ?q" using False s d by simp
  have s53: "(of_int s :: rat) < 2 ^ 53" using s by (metis of_int_less_iff of_int_numeral of_int_power)
  have d53: "(of_int d :: rat) \<le> 2 ^ 53" using d by (metis of_int_le_iff of_int_numeral of_int_power)
  have "?q \<le> of_int s" using s d by (simp add: divide_le_eq mult_le_cancel_left1)
  with s53 have q53: "?q < 2 ^ 53" by simp
  have klo: "of_int ?k \<le> ?q" and khi: "?q \<le> of_int ?k + 1 - 1 / of_int d"
  proof -
    have "(of_int (d * ?k + s mod d) :: rat) = of_int s" by (simp only: mult_div_mod_eq)
    then have sd: "of_int d * of_int ?k + of_int (s mod d) = (of_int s :: rat)"
      by (simp only: of_int_add of_int_mult)
    have m: "0 \<le> s mod d" "s mod d \<le> d - 1" using d by auto
    have e: "?q = of_int ?k + of_int (s mod d) / of_int d"
      unfolding sd [symmetric] using d by (simp add: add_divide_distrib)
    show "of_int ?k \<le> ?q" unfolding e using m d by simp
    have "(of_int (s mod d) :: rat) \<le> of_int d - 1"
      using m(2) by (metis of_int_1 of_int_diff of_int_le_iff)
    then have "(of_int (s mod d) :: rat) / of_int d \<le> (of_int d - 1) / of_int d"
      using d by (intro divide_right_mono) auto
    also have "\<dots> = 1 - 1 / of_int d" using d by (simp add: diff_divide_distrib)
    finally show "?q \<le> of_int ?k + 1 - 1 / of_int d" unfolding e by simp
  qed
  have ex: "ulp_exp ?q \<le> 0" using ulp_exp_bounds [OF q q53] .
  have rlo: "of_int ?k \<le> ?r"
  proof -
    have "of_int ?k / ?u \<le> ?q / ?u" using klo by (intro divide_right_mono less_imp_le [OF powi_2_pos])
    then have "round_half_even (of_int ?k / ?u) \<le> round_half_even (?q / ?u)"
      by (rule round_half_even_mono)
    moreover have "of_int (round_half_even (of_int ?k / ?u)) * ?u = of_int ?k"
      unfolding div_powi_neg [OF ex] round_half_even_int
      by (metis div_powi_neg [OF ex] nonzero_eq_divide_eq powi_2_pos less_irrefl)
    ultimately show ?thesis by (metis mult_right_mono of_int_le_iff powi_2_pos less_imp_le)
  qed
  have near: "?r \<le> ?q + ?u / 2"
  proof -
    have "of_int (round_half_even (?q / ?u)) \<le> ?q / ?u + 1/2"
      using round_half_even_near [of "?q / ?u"] by linarith
    then have "?r \<le> (?q / ?u + 1/2) * ?u" by (intro mult_right_mono) (auto simp: less_imp_le)
    also have "\<dots> = ?q + ?u / 2"
      by (simp add: ring_distribs)
    finally show ?thesis .
  qed
  have "-1022 \<le> ilog2 ?q"
  proof (rule ccontr)
    assume "\<not> -1022 \<le> ilog2 ?q"
    then have "(2::rat) powi (ilog2 ?q + 1) \<le> 2 powi (-53)" by (intro power_int_increasing) auto
    moreover have "?q < 2 powi (ilog2 ?q + 1)" using ilog2_bounds [OF q] by simp
    moreover have "(2::rat) powi (-53) \<le> ?q"
    proof -
      have one: "(1::rat) \<le> of_int s" using False s by simp
      have pos: "(0::rat) < of_int d" using d by simp
      have "1 / 2 ^ 53 \<le> ?q" by (rule frac_le [OF _ one pos d53]) (use s in simp)
      moreover have "(2::rat) powi (-53) = 1 / 2 ^ 53"
        by (simp only: power_int_minus power_int_numeral inverse_eq_divide)
      ultimately show ?thesis by simp
    qed
    ultimately show False by linarith
  qed
  then have "?u / 2 = 2 powi ilog2 ?q / 2 ^ 53"
    by (simp add: ulp_exp_def power_int_diff)
  also have "\<dots> \<le> ?q / 2 ^ 53" using ilog2_bounds [OF q] by (intro divide_right_mono) auto
  also have "\<dots> = of_int s / 2 ^ 53 / of_int d" by (simp only: divide_divide_eq_left mult.commute)
  also have "\<dots> < 1 / of_int d"
  proof (rule divide_strict_right_mono)
    show "of_int s / 2 ^ 53 < (1::rat)" using s53 by (simp only: divide_less_eq_1_pos zero_less_power zero_less_numeral)
  qed (use d in simp)
  finally have u: "?u / 2 < 1 / of_int d" .
  have rhi: "?r < of_int ?k + 1" using near khi u by linarith
  have "?r < 2 ^ 53 + 1" using rhi klo q53 by linarith
  moreover have "(2::rat) ^ 53 + 1 < 2 ^ 1024"
  proof -
    have "(2::rat) ^ 53 + 1 \<le> 2 ^ 54" by simp
    also have "(2::rat) ^ 54 < 2 ^ 1024" by (rule power_strict_increasing) auto
    finally show ?thesis .
  qed
  moreover have "0 \<le> ?r"
  proof -
    have "0 \<le> ?k" using s(1) d(1) by (simp only: pos_imp_zdiv_nonneg_iff)
    then have "(0::rat) \<le> of_int ?k" by (simp only: of_int_0_le_iff)
    then show ?thesis using rlo by linarith
  qed
  ultimately have "\<not> 2 ^ 1024 \<le> ?r" "\<not> ?r \<le> - (2 ^ 1024)" by linarith+
  then have "to_double ?q = Fin ?r"
    using q unfolding to_double_def Let_def by (simp only: abs_of_pos if_False less_irrefl split: if_splits) auto
  moreover have "\<lfloor>?r\<rfloor> = ?k" using rlo rhi by (simp only: floor_eq_iff conj_absorb simp_thms)
  ultimately show ?thesis by blast
qed


subsection \<open>Arithmetic and comparison\<close>

fun is_nan :: "jsnum \<Rightarrow> bool" where
  "is_nan NaN = True"
| "is_nan _ = False"

fun num_div :: "jsnum \<Rightarrow> jsnum \<Rightarrow> jsnum" where
  "num_div NaN _ = NaN"
| "num_div _ NaN = NaN"
| "num_div (Fin x) (Fin y) =
     (if y = 0 then (if x = 0 then NaN else if 0 < x then PInf else NInf) else to_double (x / y))"
| "num_div (Fin _) _ = Fin 0"
| "num_div PInf (Fin y) = (if 0 \<le> y then PInf else NInf)"
| "num_div NInf (Fin y) = (if 0 \<le> y then NInf else PInf)"
| "num_div _ _ = NaN"

fun num_mul :: "jsnum \<Rightarrow> jsnum \<Rightarrow> jsnum" where
  "num_mul NaN _ = NaN"
| "num_mul _ NaN = NaN"
| "num_mul (Fin x) (Fin y) = to_double (x * y)"
| "num_mul (Fin x) PInf = (if x = 0 then NaN else if 0 < x then PInf else NInf)"
| "num_mul (Fin x) NInf = (if x = 0 then NaN else if 0 < x then NInf else PInf)"
| "num_mul PInf (Fin y) = (if y = 0 then NaN else if 0 < y then PInf else NInf)"
| "num_mul NInf (Fin y) = (if y = 0 then NaN else if 0 < y then NInf else PInf)"
| "num_mul PInf PInf = PInf"
| "num_mul NInf NInf = PInf"
| "num_mul PInf NInf = NInf"
| "num_mul NInf PInf = NInf"

text \<open>\<open>x % y\<close>: the remainder of truncated division; it is exact.\<close>

definition rat_trunc :: "rat \<Rightarrow> int" where
  "rat_trunc q = (if 0 \<le> q then \<lfloor>q\<rfloor> else - \<lfloor>- q\<rfloor>)"

fun num_rem :: "jsnum \<Rightarrow> jsnum \<Rightarrow> jsnum" where
  "num_rem (Fin x) (Fin y) = (if y = 0 then NaN else Fin (x - of_int (rat_trunc (x / y)) * y))"
| "num_rem (Fin x) NaN = NaN"
| "num_rem (Fin x) _ = Fin x"
| "num_rem _ _ = NaN"

fun num_floor :: "jsnum \<Rightarrow> jsnum" where
  "num_floor (Fin x) = Fin (of_int \<lfloor>x\<rfloor>)"
| "num_floor n = n"

fun num_less :: "jsnum \<Rightarrow> jsnum \<Rightarrow> bool" where
  "num_less NaN _ = False"
| "num_less _ NaN = False"
| "num_less (Fin x) (Fin y) = (x < y)"
| "num_less NInf NInf = False"
| "num_less NInf _ = True"
| "num_less _ NInf = False"
| "num_less PInf _ = False"
| "num_less (Fin _) PInf = True"

text \<open>\<open>x === y\<close> on numbers: NaN equals nothing.\<close>

definition num_eq :: "jsnum \<Rightarrow> jsnum \<Rightarrow> bool" where
  "num_eq x y \<longleftrightarrow> x = y \<and> \<not> is_nan x"

definition num_le :: "jsnum \<Rightarrow> jsnum \<Rightarrow> bool" where
  "num_le x y \<longleftrightarrow> num_less x y \<or> num_eq x y"

definition math_min :: "jsnum \<Rightarrow> jsnum \<Rightarrow> jsnum" where
  "math_min x y = (if is_nan x \<or> is_nan y then NaN else if num_less y x then y else x)"

lemma num_le_Fin [simp]: "num_le (Fin x) (Fin y) \<longleftrightarrow> x \<le> y"
  by (auto simp: num_le_def num_eq_def)

lemma math_min_le: "\<not> is_nan x \<Longrightarrow> \<not> is_nan y \<Longrightarrow> num_le (math_min x y) y"
  by (cases x; cases y) (auto simp: math_min_def num_le_def num_eq_def)

lemma is_nan_to_double [simp]: "\<not> is_nan (to_double q)"
  by (simp add: to_double_def Let_def)

subsection \<open>Decimal digits\<close>

definition digit_char :: "nat \<Rightarrow> char" where
  "digit_char d = char_of (48 + d)"

definition is_digit :: "char \<Rightarrow> bool" where
  "is_digit c \<longleftrightarrow> 48 \<le> (of_char c :: nat) \<and> (of_char c :: nat) \<le> 57"

definition digit_val :: "char \<Rightarrow> nat" where
  "digit_val c = of_char c - 48"

fun show_nat :: "nat \<Rightarrow> string" where
  "show_nat n = (if n < 10 then [digit_char n] else show_nat (n div 10) @ [digit_char (n mod 10)])"

declare show_nat.simps [simp del]

definition digits_val :: "string \<Rightarrow> nat" where
  "digits_val ds = foldl (\<lambda>n c. 10 * n + digit_val c) 0 ds"

lemma is_digit_digit_char: "d < 10 \<Longrightarrow> is_digit (digit_char d)"
  by (simp add: is_digit_def digit_char_def)

lemma digit_val_digit_char: "d < 10 \<Longrightarrow> digit_val (digit_char d) = d"
  by (simp add: digit_val_def digit_char_def)

lemma show_nat_digits: "list_all is_digit (show_nat n)"
proof (induction n rule: show_nat.induct)
  case (1 n)
  then show ?case by (subst show_nat.simps) (simp add: is_digit_digit_char)
qed

lemma show_nat_nonempty: "show_nat n \<noteq> []"
  by (subst show_nat.simps) simp

lemma digits_val_snoc: "digits_val (ds @ [c]) = 10 * digits_val ds + digit_val c"
  by (simp add: digits_val_def)

lemma digits_val_show_nat: "digits_val (show_nat n) = n"
proof (induction n rule: show_nat.induct)
  case (1 n)
  show ?case
  proof (cases "n < 10")
    case True
    then show ?thesis
      by (subst show_nat.simps) (simp add: digits_val_def digit_val_digit_char)
  next
    case False
    with 1 have "digits_val (show_nat (n div 10)) = n div 10" by simp
    with False show ?thesis
      by (subst show_nat.simps) (simp add: digits_val_snoc digit_val_digit_char)
  qed
qed

lemma show_nat_inject: "show_nat m = show_nat n \<Longrightarrow> m = n"
  by (metis digits_val_show_nat)

lemma show_nat_head: "hd (show_nat n) = CHR ''0'' \<Longrightarrow> n = 0"
proof (induction n rule: show_nat.induct)
  case (1 n)
  show ?case
  proof (cases "n < 10")
    case True
    with "1.prems" have "(of_char (digit_char n) :: nat) = of_char (CHR ''0'')"
      by (subst (asm) show_nat.simps) simp
    with True show ?thesis by (simp add: digit_char_def)
  next
    case False
    with "1.prems" have "hd (show_nat (n div 10)) = CHR ''0''"
      by (subst (asm) show_nat.simps) (simp add: show_nat_nonempty)
    with "1.IH" False show ?thesis by simp
  qed
qed

subsection \<open>Number to string\<close>

text \<open>
  \<open>Number::toString\<close>: the shortest decimal digits \<open>s\<close> with \<open>s * 10 ^ (n - k)\<close> rounding back
  to the number (\<open>k \<le> 17\<close> digits always suffice for binary64), laid out with a point or an
  exponent. Integers below \<open>2 ^ 53\<close> are their decimal digits.
\<close>

definition show_int :: "int \<Rightarrow> string" where
  "show_int i = (if i < 0 then CHR ''-'' # show_nat (nat (- i)) else show_nat (nat i))"

definition ilog10 :: "rat \<Rightarrow> int" where
  "ilog10 q = (let (a, b) = quotient_of q;
                   e = int (length (show_nat (nat a))) - int (length (show_nat (nat b)))
               in if 10 powi e \<le> q then e else e - 1)"

text \<open>The least \<open>k\<close> from the list whose \<open>k\<close>-digit decimal reads back as \<open>q\<close>.\<close>

fun shortest_from :: "rat \<Rightarrow> int \<Rightarrow> nat list \<Rightarrow> (nat \<times> int)" where
  "shortest_from q n [] = (nat \<lfloor>q * 10 powi (17 - n) + 1/2\<rfloor>, n - 17)"
| "shortest_from q n (k # ks) =
     (let sc = 10 powi (n - int k); s0 = nat \<lfloor>q / sc\<rfloor>;
          near = (if q / sc - of_nat s0 \<le> 1/2 then [s0, s0 + 1] else [s0 + 1, s0])
      in case filter (\<lambda>s. to_double (of_nat s * sc) = Fin q) near of
           s # _ \<Rightarrow> (s, n - int k)
         | [] \<Rightarrow> shortest_from q n ks)"

definition strip_zeros :: "string \<Rightarrow> string" where
  "strip_zeros ds = rev (dropWhile (\<lambda>c. c = CHR ''0'') (rev ds))"

definition show_pos :: "rat \<Rightarrow> string" where
  "show_pos q =
     (let (s, e) = shortest_from q (ilog10 q + 1) [1..<18];
          ds = show_nat s; n = e + int (length ds); d = strip_zeros ds; k = int (length d)
      in if k \<le> n \<and> n \<le> 21 then d @ replicate (nat (n - k)) (CHR ''0'')
         else if 0 < n \<and> n \<le> 21 then take (nat n) d @ ''.'' @ drop (nat n) d
         else if -6 < n \<and> n \<le> 0 then ''0.'' @ replicate (nat (- n)) (CHR ''0'') @ d
         else hd d # (if k = 1 then [] else CHR ''.'' # tl d)
              @ ''e'' @ (if 0 < n then ''+'' else ''-'') @ show_nat (nat \<bar>n - 1\<bar>))"

definition show_rat :: "rat \<Rightarrow> string" where
  "show_rat q =
     (if of_int \<lfloor>q\<rfloor> = q \<and> \<bar>q\<bar> < 2 ^ 53 then show_int \<lfloor>q\<rfloor>
      else if q < 0 then CHR ''-'' # show_pos (- q) else show_pos q)"

fun num_to_string :: "jsnum \<Rightarrow> string" where
  "num_to_string NaN = ''NaN''"
| "num_to_string PInf = ''Infinity''"
| "num_to_string NInf = ''-Infinity''"
| "num_to_string (Fin q) = show_rat q"

text \<open>\<open>x.toFixed(2)\<close>.\<close>

definition fixed2_pos :: "rat \<Rightarrow> string" where
  "fixed2_pos q = (let n = nat \<lfloor>q * 100 + 1/2\<rfloor>
                   in show_nat (n div 100) @ ''.'' @ [digit_char (n div 10 mod 10), digit_char (n mod 10)])"

fun to_fixed2 :: "jsnum \<Rightarrow> string" where
  "to_fixed2 (Fin q) =
     (if 10 ^ 21 \<le> \<bar>q\<bar> then show_rat q
      else if q < 0 then CHR ''-'' # fixed2_pos (- q) else fixed2_pos q)"
| "to_fixed2 n = num_to_string n"

lemma show_rat_int: "\<bar>i\<bar> < 2 ^ 53 \<Longrightarrow> show_rat (of_int i) = show_int i"
proof -
  assume "\<bar>i\<bar> < 2 ^ 53"
  then have "\<bar>of_int i :: rat\<bar> < 2 ^ 53" by (metis of_int_abs of_int_less_iff of_int_numeral of_int_power)
  then show ?thesis by (simp add: show_rat_def)
qed

lemma num_to_string_nat: "k < 2 ^ 53 \<Longrightarrow> num_to_string (Fin (of_nat k)) = show_nat k"
  using show_rat_int [of "int k"] by (simp add: show_int_def)

end
