(* ===== verification/JsMap.thy ===== *)
theory JsMap
  imports Prelude
begin

text \<open>
  The JavaScript \<open>Map\<close> the classes keep their requests, handlers and stations in: an
  insertion-ordered association. \<open>set\<close> on a present key replaces the value where it stands,
  on a new key it appends. What the clients rely on is the locale \<open>keyed_store\<close>; the
  interpretation \<open>jsm\<close> discharges it for the list representation.
\<close>

type_synonym ('k, 'v) jsmap = "('k \<times> 'v) list"

definition map_get :: "('k, 'v) jsmap \<Rightarrow> 'k \<Rightarrow> 'v option" where
  "map_get = map_of"

definition map_has :: "('k, 'v) jsmap \<Rightarrow> 'k \<Rightarrow> bool" where
  "map_has m k \<longleftrightarrow> map_get m k \<noteq> None"

fun map_set :: "('k, 'v) jsmap \<Rightarrow> 'k \<Rightarrow> 'v \<Rightarrow> ('k, 'v) jsmap" where
  "map_set [] k v = [(k, v)]"
| "map_set ((k', v') # m) k v = (if k' = k then (k, v) # m else (k', v') # map_set m k v)"

definition map_delete :: "('k, 'v) jsmap \<Rightarrow> 'k \<Rightarrow> ('k, 'v) jsmap" where
  "map_delete m k = filter (\<lambda>(k', _). k' \<noteq> k) m"

definition map_keys :: "('k, 'v) jsmap \<Rightarrow> 'k list" where
  "map_keys m = map fst m"

locale keyed_store =
  fixes empty :: "'m"
    and get :: "'m \<Rightarrow> 'k \<Rightarrow> 'v option"
    and put :: "'m \<Rightarrow> 'k \<Rightarrow> 'v \<Rightarrow> 'm"
    and del :: "'m \<Rightarrow> 'k \<Rightarrow> 'm"
    and keys :: "'m \<Rightarrow> 'k list"
  assumes get_empty: "get empty k = None"
    and get_put: "get (put m k v) k' = (if k' = k then Some v else get m k')"
    and get_del: "get (del m k) k' = (if k' = k then None else get m k')"
    and keys_empty: "keys empty = []"
    and keys_put: "keys (put m k v) = (if k \<in> set (keys m) then keys m else keys m @ [k])"
    and keys_del: "keys (del m k) = filter (\<lambda>k'. k' \<noteq> k) (keys m)"
    and get_keys: "get m k = None \<longleftrightarrow> k \<notin> set (keys m)"
begin

lemma distinct_put: "distinct (keys m) \<Longrightarrow> distinct (keys (put m k v))"
  by (simp add: keys_put)

lemma distinct_del: "distinct (keys m) \<Longrightarrow> distinct (keys (del m k))"
  by (simp add: keys_del)

lemma set_keys_put: "set (keys (put m k v)) = insert k (set (keys m))"
  by (auto simp: keys_put)

lemma set_keys_del: "set (keys (del m k)) = set (keys m) - {k}"
  by (auto simp: keys_del)

lemma put_del_fresh: "get m k = None \<Longrightarrow> get (del (put m k v) k) k' = get m k'"
  by (simp add: get_put get_del)

lemma keys_put_del_fresh: "get m k = None \<Longrightarrow> keys (del (put m k v) k) = keys m"
  by (auto simp: keys_put keys_del get_keys filter_id_conv)

text \<open>A value can be taken out once: after the deletion the key is absent.\<close>

lemma taken_once: "get (del m k) k = None"
  by (simp add: get_del)

lemma del_twice: "get (del (del m k) k) k' = get (del m k) k'"
  by (simp add: get_del)

text \<open>Filling the store from a list: the last value of a key wins.\<close>

lemma get_fold_put:
  "get (fold (\<lambda>(k, v) m. put m k v) kvs m) k
   = (case map_of (rev kvs) k of None \<Rightarrow> get m k | Some v \<Rightarrow> Some v)"
  by (induction kvs arbitrary: m) (auto simp: get_put map_add_def split: option.splits)

lemmas store_simps = get_empty get_put get_del keys_empty set_keys_put set_keys_del

end

lemma map_keys_set:
  "map_keys (map_set m k v) = (if k \<in> set (map_keys m) then map_keys m else map_keys m @ [k])"
  by (induction m k v rule: map_set.induct) (auto simp: map_keys_def)

lemma map_get_set: "map_get (map_set m k v) k' = (if k' = k then Some v else map_get m k')"
  by (induction m k v rule: map_set.induct) (auto simp: map_get_def)

lemma map_get_delete: "map_get (map_delete m k) k' = (if k' = k then None else map_get m k')"
  by (induction m) (auto simp: map_get_def map_delete_def)

interpretation jsm: keyed_store "[]" map_get map_set map_delete map_keys
proof
  show "map_keys (map_delete m k) = filter (\<lambda>k'. k' \<noteq> k) (map_keys m)" for m k
    by (induction m) (auto simp: map_keys_def map_delete_def)
  show "map_get m k = None \<longleftrightarrow> k \<notin> set (map_keys m)" for m k
    by (simp add: map_get_def map_keys_def map_of_eq_None_iff)
qed (simp_all add: map_get_set map_get_delete map_keys_set, simp_all add: map_get_def map_keys_def)

lemma map_set_set: "map_set (map_set m k v) k w = map_set m k w"
  by (induction m k v rule: map_set.induct) auto

lemma map_set_in_place: "map_get m k = None \<Longrightarrow> map_set m k v = m @ [(k, v)]"
  by (induction m k v rule: map_set.induct) (auto simp: map_get_def split: if_splits)

lemma map_delete_absent: "map_get m k = None \<Longrightarrow> map_delete m k = m"
  by (induction m) (auto simp: map_get_def map_delete_def split: if_splits)

lemma map_delete_set_fresh: "map_get m k = None \<Longrightarrow> map_delete (map_set m k v) k = m"
  by (simp add: map_set_in_place map_delete_def)
    (metis map_delete_absent map_delete_def)

end
