(* ===== verification/JsValue.thy ===== *)
theory JsValue
  imports JsNumber JsMap
begin

text \<open>
  JavaScript values and the conversions the sources rely on. Strings are byte strings in
  UTF-8 (\<open>ru\<close> below spells the Russian literals of the sources), objects are insertion-ordered
  property lists with distinct keys. Values are immutable here: no method of the modelled
  classes mutates a value it received.
\<close>

datatype jsval =
    Undefined
  | Null
  | Bool bool
  | Num jsnum
  | Str string
  | Arr "jsval list"
  | Obj "(string \<times> jsval) list"

abbreviation num_of_int :: "int \<Rightarrow> jsval" where
  "num_of_int i \<equiv> Num (Fin (of_int i))"

subsection \<open>Cyrillic literals\<close>

text \<open>
  \<open>ru\<close> decodes a transliteration with one Latin sign per Cyrillic letter into UTF-8:
  a b v=w g d e zh=v z i j=short i k l m n o p ya=q r s t u f h ts=c ch=^ sh=[ shch=] y
  soft sign=x e-reversed=| yu=@; upper-case letters likewise; everything else stands for
  itself.
\<close>

definition utf8_2 :: "nat \<Rightarrow> string" where
  "utf8_2 cp = [char_of (192 + cp div 64), char_of (128 + cp mod 64)]"

definition ru_table :: "(char \<times> nat) list" where
  "ru_table = zip ''abwgdevzijklmnoprstufhc^[]_yx|@q'' [1072..<1104]
            @ zip ''ABWGDEVZIJKLMNOPRSTUFHC'' [1040..<1063]"

definition ru_char :: "char \<Rightarrow> string" where
  "ru_char c = (case map_of ru_table c of Some cp \<Rightarrow> utf8_2 cp | None \<Rightarrow> [c])"

definition ru :: "string \<Rightarrow> string" where
  "ru s = concat (map ru_char s)"

text \<open>The first byte of a Cyrillic literal is not ASCII, so it differs from every ASCII word.\<close>

definition ascii :: "string \<Rightarrow> bool" where
  "ascii s \<longleftrightarrow> list_all (\<lambda>c. (of_char c :: nat) < 128) s"

lemma ru_Cons: "ru (c # s) = ru_char c @ ru s"
  by (simp add: ru_def)

lemma ru_Nil [simp]: "ru [] = []"
  by (simp add: ru_def)

subsection \<open>Truth values, types, properties\<close>

fun truthy :: "jsval \<Rightarrow> bool" where
  "truthy Undefined = False"
| "truthy Null = False"
| "truthy (Bool b) = b"
| "truthy (Num n) = (n \<noteq> Fin 0 \<and> n \<noteq> NaN)"
| "truthy (Str s) = (s \<noteq> [])"
| "truthy _ = True"

text \<open>\<open>a || b\<close> and \<open>a && b\<close> as values.\<close>

definition js_or :: "jsval \<Rightarrow> jsval \<Rightarrow> jsval" where
  "js_or a b = (if truthy a then a else b)"

fun is_str :: "jsval \<Rightarrow> bool" where
  "is_str (Str _) = True"
| "is_str _ = False"

text \<open>\<open>typeof v === 'object'\<close> (also true of \<open>null\<close>).\<close>

fun is_object :: "jsval \<Rightarrow> bool" where
  "is_object Null = True"
| "is_object (Arr _) = True"
| "is_object (Obj _) = True"
| "is_object _ = False"

definition nullish :: "jsval \<Rightarrow> bool" where
  "nullish v \<longleftrightarrow> v = Undefined \<or> v = Null"

text \<open>The UTF-16 length of a UTF-8 string: continuation bytes do not count, 4-byte leads count twice.\<close>

definition utf16_length :: "string \<Rightarrow> nat" where
  "utf16_length s = sum_list (map (\<lambda>c. let b = (of_char c :: nat) in
      if 128 \<le> b \<and> b < 192 then 0 else if 240 \<le> b then 2 else 1) s)"

text \<open>
  Own properties as the code reads them; reading any property of \<open>undefined\<close> or \<open>null\<close>
  throws. Inherited members (such as \<open>toString\<close>) are never read by these names.
\<close>

fun get_prop :: "jsval \<Rightarrow> string \<Rightarrow> js_error + jsval" where
  "get_prop Undefined _ = Inl TypeError"
| "get_prop Null _ = Inl TypeError"
| "get_prop (Obj kvs) k = Inr (case map_get kvs k of Some v \<Rightarrow> v | None \<Rightarrow> Undefined)"
| "get_prop (Arr vs) k = Inr (if k = ''length'' then num_of_int (int (length vs)) else Undefined)"
| "get_prop (Str s) k = Inr (if k = ''length'' then num_of_int (int (utf16_length s)) else Undefined)"
| "get_prop _ _ = Inr Undefined"

text \<open>\<open>v[i]\<close> for an array index.\<close>

fun get_index :: "jsval \<Rightarrow> nat \<Rightarrow> js_error + jsval" where
  "get_index Undefined _ = Inl TypeError"
| "get_index Null _ = Inl TypeError"
| "get_index (Arr vs) i = Inr (if i < length vs then vs ! i else Undefined)"
| "get_index (Str s) i = Inr (if i < length s then Str [s ! i] else Undefined)"
| "get_index (Obj kvs) i = Inr (case map_get kvs (show_nat i) of Some v \<Rightarrow> v | None \<Rightarrow> Undefined)"
| "get_index _ _ = Inr Undefined"

text \<open>The elements \<open>v.forEach\<close> visits: a method of arrays only.\<close>

fun array_elems :: "jsval \<Rightarrow> js_error + jsval list" where
  "array_elems (Arr vs) = Inr vs"
| "array_elems _ = Inl TypeError"

text \<open>A property of a value known not to be \<open>null\<close> or \<open>undefined\<close>.\<close>

definition field_of :: "jsval \<Rightarrow> string \<Rightarrow> jsval" where
  "field_of v k = (case get_prop v k of Inr x \<Rightarrow> x | Inl _ \<Rightarrow> Undefined)"

text \<open>
  The own properties of an object in the order \<open>Object.keys\<close> and \<open>for ... in\<close> visit them: array
  indices first, in ascending order, then the other keys as inserted.
\<close>

definition is_index :: "string \<Rightarrow> bool" where
  "is_index k \<longleftrightarrow> k = show_nat (digits_val k) \<and> digits_val k < 2 ^ 32 - 1"

definition own_entries :: "(string \<times> 'v) list \<Rightarrow> (string \<times> 'v) list" where
  "own_entries kvs = sort_key (\<lambda>(k, _). digits_val k) (filter (\<lambda>(k, _). is_index k) kvs) @
     filter (\<lambda>(k, _). \<not> is_index k) kvs"

definition object_entries :: "jsval \<Rightarrow> (string \<times> jsval) list" where
  "object_entries v = (case v of
       Obj kvs \<Rightarrow> own_entries kvs
     | Arr vs \<Rightarrow> map (\<lambda>(i, x). (show_nat i, x)) (enumerate 0 vs)
     | _ \<Rightarrow> [])"

lemma set_own_entries: "set (own_entries kvs) = set kvs"
  by (auto simp: own_entries_def)

lemma length_own_entries: "length (own_entries kvs) = length kvs"
  by (simp add: own_entries_def) (metis (mono_tags, lifting) case_prod_unfold filter_cong sum_length_filter_compl)

lemma get_prop_Obj_iff: "get_prop v k = Inl e \<longleftrightarrow> nullish v \<and> e = TypeError"
  by (cases v) (auto simp: nullish_def)

subsection \<open>String(v)\<close>

fun join_comma :: "string list \<Rightarrow> string" where
  "join_comma [] = []"
| "join_comma [s] = s"
| "join_comma (s # ss) = s @ CHR '','' # join_comma ss"

fun to_string :: "jsval \<Rightarrow> string" where
  "to_string Undefined = ''undefined''"
| "to_string Null = ''null''"
| "to_string (Bool b) = (if b then ''true'' else ''false'')"
| "to_string (Num n) = num_to_string n"
| "to_string (Str s) = s"
| "to_string (Arr vs) = join_comma (map (\<lambda>v. if nullish v then [] else to_string v) vs)"
| "to_string (Obj _) = ''[object Object]''"

text \<open>Assigning a value to the nullable DOM attribute \<open>textContent\<close>.\<close>

definition text_of :: "jsval \<Rightarrow> string" where
  "text_of v = (if nullish v then [] else to_string v)"

subsection \<open>Numbers in strings\<close>

definition is_ws :: "char \<Rightarrow> bool" where
  "is_ws c \<longleftrightarrow> (of_char c :: nat) \<in> {9, 10, 11, 12, 13, 32}"

definition trim_left :: "string \<Rightarrow> string" where
  "trim_left = dropWhile is_ws"

definition trim :: "string \<Rightarrow> string" where
  "trim s = rev (dropWhile is_ws (rev (trim_left s)))"

definition split_digits :: "string \<Rightarrow> string \<times> string" where
  "split_digits s = (takeWhile is_digit s, dropWhile is_digit s)"

text \<open>An exponent part, if a complete one follows.\<close>

definition parse_exp :: "string \<Rightarrow> int \<times> string" where
  "parse_exp s =
     (case s of [] \<Rightarrow> (0, s)
      | c # r \<Rightarrow>
        if c \<noteq> CHR ''e'' \<and> c \<noteq> CHR ''E'' then (0, s)
        else let (neg, r') = (case r of [] \<Rightarrow> (False, r)
                 | d # r' \<Rightarrow> if d = CHR ''-'' then (True, r') else if d = CHR ''+'' then (False, r')
                            else (False, r));
                 (ds, rest) = split_digits r'
             in if ds = [] then (0, s)
                else (if neg then - int (digits_val ds) else int (digits_val ds), rest))"

definition parse_udec :: "string \<Rightarrow> (rat \<times> string) option" where
  "parse_udec s =
     (let (ip, r) = split_digits s;
          (fp, r') = (case r of [] \<Rightarrow> ([], r)
             | c # t \<Rightarrow> if c = CHR ''.'' then split_digits t else ([], r))
      in if ip = [] \<and> fp = [] then None
         else let (e, rest) = parse_exp r';
                  m = of_nat (digits_val (ip @ fp)) * 10 powi (e - int (length fp))
              in Some (m, rest))"

definition strip_sign :: "string \<Rightarrow> bool \<times> string" where
  "strip_sign s = (case s of [] \<Rightarrow> (False, s)
     | c # r \<Rightarrow> if c = CHR ''-'' then (True, r) else if c = CHR ''+'' then (False, r) else (False, s))"

definition signed_double :: "bool \<Rightarrow> rat \<Rightarrow> jsnum" where
  "signed_double neg q = to_double (if neg then - q else q)"

text \<open>\<open>parseFloat(s)\<close>: the longest numeric prefix.\<close>

definition parse_float :: "string \<Rightarrow> jsnum" where
  "parse_float s =
     (let (neg, r) = strip_sign (trim_left s)
      in if take 8 r = ''Infinity'' then (if neg then NInf else PInf)
         else case parse_udec r of None \<Rightarrow> NaN | Some (q, _) \<Rightarrow> signed_double neg q)"

definition hex_val :: "char \<Rightarrow> nat option" where
  "hex_val c = (let b = (of_char c :: nat) in
     if 48 \<le> b \<and> b \<le> 57 then Some (b - 48)
     else if 97 \<le> b \<and> b \<le> 102 then Some (b - 87)
     else if 65 \<le> b \<and> b \<le> 70 then Some (b - 55) else None)"

definition hex_digits_val :: "string \<Rightarrow> nat" where
  "hex_digits_val ds = foldl (\<lambda>n c. 16 * n + (case hex_val c of Some d \<Rightarrow> d | None \<Rightarrow> 0)) 0 ds"

definition hex_prefix :: "string \<Rightarrow> bool" where
  "hex_prefix s \<longleftrightarrow> take 2 s = ''0x'' \<or> take 2 s = ''0X''"

text \<open>\<open>parseInt(s)\<close>: the longest prefix of digits, hexadecimal after \<open>0x\<close>.\<close>

definition parse_int :: "string \<Rightarrow> jsnum" where
  "parse_int s =
     (let (neg, r) = strip_sign (trim_left s)
      in if hex_prefix r
         then (let ds = takeWhile (\<lambda>c. hex_val c \<noteq> None) (drop 2 r)
               in if ds = [] then NaN else signed_double neg (of_nat (hex_digits_val ds)))
         else (let ds = takeWhile is_digit r
               in if ds = [] then NaN else signed_double neg (of_nat (digits_val ds))))"

text \<open>\<open>Number(s)\<close>, the conversion of \<open>s >= 1\<close> and \<open>==\<close> (binary and octal prefixes are not modelled).\<close>

definition string_to_number :: "string \<Rightarrow> jsnum" where
  "string_to_number s =
     (let t = trim s; (neg, r) = strip_sign t
      in if t = [] then Fin 0
         else if r = ''Infinity'' then (if neg then NInf else PInf)
         else if hex_prefix t
         then (if drop 2 t \<noteq> [] \<and> list_all (\<lambda>c. hex_val c \<noteq> None) (drop 2 t)
               then to_double (of_nat (hex_digits_val (drop 2 t))) else NaN)
         else case parse_udec r of Some (q, []) \<Rightarrow> signed_double neg q | _ \<Rightarrow> NaN)"

lemma takeWhile_is_digit_show_nat: "takeWhile is_digit (show_nat n) = show_nat n"
  using show_nat_digits [of n] by (simp add: list_all_iff takeWhile_eq_all_conv)

lemma is_digit_not_ws: "is_digit c \<Longrightarrow> \<not> is_ws c"
  by (auto simp: is_digit_def is_ws_def)

lemma show_nat_Cons: "\<exists>c r. show_nat n = c # r \<and> is_digit c"
  using show_nat_nonempty [of n] show_nat_digits [of n] by (cases "show_nat n") auto

lemma strip_sign_digit: "is_digit c \<Longrightarrow> strip_sign (c # r) = (False, c # r)"
  by (auto simp: strip_sign_def is_digit_def)

lemma parse_int_show_nat:
  assumes "n < 2 ^ 53"
  shows "parse_int (show_nat n) = Fin (of_nat n)"
proof -
  obtain c r where cr: "show_nat n = c # r" and c: "is_digit c" using show_nat_Cons by blast
  have "\<not> hex_prefix (show_nat n)"
  proof -
    have "list_all is_digit (take 2 (show_nat n))"
      using show_nat_digits [of n] by (metis append_take_drop_id list_all_append)
    then show ?thesis by (auto simp: hex_prefix_def is_digit_def)
  qed
  moreover have "to_double (of_nat n) = Fin (of_nat n)"
  proof -
    have "\<bar>int n\<bar> \<le> 2 ^ 53" using assms by (simp add: nat_less_iff)
    then show ?thesis using to_double_int [of "int n"] by simp
  qed
  moreover have "takeWhile is_digit r = r" "digits_val (c # r) = n"
    using takeWhile_is_digit_show_nat [of n] digits_val_show_nat [of n] cr c by auto
  ultimately show ?thesis
    using cr c by (simp add: parse_int_def trim_left_def is_digit_not_ws strip_sign_digit
        signed_double_def takeWhile_eq_all_conv [THEN iffD2])
qed

lemma trim_show_nat: "trim (show_nat n) = show_nat n"
proof -
  have nows: "\<not> is_ws c" if "c \<in> set (show_nat n)" for c
    using that show_nat_digits [of n] is_digit_not_ws by (auto simp: list_all_iff)
  have d: "dropWhile is_ws xs = xs" if "\<forall>c \<in> set xs. \<not> is_ws c" for xs
    using that by (cases xs) auto
  have "dropWhile is_ws (show_nat n) = show_nat n" by (rule d) (auto dest: nows)
  moreover have "dropWhile is_ws (rev (show_nat n)) = rev (show_nat n)" by (rule d) (auto dest: nows)
  ultimately show ?thesis by (simp add: trim_def trim_left_def)
qed

lemma parse_udec_show_nat: "parse_udec (show_nat n) = Some (of_nat n, [])"
proof -
  have "split_digits (show_nat n) = (show_nat n, [])"
    using show_nat_digits [of n] by (simp add: split_digits_def takeWhile_is_digit_show_nat list_all_iff)
  then show ?thesis
    using show_nat_nonempty [of n] by (simp add: parse_udec_def parse_exp_def digits_val_show_nat)
qed

lemma to_double_nat: "n < 2 ^ 53 \<Longrightarrow> to_double (of_nat n) = Fin (of_nat n)"
proof -
  assume "n < 2 ^ 53"
  then have "\<bar>int n\<bar> \<le> 2 ^ 53" by (simp add: nat_less_iff)
  then show ?thesis using to_double_int [of "int n"] by simp
qed

lemma string_to_number_show_nat:
  assumes "n < 2 ^ 53"
  shows "string_to_number (show_nat n) = Fin (of_nat n)"
proof -
  obtain c r where cr: "show_nat n = c # r" and c: "is_digit c" using show_nat_Cons by blast
  have all: "list_all is_digit (c # r)" using show_nat_digits [of n] cr by simp
  then have "\<not> hex_prefix (c # r)" "c # r \<noteq> ''Infinity''"
    by (cases r; auto simp: hex_prefix_def is_digit_def)+
  then show ?thesis
    using parse_udec_show_nat [of n] trim_show_nat [of n] to_double_nat [OF assms]
    unfolding cr by (simp add: string_to_number_def strip_sign_digit [OF c] signed_double_def Let_def)
qed

subsection \<open>Equality\<close>

text \<open>
  \<open>===\<close>. Two array or object values are equal only when they are the same reference; the
  operands the code compares never are, so the model answers \<open>False\<close>.
\<close>

fun strict_eq :: "jsval \<Rightarrow> jsval \<Rightarrow> bool" where
  "strict_eq (Num x) (Num y) = num_eq x y"
| "strict_eq (Arr _) _ = False"
| "strict_eq (Obj _) _ = False"
| "strict_eq a b = (a = b)"

fun bool_num :: "bool \<Rightarrow> jsnum" where
  "bool_num b = Fin (if b then 1 else 0)"

text \<open>\<open>ToNumber\<close> of a primitive.\<close>

fun prim_num :: "jsval \<Rightarrow> jsnum" where
  "prim_num (Num n) = n"
| "prim_num (Bool b) = bool_num b"
| "prim_num (Str s) = string_to_number s"
| "prim_num Null = Fin 0"
| "prim_num v = NaN"

text \<open>\<open>==\<close>: \<open>null\<close> and \<open>undefined\<close> equal each other only, objects become strings first.\<close>

definition to_prim :: "jsval \<Rightarrow> jsval" where
  "to_prim v = (case v of Arr _ \<Rightarrow> Str (to_string v) | Obj _ \<Rightarrow> Str (to_string v) | _ \<Rightarrow> v)"

definition loose_eq :: "jsval \<Rightarrow> jsval \<Rightarrow> bool" where
  "loose_eq a b =
     (if nullish a \<or> nullish b then nullish a \<and> nullish b
      else if (is_object a \<and> is_object b) then False
      else let p = to_prim a; q = to_prim b
           in if is_str p \<and> is_str q then p = q else num_eq (prim_num p) (prim_num q))"

text \<open>\<open>v && v.length > 0\<close>\<close>

definition has_items :: "jsval \<Rightarrow> bool" where
  "has_items v \<longleftrightarrow> truthy v \<and> num_less (Fin 0) (prim_num (to_prim (field_of v ''length'')))"

text \<open>\<open>v.toFixed(2)\<close>: a method of numbers only.\<close>

fun fixed2 :: "jsval \<Rightarrow> js_error + string" where
  "fixed2 (Num n) = Inr (to_fixed2 n)"
| "fixed2 _ = Inl TypeError"

text \<open>\<open>s.toUpperCase()\<close>, a method of strings only; letters outside ASCII are left as they are.\<close>

definition upper_char :: "char \<Rightarrow> char" where
  "upper_char c = (let b = (of_char c :: nat) in if 97 \<le> b \<and> b \<le> 122 then char_of (b - 32) else c)"

fun to_upper :: "jsval \<Rightarrow> js_error + string" where
  "to_upper (Str s) = Inr (map upper_char s)"
| "to_upper _ = Inl TypeError"

end
