(* ===== verification/Json.thy ===== *)
theory Json
  imports JsValue
begin

text \<open>
  \<open>JSON.stringify\<close> and \<open>JSON.parse\<close>, through which every RPC message and most results pass.
  The parser is fuelled by the length of its input (every nested call consumes a character).
  Integer-like property names keep their insertion order here.
\<close>

subsection \<open>JSON.stringify\<close>

definition hex_digit :: "nat \<Rightarrow> char" where
  "hex_digit d = (if d < 10 then char_of (48 + d) else char_of (87 + d))"

definition escape_char :: "char \<Rightarrow> string" where
  "escape_char c = (let b = (of_char c :: nat) in
     if b = 34 then [CHR 0x5C, CHR 0x22]
     else if b = 92 then [CHR 0x5C, CHR 0x5C]
     else if b = 8 then [CHR 0x5C, CHR ''b'']
     else if b = 9 then [CHR 0x5C, CHR ''t'']
     else if b = 10 then [CHR 0x5C, CHR ''n'']
     else if b = 12 then [CHR 0x5C, CHR ''f'']
     else if b = 13 then [CHR 0x5C, CHR ''r'']
     else if b < 32 then [CHR 0x5C, CHR ''u'', CHR ''0'', CHR ''0'', hex_digit (b div 16), hex_digit (b mod 16)]
     else [c])"

definition quote :: "string \<Rightarrow> string" where
  "quote s = CHR 0x22 # concat (map escape_char s) @ [CHR 0x22]"

text \<open>\<open>undefined\<close> has no JSON text: it is dropped from objects and \<open>null\<close> in arrays.\<close>

fun json_text :: "jsval \<Rightarrow> string" where
  "json_text Undefined = ''null''"
| "json_text Null = ''null''"
| "json_text (Bool b) = (if b then ''true'' else ''false'')"
| "json_text (Num n) = (case n of Fin q \<Rightarrow> show_rat q | _ \<Rightarrow> ''null'')"
| "json_text (Str s) = quote s"
| "json_text (Arr vs) = ''['' @ join_comma (map json_text vs) @ '']''"
| "json_text (Obj kvs) =
     ''{'' @ join_comma (map (\<lambda>kv. quote (fst kv) @ CHR '':'' # json_text (snd kv))
                        (filter (\<lambda>kv. snd kv \<noteq> Undefined) kvs)) @ ''}''"

definition json_stringify :: "jsval \<Rightarrow> jsval" where
  "json_stringify v = (if v = Undefined then Undefined else Str (json_text v))"

subsection \<open>JSON.parse\<close>

definition skip_ws :: "string \<Rightarrow> string" where
  "skip_ws = dropWhile (\<lambda>c. (of_char c :: nat) \<in> {9, 10, 13, 32})"

definition parse_hex4 :: "string \<Rightarrow> (nat \<times> string) option" where
  "parse_hex4 s = (if 4 \<le> length s \<and> list_all (\<lambda>c. hex_val c \<noteq> None) (take 4 s)
     then Some (hex_digits_val (take 4 s), drop 4 s) else None)"

definition utf8 :: "nat \<Rightarrow> string" where
  "utf8 cp = (if cp < 128 then [char_of cp]
     else if cp < 2048 then utf8_2 cp
     else if cp < 65536 then [char_of (224 + cp div 4096), char_of (128 + cp div 64 mod 64), char_of (128 + cp mod 64)]
     else [char_of (240 + cp div 262144), char_of (128 + cp div 4096 mod 64),
           char_of (128 + cp div 64 mod 64), char_of (128 + cp mod 64)])"

definition simple_escape :: "char \<Rightarrow> char option" where
  "simple_escape c = (let b = (of_char c :: nat) in
     if b = 34 \<or> b = 92 \<or> b = 47 then Some c
     else if c = CHR ''b'' then Some (CHR 0x08) else if c = CHR ''t'' then Some (CHR 0x09)
     else if c = CHR ''n'' then Some (CHR 0x0A) else if c = CHR ''f'' then Some (CHR 0x0C)
     else if c = CHR ''r'' then Some (CHR 0x0D) else None)"

text \<open>A \<open>\u\<close> escape, joining a surrogate pair; the input starts after the \<open>u\<close>.\<close>

definition parse_unicode :: "string \<Rightarrow> (string \<times> string) option" where
  "parse_unicode s = (case parse_hex4 s of None \<Rightarrow> None
     | Some (hi, r) \<Rightarrow>
       if 55296 \<le> hi \<and> hi < 56320 \<and> take 2 r = [CHR 0x5C, CHR ''u'']
       then (case parse_hex4 (drop 2 r) of
               Some (lo, r') \<Rightarrow> if 56320 \<le> lo \<and> lo < 57344
                 then Some (utf8 (65536 + (hi - 55296) * 1024 + (lo - 56320)), r')
                 else Some (utf8 hi, r)
             | None \<Rightarrow> Some (utf8 hi, r))
       else Some (utf8 hi, r))"

text \<open>The rest of a string literal, after its opening quote.\<close>

fun parse_chars :: "nat \<Rightarrow> string \<Rightarrow> (string \<times> string) option" where
  "parse_chars 0 s = None"
| "parse_chars (Suc n) [] = None"
| "parse_chars (Suc n) (c # r) =
     (let b = (of_char c :: nat) in
      if b = 34 then Some ([], r)
      else if b < 32 then None
      else if b = 92 then
        (case r of [] \<Rightarrow> None
         | d # r' \<Rightarrow>
           if d = CHR ''u'' then
             (case parse_unicode r' of None \<Rightarrow> None
              | Some (u, r'') \<Rightarrow> map_option (\<lambda>(t, q). (u @ t, q)) (parse_chars n r''))
           else (case simple_escape d of None \<Rightarrow> None
                 | Some x \<Rightarrow> map_option (\<lambda>(t, q). (x # t, q)) (parse_chars n r')))
      else map_option (\<lambda>(t, q). (c # t, q)) (parse_chars n r))"

definition parse_string :: "string \<Rightarrow> (string \<times> string) option" where
  "parse_string s = parse_chars (Suc (length s)) s"

text \<open>\<open>-? (0 | [1-9][0-9]*) (. [0-9]+)? ([eE] [+-]? [0-9]+)?\<close>\<close>

definition parse_number :: "string \<Rightarrow> (jsval \<times> string) option" where
  "parse_number s =
     (let (neg, r) = (case s of [] \<Rightarrow> (False, s) | c # t \<Rightarrow> if c = CHR ''-'' then (True, t) else (False, s));
          (ip, r1) = split_digits r
      in if ip = [] \<or> (1 < length ip \<and> hd ip = CHR ''0'') then None
         else let (fp, r2) = (case r1 of [] \<Rightarrow> ([], r1)
                 | c # t \<Rightarrow> if c = CHR ''.'' \<and> fst (split_digits t) \<noteq> [] then split_digits t else ([], r1));
                  (e, r3) = parse_exp r2;
                  m = of_nat (digits_val (ip @ fp)) * 10 powi (e - int (length fp))
              in Some (Num (signed_double neg m), r3))"

definition parse_word :: "string \<Rightarrow> (jsval \<times> string) option" where
  "parse_word s =
     (if take 4 s = ''true'' then Some (Bool True, drop 4 s)
      else if take 5 s = ''false'' then Some (Bool False, drop 5 s)
      else if take 4 s = ''null'' then Some (Null, drop 4 s)
      else parse_number s)"

fun parse_value :: "nat \<Rightarrow> string \<Rightarrow> (jsval \<times> string) option"
  and parse_members :: "nat \<Rightarrow> (string \<times> jsval) list \<Rightarrow> string \<Rightarrow> (jsval \<times> string) option"
  and parse_elems :: "nat \<Rightarrow> jsval list \<Rightarrow> string \<Rightarrow> (jsval \<times> string) option"
where
  "parse_value 0 s = None"
| "parse_value (Suc n) s =
     (case skip_ws s of [] \<Rightarrow> None
      | c # r \<Rightarrow>
        if c = CHR ''{'' then
          (if take 1 (skip_ws r) = ''}'' then Some (Obj [], drop 1 (skip_ws r)) else parse_members n [] r)
        else if c = CHR ''['' then
          (if take 1 (skip_ws r) = '']'' then Some (Arr [], drop 1 (skip_ws r)) else parse_elems n [] r)
        else if c = CHR 0x22 then map_option (\<lambda>(t, q). (Str t, q)) (parse_string r)
        else parse_word (c # r))"
| "parse_members 0 acc s = None"
| "parse_members (Suc n) acc s =
     (case skip_ws s of [] \<Rightarrow> None
      | c # r \<Rightarrow>
        if c \<noteq> CHR 0x22 then None
        else (case parse_string r of None \<Rightarrow> None
          | Some (k, r1) \<Rightarrow>
            if take 1 (skip_ws r1) \<noteq> '':'' then None
            else (case parse_value n (drop 1 (skip_ws r1)) of None \<Rightarrow> None
              | Some (v, r2) \<Rightarrow>
                let acc' = map_set acc k v; r3 = skip_ws r2 in
                if take 1 r3 = '','' then parse_members n acc' (drop 1 r3)
                else if take 1 r3 = ''}'' then Some (Obj acc', drop 1 r3) else None)))"
| "parse_elems 0 acc s = None"
| "parse_elems (Suc n) acc s =
     (case parse_value n s of None \<Rightarrow> None
      | Some (v, r2) \<Rightarrow>
        let acc' = acc @ [v]; r3 = skip_ws r2 in
        if take 1 r3 = '','' then parse_elems n acc' (drop 1 r3)
        else if take 1 r3 = '']'' then Some (Arr acc', drop 1 r3) else None)"

definition json_parse :: "string \<Rightarrow> js_error + jsval" where
  "json_parse s = (case parse_value (2 * length s + 2) s of
      Some (v, r) \<Rightarrow> if skip_ws r = [] then Inr v else Inl SyntaxError
    | None \<Rightarrow> Inl SyntaxError)"


subsection \<open>Round trip\<close>

text \<open>
  Values that survive the trip through text: no \<open>undefined\<close>, safe integers for numbers,
  distinct property names.
\<close>

fun json_safe :: "jsval \<Rightarrow> bool" where
  "json_safe Undefined = False"
| "json_safe (Num n) = (case n of Fin q \<Rightarrow> of_int \<lfloor>q\<rfloor> = q \<and> \<bar>q\<bar> < 2 ^ 53 | _ \<Rightarrow> False)"
| "json_safe (Arr vs) = list_all json_safe vs"
| "json_safe (Obj kvs) = (distinct (map fst kvs) \<and> list_all (\<lambda>kv. json_safe (snd kv)) kvs)"
| "json_safe _ = True"

text \<open>What may follow a value: nothing that would extend a number.\<close>

definition json_follow :: "string \<Rightarrow> bool" where
  "json_follow r \<longleftrightarrow> r = [] \<or> hd r \<in> set '',]}''"

lemma hex_val_digit: "d < 16 \<Longrightarrow> hex_val (hex_digit d) = Some d"
  by (auto simp: hex_digit_def hex_val_def)

lemma parse_unicode_control:
  assumes "b < 32"
  shows "parse_unicode (CHR ''0'' # CHR ''0'' # hex_digit (b div 16) # hex_digit (b mod 16) # r)
         = Some ([char_of b], r)"
proof -
  have h: "hex_val (hex_digit (b div 16)) = Some (b div 16)" "hex_val (hex_digit (b mod 16)) = Some (b mod 16)"
    "hex_val (CHR ''0'') = Some 0"
    by (use assms in \<open>auto intro!: hex_val_digit\<close>) (simp add: hex_val_def)
  have "parse_hex4 (CHR ''0'' # CHR ''0'' # hex_digit (b div 16) # hex_digit (b mod 16) # r) = Some (b, r)"
    by (simp add: parse_hex4_def h hex_digits_val_def)
  with assms show ?thesis by (simp add: parse_unicode_def utf8_def)
qed

lemmas escape_simps = escape_char_def simple_escape_def Let_def

lemma parse_chars_escape:
  "parse_chars (Suc n) (escape_char c @ r) = map_option (\<lambda>(t, q). (c # t, q)) (parse_chars n r)"
proof -
  let ?b = "of_char c :: nat"
  have c: "c = d" if "?b = of_char d" for d using that by simp
  consider "?b = 34" | "?b = 92" | "?b = 8" | "?b = 9" | "?b = 10" | "?b = 12" | "?b = 13"
    | "?b < 32" "?b \<notin> {8, 9, 10, 12, 13}" | "32 \<le> ?b" "?b \<noteq> 34" "?b \<noteq> 92" by fastforce
  then show ?thesis
  proof cases
    case 8
    then have "escape_char c = [CHR 0x5C, CHR ''u'', CHR ''0'', CHR ''0'',
        hex_digit (?b div 16), hex_digit (?b mod 16)]"
      by (auto simp: escape_char_def Let_def)
    with 8 show ?thesis
      using parse_unicode_control [of ?b r] by simp
  next
    case 9
    then have "escape_char c = [c]" by (auto simp: escape_char_def Let_def)
    with 9 show ?thesis by (simp add: Let_def)
  next
    case 1 with c [of "CHR 0x22"] show ?thesis by (simp add: escape_simps)
  next
    case 2 with c [of "CHR 0x5C"] show ?thesis by (simp add: escape_simps)
  next
    case 3 with c [of "CHR 0x08"] show ?thesis by (simp add: escape_simps)
  next
    case 4 with c [of "CHR 0x09"] show ?thesis by (simp add: escape_simps)
  next
    case 5 with c [of "CHR 0x0A"] show ?thesis by (simp add: escape_simps)
  next
    case 6 with c [of "CHR 0x0C"] show ?thesis by (simp add: escape_simps)
  next
    case 7 with c [of "CHR 0x0D"] show ?thesis by (simp add: escape_simps)
  qed
qed

lemma parse_chars_quote:
  "length s < n \<Longrightarrow> parse_chars n (concat (map escape_char s) @ CHR 0x22 # r) = Some (s, r)"
proof (induction s arbitrary: n)
  case Nil
  then obtain m where "n = Suc m" by (cases n) auto
  then show ?case by (simp add: Let_def)
next
  case (Cons c s)
  then obtain m where "n = Suc m" "length s < m" by (cases n) auto
  with Cons.IH show ?case by (simp add: parse_chars_escape)
qed

lemma length_escape: "1 \<le> length (escape_char c)"
  by (simp add: escape_char_def Let_def)

lemma length_quote: "length s + 2 \<le> length (quote s)"
proof -
  have "length s \<le> length (concat (map escape_char s))"
  proof (induction s)
    case (Cons c s)
    with length_escape [of c] show ?case by simp
  qed simp
  then show ?thesis by (simp add: quote_def)
qed

lemma parse_string_quote: "parse_string (tl (quote s) @ r) = Some (s, r)"
proof -
  have "length s < Suc (length (concat (map escape_char s) @ CHR 0x22 # r))"
    using length_quote [of s] by (simp add: quote_def)
  then show ?thesis unfolding parse_string_def quote_def by (simp add: parse_chars_quote del: parse_chars.simps)
qed


lemma follow_digits:
  "list_all is_digit ds \<Longrightarrow> json_follow r \<Longrightarrow> split_digits (ds @ r) = (ds, r)"
  by (cases r) (auto simp: split_digits_def json_follow_def is_digit_def list_all_iff
      takeWhile_append dropWhile_append)

lemma follow_exp: "json_follow r \<Longrightarrow> parse_exp r = (0, r)"
  by (cases r) (auto simp: parse_exp_def json_follow_def)

lemma follow_point:
  "json_follow r \<Longrightarrow> (case r of [] \<Rightarrow> ([], r) | c # t \<Rightarrow>
     if c = CHR ''.'' \<and> fst (split_digits t) \<noteq> [] then split_digits t else ([], r)) = ([], r)"
  by (cases r) (auto simp: json_follow_def)

lemma show_nat_no_leading_zero: "\<not> (1 < length (show_nat n) \<and> hd (show_nat n) = CHR ''0'')"
proof
  assume a: "1 < length (show_nat n) \<and> hd (show_nat n) = CHR ''0''"
  then have "n = 0" using show_nat_head by blast
  with a show False by (subst (asm) show_nat.simps) simp
qed

lemma parse_number_show_int:
  assumes "\<bar>i\<bar> < 2 ^ 53" "json_follow r"
  shows "parse_number (show_int i @ r) = Some (num_of_int i, r)"
proof -
  let ?n = "nat \<bar>i\<bar>"
  have sp: "split_digits (show_nat ?n @ r) = (show_nat ?n, r)"
    using show_nat_digits assms(2) by (rule follow_digits)
  have nd: "hd (show_nat ?n) \<noteq> CHR ''-''"
    using show_nat_Cons [of ?n] by (auto simp: is_digit_def)
  have head: "(case show_int i @ r of [] \<Rightarrow> (False, show_int i @ r)
      | c # t \<Rightarrow> if c = CHR ''-'' then (True, t) else (False, show_int i @ r)) = (i < 0, show_nat ?n @ r)"
    using nd show_nat_nonempty [of ?n] by (cases "show_nat ?n") (auto simp: show_int_def)
  have "(if i < 0 then - of_nat ?n else of_nat ?n) = (of_int i :: rat)"
    by (simp add: of_nat_nat)
  then have "signed_double (i < 0) (of_nat ?n) = Fin (of_int i)"
    using to_double_int [of i] assms(1) unfolding signed_double_def by (metis less_imp_le)
  with show_nat_no_leading_zero [of ?n] show ?thesis
    unfolding parse_number_def head
    by (simp add: sp follow_point [OF assms(2)] follow_exp [OF assms(2)] show_nat_nonempty
        digits_val_show_nat)
qed

definition value_start :: "char \<Rightarrow> bool" where
  "value_start c \<longleftrightarrow> is_digit c \<or> c \<in> set ''-{[tfn'' \<or> c = CHR 0x22"

lemma show_int_Cons: "\<exists>c t. show_int i = c # t \<and> (is_digit c \<or> c = CHR ''-'')"
  using show_nat_Cons [of "nat i"] by (auto simp: show_int_def)

lemma json_text_num: "json_safe (Num n) \<Longrightarrow> \<exists>i. n = Fin (of_int i) \<and> \<bar>i\<bar> < 2 ^ 53 \<and> json_text (Num n) = show_int i"
proof -
  assume "json_safe (Num n)"
  then obtain q where q: "n = Fin q" "of_int \<lfloor>q\<rfloor> = q" "\<bar>q\<bar> < 2 ^ 53" by (cases n) auto
  have "\<bar>of_int \<lfloor>q\<rfloor> :: rat\<bar> < 2 ^ 53" unfolding q(2) by (rule q(3))
  then have b: "\<bar>\<lfloor>q\<rfloor>\<bar> < 2 ^ 53" by (metis of_int_abs of_int_less_iff of_int_numeral of_int_power)
  obtain i where i: "q = of_int i" "\<bar>i\<bar> < 2 ^ 53" using q(2) b by metis
  have "json_text (Num n) = show_int i"
    unfolding q(1) i(1) json_text.simps jsnum.case by (rule show_rat_int [OF i(2)])
  with q(1) i show ?thesis by blast
qed

lemma json_text_start: "json_safe v \<Longrightarrow> \<exists>c t. json_text v = c # t \<and> value_start c"
proof (cases v)
  case (Num n)
  moreover assume "json_safe v"
  ultimately obtain i where "json_text v = show_int i" using json_text_num [of n] by blast
  moreover obtain c t where "show_int i = c # t" "is_digit c \<or> c = CHR ''-''"
    using show_int_Cons by blast
  ultimately show ?thesis by (auto simp: value_start_def)
qed (auto simp: value_start_def quote_def)

lemma skip_ws_start: "value_start c \<Longrightarrow> skip_ws (c # r) = c # r"
  by (auto simp: skip_ws_def value_start_def is_digit_def)

lemma skip_ws_punct: "c \<in> set '',]}:[{'' \<Longrightarrow> skip_ws (c # r) = c # r"
  by (auto simp: skip_ws_def)

lemma parse_word_num:
  assumes "is_digit c \<or> c = CHR ''-''"
  shows "parse_word (c # r) = parse_number (c # r)"
  using assms by (auto simp: parse_word_def is_digit_def numeral_eq_Suc)

lemma length_show_int: "1 \<le> length (show_int i)"
  using show_int_Cons [of i] by auto

definition reads :: "jsval \<Rightarrow> bool" where
  "reads v \<longleftrightarrow> (\<forall>n r. length (json_text v) \<le> n \<longrightarrow> json_follow r \<longrightarrow>
     parse_value n (json_text v @ r) = Some (v, r))"

lemma join_comma_Cons: "ss \<noteq> [] \<Longrightarrow> join_comma (s # ss) = s @ CHR '','' # join_comma ss"
  by (cases ss) auto

lemma parse_elems_join:
  "vs \<noteq> [] \<Longrightarrow> list_all reads vs \<Longrightarrow> length (join_comma (map json_text vs)) < n \<Longrightarrow>
   parse_elems n acc (join_comma (map json_text vs) @ CHR '']'' # r) = Some (Arr (acc @ vs), r)"
proof (induction vs arbitrary: n acc)
  case (Cons v vs)
  obtain m where n: "n = Suc m" using Cons.prems by (cases n) auto
  show ?case
  proof (cases "vs = []")
    case True
    with Cons.prems n have "parse_value m (json_text v @ CHR '']'' # r) = Some (v, CHR '']'' # r)"
      by (auto simp: reads_def json_follow_def)
    with True n show ?thesis by (simp add: skip_ws_punct Let_def)
  next
    case False
    let ?t = "join_comma (map json_text vs) @ CHR '']'' # r"
    have j: "join_comma (map json_text (v # vs)) = json_text v @ CHR '','' # join_comma (map json_text vs)"
      using False by (simp add: join_comma_Cons)
    have "parse_value m (json_text v @ CHR '','' # ?t) = Some (v, CHR '','' # ?t)"
      using Cons.prems n unfolding j by (auto simp: reads_def json_follow_def)
    moreover have "parse_elems m (acc @ [v]) ?t = Some (Arr (acc @ v # vs), r)"
      using Cons.IH [of m "acc @ [v]"] Cons.prems n False unfolding j by simp
    ultimately show ?thesis using n unfolding j by (simp add: skip_ws_punct Let_def)
  qed
qed simp

abbreviation member_text :: "string \<times> jsval \<Rightarrow> string" where
  "member_text kv \<equiv> quote (fst kv) @ CHR '':'' # json_text (snd kv)"

lemma parse_members_join:
  "kvs \<noteq> [] \<Longrightarrow> list_all (\<lambda>kv. reads (snd kv)) kvs \<Longrightarrow> distinct (map fst (acc @ kvs)) \<Longrightarrow>
   length (join_comma (map member_text kvs)) < n \<Longrightarrow>
   parse_members n acc (join_comma (map member_text kvs) @ CHR ''}'' # r) = Some (Obj (acc @ kvs), r)"
proof (induction kvs arbitrary: n acc)
  case (Cons kv kvs)
  obtain m where n: "n = Suc m" using Cons.prems by (cases n) auto
  obtain k v where kv: "kv = (k, v)" by (cases kv)
  have set: "map_set acc k v = acc @ [(k, v)]"
    using Cons.prems kv by (intro map_set_in_place) (auto simp: map_get_def map_of_eq_None_iff)
  have q: "quote k = CHR 0x22 # tl (quote k)" by (simp add: quote_def)
  have ws: "skip_ws (CHR 0x22 # x) = CHR 0x22 # x" for x by (simp add: skip_ws_def)
  have ps: "parse_string (tl (quote k) @ x) = Some (k, x)" for x by (rule parse_string_quote)
  have step: "parse_members n acc (member_text kv @ t) =
     (let r3 = skip_ws r2 in
      if take 1 r3 = '','' then parse_members m (acc @ [(k, v)]) (drop 1 r3)
      else if take 1 r3 = ''}'' then Some (Obj (acc @ [(k, v)]), drop 1 r3) else None)"
    if "parse_value m (json_text v @ t) = Some (v, r2)" for t r2
  proof -
    have "member_text kv @ t = CHR 0x22 # (tl (quote k) @ CHR '':'' # json_text v @ t)"
      using q kv by (metis append_Cons append_assoc fst_conv snd_conv)
    then show ?thesis unfolding n using that by (simp add: ws ps set skip_ws_punct Let_def)
  qed
  have len: "length (json_text v) \<le> m"
    using Cons.prems n kv length_quote [of k] by (cases kvs) (auto simp: join_comma_Cons)
  show ?case
  proof (cases "kvs = []")
    case True
    have "parse_value m (json_text v @ CHR ''}'' # r) = Some (v, CHR ''}'' # r)"
      using Cons.prems len kv by (auto simp: reads_def json_follow_def)
    from step [OF this] True kv show ?thesis by (simp add: skip_ws_punct)
  next
    case False
    let ?t = "join_comma (map member_text kvs) @ CHR ''}'' # r"
    have j: "join_comma (map member_text (kv # kvs)) = member_text kv @ CHR '','' # join_comma (map member_text kvs)"
      using False by (simp add: join_comma_Cons)
    have "parse_value m (json_text v @ CHR '','' # ?t) = Some (v, CHR '','' # ?t)"
      using Cons.prems len kv by (auto simp: reads_def json_follow_def)
    note st = step [OF this]
    have "parse_members m (acc @ [(k, v)]) ?t = Some (Obj (acc @ (k, v) # kvs), r)"
      using Cons.IH [of "acc @ [(k, v)]" m] Cons.prems n kv False unfolding j by simp
    with st show ?thesis unfolding j by (simp add: skip_ws_punct Let_def kv)
  qed
qed simp

lemma reads_safe: "json_safe v \<Longrightarrow> reads v"
proof (induction v rule: json_text.induct)
  case (4 n)
  then obtain i where i: "n = Fin (of_int i)" "\<bar>i\<bar> < 2 ^ 53" "json_text (Num n) = show_int i"
    using json_text_num by blast
  obtain c t where ct: "show_int i = c # t" "is_digit c \<or> c = CHR ''-''" using show_int_Cons by blast
  show ?case unfolding reads_def
  proof (intro allI impI)
    fix m r assume m: "length (json_text (Num n)) \<le> m" and r: "json_follow r"
    then obtain m' where m': "m = Suc m'" using i ct by (cases m) auto
    have "value_start c" using ct by (auto simp: value_start_def)
    moreover have "c \<noteq> CHR ''{''" "c \<noteq> CHR ''[''" "c \<noteq> CHR 0x22" using ct by (auto simp: is_digit_def)
    moreover have "parse_number (c # t @ r) = Some (num_of_int i, r)"
      using parse_number_show_int [OF i(2) r] ct by simp
    ultimately show "parse_value m (json_text (Num n) @ r) = Some (Num n, r)"
      using i ct m' by (simp add: skip_ws_start parse_word_num)
  qed
next
  case (5 s)
  show ?case unfolding reads_def
  proof (intro allI impI)
    fix m r assume "length (json_text (Str s)) \<le> m"
    then obtain m' where m': "m = Suc m'" using length_quote [of s] by (cases m) auto
    have q: "quote s = CHR 0x22 # tl (quote s)" by (simp add: quote_def)
    show "parse_value m (json_text (Str s) @ r) = Some (Str s, r)"
      unfolding m' json_text.simps
      by (subst q) (simp add: skip_ws_start value_start_def parse_string_quote)
  qed
next
  case (6 vs)
  then have all: "list_all reads vs" by (auto simp: list_all_iff)
  show ?case unfolding reads_def
  proof (intro allI impI)
    fix m r assume m: "length (json_text (Arr vs)) \<le> m"
    then obtain m' where m': "m = Suc m'" by (cases m) auto
    show "parse_value m (json_text (Arr vs) @ r) = Some (Arr vs, r)"
    proof (cases vs)
      case Nil
      with m' show ?thesis by (simp add: skip_ws_punct)
    next
      case (Cons v ws)
      obtain c t where ct: "json_text v = c # t" "value_start c"
        using 6 Cons json_text_start [of v] by auto
      then have "c \<noteq> CHR '']''" by (auto simp: value_start_def is_digit_def)
      moreover obtain u where u: "join_comma (map json_text vs) = c # u"
        using Cons ct by (cases ws) auto
      moreover have "parse_elems m' [] (join_comma (map json_text vs) @ CHR '']'' # r) = Some (Arr vs, r)"
        using parse_elems_join [of vs m' "[]" r] all m m' Cons by simp
      ultimately show ?thesis using m' ct(2) by (simp add: skip_ws_punct skip_ws_start)
    qed
  qed
next
  case (7 kvs)
  have all: "list_all (\<lambda>kv. reads (snd kv)) kvs" "distinct (map fst kvs)"
  proof -
    have "reads (snd kv)" if "kv \<in> set kvs" for kv
    proof (rule 7(1))
      show "kv \<in> set (filter (\<lambda>kv. snd kv \<noteq> Undefined) kvs)" "json_safe (snd kv)"
        using 7(2) that by (auto simp: list_all_iff)
    qed
    then show "list_all (\<lambda>kv. reads (snd kv)) kvs" by (simp add: list_all_iff)
  qed (use 7(2) in simp)
  have "filter (\<lambda>kv. snd kv \<noteq> Undefined) kvs = kvs"
    using 7 by (auto simp: filter_id_conv list_all_iff)
  then have tx: "json_text (Obj kvs) = ''{'' @ join_comma (map member_text kvs) @ ''}''" by simp
  show ?case unfolding reads_def
  proof (intro allI impI)
    fix m r assume m: "length (json_text (Obj kvs)) \<le> m"
    then obtain m' where m': "m = Suc m'" unfolding tx by (cases m) auto
    show "parse_value m (json_text (Obj kvs) @ r) = Some (Obj kvs, r)"
    proof (cases kvs)
      case Nil
      with m' show ?thesis unfolding tx by (simp add: skip_ws_punct)
    next
      case (Cons kv ws)
      obtain u where u: "join_comma (map member_text kvs) = CHR 0x22 # u"
        using Cons by (cases ws) (auto simp: quote_def)
      have "parse_members m' [] (join_comma (map member_text kvs) @ CHR ''}'' # r) = Some (Obj kvs, r)"
        using parse_members_join [of kvs "[]" m' r] all m m' Cons unfolding tx by simp
      then show ?thesis using m' u unfolding tx
        by (simp add: skip_ws_punct skip_ws_start value_start_def)
    qed
  qed
qed (auto simp: reads_def skip_ws_start value_start_def parse_word_def Suc_le_eq dest!: less_imp_Suc_add)

lemma json_round_trip: "json_safe v \<Longrightarrow> json_parse (json_text v) = Inr v"
  using reads_safe [of v] unfolding reads_def json_parse_def
  by (auto simp: json_follow_def skip_ws_def dest: spec [where x = "2 * length (json_text v) + 2"])


text \<open>Properties holding \<open>undefined\<close> leave no trace in the text.\<close>

lemma json_text_drop_undefined:
  "json_text (Obj kvs) = json_text (Obj (filter (\<lambda>kv. snd kv \<noteq> Undefined) kvs))"
  by simp

lemma json_round_trip_defined:
  "json_safe (Obj (filter (\<lambda>kv. snd kv \<noteq> Undefined) kvs)) \<Longrightarrow>
   json_parse (json_text (Obj kvs)) = Inr (Obj (filter (\<lambda>kv. snd kv \<noteq> Undefined) kvs))"
  using json_round_trip json_text_drop_undefined by metis

end
