(* ===== verification/Browser.thy ===== *)
theory Browser
  imports Json
begin

text \<open>
  The part of the browser a page runs in: the DOM elements the scripts address (by id or by
  selector), the listeners they attach, the web sockets they open, alerts, and the errors
  nobody caught. Text that only reaches the console and scroll positions are left out.

  \<open>url_ok\<close> (which URLs the \<open>WebSocket\<close> constructor accepts), \<open>engine_message\<close> (the text of
  errors raised by the engine) and \<open>clock\<close> (what \<open>new Date().toLocaleTimeString()\<close> shows)
  belong to the host; the model takes them from the state and never fixes them.
\<close>

subsection \<open>State\<close>

datatype node =
    TextNode string
  | ElementNode string string  \<comment> \<open>class name and inner markup\<close>
  | Markup string              \<comment> \<open>a fragment assigned through \<open>innerHTML\<close>\<close>

record element =
  textContent :: string
  className :: string
  el_value :: string
  disabled :: bool
  checked :: bool
  style :: "string \<rightharpoonup> string"
  options :: "(string \<times> string) list"  \<comment> \<open>value and text of each option of a select\<close>
  selectedIndex :: int
  childNodes :: "node list"

datatype ready_state = CONNECTING | OPEN | CLOSING | CLOSED

record socket =
  sk_url :: string
  sk_protocol :: "string option"
  readyState :: ready_state
  sent :: "string list"

record 'a browser =
  dom :: "string \<rightharpoonup> element"
  listeners :: "(string \<times> string \<times> 'a) list"  \<comment> \<open>element, event type, action\<close>
  sockets :: "socket list"
  clock :: string
  alerts :: "string list"
  unhandled :: "js_error list"
  url_ok :: "string \<Rightarrow> bool"
  engine_message :: "js_error \<Rightarrow> string"

definition blank_element :: element where
  "blank_element = \<lparr>textContent = [], className = [], el_value = [], disabled = False,
     checked = False, style = Map.empty, options = [], selectedIndex = -1, childNodes = []\<rparr>"

text \<open>A page holding blank elements of the given names.\<close>

definition blank_dom :: "string list \<Rightarrow> (string \<rightharpoonup> element)" where
  "blank_dom ids = (\<lambda>i. if i \<in> set ids then Some blank_element else None)"

subsection \<open>Elements\<close>

text \<open>
  Looking an element up gives \<open>null\<close> when there is none; using it then throws.
  \<open>if_el\<close> is the \<open>if (element) ...\<close> of the sources.
\<close>

definition with_el :: "string \<Rightarrow> (element \<Rightarrow> (('a, 'z) browser_scheme, 'b) js) \<Rightarrow>
    (('a, 'z) browser_scheme, 'b) js" where
  "with_el i k = js_get (\<lambda>s. dom s i) (\<lambda>r. case r of None \<Rightarrow> js_throw TypeError | Some e \<Rightarrow> k e)"

definition set_el :: "string \<Rightarrow> (element \<Rightarrow> element) \<Rightarrow> (('a, 'z) browser_scheme, unit) js" where
  "set_el i f = with_el i (\<lambda>e. js_upd (\<lambda>s. s\<lparr>dom := (dom s)(i \<mapsto> f e)\<rparr>))"

definition if_el :: "string \<Rightarrow> (('a, 'z) browser_scheme, unit) js \<Rightarrow> (('a, 'z) browser_scheme, unit) js" where
  "if_el i m = js_get (\<lambda>s. dom s i) (\<lambda>r. if r = None then js_skip else m)"

definition set_text :: "string \<Rightarrow> string \<Rightarrow> (('a, 'z) browser_scheme, unit) js" where
  "set_text i t = set_el i (\<lambda>e. e\<lparr>textContent := t\<rparr>)"

definition set_class :: "string \<Rightarrow> string \<Rightarrow> (('a, 'z) browser_scheme, unit) js" where
  "set_class i c = set_el i (\<lambda>e. e\<lparr>className := c\<rparr>)"

definition set_disabled :: "string \<Rightarrow> bool \<Rightarrow> (('a, 'z) browser_scheme, unit) js" where
  "set_disabled i b = set_el i (\<lambda>e. e\<lparr>disabled := b\<rparr>)"

definition set_checked :: "string \<Rightarrow> bool \<Rightarrow> (('a, 'z) browser_scheme, unit) js" where
  "set_checked i b = set_el i (\<lambda>e. e\<lparr>checked := b\<rparr>)"

definition set_style :: "string \<Rightarrow> string \<Rightarrow> string \<Rightarrow> (('a, 'z) browser_scheme, unit) js" where
  "set_style i p v = set_el i (\<lambda>e. e\<lparr>style := (style e)(p \<mapsto> v)\<rparr>)"

text \<open>\<open>select.innerHTML = ''\<close>, \<open>select.appendChild(option)\<close> and \<open>select.selectedIndex = i\<close>: the
  first option of a drop-down becomes selected when nothing is.\<close>

definition clear_options :: "string \<Rightarrow> (('a, 'z) browser_scheme, unit) js" where
  "clear_options i = set_el i (\<lambda>e. e\<lparr>options := [], selectedIndex := -1\<rparr>)"

definition append_option :: "string \<Rightarrow> string \<Rightarrow> string \<Rightarrow> (('a, 'z) browser_scheme, unit) js" where
  "append_option i v t = set_el i (\<lambda>e. e\<lparr>options := options e @ [(v, t)],
     selectedIndex := (if selectedIndex e < 0 then int (length (options e)) else selectedIndex e)\<rparr>)"

definition select_index :: "string \<Rightarrow> int \<Rightarrow> (('a, 'z) browser_scheme, unit) js" where
  "select_index i n = set_el i (\<lambda>e. e\<lparr>selectedIndex := (if 0 \<le> n \<and> n < int (length (options e)) then n else -1)\<rparr>)"

text \<open>\<open>select.value\<close>\<close>

definition selected_value :: "element \<Rightarrow> string" where
  "selected_value e = (if 0 \<le> selectedIndex e \<and> selectedIndex e < int (length (options e))
     then fst (options e ! nat (selectedIndex e)) else [])"

definition append_child :: "string \<Rightarrow> node \<Rightarrow> (('a, 'z) browser_scheme, unit) js" where
  "append_child i n = set_el i (\<lambda>e. e\<lparr>childNodes := childNodes e @ [n]\<rparr>)"

definition set_inner_html :: "string \<Rightarrow> string \<Rightarrow> (('a, 'z) browser_scheme, unit) js" where
  "set_inner_html i h = set_el i (\<lambda>e. e\<lparr>childNodes := (if h = [] then [] else [Markup h])\<rparr>)"

definition alert :: "string \<Rightarrow> (('a, 'z) browser_scheme, unit) js" where
  "alert t = js_upd (\<lambda>s. s\<lparr>alerts := alerts s @ [t]\<rparr>)"

text \<open>\<open>error.message\<close>\<close>

definition error_message :: "('a, 'z) browser_scheme \<Rightarrow> js_error \<Rightarrow> string" where
  "error_message s e = (case e of Error m \<Rightarrow> m | _ \<Rightarrow> engine_message s e)"

subsection \<open>Errors that leave a handler, and promises nobody awaits\<close>

definition js_report :: "(('a, 'z) browser_scheme, 'b) js \<Rightarrow> (('a, 'z) browser_scheme, unit) js" where
  "js_report m = js_try (js_bind m (\<lambda>_. js_skip))
     (\<lambda>e. js_upd (\<lambda>s. s\<lparr>unhandled := unhandled s @ [e]\<rparr>))"

text \<open>The body of an \<open>async\<close> method whose promise is dropped: its errors never reach the caller.\<close>

abbreviation js_async :: "(('a, 'z) browser_scheme, 'b) js \<Rightarrow> (('a, 'z) browser_scheme, unit) js" where
  "js_async \<equiv> js_report"

subsection \<open>Events on elements\<close>

definition add_listener :: "string \<Rightarrow> string \<Rightarrow> 'a \<Rightarrow> (('a, 'z) browser_scheme, unit) js" where
  "add_listener i ev a = with_el i (\<lambda>_. js_upd (\<lambda>s. s\<lparr>listeners := listeners s @ [(i, ev, a)]\<rparr>))"

definition actions_of :: "(string \<times> string \<times> 'a) list \<Rightarrow> string \<Rightarrow> string \<Rightarrow> 'a list" where
  "actions_of ls i ev = map (\<lambda>(_, _, a). a) (filter (\<lambda>(j, e, _). j = i \<and> e = ev) ls)"

definition dispatch :: "('a \<Rightarrow> (('a, 'z) browser_scheme, unit) js) \<Rightarrow> string \<Rightarrow> string \<Rightarrow>
    (('a, 'z) browser_scheme, unit) js" where
  "dispatch act i ev = js_get (\<lambda>s. actions_of (listeners s) i ev)
     (\<lambda>as. js_block (map (\<lambda>a. js_report (act a)) as))"

text \<open>The user: a click (a disabled button fires none), a choice in a drop-down, typing.\<close>

definition user_click :: "('a \<Rightarrow> (('a, 'z) browser_scheme, unit) js) \<Rightarrow> string \<Rightarrow>
    (('a, 'z) browser_scheme, unit) js" where
  "user_click act i = js_get (\<lambda>s. dom s i) (\<lambda>r. case r of None \<Rightarrow> js_skip
     | Some e \<Rightarrow> if disabled e then js_skip else dispatch act i ''click'')"

definition user_select :: "('a \<Rightarrow> (('a, 'z) browser_scheme, unit) js) \<Rightarrow> string \<Rightarrow> int \<Rightarrow>
    (('a, 'z) browser_scheme, unit) js" where
  "user_select act i n = js_get (\<lambda>s. dom s i) (\<lambda>r. case r of None \<Rightarrow> js_skip
     | Some e \<Rightarrow> js_block [select_index i n, dispatch act i ''change''])"

definition user_type :: "string \<Rightarrow> string \<Rightarrow> (('a, 'z) browser_scheme, unit) js" where
  "user_type i t = js_get (\<lambda>s. dom s i) (\<lambda>r. if r = None then js_skip
     else set_el i (\<lambda>e. e\<lparr>el_value := t\<rparr>))"

subsection \<open>Web sockets\<close>

text \<open>\<open>new WebSocket(url, protocol)\<close> gives the index of the new socket.\<close>

definition new_WebSocket :: "string \<Rightarrow> string option \<Rightarrow> (('a, 'z) browser_scheme, nat) js" where
  "new_WebSocket u p = js_get (\<lambda>s. (url_ok s u, length (sockets s))) (\<lambda>(ok, n).
     if ok then js_bind (js_upd (\<lambda>s. s\<lparr>sockets := sockets s @
         [\<lparr>sk_url = u, sk_protocol = p, readyState = CONNECTING, sent = []\<rparr>]\<rparr>)) (\<lambda>_. js_return n)
     else js_throw SyntaxError)"

definition upd_socket :: "nat \<Rightarrow> (socket \<Rightarrow> socket) \<Rightarrow> (('a, 'z) browser_scheme, unit) js" where
  "upd_socket i f = js_upd (\<lambda>s. if i < length (sockets s)
     then s\<lparr>sockets := (sockets s)[i := f (sockets s ! i)]\<rparr> else s)"

definition socket_state :: "('a, 'z) browser_scheme \<Rightarrow> nat \<Rightarrow> ready_state option" where
  "socket_state s i = (if i < length (sockets s) then Some (readyState (sockets s ! i)) else None)"

text \<open>\<open>ws.send(text)\<close>: throws while connecting, is lost once the socket closes.\<close>

definition socket_send :: "nat \<Rightarrow> string \<Rightarrow> (('a, 'z) browser_scheme, unit) js" where
  "socket_send i t = js_get (\<lambda>s. socket_state s i) (\<lambda>r. case r of
       Some CONNECTING \<Rightarrow> js_throw InvalidStateError
     | Some OPEN \<Rightarrow> upd_socket i (\<lambda>k. k\<lparr>sent := sent k @ [t]\<rparr>)
     | _ \<Rightarrow> js_skip)"

definition socket_close :: "nat \<Rightarrow> (('a, 'z) browser_scheme, unit) js" where
  "socket_close i = js_get (\<lambda>s. socket_state s i) (\<lambda>r. case r of
       Some CLOSED \<Rightarrow> js_skip
     | Some _ \<Rightarrow> upd_socket i (\<lambda>k. k\<lparr>readyState := CLOSING\<rparr>)
     | None \<Rightarrow> js_skip)"

text \<open>Everything sent so far, socket by socket.\<close>

definition wire :: "('a, 'z) browser_scheme \<Rightarrow> string list" where
  "wire s = concat (map sent (sockets s))"

subsection \<open>Evaluation\<close>

lemmas dom_defs = set_text_def set_class_def set_disabled_def set_checked_def set_style_def
  clear_options_def append_option_def select_index_def append_child_def set_inner_html_def

lemma with_el_run [js_run]:
  "with_el i k s = (case dom s i of None \<Rightarrow> (Inl TypeError, s) | Some e \<Rightarrow> k e s)"
  by (simp add: with_el_def js_run split: option.split)

lemma set_el_run [js_run]:
  "set_el i f s = (case dom s i of None \<Rightarrow> (Inl TypeError, s)
     | Some e \<Rightarrow> (Inr (), s\<lparr>dom := (dom s)(i \<mapsto> f e)\<rparr>))"
  by (simp add: set_el_def js_run split: option.split)

lemma if_el_run [js_run]: "if_el i m s = (if dom s i = None then (Inr (), s) else m s)"
  by (simp add: if_el_def js_run)

lemma alert_run [js_run]: "alert t s = (Inr (), s\<lparr>alerts := alerts s @ [t]\<rparr>)"
  by (simp add: alert_def js_run)

lemma add_listener_run [js_run]:
  "add_listener i ev a s = (case dom s i of None \<Rightarrow> (Inl TypeError, s)
     | Some e \<Rightarrow> (Inr (), s\<lparr>listeners := listeners s @ [(i, ev, a)]\<rparr>))"
  by (simp add: add_listener_def js_run split: option.split)

lemma js_report_run [js_run]:
  "js_report m s = (case m s of (Inl e, t) \<Rightarrow> (Inr (), t\<lparr>unhandled := unhandled t @ [e]\<rparr>)
     | (Inr x, t) \<Rightarrow> (Inr (), t))"
  by (simp add: js_report_def js_run split: prod.split sum.split)

lemma no_throw_report [simp]: "no_throw (js_report m)"
  by (rule no_throwI) (simp add: js_run split: prod.split sum.split)

lemma js_report_result: "fst (js_report m s) = Inr ()"
  by (simp add: js_run split: prod.split sum.split)

lemma js_report_no_throw: "no_throw m \<Longrightarrow> js_report m s = m (s :: ('a, 'z) browser_scheme)"
  for m :: "(('a, 'z) browser_scheme, unit) js"
  by (cases "m s"; cases "fst (m s)") (auto simp: js_run no_throw_def)

subsection \<open>Relations on the browser state\<close>

text \<open>
  A relation that ignores the DOM, or the list of unhandled errors, passes through the
  operations on them. Components extend this locale with the operations they add.
\<close>

locale dom_relation = state_relation R
  for R :: "('a, 'z) browser_scheme \<Rightarrow> ('a, 'z) browser_scheme \<Rightarrow> bool" +
  assumes R_dom: "R s (s\<lparr>dom := d\<rparr>)"
    and R_alerts: "R s (s\<lparr>alerts := as\<rparr>)"
    and R_unhandled: "R s (s\<lparr>unhandled := es\<rparr>)"
begin

lemma rel_with_el: "(\<And>e. relates R (k e)) \<Longrightarrow> relates R (with_el i k)"
  by (auto simp: relates_def js_run R_refl split: option.split)

lemma rel_set_el: "relates R (set_el i f)"
  by (auto simp: relates_def js_run R_refl R_dom split: option.split)

lemma rel_if_el: "relates R m \<Longrightarrow> relates R (if_el i m)"
  by (auto simp: relates_def js_run R_refl)

lemma rel_dom_ops:
  "relates R (set_text i t)" "relates R (set_class i t)" "relates R (set_disabled i b)"
  "relates R (set_checked i b)" "relates R (set_style i p v)" "relates R (clear_options i)"
  "relates R (append_option i v t)" "relates R (select_index i n)" "relates R (append_child i c)"
  "relates R (set_inner_html i t)"
  by (simp_all add: dom_defs rel_set_el)

lemma rel_alert: "relates R (alert t)"
  by (auto simp: relates_def js_run R_alerts)

lemma rel_report: "relates R m \<Longrightarrow> relates R (js_report m)"
  unfolding js_report_def by (intro rel_intros rel_upd R_unhandled)

lemmas dom_rel_intros = rel_intros rel_with_el rel_set_el rel_if_el rel_dom_ops rel_alert rel_report

end

subsection \<open>The life of a socket\<close>

text \<open>The states are ordered as their numbers 0 to 3 in the WebSocket interface are.\<close>

fun ready_number :: "ready_state \<Rightarrow> nat" where
  "ready_number CONNECTING = 0"
| "ready_number OPEN = 1"
| "ready_number CLOSING = 2"
| "ready_number CLOSED = 3"

lemma ready_number_eq: "ready_number a = ready_number b \<longleftrightarrow> a = b"
  by (cases a; cases b) simp_all

instantiation ready_state :: linorder
begin

definition less_eq_ready_state :: "ready_state \<Rightarrow> ready_state \<Rightarrow> bool" where
  "less_eq_ready_state a b \<longleftrightarrow> ready_number a \<le> ready_number b"

definition less_ready_state :: "ready_state \<Rightarrow> ready_state \<Rightarrow> bool" where
  "less_ready_state a b \<longleftrightarrow> ready_number a < ready_number b"

instance
  by standard (auto simp: less_eq_ready_state_def less_ready_state_def ready_number_eq)

end

lemma ready_le [simp]: "a \<le> CLOSED" "CONNECTING \<le> a" "a \<le> CLOSING \<longleftrightarrow> a \<noteq> CLOSED" "OPEN < CLOSING"
  "\<not> OPEN < OPEN" "\<not> OPEN < CONNECTING"
  by (cases a; simp add: less_eq_ready_state_def less_ready_state_def)+

text \<open>
  How a socket may go on: its address stays, its state never goes back, what it has sent
  stays sent, and while it connects and once it closes nothing is sent.
\<close>

definition socket_next :: "socket \<Rightarrow> socket \<Rightarrow> bool" where
  "socket_next k l \<longleftrightarrow> sk_url l = sk_url k \<and> sk_protocol l = sk_protocol k \<and> readyState k \<le> readyState l \<and>
     (\<exists>ts. sent l = sent k @ ts) \<and> (OPEN < readyState k \<or> readyState l = CONNECTING \<longrightarrow> sent l = sent k)"

definition sockets_next :: "socket list \<Rightarrow> socket list \<Rightarrow> bool" where
  "sockets_next ss ts \<longleftrightarrow> length ss \<le> length ts \<and> (\<forall>i < length ss. socket_next (ss ! i) (ts ! i))"

lemma socket_next_refl [simp]: "socket_next k k"
  by (simp add: socket_next_def)

lemma socket_next_trans: "socket_next k l \<Longrightarrow> socket_next l m \<Longrightarrow> socket_next k m"
  by (auto simp: socket_next_def) (metis le_less_trans ready_le(2) antisym order_less_le_trans)+

lemma sockets_next_refl [simp]: "sockets_next ss ss"
  by (simp add: sockets_next_def)

lemma sockets_next_trans: "sockets_next ss ts \<Longrightarrow> sockets_next ts us \<Longrightarrow> sockets_next ss us"
  unfolding sockets_next_def by (meson le_trans less_le_trans socket_next_trans)

lemma sockets_next_append: "sockets_next ss (ss @ [k])"
  by (simp add: sockets_next_def nth_append)

lemma sockets_next_update:
  assumes "socket_next (ss ! i) k"
  shows "sockets_next ss (ss[i := k])"
proof -
  have "socket_next (ss ! j) (ss[i := k] ! j)" if "j < length ss" for j
    using assms that by (cases "i = j") simp_all
  then show ?thesis by (simp add: sockets_next_def)
qed

lemma socket_next_ready: "readyState k \<le> r \<Longrightarrow> socket_next k (k\<lparr>readyState := r\<rparr>)"
  by (simp add: socket_next_def)

lemma socket_next_sent: "readyState k = OPEN \<Longrightarrow> socket_next k (k\<lparr>sent := sent k @ [t]\<rparr>)"
  by (simp add: socket_next_def)

text \<open>A relation that tolerates the sockets going on passes through the operations on them.\<close>

locale socket_relation = state_relation R
  for R :: "('a, 'z) browser_scheme \<Rightarrow> ('a, 'z) browser_scheme \<Rightarrow> bool" +
  assumes R_sockets: "sockets_next (sockets s) ss \<Longrightarrow> R s (s\<lparr>sockets := ss\<rparr>)"
begin

lemma rel_new_WebSocket: "relates R (new_WebSocket u p)"
  unfolding new_WebSocket_def
  by (auto intro!: rel_intros rel_upd R_sockets sockets_next_append)

lemma rel_upd_socket:
  "i < length (sockets s) \<Longrightarrow> socket_next (sockets s ! i) (f (sockets s ! i)) \<Longrightarrow> R s (snd (upd_socket i f s))"
  by (simp add: upd_socket_def js_run R_sockets sockets_next_update)

lemma rel_socket_send: "relates R (socket_send i t)"
proof (rule relatesI)
  fix s
  show "R s (snd (socket_send i t s))"
    using rel_upd_socket [of i s "\<lambda>k. k\<lparr>sent := sent k @ [t]\<rparr>"]
    by (auto simp: socket_send_def js_get_run js_throw_run js_skip_run R_refl socket_state_def socket_next_sent
        split: ready_state.split)
qed

lemma rel_socket_close: "relates R (socket_close i)"
proof (rule relatesI)
  fix s
  show "R s (snd (socket_close i s))"
    using rel_upd_socket [of i s "\<lambda>k. k\<lparr>readyState := CLOSING\<rparr>"]
    by (auto simp: socket_close_def js_get_run js_skip_run R_refl socket_state_def socket_next_ready
        split: ready_state.split)
qed

end

end
