(* ===== verification/RpcClient.thy ===== *)
theory RpcClient
  imports Browser
begin

text \<open>
  \<open>web/js/rpc-client.js\<close>: the JSON-RPC client of the operator page. One WebSocket, a counter
  of request ids, a \<open>Map\<close> from the id of every unanswered request to the continuation that
  awaits it, and a \<open>Map\<close> from event names to their handlers in registration order.

  The type parameters are the continuations \<open>'k\<close> (what a page does after an \<open>await\<close>), the
  handlers \<open>'h\<close>, the timers \<open>'t\<close> and the listener actions \<open>'a\<close> of the page that owns the
  client; how a handler is run is the argument \<open>invoke\<close> of the operations that emit. Settling a
  promise queues its continuation in \<open>jobs\<close> (the microtask queue), it does not run it.
\<close>

record ('k, 'h, 't, 'a) rpc_page = "'a browser" +
  ws :: "nat option"
  connected :: bool
  requestId :: nat
  pendingRequests :: "(nat, 'k) jsmap"
  eventHandlers :: "(string, 'h list) jsmap"
  reconnectInterval :: nat
  maxReconnectAttempts :: nat
  reconnectAttempts :: nat
  debug :: bool
  url :: string
  jobs :: "('k \<times> (js_error + jsval)) list"
  timers :: "'t list"

type_synonym ('k, 'h, 't, 'a, 'z, 'r) rpc_js = "(('k, 'h, 't, 'a, 'z) rpc_page_scheme, 'r) js"

definition rpc_constructor ::
    "('k, 'h, 't, 'a, 'z) rpc_page_scheme \<Rightarrow> ('k, 'h, 't, 'a, 'z) rpc_page_scheme" where
  "rpc_constructor s = s\<lparr>ws := None, connected := False, requestId := 0, pendingRequests := [],
     eventHandlers := [], reconnectInterval := 3000, maxReconnectAttempts := 5,
     reconnectAttempts := 0, url := ''ws://localhost:8080'', debug := True\<rparr>"

definition setUrl :: "string \<Rightarrow> ('k, 'h, 't, 'a, 'z, unit) rpc_js" where
  "setUrl new_url = js_upd (\<lambda>s. s\<lparr>url := new_url\<rparr>)"

subsection \<open>Events\<close>

definition on :: "string \<Rightarrow> 'h \<Rightarrow> ('k, 'h, 't, 'a, 'z, unit) rpc_js" where
  "on event handler = js_block [
     js_get eventHandlers (\<lambda>m. if map_has m event then js_skip
       else js_upd (\<lambda>s. s\<lparr>eventHandlers := map_set (eventHandlers s) event []\<rparr>)),
     js_get eventHandlers (\<lambda>m. case map_get m event of
         Some hs \<Rightarrow> js_upd (\<lambda>s. s\<lparr>eventHandlers := map_set (eventHandlers s) event (hs @ [handler])\<rparr>)
       | None \<Rightarrow> js_throw TypeError)]"

definition off :: "string \<Rightarrow> 'h \<Rightarrow> ('k, 'h, 't, 'a, 'z, unit) rpc_js" where
  "off event handler = js_get eventHandlers (\<lambda>m. case map_get m event of
       Some hs \<Rightarrow> js_upd (\<lambda>s. s\<lparr>eventHandlers := map_set (eventHandlers s) event (remove1 handler hs)\<rparr>)
     | None \<Rightarrow> js_skip)"

definition handlers_of :: "('k, 'h, 't, 'a, 'z) rpc_page_scheme \<Rightarrow> string \<Rightarrow> 'h list" where
  "handlers_of s event = (case map_get (eventHandlers s) event of Some hs \<Rightarrow> hs | None \<Rightarrow> [])"

text \<open>
  \<open>forEach\<close> fixes the number of visits when it starts and reads the array anew at every
  index, so handlers added meanwhile are not visited and removed ones may be skipped. An
  error of a handler is caught and goes to the console.
\<close>

fun emit_from :: "('h \<Rightarrow> jsval \<Rightarrow> ('k, 'h, 't, 'a, 'z, unit) rpc_js) \<Rightarrow> string \<Rightarrow> jsval \<Rightarrow> nat \<Rightarrow> nat \<Rightarrow>
    ('k, 'h, 't, 'a, 'z, unit) rpc_js" where
  "emit_from invoke event data i 0 = js_skip"
| "emit_from invoke event data i (Suc n) = js_bind
     (js_get (\<lambda>s. handlers_of s event) (\<lambda>hs.
        if i < length hs then js_try (invoke (hs ! i) data) (\<lambda>error. js_skip) else js_skip))
     (\<lambda>_. emit_from invoke event data (Suc i) n)"

definition emit :: "('h \<Rightarrow> jsval \<Rightarrow> ('k, 'h, 't, 'a, 'z, unit) rpc_js) \<Rightarrow> string \<Rightarrow> jsval \<Rightarrow>
    ('k, 'h, 't, 'a, 'z, unit) rpc_js" where
  "emit invoke event data = js_get eventHandlers (\<lambda>m. if map_has m event
     then js_get (\<lambda>s. length (handlers_of s event)) (\<lambda>n. emit_from invoke event data 0 n)
     else js_skip)"

subsection \<open>Calls\<close>

text \<open>Resolving or rejecting the promise of continuation \<open>k\<close>.\<close>

definition settle :: "'k \<Rightarrow> js_error + jsval \<Rightarrow> ('k, 'h, 't, 'a, 'z, unit) rpc_js" where
  "settle k r = js_upd (\<lambda>s. s\<lparr>jobs := jobs s @ [(k, r)]\<rparr>)"

definition rpc_request :: "nat \<Rightarrow> string \<Rightarrow> jsval \<Rightarrow> jsval" where
  "rpc_request ident method params = Obj [(''jsonrpc'', Str ''2.0''), (''id'', num_of_int (int ident)),
     (''method'', Str method), (''params'', params)]"

text \<open>\<open>this.ws.send(text)\<close>\<close>

definition ws_send :: "string \<Rightarrow> ('k, 'h, 't, 'a, 'z, unit) rpc_js" where
  "ws_send text = js_get ws (\<lambda>w. case w of None \<Rightarrow> js_throw TypeError | Some i \<Rightarrow> socket_send i text)"

definition forget :: "nat \<Rightarrow> ('k, 'h, 't, 'a, 'z, unit) rpc_js" where
  "forget n = js_upd (\<lambda>s. s\<lparr>pendingRequests := map_delete (pendingRequests s) n\<rparr>)"

text \<open>\<open>call(method, params)\<close>, awaited by the continuation \<open>k\<close>.\<close>

definition call :: "string \<Rightarrow> jsval \<Rightarrow> 'k \<Rightarrow> ('k, 'h, 't, 'a, 'z, unit) rpc_js" where
  "call method params k = js_get connected (\<lambda>c.
     if \<not> c then settle k (Inl (Error ''Not connected to server''))
     else js_block [
       js_upd (\<lambda>s. s\<lparr>requestId := requestId s + 1\<rparr>),
       js_get requestId (\<lambda>id. js_block [
         js_upd (\<lambda>s. s\<lparr>pendingRequests := map_set (pendingRequests s) id k\<rparr>),
         js_try (ws_send (json_text (rpc_request id method params)))
           (\<lambda>error. js_block [forget id, settle k (Inl error)])])])"

subsection \<open>Incoming messages\<close>

text \<open>The request a message id selects: keys are numbers, compared without conversion.\<close>

definition id_key :: "jsval \<Rightarrow> nat option" where
  "id_key v = (case v of Num (Fin q) \<Rightarrow> (if of_nat (nat \<lfloor>q\<rfloor>) = q then Some (nat \<lfloor>q\<rfloor>) else None) | _ \<Rightarrow> None)"

definition pending_for :: "('k, 'h, 't, 'a, 'z) rpc_page_scheme \<Rightarrow> jsval \<Rightarrow> (nat \<times> 'k) option" where
  "pending_for s ident = (if truthy ident then (case id_key ident of
       Some n \<Rightarrow> map_option (\<lambda>k. (n, k)) (map_get (pendingRequests s) n) | None \<Rightarrow> None) else None)"

text \<open>A notification is emitted under its method name; only strings name handlers.\<close>

definition emit_value :: "('h \<Rightarrow> jsval \<Rightarrow> ('k, 'h, 't, 'a, 'z, unit) rpc_js) \<Rightarrow> jsval \<Rightarrow> jsval \<Rightarrow>
    ('k, 'h, 't, 'a, 'z, unit) rpc_js" where
  "emit_value invoke event data = (case event of Str e \<Rightarrow> emit invoke e data | _ \<Rightarrow> js_skip)"

definition handle_parsed :: "('h \<Rightarrow> jsval \<Rightarrow> ('k, 'h, 't, 'a, 'z, unit) rpc_js) \<Rightarrow> jsval \<Rightarrow>
    ('k, 'h, 't, 'a, 'z, unit) rpc_js" where
  "handle_parsed invoke message = js_lift (get_prop message ''id'') (\<lambda>id.
     js_get (\<lambda>s. pending_for s id) (\<lambda>p. case p of
       Some (n, k) \<Rightarrow> js_block [
         forget n,
         js_lift (get_prop message ''error'') (\<lambda>err.
           if truthy err then settle k (Inl (Error (to_string err))) else settle k (Inr message))]
     | None \<Rightarrow> js_lift (get_prop message ''method'') (\<lambda>method.
         if truthy method
         then js_lift (get_prop message ''params'') (\<lambda>params. emit_value invoke method params)
         else js_skip)))"

definition handleMessage :: "('h \<Rightarrow> jsval \<Rightarrow> ('k, 'h, 't, 'a, 'z, unit) rpc_js) \<Rightarrow> jsval \<Rightarrow>
    ('k, 'h, 't, 'a, 'z, unit) rpc_js" where
  "handleMessage invoke message = (case message of
       Str t \<Rightarrow> (case json_parse t of Inl e \<Rightarrow> emit invoke ''message'' message
                                 | Inr m \<Rightarrow> handle_parsed invoke m)
     | _ \<Rightarrow> handle_parsed invoke message)"

subsection \<open>Connection\<close>

text \<open>Reconnecting is commented out in this client: the method does nothing.\<close>

definition handleReconnect :: "('k, 'h, 't, 'a, 'z, unit) rpc_js" where
  "handleReconnect = js_skip"

definition connect :: "('k, 'h, 't, 'a, 'z, unit) rpc_js" where
  "connect = js_try
     (js_get url (\<lambda>u. js_bind (new_WebSocket u (Some ''websocket'')) (\<lambda>i. js_upd (\<lambda>s. s\<lparr>ws := Some i\<rparr>))))
     (\<lambda>error. js_skip)"

definition onopen :: "('h \<Rightarrow> jsval \<Rightarrow> ('k, 'h, 't, 'a, 'z, unit) rpc_js) \<Rightarrow> ('k, 'h, 't, 'a, 'z, unit) rpc_js" where
  "onopen invoke = js_block [
     js_upd (\<lambda>s. s\<lparr>connected := True\<rparr>),
     js_upd (\<lambda>s. s\<lparr>reconnectAttempts := 0\<rparr>),
     emit invoke ''connected'' Undefined]"

definition onmessage :: "('h \<Rightarrow> jsval \<Rightarrow> ('k, 'h, 't, 'a, 'z, unit) rpc_js) \<Rightarrow> string \<Rightarrow>
    ('k, 'h, 't, 'a, 'z, unit) rpc_js" where
  "onmessage invoke data = js_try (js_lift (json_parse data) (\<lambda>m. handleMessage invoke m)) (\<lambda>error. js_skip)"

definition onclose :: "('h \<Rightarrow> jsval \<Rightarrow> ('k, 'h, 't, 'a, 'z, unit) rpc_js) \<Rightarrow> ('k, 'h, 't, 'a, 'z, unit) rpc_js" where
  "onclose invoke = js_block [
     js_upd (\<lambda>s. s\<lparr>connected := False\<rparr>),
     emit invoke ''disconnected'' Undefined,
     handleReconnect]"

definition onerror :: "('h \<Rightarrow> jsval \<Rightarrow> ('k, 'h, 't, 'a, 'z, unit) rpc_js) \<Rightarrow> jsval \<Rightarrow>
    ('k, 'h, 't, 'a, 'z, unit) rpc_js" where
  "onerror invoke error = emit invoke ''error'' error"

definition disconnect :: "('k, 'h, 't, 'a, 'z, unit) rpc_js" where
  "disconnect = js_block [
     js_upd (\<lambda>s. s\<lparr>connected := False\<rparr>),
     js_upd (\<lambda>s. s\<lparr>reconnectAttempts := maxReconnectAttempts s\<rparr>),
     js_get ws (\<lambda>w. case w of Some i \<Rightarrow> socket_close i | None \<Rightarrow> js_skip)]"


subsection \<open>Evaluation of the operations\<close>

lemma settle_run [js_run]: "settle k r s = (Inr (), s\<lparr>jobs := jobs s @ [(k, r)]\<rparr>)"
  by (simp add: settle_def js_run)

lemma forget_run [js_run]:
  "forget n s = (Inr (), s\<lparr>pendingRequests := map_delete (pendingRequests s) n\<rparr>)"
  by (simp add: forget_def js_run)

lemma no_throw_settle [simp]: "no_throw (settle k r)"
  by (simp add: settle_def)

lemma no_throw_forget [simp]: "no_throw (forget n)"
  by (simp add: forget_def)

lemma on_run [js_run]:
  "on ev h s = (Inr (), s\<lparr>eventHandlers := map_set (eventHandlers s) ev (handlers_of s ev @ [h])\<rparr>)"
  by (cases "map_get (eventHandlers s) ev")
    (simp_all add: on_def js_run handlers_of_def map_has_def map_get_set map_set_set)

lemma off_run [js_run]:
  "off ev h s = (Inr (), case map_get (eventHandlers s) ev of
     Some hs \<Rightarrow> s\<lparr>eventHandlers := map_set (eventHandlers s) ev (remove1 h hs)\<rparr> | None \<Rightarrow> s)"
  by (simp add: off_def js_run split: option.split)

lemma handlers_of_on:
  "handlers_of (snd (on ev h s)) ev' = handlers_of s ev' @ (if ev' = ev then [h] else [])"
  by (simp add: js_run) (simp add: handlers_of_def map_get_set)

lemma no_throw_emit_from [simp]: "no_throw (emit_from invoke ev d i n)"
  by (induction n arbitrary: i) (auto intro!: no_throw_intros)

lemma no_throw_emit [simp]: "no_throw (emit invoke ev d)"
  unfolding emit_def by (auto intro!: no_throw_intros)

lemma emit_unheard: "map_get (eventHandlers s) ev = None \<Longrightarrow> emit invoke ev d s = (Inr (), s)"
  by (simp add: emit_def js_run map_has_def)

lemma call_offline:
  "\<not> connected s \<Longrightarrow>
   call m p k s = (Inr (), s\<lparr>jobs := jobs s @ [(k, Inl (Error ''Not connected to server''))]\<rparr>)"
  by (simp add: call_def js_run)

lemma socket_send_run [js_run]:
  "socket_send i t s = (case socket_state s i of
       Some CONNECTING \<Rightarrow> (Inl InvalidStateError, s)
     | Some OPEN \<Rightarrow> (Inr (), s\<lparr>sockets := (sockets s)[i := (sockets s ! i)\<lparr>sent := sent (sockets s ! i) @ [t]\<rparr>]\<rparr>)
     | _ \<Rightarrow> (Inr (), s))"
  by (auto simp: socket_send_def upd_socket_def socket_state_def js_run split: option.split ready_state.split)

lemma call_sends:
  assumes "connected s" "ws s = Some i" "socket_state s i = Some OPEN"
  shows "call m p k s = (Inr (), s\<lparr>requestId := requestId s + 1,
     pendingRequests := map_set (pendingRequests s) (requestId s + 1) k,
     sockets := (sockets s)[i := (sockets s ! i)\<lparr>sent := sent (sockets s ! i) @
       [json_text (rpc_request (requestId s + 1) m p)]\<rparr>]\<rparr>)"
  using assms by (simp add: call_def ws_send_def js_run socket_state_def split: if_splits)

text \<open>A socket that is still connecting refuses the message: the request is forgotten again.\<close>

lemma call_refused:
  assumes "connected s" "ws s = Some i" "socket_state s i = Some CONNECTING"
    and "map_get (pendingRequests s) (requestId s + 1) = None"
  shows "call m p k s = (Inr (), s\<lparr>requestId := requestId s + 1,
     jobs := jobs s @ [(k, Inl InvalidStateError)]\<rparr>)"
  using assms by (simp add: call_def ws_send_def js_run socket_state_def map_delete_set_fresh split: if_splits)

text \<open>A closing socket swallows it: the request stays pending and nothing is sent.\<close>

lemma call_lost:
  assumes "connected s" "ws s = Some i" "socket_state s i = Some CLOSING \<or> socket_state s i = Some CLOSED"
  shows "call m p k s = (Inr (), s\<lparr>requestId := requestId s + 1,
     pendingRequests := map_set (pendingRequests s) (requestId s + 1) k\<rparr>)"
  using assms by (auto simp: call_def ws_send_def js_run socket_state_def split: if_splits)

lemma no_throw_call [simp]: "no_throw (call m p k)"
  unfolding call_def by (auto intro!: no_throw_intros)

subsection \<open>The handler contract\<close>

text \<open>
  \<open>emit\<close> visits a live array. The pages' handlers never register or remove handlers, and
  for such handlers it runs exactly the registered ones, in registration order.
\<close>

locale handler_contract =
  fixes invoke :: "'h \<Rightarrow> jsval \<Rightarrow> ('k, 'h, 't, 'a, 'z, unit) rpc_js"
  assumes keeps_handlers: "eventHandlers (snd (invoke h d s)) = eventHandlers s"
begin

definition guarded :: "jsval \<Rightarrow> 'h \<Rightarrow> ('k, 'h, 't, 'a, 'z, unit) rpc_js" where
  "guarded d h = js_try (invoke h d) (\<lambda>error. js_skip)"

lemma guarded_run: "guarded d h s = (Inr (), snd (invoke h d s))"
  by (simp add: guarded_def js_run split: prod.split sum.split)

lemma handlers_after: "handlers_of (snd (invoke h d s)) ev = handlers_of s ev"
  by (simp add: handlers_of_def keeps_handlers)

lemma emit_from_eq:
  "i + n = length (handlers_of s ev) \<Longrightarrow>
   emit_from invoke ev d i n s = js_block (map (guarded d) (drop i (handlers_of s ev))) s"
proof (induction n arbitrary: i s)
  case 0
  then show ?case by (simp add: js_run)
next
  case (Suc n)
  let ?h = "handlers_of s ev ! i" let ?t = "snd (invoke ?h d s)"
  have i: "i < length (handlers_of s ev)" using Suc.prems by simp
  then have d: "drop i (handlers_of s ev) = ?h # drop (Suc i) (handlers_of s ev)"
    by (rule Cons_nth_drop_Suc [symmetric])
  have "emit_from invoke ev d (Suc i) n ?t = js_block (map (guarded d) (drop (Suc i) (handlers_of ?t ev))) ?t"
    using Suc by (simp add: handlers_after)
  moreover have "emit_from invoke ev d i (Suc n) s = emit_from invoke ev d (Suc i) n ?t"
  proof -
    have "js_get (\<lambda>s. handlers_of s ev) (\<lambda>hs. if i < length hs
        then js_try (invoke (hs ! i) d) (\<lambda>error. js_skip) else js_skip) s = guarded d ?h s"
      using i by (simp only: js_get_run guarded_def if_True)
    then show ?thesis by (simp only: emit_from.simps js_bind_run guarded_run prod.case sum.case)
  qed
  ultimately show ?case
    unfolding d by (simp only: list.map js_block_Cons_run guarded_run [of d ?h s] prod.case sum.case handlers_after)
qed

lemma emit_eq: "emit invoke ev d s = js_block (map (guarded d) (handlers_of s ev)) s"
proof (cases "map_get (eventHandlers s) ev")
  case None
  then show ?thesis by (simp add: emit_unheard handlers_of_def js_run)
next
  case (Some hs)
  then show ?thesis using emit_from_eq [of 0 "length (handlers_of s ev)" s ev d]
    by (simp add: emit_def js_run map_has_def)
qed

lemma emit_one: "handlers_of s ev = [h] \<Longrightarrow> emit invoke ev d s = (Inr (), snd (invoke h d s))"
  by (simp add: emit_eq js_run guarded_run)

lemma emit_none: "handlers_of s ev = [] \<Longrightarrow> emit invoke ev d s = (Inr (), s)"
  by (simp add: emit_eq js_run)

lemma emit_keeps_handlers: "eventHandlers (snd (emit invoke ev d s)) = eventHandlers s"
proof -
  have "eventHandlers (snd (js_block (map (guarded d) hs) s)) = eventHandlers s" for hs
    by (induction hs arbitrary: s) (simp_all add: js_run guarded_run keeps_handlers)
  then show ?thesis by (simp add: emit_eq)
qed

end

subsection \<open>Relations through the client\<close>

text \<open>
  What a relation has to tolerate to pass through everything the socket can deliver: the
  handlers, the bookkeeping of an answer, and the connection flags.
\<close>

locale rpc_relation = state_relation R
  for R :: "('k, 'h, 't, 'a, 'z) rpc_page_scheme \<Rightarrow> ('k, 'h, 't, 'a, 'z) rpc_page_scheme \<Rightarrow> bool" +
  fixes invoke :: "'h \<Rightarrow> jsval \<Rightarrow> ('k, 'h, 't, 'a, 'z, unit) rpc_js"
  assumes R_invoke: "relates R (invoke h d)"
    and R_forget: "relates R (forget n)"
    and R_settle: "relates R (settle k r)"
    and R_connected: "R s (s\<lparr>connected := c\<rparr>)"
    and R_reset: "R s (s\<lparr>reconnectAttempts := 0\<rparr>)"
begin

lemma rel_emit_from: "relates R (emit_from invoke ev d i n)"
  by (induction n arbitrary: i) (auto intro!: rel_intros R_invoke)

lemma rel_emit: "relates R (emit invoke ev d)"
  unfolding emit_def by (intro rel_intros rel_emit_from)

lemma rel_handle_parsed: "relates R (handle_parsed invoke m)"
  unfolding handle_parsed_def emit_value_def
  by (auto intro!: rel_intros rel_emit R_forget R_settle split: option.split jsval.split)

lemma rel_handleMessage: "relates R (handleMessage invoke m)"
  unfolding handleMessage_def
  by (auto intro!: rel_emit rel_handle_parsed split: jsval.split sum.split)

lemma rel_onmessage: "relates R (onmessage invoke t)"
  unfolding onmessage_def by (intro rel_intros rel_handleMessage)

lemma rel_onopen: "relates R (onopen invoke)"
  unfolding onopen_def by (auto intro!: rel_intros rel_upd rel_emit R_connected R_reset)

lemma rel_onclose: "relates R (onclose invoke)"
  unfolding onclose_def handleReconnect_def
  by (auto intro!: rel_intros rel_upd rel_emit R_connected)

lemma rel_onerror: "relates R (onerror invoke e)"
  unfolding onerror_def by (rule rel_emit)

lemmas rpc_rel_intros = rel_emit rel_handleMessage rel_onmessage rel_onopen rel_onclose rel_onerror

end

subsection \<open>The bookkeeping of requests\<close>

definition rpc_inv :: "('k, 'h, 't, 'a, 'z) rpc_page_scheme \<Rightarrow> bool" where
  "rpc_inv s \<longleftrightarrow> distinct (map_keys (pendingRequests s)) \<and>
     (\<forall>n \<in> set (map_keys (pendingRequests s)). 0 < n \<and> n \<le> requestId s)"

text \<open>
  How the client evolves: the invariant is kept, the counter does not go back, and an id
  that was issued and is no longer pending never becomes pending again.
\<close>

definition rpc_evolves ::
    "('k, 'h, 't, 'a, 'z) rpc_page_scheme \<Rightarrow> ('k, 'h, 't, 'a, 'z) rpc_page_scheme \<Rightarrow> bool" where
  "rpc_evolves s t \<longleftrightarrow> (rpc_inv s \<longrightarrow> rpc_inv t) \<and> requestId s \<le> requestId t \<and>
     (\<forall>n. n \<le> requestId s \<longrightarrow> map_get (pendingRequests s) n = None \<longrightarrow> map_get (pendingRequests t) n = None)"

interpretation evolves: state_relation rpc_evolves
  by unfold_locales (auto simp: rpc_evolves_def)

lemma rpc_inv_fresh: "rpc_inv s \<Longrightarrow> map_get (pendingRequests s) (requestId s + 1) = None"
  by (force simp: rpc_inv_def jsm.get_keys)

lemma rpc_evolves_same:
  "requestId t = requestId s \<Longrightarrow> pendingRequests t = pendingRequests s \<Longrightarrow> rpc_evolves s t"
  by (simp add: rpc_evolves_def rpc_inv_def)

lemma evolves_forget: "relates rpc_evolves (forget n)"
  by (rule relatesI) (auto simp: js_run rpc_evolves_def rpc_inv_def jsm.distinct_del jsm.set_keys_del jsm.get_del)

lemma evolves_settle: "relates rpc_evolves (settle k r)"
  by (rule relatesI) (simp add: js_run rpc_evolves_same)

lemma evolves_call:
  fixes k :: 'k
  shows "relates rpc_evolves (call m p k :: ('k, 'h, 't, 'a, 'z, unit) rpc_js)"
proof (rule relatesI)
  fix s :: "('k, 'h, 't, 'a, 'z) rpc_page_scheme"
  let ?n = "requestId s + 1"
  have put: "rpc_evolves s (s\<lparr>requestId := ?n, pendingRequests := map_set (pendingRequests s) ?n k\<rparr>)"
    and put_sent: "rpc_evolves s (s\<lparr>requestId := ?n, pendingRequests := map_set (pendingRequests s) ?n k, sockets := x\<rparr>)"
    and put_del: "rpc_evolves s (s\<lparr>requestId := ?n,
      pendingRequests := map_delete (map_set (pendingRequests s) ?n k) ?n, jobs := y\<rparr>)" for x y
    by (auto simp: rpc_evolves_def rpc_inv_def jsm.distinct_put jsm.distinct_del jsm.set_keys_put
        jsm.set_keys_del jsm.get_put jsm.get_del)
  have rej: "rpc_evolves s (s\<lparr>jobs := y\<rparr>)" for y by (simp add: rpc_evolves_same)
  show "rpc_evolves s (snd (call m p k s))"
    using put put_sent put_del rej
    by (auto simp: call_def ws_send_def js_run socket_state_def split: option.split ready_state.split)
qed

text \<open>A plain update of other fields leaves the bookkeeping alone.\<close>

lemma evolves_upd:
  "(\<And>s. requestId (f s) = requestId s) \<Longrightarrow> (\<And>s. pendingRequests (f s) = pendingRequests s) \<Longrightarrow>
   relates rpc_evolves (js_upd f)"
  by (rule evolves.rel_upd) (simp add: rpc_evolves_same)

lemma evolves_rel_on: "relates rpc_evolves (on ev h)"
  by (rule relatesI) (simp add: js_run rpc_evolves_same)

end
