(* ===== verification/CentralSystem.thy ===== *)
theory CentralSystem
  imports RpcClient
begin

text \<open>
  \<open>web/js/central_system.js\<close>: the operator page. The state extends the RPC client's with the
  fields of the class. An \<open>async\<close> method is split at its \<open>await\<close>: the method itself runs up to the
  call, and \<open><method>_resume\<close> is the rest, run with the settled promise. Errors that leave an
  \<open>async\<close> method end in \<open>unhandled\<close>.
\<close>

subsection \<open>State, handlers, actions, continuations\<close>

datatype cs_handler = H_connected | H_disconnected | H_StatusNotification | H_MeterValues | H_Heartbeat

datatype cs_cont =
    K_loadStationsList bool  \<comment> \<open>awaited by \<open>loadInitialData\<close>?\<close>
  | K_handleStationChange string
  | K_handleConnectorChange jsval
  | K_disconnectStation
  | K_changeAvailability
  | K_getStationInfo
  | K_getConfiguration
  | K_getVariable
  | K_setVariable
  | K_rebootStation
  | K_clearCache
  | K_requestStartTransaction
  | K_requestStopTransaction
  | K_unlockConnector
  | K_triggerMeterValues jsval
  | K_triggerStatusNotification
  | K_triggerHeartbeat

datatype cs_action =
    A_stationSelect | A_connectorSelect | A_disconnectStation | A_changeAvailability
  | A_availability_on | A_availability_off | A_getStationInfo | A_getConfiguration
  | A_getVariable | A_setVariable | A_rebootStation | A_clearCache
  | A_requestStartTransaction | A_requestStopTransaction | A_unlockConnector
  | A_triggerMeterValues | A_triggerStatusNotification | A_triggerHeartbeat
  | A_connectWebsocket | A_disconnectWebsocket | A_applyWebsocketSettings

record cs_page = "(cs_cont, cs_handler, unit, cs_action) rpc_page" +
  current_station :: jsval
  current_connector :: jsval
  stations :: "(jsval, jsval) jsmap"
  is_initialized :: bool
  scan_rate :: jsval

type_synonym 'r cs = "(cs_page, 'r) js"

subsection \<open>Logging\<close>

definition nl :: string where "nl = [CHR 0x0A]"
definition tab :: string where "tab = [CHR 0x09]"

definition log_entry_html :: "string \<Rightarrow> string \<Rightarrow> string" where
  "log_entry_html time message =
     nl @ tab @ tab @ tab @ ''<span class=\"log-entry__time\">['' @ time @ '']</span>'' @
     nl @ tab @ tab @ tab @ ''<span class=\"log-entry__message\">'' @ message @ ''</span>'' @
     nl @ tab @ tab"

definition addLogEntry :: "string \<Rightarrow> string \<Rightarrow> unit cs" where
  "addLogEntry message type = js_get clock (\<lambda>time.
     append_child ''.log-container''
       (ElementNode (''log-entry log-entry--'' @ type) (log_entry_html time message)))"

definition log :: "string \<Rightarrow> unit cs" where
  "log message = addLogEntry message ''info''"

definition logSuccess :: "string \<Rightarrow> unit cs" where
  "logSuccess message = addLogEntry message ''success''"

definition logError :: "string \<Rightarrow> unit cs" where
  "logError message = addLogEntry message ''error''"

definition handleRpcError :: "string \<Rightarrow> js_error \<Rightarrow> unit cs" where
  "handleRpcError user_message error = js_get (\<lambda>s. error_message s error) (\<lambda>m.
     logError (user_message @ '': '' @ (if m = [] then (ru ''Neizwestnaq o[ibka'') else m)))"

subsection \<open>Helpers\<close>

definition validateCurrentStation :: "bool cs" where
  "validateCurrentStation = js_get current_station (\<lambda>c.
     if \<not> truthy c then js_bind (logError (ru ''Sna^ala wyberite stanci@'')) (\<lambda>_. js_return False)
     else js_return True)"

definition validateCurrentConnector :: "bool cs" where
  "validateCurrentConnector = js_get current_connector (\<lambda>c.
     if \<not> truthy c then js_bind (logError (ru ''Sna^ala wyberite konnektor'')) (\<lambda>_. js_return False)
     else js_return True)"

text \<open>\<open>if (!this.validateCurrentStation()) return;\<close> in front of the rest of the method.\<close>

definition when_station :: "unit cs \<Rightarrow> unit cs" where
  "when_station body = js_bind validateCurrentStation (\<lambda>ok. if ok then body else js_skip)"

definition parseResponse :: "jsval \<Rightarrow> jsval" where
  "parseResponse response =
     (if truthy response \<and> truthy (field_of response ''result'')
      then (case field_of response ''result'' of
              Str t \<Rightarrow> (case json_parse t of Inr v \<Rightarrow> v | Inl e \<Rightarrow> Str t)
            | r \<Rightarrow> r)
      else response)"

definition getStatusText :: "string \<Rightarrow> string" where
  "getStatusText status =
     (case map_get [(''working'', (ru ''W rabote'')), (''alarm'', (ru ''Awariq'')), (''disabled'', (ru ''Otkl@^ena'')),
                    ([], (ru ''Ne opredelno''))] status of
        Some t \<Rightarrow> t | None \<Rightarrow> status)"

definition cacheStationsData :: "jsval \<Rightarrow> unit cs" where
  "cacheStationsData sts = js_bind (js_upd (\<lambda>s. s\<lparr>stations := []\<rparr>)) (\<lambda>_.
     js_lift (array_elems sts) (\<lambda>xs. js_block (map (\<lambda>station.
       js_lift (get_prop station ''id'') (\<lambda>i.
         js_upd (\<lambda>s. s\<lparr>stations := map_set (stations s) i station\<rparr>))) xs)))"

subsection \<open>Updating the page\<close>

definition updateConnectionStatus :: "bool \<Rightarrow> unit cs" where
  "updateConnectionStatus flag =
     (if flag then js_block [
        set_class ''websocket-status-led'' ''status-indicator__led status-indicator__led--connected'',
        set_text ''websocket-status-text'' (ru ''Soedinenie ustanowleno''),
        set_disabled ''websocket-connect'' True,
        set_disabled ''websocket-disconnect'' False]
      else js_block [
        set_class ''websocket-status-led'' ''status-indicator__led status-indicator__led--disconnected'',
        set_text ''websocket-status-text'' (ru ''Soedinenie otsutstwuet''),
        set_disabled ''websocket-connect'' False,
        set_disabled ''websocket-disconnect'' True])"

definition updateStationDropdown :: "jsval \<Rightarrow> unit cs" where
  "updateStationDropdown sts = js_block [
     clear_options ''station-select'',
     append_option ''station-select'' [] [],
     js_lift (array_elems sts) (\<lambda>xs. js_block (map (\<lambda>station.
       append_option ''station-select'' (to_string station)
         (to_string (js_or station (Str ((ru ''Stanciq #'') @ to_string station))))) xs))]"

definition updateConnectorsDropdown :: "jsval \<Rightarrow> unit cs" where
  "updateConnectorsDropdown connectors = js_block [
     clear_options ''connector-select'',
     if has_items connectors then js_block [
       append_option ''connector-select'' [] [],
       js_lift (array_elems connectors) (\<lambda>xs. js_block (map (\<lambda>connector.
         js_lift (get_prop connector ''id'') (\<lambda>i.
           append_option ''connector-select'' (to_string i) ((ru ''Konnektor '') @ to_string i))) xs))]
     else js_skip]"

definition setFirstConnectorInDropdown :: "unit cs" where
  "setFirstConnectorInDropdown = with_el ''connector-select'' (\<lambda>e.
     if 0 < length (options e) then select_index ''connector-select'' 1 else js_skip)"

text \<open>The text of a station status; unknown ones are upper-cased, which only strings can be.\<close>

definition station_status_text :: "jsval \<Rightarrow> js_error + string" where
  "station_status_text status =
     (if status = Str ''ok'' then Inr (ru ''W rabote'')
      else if status = Str ''alarm'' then Inr (ru ''Awariq'')
      else if status = Str ''off'' then Inr (ru ''Ne rabotaet'')
      else to_upper status)"

definition updateStationStatus :: "jsval \<Rightarrow> unit cs" where
  "updateStationStatus status = if_el ''station__status''
     (js_lift (station_status_text status) (\<lambda>status_str. js_block [
        set_text ''station__status'' (getStatusText status_str),
        set_class ''station__status'' (''info-item__value status--'' @ to_string status)]))"

definition updateConnectorStatus :: "jsval \<Rightarrow> unit cs" where
  "updateConnectorStatus status = js_block [
     set_text ''connector__status'' (text_of status),
     set_class ''connector__status'' (''info-item__value status-indicator status-indicator--'' @ to_string status)]"

definition updateMeterValues :: "jsval \<Rightarrow> unit cs" where
  "updateMeterValues meter = js_lift (fixed2 meter) (\<lambda>t. set_text ''connector__meter'' (t @ (ru '' kWt*^'')))"

definition updatePower :: "jsval \<Rightarrow> unit cs" where
  "updatePower pw = js_lift (fixed2 pw) (\<lambda>t. set_text ''connector__power'' (t @ (ru '' kWt'')))"

definition updateStationInfo :: "jsval \<Rightarrow> unit cs" where
  "updateStationInfo station_data = js_block [
     js_lift (get_prop station_data ''status'') updateStationStatus,
     if_el ''station__connectors_count'' (js_lift (get_prop station_data ''connectors'') (\<lambda>c.
       if truthy c then js_lift (get_prop c ''length'') (\<lambda>n. set_text ''station__connectors_count'' (text_of n))
       else js_skip)),
     if_el ''station__max_power'' (js_lift (get_prop station_data ''max_power'') (\<lambda>p.
       if truthy p then set_text ''station__max_power'' (to_string p @ (ru '' kWt'')) else js_skip))]"

definition updateConnectorInfo :: "jsval \<Rightarrow> unit cs" where
  "updateConnectorInfo connector_data = js_block [
     js_lift (get_prop connector_data ''type'') (\<lambda>t. set_text ''connector__type'' (text_of t)),
     js_lift (get_prop connector_data ''status'') updateConnectorStatus,
     js_lift (get_prop connector_data ''meter'') (\<lambda>m. if nullish m then js_skip else updateMeterValues m),
     js_lift (get_prop connector_data ''power'') (\<lambda>p. if p = Undefined then js_skip else updatePower p)]"

subsection \<open>Loading and selecting\<close>

definition loadStationsList_body :: "bool \<Rightarrow> unit cs" where
  "loadStationsList_body from_init = js_try (js_block [
       log (ru ''Zagruzka spiska stancij...''),
       call ''GetStations'' (Obj []) (K_loadStationsList from_init)])
     (\<lambda>error. logError (ru ''O[ibka zagruzki spiska stancij''))"

definition loadStationsList :: "unit cs" where
  "loadStationsList = js_async (loadStationsList_body False)"

definition loadStationsList_resume :: "js_error + jsval \<Rightarrow> unit cs" where
  "loadStationsList_resume r = js_try (js_lift r (\<lambda>response.
       js_lift (get_prop (parseResponse response) ''stations'') (\<lambda>sts. js_block [
         updateStationDropdown sts,
         cacheStationsData sts])))
     (\<lambda>error. logError (ru ''O[ibka zagruzki spiska stancij''))"

definition loadInitialData :: "unit cs" where
  "loadInitialData = js_async (js_get connected (\<lambda>c. if c
     then js_try (loadStationsList_body True) (\<lambda>error. logError (ru ''O[ibka zagruzki na^alxnyh dannyh''))
     else js_skip))"

definition loadInitialData_resume :: "js_error + jsval \<Rightarrow> unit cs" where
  "loadInitialData_resume r = js_try (loadStationsList_resume r)
     (\<lambda>error. logError (ru ''O[ibka zagruzki na^alxnyh dannyh''))"

definition handleStationChange :: "string \<Rightarrow> unit cs" where
  "handleStationChange station_id = js_async (js_try (js_block [
       log ((ru ''Wybor stancii: '') @ station_id),
       call ''GetStationStatus'' (Obj [(''station_id'', Str station_id)]) (K_handleStationChange station_id)])
     (\<lambda>error. logError ((ru ''O[ibka zagruzki dannyh stancij '') @ station_id)))"

definition handleStationChange_resume :: "string \<Rightarrow> js_error + jsval \<Rightarrow> unit cs" where
  "handleStationChange_resume station_id r = js_try (js_lift r (\<lambda>response.
       let station_data = parseResponse response in js_block [
         js_upd (\<lambda>s. s\<lparr>current_station := Str station_id\<rparr>),
         updateStationInfo station_data,
         js_lift (get_prop station_data ''connectors'') updateConnectorsDropdown,
         js_lift (get_prop station_data ''connectors'') (\<lambda>cs. if has_items cs then js_block [
             setFirstConnectorInDropdown,
             js_lift (get_index cs 0) updateConnectorInfo] else js_skip)]))
     (\<lambda>error. logError ((ru ''O[ibka zagruzki dannyh stancij '') @ station_id))"

definition handleConnectorChange :: "jsval \<Rightarrow> unit cs" where
  "handleConnectorChange connector_id = js_async (js_try (js_block [
       log ((ru ''Wybor konnektora: '') @ to_string connector_id),
       js_get current_station (\<lambda>st. call ''GetConnectorStatus''
         (Obj [(''station_id'', st), (''connector_id'', connector_id)]) (K_handleConnectorChange connector_id))])
     (\<lambda>error. logError ((ru ''O[ibka zagruzki dannyh konnektora '') @ to_string connector_id)))"

definition handleConnectorChange_resume :: "jsval \<Rightarrow> js_error + jsval \<Rightarrow> unit cs" where
  "handleConnectorChange_resume connector_id r = js_try (js_lift r (\<lambda>response. js_block [
         js_upd (\<lambda>s. s\<lparr>current_connector := connector_id\<rparr>),
         updateConnectorInfo (parseResponse response)]))
     (\<lambda>error. logError ((ru ''O[ibka zagruzki dannyh konnektora '') @ to_string connector_id))"

subsection \<open>Commands to the station\<close>

text \<open>The parameter object most commands send.\<close>

definition station_params :: "jsval \<Rightarrow> jsval" where
  "station_params st = Obj [(''station_id'', st)]"

definition disconnectStation :: "unit cs" where
  "disconnectStation = js_async (when_station (js_try (js_get current_station (\<lambda>st. js_block [
       log ((ru ''Otkl@^enie stancii '') @ to_string st),
       call ''DisconnectStation'' (station_params st) K_disconnectStation]))
     (\<lambda>error. handleRpcError (ru ''O[ibka otkl@^eniq stancii'') error)))"

definition disconnectStation_resume :: "js_error + jsval \<Rightarrow> unit cs" where
  "disconnectStation_resume r = js_try (js_lift r (\<lambda>_. logSuccess (ru ''Stanciq uspe[no otkl@^ena'')))
     (\<lambda>error. handleRpcError (ru ''O[ibka otkl@^eniq stancii'') error)"

definition changeAvailability :: "unit cs" where
  "changeAvailability = js_async (when_station (with_el ''station_control__change_availability_on'' (\<lambda>e.
     let cmd = (if checked e then ''Available'' else ''Unavailable'') in
     js_try (js_get current_station (\<lambda>st.
       call ''ChangeAvailability'' (Obj [(''station_id'', st), (''command'', Str cmd)]) K_changeAvailability))
     (\<lambda>error. handleRpcError (ru ''O[ibka izmeneniq dostupnosti stancii'') error))))"

definition changeAvailability_resume :: "js_error + jsval \<Rightarrow> unit cs" where
  "changeAvailability_resume r = js_try (js_lift r (\<lambda>_. log (ru ''Dostupnostx stancii izmenena'')))
     (\<lambda>error. handleRpcError (ru ''O[ibka izmeneniq dostupnosti stancii'') error)"

definition getStationInfo :: "unit cs" where
  "getStationInfo = js_async (when_station (js_try (js_get current_station (\<lambda>st.
       call ''GetStationInfo'' (station_params st) K_getStationInfo))
     (\<lambda>error. handleRpcError (ru ''O[ibka polu^eniq informacii o stancii'') error)))"

definition getStationInfo_resume :: "js_error + jsval \<Rightarrow> unit cs" where
  "getStationInfo_resume r = js_try (js_lift r (\<lambda>response.
       log ((ru ''Informaciq o stancii: '') @ to_string (json_stringify (parseResponse response)))))
     (\<lambda>error. handleRpcError (ru ''O[ibka polu^eniq informacii o stancii'') error)"

definition getConfiguration :: "unit cs" where
  "getConfiguration = js_async (when_station (js_try (js_get current_station (\<lambda>st.
       call ''GetConfiguration'' (station_params st) K_getConfiguration))
     (\<lambda>error. handleRpcError (ru ''O[ibka polu^eniq konfiguracii'') error)))"

definition getConfiguration_resume :: "js_error + jsval \<Rightarrow> unit cs" where
  "getConfiguration_resume r = js_try (js_lift r (\<lambda>response. js_block [
       logSuccess (ru ''Konfiguraciq polu^ena''),
       log ((ru ''Konfiguraciq: '') @ to_string (json_stringify (parseResponse response)))]))
     (\<lambda>error. handleRpcError (ru ''O[ibka polu^eniq konfiguracii'') error)"

definition getVariable :: "unit cs" where
  "getVariable = js_async (when_station (js_try (js_get current_station (\<lambda>st.
       call ''GetVariable'' (station_params st) K_getVariable))
     (\<lambda>error. handleRpcError (ru ''O[ibka polu^eniq peremennyh'') error)))"

definition getVariable_resume :: "js_error + jsval \<Rightarrow> unit cs" where
  "getVariable_resume r = js_try (js_lift r (\<lambda>response. js_block [
       logSuccess (ru ''Peremennye polu^eny''),
       log ((ru ''Peremennye: '') @ to_string (json_stringify (parseResponse response)))]))
     (\<lambda>error. handleRpcError (ru ''O[ibka polu^eniq peremennyh'') error)"

text \<open>
  \<open>querySelector\<close> gives the element itself, which is a truthy object without own enumerable
  properties (JSON \<open>{}\<close>), or \<open>null\<close>; the method never reads the field's \<open>value\<close>.
\<close>

definition element_value :: "element option \<Rightarrow> jsval" where
  "element_value r = (case r of None \<Rightarrow> Null | Some e \<Rightarrow> Obj [])"

definition setVariable :: "unit cs" where
  "setVariable = js_async (when_station (js_get (\<lambda>s. (
       element_value (dom s ''station_control__set_variable_component''),
       element_value (dom s ''station_control__set_variable_variable''),
       element_value (dom s ''station_control__set_variable_attribute''))) (\<lambda>(component, variable, attribute).
     if \<not> truthy component \<or> \<not> truthy variable
     then logError (ru ''Zapolnite obqzatelxnye polq: '' @ ''Component '' @ ru ''i '' @ ''Variable'')
     else js_try (js_get current_station (\<lambda>st. call ''SetVariable''
         (Obj [(''station_id'', st), (''component'', component), (''variable'', variable),
               (''attribute'', js_or attribute Undefined)]) K_setVariable))
       (\<lambda>error. handleRpcError (ru ''O[ibka zapisi peremennoj'') error))))"

definition setVariable_resume :: "js_error + jsval \<Rightarrow> unit cs" where
  "setVariable_resume r = js_try (js_lift r (\<lambda>_. logSuccess (ru ''Peremennaq uspe[no zapisana'')))
     (\<lambda>error. handleRpcError (ru ''O[ibka zapisi peremennoj'') error)"

definition rebootStation :: "unit cs" where
  "rebootStation = js_async (when_station (js_try (js_get current_station (\<lambda>st.
       call ''RebootStation'' (station_params st) K_rebootStation))
     (\<lambda>error. handleRpcError (ru ''O[ibka perezagruzki stancii'') error)))"

definition rebootStation_resume :: "js_error + jsval \<Rightarrow> unit cs" where
  "rebootStation_resume r = js_try (js_lift r (\<lambda>_. logSuccess (ru ''Komanda perezagruzki otprawlena'')))
     (\<lambda>error. handleRpcError (ru ''O[ibka perezagruzki stancii'') error)"

definition clearCache :: "unit cs" where
  "clearCache = js_async (when_station (js_try (js_get current_station (\<lambda>st.
       call ''ClearCache'' (station_params st) K_clearCache))
     (\<lambda>error. handleRpcError (ru ''O[ibka o^istki k|[a'') error)))"

definition clearCache_resume :: "js_error + jsval \<Rightarrow> unit cs" where
  "clearCache_resume r = js_try (js_lift r (\<lambda>_. logSuccess (ru ''K|[ uspe[no o^i]en'')))
     (\<lambda>error. handleRpcError (ru ''O[ibka o^istki k|[a'') error)"

subsection \<open>Commands to the connector\<close>

definition connector_params :: "jsval \<Rightarrow> jsval \<Rightarrow> jsval" where
  "connector_params st conn = Obj [(''station_id'', st), (''connector_id'', conn)]"

definition requestStartTransaction :: "unit cs" where
  "requestStartTransaction = js_async (when_station (js_try
     (js_get (\<lambda>s. (current_station s, current_connector s)) (\<lambda>(st, conn).
       call ''RequestStartTransaction'' (connector_params st conn) K_requestStartTransaction))
     (\<lambda>error. handleRpcError (ru ''O[ibka na^ala tranzakcii'') error)))"

definition requestStartTransaction_resume :: "js_error + jsval \<Rightarrow> unit cs" where
  "requestStartTransaction_resume r =
     js_try (js_lift r (\<lambda>_. logSuccess (ru ''Zapros na na^alo tranzakcii otprawlen'')))
     (\<lambda>error. handleRpcError (ru ''O[ibka na^ala tranzakcii'') error)"

definition requestStopTransaction :: "unit cs" where
  "requestStopTransaction = js_async (when_station (js_try
     (js_get (\<lambda>s. (current_station s, current_connector s)) (\<lambda>(st, conn).
       call ''RequestStopTransaction'' (connector_params st conn) K_requestStopTransaction))
     (\<lambda>error. handleRpcError (ru ''O[ibka ostanowki tranzakcii'') error)))"

definition requestStopTransaction_resume :: "js_error + jsval \<Rightarrow> unit cs" where
  "requestStopTransaction_resume r =
     js_try (js_lift r (\<lambda>_. logSuccess (ru ''Zapros na ostanowku tranzakcii otprawlen'')))
     (\<lambda>error. handleRpcError (ru ''O[ibka ostanowki tranzakcii'') error)"

text \<open>The \<open>catch\<close> clause binds \<open>errro\<close> and then reads \<open>error\<close>: it throws before it can log.\<close>

definition unlockConnector :: "unit cs" where
  "unlockConnector = js_async (when_station (js_try
     (js_get (\<lambda>s. (current_station s, current_connector s)) (\<lambda>(st, conn).
       call ''UnlockConnector'' (connector_params st conn) K_unlockConnector))
     (\<lambda>errro. js_throw ReferenceError)))"

definition unlockConnector_resume :: "js_error + jsval \<Rightarrow> unit cs" where
  "unlockConnector_resume r =
     js_try (js_lift r (\<lambda>_. logSuccess (ru ''Komanda razblokirowki konnektora otprawlena'')))
     (\<lambda>errro. js_throw ReferenceError)"

subsection \<open>Trigger commands\<close>

text \<open>The element read is the button itself, and the parameter is spelled \<open>stastionId\<close>.\<close>

definition triggerMeterValues :: "unit cs" where
  "triggerMeterValues = js_async (when_station (with_el ''station_control__trigger_meter_values'' (\<lambda>e.
     js_get (\<lambda>s. (current_station s, current_connector s)) (\<lambda>(st, conn).
       let evseId = js_or (Str (el_value e)) conn in
       js_try (call ''TriggerMeterValues'' (Obj [(''stastionId'', st), (''evseId'', evseId)])
           (K_triggerMeterValues evseId))
         (\<lambda>error. handleRpcError (ru ''O[ibka '' @ ''trigger MeterValues'') error)))))"

definition triggerMeterValues_resume :: "jsval \<Rightarrow> js_error + jsval \<Rightarrow> unit cs" where
  "triggerMeterValues_resume evseId r =
     js_try (js_lift r (\<lambda>_. logSuccess (''Meter values triggered for EVSE: '' @ to_string evseId)))
     (\<lambda>error. handleRpcError (ru ''O[ibka '' @ ''trigger MeterValues'') error)"

definition triggerStatusNotification :: "unit cs" where
  "triggerStatusNotification = js_async (when_station (js_try (js_get current_station (\<lambda>st.
       call ''TriggerStatusNotification'' (station_params st) K_triggerStatusNotification))
     (\<lambda>error. handleRpcError (ru ''O[ibka '' @ ''trigger StatusNotification'') error)))"

definition triggerStatusNotification_resume :: "js_error + jsval \<Rightarrow> unit cs" where
  "triggerStatusNotification_resume r = js_try (js_lift r (\<lambda>_. logSuccess ''Status notification triggered''))
     (\<lambda>error. handleRpcError (ru ''O[ibka '' @ ''trigger StatusNotification'') error)"

definition triggerHeartbeat :: "unit cs" where
  "triggerHeartbeat = js_async (when_station (js_try (js_get current_station (\<lambda>st.
       call ''TriggerHeartbeat'' (station_params st) K_triggerHeartbeat))
     (\<lambda>error. handleRpcError (ru ''O[ibka '' @ ''trigger Heartbeat'') error)))"

definition triggerHeartbeat_resume :: "js_error + jsval \<Rightarrow> unit cs" where
  "triggerHeartbeat_resume r = js_try (js_lift r (\<lambda>_. logSuccess ''Heartbeat triggered''))
     (\<lambda>error. handleRpcError (ru ''O[ibka '' @ ''trigger Heartbeat'') error)"

subsection \<open>WebSocket controls\<close>

definition applyWebsocketSettings :: "unit cs" where
  "applyWebsocketSettings = js_block [
     with_el ''websocket-address'' (\<lambda>e. js_block [
       setUrl (el_value e),
       log ((ru ''Ustanowlen nowyj '' @ ''ws '' @ ru ''adres '') @ el_value e)]),
     with_el ''polling-frequency'' (\<lambda>e. js_block [
       js_upd (\<lambda>s. s\<lparr>scan_rate := Str (el_value e)\<rparr>),
       log ((ru ''Ustanowlena ^astota oprosa '') @ el_value e @ (ru '' ms''))])]"

definition connectWebsocket :: "unit cs" where
  "connectWebsocket = connect"

definition disconnectWebsocket :: "unit cs" where
  "disconnectWebsocket = disconnect"

subsection \<open>Notifications\<close>

text \<open>
  The inner comparison reads \<open>this.connector_id\<close>, a property no method of the class assigns:
  its value is \<open>undefined\<close>.
\<close>

definition handleStatusNotification :: "jsval \<Rightarrow> unit cs" where
  "handleStatusNotification data = js_block [
     log (''StatusNotification: '' @ to_string (json_stringify data)),
     js_lift (get_prop data ''station_id'') (\<lambda>sid. js_get current_station (\<lambda>st.
       if strict_eq sid st then js_block [
         js_lift (get_prop data ''status'') updateStationStatus,
         js_lift (get_prop data ''connector_id'') (\<lambda>cid. if strict_eq cid Undefined
           then js_lift (get_prop data ''connectorStatus'') updateConnectorStatus
           else js_skip)]
       else js_skip))]"

definition handleMeterValues :: "jsval \<Rightarrow> unit cs" where
  "handleMeterValues data = js_block [
     log (''MeterValues: '' @ to_string (json_stringify data)),
     js_lift (get_prop data ''station_id'') (\<lambda>sid.
       js_get (\<lambda>s. (current_station s, current_connector s)) (\<lambda>(st, conn).
         if strict_eq sid st \<and> loose_eq (field_of data ''connector_id'') conn
         then js_lift (get_prop data ''values'') updateMeterValues
         else js_skip))]"

definition handleHeartbeat :: "jsval \<Rightarrow> unit cs" where
  "handleHeartbeat data = js_lift (get_prop data ''station_id'') (\<lambda>sid.
     log (''Heartbeat received from station: '' @ to_string sid))"

subsection \<open>Start-up\<close>

definition setupRpcHandlers :: "unit cs" where
  "setupRpcHandlers = js_block [
     on ''connected'' H_connected,
     on ''disconnected'' H_disconnected,
     on ''StatusNotification'' H_StatusNotification,
     on ''MeterValues'' H_MeterValues,
     on ''Heartbeat'' H_Heartbeat]"

definition bindChangeAvailabilityRadioButtons :: "unit cs" where
  "bindChangeAvailabilityRadioButtons = js_block [
     add_listener ''station_control__change_availability_on'' ''click'' A_availability_on,
     add_listener ''station_control__change_availability_off'' ''click'' A_availability_off]"

definition bindStationControls :: "unit cs" where
  "bindStationControls = js_block [
     add_listener ''station_control__disconnect'' ''click'' A_disconnectStation,
     add_listener ''station_control__change_availability'' ''click'' A_changeAvailability,
     bindChangeAvailabilityRadioButtons,
     add_listener ''station_control__boot_notification'' ''click'' A_getStationInfo,
     add_listener ''station_control__get_configuration'' ''click'' A_getConfiguration,
     add_listener ''station_control__get_variable'' ''click'' A_getVariable,
     add_listener ''station_control__set_variable'' ''click'' A_setVariable,
     add_listener ''station_control__reset'' ''click'' A_rebootStation,
     add_listener ''station_control__clear_cache'' ''click'' A_clearCache]"

definition bindConnectorControls :: "unit cs" where
  "bindConnectorControls = js_block [
     add_listener ''connector_control__request_start_transaction'' ''click'' A_requestStartTransaction,
     add_listener ''connector_control__request_stop_transaction'' ''click'' A_requestStopTransaction,
     add_listener ''connector_control__unlock_connector'' ''click'' A_unlockConnector]"

definition bindTriggerControls :: "unit cs" where
  "bindTriggerControls = js_block [
     add_listener ''station_control__trigger_meter_values'' ''click'' A_triggerMeterValues,
     add_listener ''station_control__trigger_status_notification'' ''click'' A_triggerStatusNotification,
     add_listener ''station_control__trigger_heartbeat'' ''click'' A_triggerHeartbeat]"

definition bindWebsocketControls :: "unit cs" where
  "bindWebsocketControls = js_block [
     add_listener ''websocket-connect'' ''click'' A_connectWebsocket,
     add_listener ''websocket-disconnect'' ''click'' A_disconnectWebsocket,
     add_listener ''apply-websocket-settings'' ''click'' A_applyWebsocketSettings]"

definition bindEvents :: "unit cs" where
  "bindEvents = js_block [
     add_listener ''station-select'' ''change'' A_stationSelect,
     add_listener ''connector-select'' ''change'' A_connectorSelect,
     bindStationControls,
     bindConnectorControls,
     bindTriggerControls,
     bindWebsocketControls]"

definition init :: "unit cs" where
  "init = js_get is_initialized (\<lambda>b. if b then js_skip else js_block [
     bindEvents,
     setupRpcHandlers,
     loadInitialData,
     js_upd (\<lambda>s. s\<lparr>is_initialized := True\<rparr>)])"

definition cs_constructor :: "unit cs" where
  "cs_constructor = js_block [
     js_upd (\<lambda>s. s\<lparr>current_station := Null, current_connector := Null, stations := [],
       is_initialized := False, scan_rate := num_of_int 1000\<rparr>),
     init]"

subsection \<open>What a handler, an action and a continuation run\<close>

fun cs_invoke :: "cs_handler \<Rightarrow> jsval \<Rightarrow> unit cs" where
  "cs_invoke H_connected _ = js_block [updateConnectionStatus True, loadStationsList]"
| "cs_invoke H_disconnected _ = updateConnectionStatus False"
| "cs_invoke H_StatusNotification data = handleStatusNotification data"
| "cs_invoke H_MeterValues data = handleMeterValues data"
| "cs_invoke H_Heartbeat data = handleHeartbeat data"

fun cs_act :: "cs_action \<Rightarrow> unit cs" where
  "cs_act A_stationSelect = with_el ''station-select'' (\<lambda>e.
     if selected_value e \<noteq> [] then handleStationChange (selected_value e) else js_skip)"
| "cs_act A_connectorSelect = with_el ''connector-select'' (\<lambda>e.
     if selected_value e \<noteq> [] then handleConnectorChange (Num (parse_int (selected_value e))) else js_skip)"
| "cs_act A_disconnectStation = disconnectStation"
| "cs_act A_changeAvailability = changeAvailability"
| "cs_act A_availability_on = js_block [
     set_checked ''station_control__change_availability_on'' True,
     set_checked ''station_control__change_availability_off'' False]"
| "cs_act A_availability_off = js_block [
     set_checked ''station_control__change_availability_off'' True,
     set_checked ''station_control__change_availability_on'' False]"
| "cs_act A_getStationInfo = getStationInfo"
| "cs_act A_getConfiguration = getConfiguration"
| "cs_act A_getVariable = getVariable"
| "cs_act A_setVariable = setVariable"
| "cs_act A_rebootStation = rebootStation"
| "cs_act A_clearCache = clearCache"
| "cs_act A_requestStartTransaction = requestStartTransaction"
| "cs_act A_requestStopTransaction = requestStopTransaction"
| "cs_act A_unlockConnector = unlockConnector"
| "cs_act A_triggerMeterValues = triggerMeterValues"
| "cs_act A_triggerStatusNotification = triggerStatusNotification"
| "cs_act A_triggerHeartbeat = triggerHeartbeat"
| "cs_act A_connectWebsocket = connectWebsocket"
| "cs_act A_disconnectWebsocket = disconnectWebsocket"
| "cs_act A_applyWebsocketSettings = applyWebsocketSettings"

fun cs_resume :: "cs_cont \<Rightarrow> js_error + jsval \<Rightarrow> unit cs" where
  "cs_resume (K_loadStationsList b) r = (if b then loadInitialData_resume r else loadStationsList_resume r)"
| "cs_resume (K_handleStationChange i) r = handleStationChange_resume i r"
| "cs_resume (K_handleConnectorChange c) r = handleConnectorChange_resume c r"
| "cs_resume K_disconnectStation r = disconnectStation_resume r"
| "cs_resume K_changeAvailability r = changeAvailability_resume r"
| "cs_resume K_getStationInfo r = getStationInfo_resume r"
| "cs_resume K_getConfiguration r = getConfiguration_resume r"
| "cs_resume K_getVariable r = getVariable_resume r"
| "cs_resume K_setVariable r = setVariable_resume r"
| "cs_resume K_rebootStation r = rebootStation_resume r"
| "cs_resume K_clearCache r = clearCache_resume r"
| "cs_resume K_requestStartTransaction r = requestStartTransaction_resume r"
| "cs_resume K_requestStopTransaction r = requestStopTransaction_resume r"
| "cs_resume K_unlockConnector r = unlockConnector_resume r"
| "cs_resume (K_triggerMeterValues v) r = triggerMeterValues_resume v r"
| "cs_resume K_triggerStatusNotification r = triggerStatusNotification_resume r"
| "cs_resume K_triggerHeartbeat r = triggerHeartbeat_resume r"

end
