(* ===== verification/EventLoop.thy ===== *)
theory EventLoop
  imports RpcClient
begin

text \<open>
  What can happen to a page that owns an RPC client, one event per turn of the event loop:
  the network side of its sockets, the user, the clock and the timers. The pages say what
  each of these runs.
\<close>

datatype page_event =
    Opened nat
  | Message nat string
  | Closed nat
  | Failed nat jsval
  | Click string
  | Choose string int
  | Typed string string
  | Tick string
  | Fired nat

text \<open>
  What the browser may deliver: a socket opens once, messages arrive on open sockets, a
  socket closes once, a timer fires while it is set. A failed connection fires \<open>error\<close> and then
  \<open>close\<close> on the closed socket.
\<close>

definition page_enabled :: "('k, 'h, 't, 'a, 'z) rpc_page_scheme \<Rightarrow> page_event \<Rightarrow> bool" where
  "page_enabled s ev = (case ev of
       Opened i \<Rightarrow> socket_state s i = Some CONNECTING
     | Message i t \<Rightarrow> socket_state s i = Some OPEN
     | Closed i \<Rightarrow> socket_state s i \<noteq> None \<and> socket_state s i \<noteq> Some CLOSED
     | Failed i e \<Rightarrow> socket_state s i \<noteq> None \<and> socket_state s i \<noteq> Some CLOSED
     | Fired n \<Rightarrow> n < length (timers s)
     | _ \<Rightarrow> True)"

definition set_ready :: "nat \<Rightarrow> ready_state \<Rightarrow> ('k, 'h, 't, 'a, 'z, unit) rpc_js" where
  "set_ready i r = upd_socket i (\<lambda>k. k\<lparr>readyState := r\<rparr>)"

text \<open>The oldest continuation of the microtask queue; \<open>resume\<close> is the page's.\<close>

definition run_next :: "('k \<Rightarrow> js_error + jsval \<Rightarrow> ('k, 'h, 't, 'a, 'z, unit) rpc_js) \<Rightarrow>
    ('k, 'h, 't, 'a, 'z, unit) rpc_js" where
  "run_next resume = js_get jobs (\<lambda>js. case js of [] \<Rightarrow> js_skip
     | (k, r) # rest \<Rightarrow> js_block [js_upd (\<lambda>s. s\<lparr>jobs := rest\<rparr>), js_async (resume k r)])"

lemma run_next_Cons:
  "jobs s = (k, r) # js \<Longrightarrow> run_next resume s = js_async (resume k r) (s\<lparr>jobs := js\<rparr>)"
  by (simp add: run_next_def js_run split: prod.split sum.split)

lemma set_ready_run:
  "socket_state s i \<noteq> None \<Longrightarrow>
   set_ready i r s = (Inr (), s\<lparr>sockets := (sockets s)[i := (sockets s ! i)\<lparr>readyState := r\<rparr>]\<rparr>)"
  by (auto simp: set_ready_def upd_socket_def js_run socket_state_def split: if_splits)

lemma report_state: "snd (js_report m s) =
   (case m s of (Inl e, t) \<Rightarrow> t\<lparr>unhandled := unhandled t @ [e]\<rparr> | (Inr x, t) \<Rightarrow> t)"
  by (simp add: js_run split: prod.split sum.split)

subsection \<open>Delivering an event\<close>

text \<open>
  The timer in position \<open>n\<close> expires: a time-out is gone then, an interval (\<open>keep\<close>) stays.
\<close>

definition fire_timer :: "('t \<Rightarrow> bool) \<Rightarrow> ('t \<Rightarrow> ('k, 'h, 't, 'a, 'z, unit) rpc_js) \<Rightarrow> nat \<Rightarrow>
    ('k, 'h, 't, 'a, 'z, unit) rpc_js" where
  "fire_timer keep run n = js_get timers (\<lambda>ts. if n < length ts then js_block [
     if keep (ts ! n) then js_skip
     else js_upd (\<lambda>s. s\<lparr>timers := take n (timers s) @ drop (Suc n) (timers s)\<rparr>),
     js_report (run (ts ! n))] else js_skip)"

text \<open>
  One event on a page whose handlers are run by \<open>invoke\<close>, its listeners by \<open>act\<close>, its timers by
  \<open>run\<close>, and whose sockets run \<open>on_closed\<close> when they close.
\<close>

definition page_deliver :: "('h \<Rightarrow> jsval \<Rightarrow> ('k, 'h, 't, 'a, 'z, unit) rpc_js) \<Rightarrow> ('k, 'h, 't, 'a, 'z, unit) rpc_js \<Rightarrow>
    ('a \<Rightarrow> ('k, 'h, 't, 'a, 'z, unit) rpc_js) \<Rightarrow> ('t \<Rightarrow> bool) \<Rightarrow> ('t \<Rightarrow> ('k, 'h, 't, 'a, 'z, unit) rpc_js) \<Rightarrow>
    page_event \<Rightarrow> ('k, 'h, 't, 'a, 'z, unit) rpc_js" where
  "page_deliver invoke on_closed act keep run ev = (case ev of
       Opened i \<Rightarrow> js_block [set_ready i OPEN, js_report (onopen invoke)]
     | Message i t \<Rightarrow> js_report (onmessage invoke t)
     | Closed i \<Rightarrow> js_block [set_ready i CLOSED, js_report on_closed]
     | Failed i e \<Rightarrow> js_block [set_ready i CLOSED, js_report (onerror invoke e), js_report on_closed]
     | Click i \<Rightarrow> user_click act i
     | Choose i n \<Rightarrow> user_select act i n
     | Typed i t \<Rightarrow> user_type i t
     | Tick t \<Rightarrow> js_upd (\<lambda>s. s\<lparr>clock := t\<rparr>)
     | Fired n \<Rightarrow> fire_timer keep run n)"

subsection \<open>Runs\<close>

text \<open>
  The contract between a page and its runs: what its handlers, listeners, timers and
  continuations respect, and the event loop's own bookkeeping, holds along every run.
\<close>

locale page_relation = dom_relation R + socket_relation R + rpc: rpc_relation R invoke
  for R :: "('k, 'h, 't, 'a, 'z) rpc_page_scheme \<Rightarrow> ('k, 'h, 't, 'a, 'z) rpc_page_scheme \<Rightarrow> bool"
    and invoke :: "'h \<Rightarrow> jsval \<Rightarrow> ('k, 'h, 't, 'a, 'z, unit) rpc_js" +
  fixes on_closed :: "('k, 'h, 't, 'a, 'z, unit) rpc_js"
    and act :: "'a \<Rightarrow> ('k, 'h, 't, 'a, 'z, unit) rpc_js"
    and keep :: "'t \<Rightarrow> bool"
    and run :: "'t \<Rightarrow> ('k, 'h, 't, 'a, 'z, unit) rpc_js"
  assumes R_closed: "relates R on_closed"
    and R_act: "relates R (act a)"
    and R_run: "relates R (run t)"
    and R_expired: "n < length (timers s) \<Longrightarrow> \<not> keep (timers s ! n) \<Longrightarrow>
      R s (s\<lparr>timers := take n (timers s) @ drop (Suc n) (timers s)\<rparr>)"
    and R_tick: "R s (s\<lparr>clock := c\<rparr>)"
    and R_queue: "R s (s\<lparr>jobs := js\<rparr>)"
begin

lemma R_then:
  assumes "R s u" "relates R m"
  shows "R s (snd (m u))"
  using assms(1) relatesD [OF assms(2)] by (rule R_trans)

lemma rel_set_ready: "(\<And>r'. socket_state s i = Some r' \<Longrightarrow> r' \<le> r) \<Longrightarrow> R s (snd (set_ready i r s))"
  using rel_upd_socket [of i s "\<lambda>k. k\<lparr>readyState := r\<rparr>"]
  by (auto simp: set_ready_def upd_socket_def socket_state_def js_run R_refl socket_next_ready)

lemma rel_after_ready:
  assumes "\<And>r'. socket_state s i = Some r' \<Longrightarrow> r' \<le> r" "relates R (js_block cs)"
  shows "R s (snd (js_block (set_ready i r # cs) s))"
proof -
  have "js_block (set_ready i r # cs) s = js_block cs (snd (set_ready i r s))"
    by (simp add: js_block_Cons_run set_ready_def upd_socket_def js_upd_run)
  then show ?thesis using R_then [OF rel_set_ready assms(2)] assms(1) by simp
qed

lemma rel_fire_timer: "relates R (fire_timer keep run n)"
proof (rule relatesI)
  fix s :: "('k, 'h, 't, 'a, 'z) rpc_page_scheme"
  let ?t = "timers s ! n"
  have m: "relates R (js_report (run ?t))" by (rule rel_report [OF R_run])
  show "R s (snd (fire_timer keep run n s))"
  proof (cases "n < length (timers s)")
    case True
    let ?u = "if keep ?t then s else s\<lparr>timers := take n (timers s) @ drop (Suc n) (timers s)\<rparr>"
    have "fire_timer keep run n s = js_bind (js_report (run ?t)) (\<lambda>_. js_skip) ?u"
      using True by (simp add: fire_timer_def js_get_run js_block.simps js_bind_run js_skip_run js_upd_run)
    moreover have "relates R (js_bind (js_report (run ?t)) (\<lambda>_. js_skip))"
      by (intro rel_bind m rel_skip)
    moreover have "R s ?u" using True R_expired R_refl by simp
    ultimately show ?thesis by (simp add: R_then)
  next
    case False
    then show ?thesis by (simp add: fire_timer_def js_run R_refl)
  qed
qed

lemma rel_user:
  "relates R (page_deliver invoke on_closed act keep run (Click i))"
  "relates R (page_deliver invoke on_closed act keep run (Choose i n))"
  "relates R (page_deliver invoke on_closed act keep run (Typed i t))"
  by (auto simp: page_deliver_def user_click_def user_select_def user_type_def dispatch_def
      intro!: dom_rel_intros R_act split: option.split)

lemma rel_page_deliver:
  assumes "page_enabled s ev"
  shows "R s (snd (page_deliver invoke on_closed act keep run ev s))"
proof (cases ev)
  case (Opened i)
  have "relates R (js_block [js_report (onopen invoke)])" by (intro rel_block rel_report) (auto intro: rel_report rpc.rel_onopen)
  then show ?thesis
    using assms rel_after_ready [of s i OPEN] by (simp add: Opened page_deliver_def page_enabled_def)
next
  case (Closed i)
  have "relates R (js_block [js_report on_closed])" by (rule rel_block) (auto intro: rel_report R_closed)
  then show ?thesis using rel_after_ready [of s i CLOSED] by (simp add: Closed page_deliver_def)
next
  case (Failed i e)
  have "relates R (js_block [js_report (onerror invoke e), js_report on_closed])"
    by (rule rel_block) (auto intro: rel_report R_closed rpc.rel_onerror)
  then show ?thesis using rel_after_ready [of s i CLOSED] by (simp add: Failed page_deliver_def)
next
  case (Message i t)
  then show ?thesis by (auto simp: page_deliver_def intro: relatesD rel_report rpc.rel_onmessage)
next
  case (Tick t)
  then show ?thesis by (auto simp: page_deliver_def js_run R_tick)
next
  case (Fired n)
  then show ?thesis by (auto simp: page_deliver_def intro: relatesD rel_fire_timer)
qed (auto intro: relatesD rel_user)

lemma rel_run_next:
  "(\<And>k r. relates R (resume k r)) \<Longrightarrow> relates R (run_next resume)"
  unfolding run_next_def by (auto intro!: dom_rel_intros rel_upd R_queue split: list.split)

end

text \<open>
  A page without sockets and timers can only meet its user and the clock: what its listeners
  respect holds across the turn.
\<close>

locale quiet_relation = dom_relation R
  for R :: "('k, 'h, 't, 'a, 'z) rpc_page_scheme \<Rightarrow> ('k, 'h, 't, 'a, 'z) rpc_page_scheme \<Rightarrow> bool" +
  fixes act :: "'a \<Rightarrow> ('k, 'h, 't, 'a, 'z, unit) rpc_js"
  assumes R_act: "relates R (act a)"
    and R_tick: "R s (s\<lparr>clock := c\<rparr>)"
begin

lemma quiet_turn:
  assumes "sockets s = []" "timers s = []" "page_enabled s ev"
  shows "R s (snd (page_deliver invoke on_closed act keep run ev s))"
proof (cases ev)
  case (Click i)
  then have "relates R (page_deliver invoke on_closed act keep run ev)"
    by (auto simp: page_deliver_def user_click_def dispatch_def intro!: dom_rel_intros R_act split: option.split)
  then show ?thesis by (rule relatesD)
next
  case (Choose i n)
  then have "relates R (page_deliver invoke on_closed act keep run ev)"
    by (auto simp: page_deliver_def user_select_def dispatch_def intro!: dom_rel_intros R_act split: option.split)
  then show ?thesis by (rule relatesD)
next
  case (Typed i t)
  then have "relates R (page_deliver invoke on_closed act keep run ev)"
    by (auto simp: page_deliver_def user_type_def intro!: dom_rel_intros)
  then show ?thesis by (rule relatesD)
qed (use assms in \<open>simp_all add: page_enabled_def socket_state_def page_deliver_def js_run R_tick\<close>)

end

subsection \<open>What is on the wire\<close>

definition sockets_advance :: "('k, 'h, 't, 'a, 'z) rpc_page_scheme \<Rightarrow> ('k, 'h, 't, 'a, 'z) rpc_page_scheme \<Rightarrow> bool" where
  "sockets_advance s t \<longleftrightarrow> sockets_next (sockets s) (sockets t)"

lemma sockets_advance_same: "sockets t = sockets s \<Longrightarrow> sockets_advance s t"
  by (simp add: sockets_advance_def)

interpretation swi: socket_relation sockets_advance
  by unfold_locales (auto simp: sockets_advance_def intro: sockets_next_trans)

lemma advance_ws_send: "relates sockets_advance (ws_send t)"
  unfolding ws_send_def by (auto intro!: swi.rel_intros swi.rel_socket_send split: option.split)

lemma advance_call: "relates sockets_advance (call m p k)"
  unfolding call_def forget_def settle_def
  by (auto intro!: swi.rel_intros swi.rel_upd advance_ws_send sockets_advance_same)

lemma advance_forget: "relates sockets_advance (forget n)"
  unfolding forget_def by (rule swi.rel_upd) (simp add: sockets_advance_same)

end
