(* ===== verification/CentralPage.thy ===== *)
theory CentralPage
  imports CentralSystem EventLoop
begin

text \<open>
  The operator page at run time: what the browser, the server and the user can make happen,
  as a step relation over the handlers of \<open>CentralSystem\<close> and the client of \<open>RpcClient\<close>.
  A turn of the event loop delivers one event; the continuations of settled promises run
  before the next one.
\<close>

subsection \<open>Turns of the event loop\<close>

text \<open>The page sets no timers; its sockets run \<open>onclose\<close> of the client.\<close>

definition deliver :: "page_event \<Rightarrow> unit cs" where
  "deliver = page_deliver cs_invoke (onclose cs_invoke) cs_act (\<lambda>_. False) (\<lambda>_. js_skip)"

definition run_job :: "unit cs" where
  "run_job = run_next cs_resume"

inductive cs_step :: "cs_page \<Rightarrow> cs_page \<Rightarrow> bool" where
  job: "jobs s \<noteq> [] \<Longrightarrow> cs_step s (snd (run_job s))"
| event: "jobs s = [] \<Longrightarrow> page_enabled s ev \<Longrightarrow> cs_step s (snd (deliver ev s))"

inductive_cases cs_stepE: "cs_step s t"

inductive cs_steps :: "cs_page \<Rightarrow> cs_page \<Rightarrow> bool" where
  refl: "cs_steps s s"
| step: "cs_steps s t \<Longrightarrow> cs_step t u \<Longrightarrow> cs_steps s u"

text \<open>The window before the scripts run, over a host's document, clock and engine.\<close>

definition cs_window :: "(string \<rightharpoonup> element) \<Rightarrow> (string \<Rightarrow> bool) \<Rightarrow> (js_error \<Rightarrow> string) \<Rightarrow> string \<Rightarrow> cs_page" where
  "cs_window d ok msg t = \<lparr>dom = d, listeners = [], sockets = [], clock = t, alerts = [], unhandled = [],
     url_ok = ok, engine_message = msg, ws = None, connected = False, requestId = 0,
     pendingRequests = [], eventHandlers = [], reconnectInterval = 0, maxReconnectAttempts = 0,
     reconnectAttempts = 0, debug = False, url = [], jobs = [], timers = [],
     current_station = Undefined, current_connector = Undefined, stations = [],
     is_initialized = False, scan_rate = Undefined\<rparr>"

text \<open>\<open>new RPCClient()\<close> when the script loads, \<open>new CentralSystem(...)\<close> on \<open>DOMContentLoaded\<close>.\<close>

definition cs_start :: "(string \<rightharpoonup> element) \<Rightarrow> (string \<Rightarrow> bool) \<Rightarrow> (js_error \<Rightarrow> string) \<Rightarrow> string \<Rightarrow> cs_page" where
  "cs_start d ok msg t = snd (js_report cs_constructor (rpc_constructor (cs_window d ok msg t)))"

subsection \<open>Relations through the whole page\<close>

lemmas cs_logging = log_def logSuccess_def logError_def addLogEntry_def handleRpcError_def

text \<open>Relations that ignore the document pass through the parts of the class that only draw.\<close>

locale cs_view = dom_relation R
  for R :: "cs_page \<Rightarrow> cs_page \<Rightarrow> bool"
begin

lemma rel_log:
  "relates R (log m)" "relates R (logSuccess m)" "relates R (logError m)" "relates R (handleRpcError m e)"
  unfolding cs_logging by (intro dom_rel_intros)+

lemmas view_rel_intros = dom_rel_intros rel_log

lemma rel_dropdowns:
  "relates R (updateStationDropdown v)" "relates R (updateConnectorsDropdown v)"
  "relates R setFirstConnectorInDropdown"
  unfolding updateStationDropdown_def updateConnectorsDropdown_def setFirstConnectorInDropdown_def
  by (auto intro!: view_rel_intros)

lemma rel_status:
  "relates R (updateStationStatus v)" "relates R (updateConnectorStatus v)"
  "relates R (updateMeterValues v)" "relates R (updatePower v)" "relates R (updateConnectionStatus b)"
  unfolding updateStationStatus_def updateConnectorStatus_def updateMeterValues_def updatePower_def
    updateConnectionStatus_def
  by (auto intro!: view_rel_intros)

lemma rel_info: "relates R (updateStationInfo v)" "relates R (updateConnectorInfo v)"
  unfolding updateStationInfo_def updateConnectorInfo_def
  by (auto intro!: view_rel_intros rel_status)

lemma rel_notifications:
  "relates R (updateConnectionStatus b)" "relates R (handleStatusNotification d)"
  "relates R (handleMeterValues d)" "relates R (handleHeartbeat d)"
  by (auto simp: handleStatusNotification_def handleMeterValues_def handleHeartbeat_def
      intro!: view_rel_intros rel_status split: prod.split)

end

text \<open>
  What a relation has to tolerate to pass through every handler, action and continuation of
  the page. \<open>R_station\<close> and \<open>R_connector\<close> are left out: the two fields are followed separately.
\<close>

lemmas cs_commands = disconnectStation_def changeAvailability_def getStationInfo_def getConfiguration_def
  getVariable_def setVariable_def rebootStation_def clearCache_def requestStartTransaction_def
  requestStopTransaction_def unlockConnector_def triggerMeterValues_def triggerStatusNotification_def
  triggerHeartbeat_def

lemmas cs_resumes = disconnectStation_resume_def changeAvailability_resume_def getStationInfo_resume_def
  getConfiguration_resume_def getVariable_resume_def setVariable_resume_def rebootStation_resume_def
  clearCache_resume_def requestStartTransaction_resume_def requestStopTransaction_resume_def
  unlockConnector_resume_def triggerMeterValues_resume_def triggerStatusNotification_resume_def
  triggerHeartbeat_resume_def


locale cs_relation = cs_view R + socket_relation R
  for R :: "cs_page \<Rightarrow> cs_page \<Rightarrow> bool" +
  assumes R_call: "relates R (call m p k)"
    and R_forget: "relates R (forget n)"
    and R_jobs: "R s (s\<lparr>jobs := js\<rparr>)"
    and R_connected: "R s (s\<lparr>connected := c\<rparr>)"
    and R_attempts: "R s (s\<lparr>reconnectAttempts := a\<rparr>)"
    and R_ws: "R s (s\<lparr>ws := w\<rparr>)"
    and R_url: "R s (s\<lparr>url := u\<rparr>)"
    and R_scan_rate: "R s (s\<lparr>scan_rate := r\<rparr>)"
    and R_stations: "R s (s\<lparr>stations := m'\<rparr>)"
    and R_clock: "R s (s\<lparr>clock := t\<rparr>)"
    and R_timers: "R s (s\<lparr>timers := ts\<rparr>)"
begin

lemmas R_fields = R_jobs R_connected R_attempts R_ws R_url R_scan_rate R_stations R_clock
  R_dom R_alerts R_unhandled

lemma rel_when_station: "relates R m \<Longrightarrow> relates R (when_station m)"
  unfolding when_station_def validateCurrentStation_def
  by (auto intro!: dom_rel_intros rel_log)

lemmas page_rel_intros = dom_rel_intros rel_log rel_when_station R_call

lemma rel_loadStationsList: "relates R loadStationsList" "relates R (loadStationsList_body b)"
  unfolding loadStationsList_def loadStationsList_body_def
  by (auto intro!: page_rel_intros)

lemma rel_cacheStationsData: "relates R (cacheStationsData v)"
  unfolding cacheStationsData_def
  by (auto intro!: page_rel_intros rel_upd R_fields)

lemma rel_invoke: "relates R (cs_invoke h d)"
  by (cases h) (auto intro!: page_rel_intros rel_loadStationsList rel_notifications)

lemma rel_commands:
  "relates R disconnectStation" "relates R changeAvailability" "relates R getStationInfo"
  "relates R getConfiguration" "relates R getVariable" "relates R setVariable" "relates R rebootStation"
  "relates R clearCache" "relates R requestStartTransaction" "relates R requestStopTransaction"
  "relates R unlockConnector" "relates R triggerMeterValues" "relates R triggerStatusNotification"
  "relates R triggerHeartbeat"
  unfolding cs_commands by (auto simp: Let_def intro!: page_rel_intros split: prod.split)

lemma rel_websocket: "relates R connectWebsocket" "relates R disconnectWebsocket" "relates R applyWebsocketSettings"
  unfolding connectWebsocket_def connect_def disconnectWebsocket_def disconnect_def applyWebsocketSettings_def setUrl_def
  by (auto intro!: page_rel_intros rel_new_WebSocket rel_socket_close rel_upd R_fields split: option.split)

lemma rel_act: "relates R (cs_act a)"
  by (cases a) (auto simp: handleStationChange_def handleConnectorChange_def
      intro!: page_rel_intros rel_commands rel_websocket)

lemma rel_resume_plain:
  "relates R (loadStationsList_resume r)" "relates R (loadInitialData_resume r)"
  "relates R (disconnectStation_resume r)" "relates R (changeAvailability_resume r)"
  "relates R (getStationInfo_resume r)" "relates R (getConfiguration_resume r)"
  "relates R (getVariable_resume r)" "relates R (setVariable_resume r)" "relates R (rebootStation_resume r)"
  "relates R (clearCache_resume r)" "relates R (requestStartTransaction_resume r)"
  "relates R (requestStopTransaction_resume r)" "relates R (unlockConnector_resume r)"
  "relates R (triggerMeterValues_resume v r)" "relates R (triggerStatusNotification_resume r)"
  "relates R (triggerHeartbeat_resume r)"
  unfolding cs_resumes loadInitialData_resume_def loadStationsList_resume_def
  by (auto intro!: page_rel_intros rel_dropdowns rel_cacheStationsData)

end

sublocale cs_relation \<subseteq> rpc: rpc_relation R cs_invoke
proof
  show "relates R (settle k r)" for k r by (simp add: settle_def rel_upd R_jobs)
qed (auto intro: rel_invoke R_forget R_connected R_attempts)

sublocale cs_relation \<subseteq> turn: page_relation R cs_invoke "onclose cs_invoke" cs_act "\<lambda>_. False" "\<lambda>_. js_skip"
  by unfold_locales (auto intro: rpc.rel_onclose rel_act rel_skip R_timers R_clock R_jobs)

context cs_relation
begin

lemma rel_deliver: "page_enabled s ev \<Longrightarrow> R s (snd (deliver ev s))"
  unfolding deliver_def by (rule turn.rel_page_deliver)

text \<open>Continuations other than the two that select a station or a connector.\<close>

lemma rel_resume:
  assumes "\<And>i. k \<noteq> K_handleStationChange i" "\<And>c. k \<noteq> K_handleConnectorChange c"
  shows "relates R (cs_resume k r)"
  using assms by (cases k) (auto intro: rel_resume_plain)

lemma rel_resume_station:
  assumes "\<And>v s. R s (s\<lparr>current_station := v\<rparr>)"
  shows "relates R (handleStationChange_resume i r)"
  unfolding handleStationChange_resume_def
  by (auto simp: Let_def intro!: page_rel_intros rel_upd assms rel_info rel_dropdowns)

lemma rel_resume_connector:
  assumes "\<And>v s. R s (s\<lparr>current_connector := v\<rparr>)"
  shows "relates R (handleConnectorChange_resume c r)"
  unfolding handleConnectorChange_resume_def
  by (auto intro!: page_rel_intros rel_upd assms rel_info)

lemma rel_run_job:
  assumes "\<And>k r. relates R (cs_resume k r)"
  shows "relates R run_job"
  unfolding run_job_def by (rule turn.rel_run_next [OF assms])

end

text \<open>The same with the selection fields tolerated as well: such a relation follows every run.\<close>

locale cs_run_relation = cs_relation R
  for R :: "cs_page \<Rightarrow> cs_page \<Rightarrow> bool" +
  assumes R_station: "R s (s\<lparr>current_station := v\<rparr>)"
    and R_connector: "R s (s\<lparr>current_connector := v\<rparr>)"
begin

lemma rel_resume_any: "relates R (cs_resume k r)"
  by (cases k) (auto intro: rel_resume rel_resume_plain rel_resume_station rel_resume_connector R_station R_connector)

lemma rel_step: "cs_step s t \<Longrightarrow> R s t"
  by (erule cs_stepE) (auto intro: relatesD rel_run_job rel_resume_any rel_deliver)

lemma rel_steps: "cs_steps s t \<Longrightarrow> R s t"
  by (induction rule: cs_steps.induct) (auto intro: R_refl R_trans rel_step)

end

subsection \<open>The relations of the page\<close>

interpretation csr: cs_run_relation "rpc_evolves :: cs_page \<Rightarrow> cs_page \<Rightarrow> bool"
  by unfold_locales (auto simp: rpc_evolves_same intro: evolves_call evolves_forget)

text \<open>Nothing after the start registers or removes a handler or a listener.\<close>

definition same_wiring :: "cs_page \<Rightarrow> cs_page \<Rightarrow> bool" where
  "same_wiring s t \<longleftrightarrow> eventHandlers t = eventHandlers s \<and> listeners t = listeners s"

lemma relates_same:
  fixes f :: "cs_page \<Rightarrow> 'v"
  assumes "\<And>s. f (snd (m s)) = f s"
  shows "relates (\<lambda>s t. f t = f s) m"
  using assms by (simp add: relates_def)

lemma call_keeps:
  fixes s :: cs_page
  shows "eventHandlers (snd (call m p k s)) = eventHandlers s" "listeners (snd (call m p k s)) = listeners s"
    "current_station (snd (call m p k s)) = current_station s"
    "current_connector (snd (call m p k s)) = current_connector s"
  by (auto simp: call_def ws_send_def js_run split: option.split ready_state.split)

interpretation csw: cs_run_relation same_wiring
  by unfold_locales (auto simp: same_wiring_def relates_def call_keeps js_run)

interpretation csh: handler_contract cs_invoke
  by unfold_locales (use csw.rel_invoke in \<open>auto simp: relates_def same_wiring_def\<close>)

text \<open>Selecting a station and a connector is left to the two continuations that do it.\<close>

definition same_selection :: "cs_page \<Rightarrow> cs_page \<Rightarrow> bool" where
  "same_selection s t \<longleftrightarrow> current_station t = current_station s \<and> current_connector t = current_connector s"

interpretation css: cs_relation same_selection
  by unfold_locales (auto simp: same_selection_def relates_def call_keeps js_run)

text \<open>A part of the class that only draws changes the document and nothing else.\<close>

definition same_but_view :: "cs_page \<Rightarrow> cs_page \<Rightarrow> bool" where
  "same_but_view s t \<longleftrightarrow>
     t = s\<lparr>dom := dom t, alerts := alerts t, unhandled := unhandled t\<rparr>"

interpretation csv: cs_view same_but_view
proof
  show "same_but_view s u" if "same_but_view s t" "same_but_view t u" for s t u
    using that by (cases s, cases t, cases u) (auto simp: same_but_view_def)
qed (simp_all add: same_but_view_def)

interpretation cso: cs_run_relation "sockets_advance :: cs_page \<Rightarrow> cs_page \<Rightarrow> bool"
  by unfold_locales (auto intro: advance_call advance_forget sockets_advance_same)

end
