(* ===== verification/ClientRpc.thy ===== *)
theory ClientRpc
  imports EventLoop
begin

text \<open>
  \<open>web/client/js/rpc-client.js\<close>: the RPC client of the monitoring page. \<open>on\<close>, \<open>off\<close>, \<open>emit\<close>,
  \<open>handleMessage\<close> and the \<open>onopen\<close>, \<open>onmessage\<close>, \<open>onerror\<close> callbacks are word for word those of
  \<open>web/js/rpc-client.js\<close> and its definitions in \<open>RpcClient\<close> are used for both. What differs is
  here: the address is an argument of \<open>connect\<close>, the socket has no sub-protocol, \<open>call\<close> does not
  guard \<open>send\<close>, and a closed socket is reconnected by a timer.
\<close>

text \<open>A line of the template literals of these pages: line feed, indentation, text.\<close>

definition line :: "nat \<Rightarrow> string \<Rightarrow> string" where
  "line n t = CHR 0x0A # replicate n CHR '' '' @ t"

definition client_constructor ::
    "('k, 'h, 't, 'a, 'z) rpc_page_scheme \<Rightarrow> ('k, 'h, 't, 'a, 'z) rpc_page_scheme" where
  "client_constructor s = s\<lparr>ws := None, connected := False, requestId := 0, pendingRequests := [],
     eventHandlers := [], reconnectInterval := 3000, maxReconnectAttempts := 5,
     reconnectAttempts := 0, debug := True\<rparr>"

definition default_url :: string where
  "default_url = ''ws://localhost:8080''"

definition client_connect :: "string \<Rightarrow> ('k, 'h, 't, 'a, 'z, unit) rpc_js" where
  "client_connect u = js_try
     (js_bind (new_WebSocket u None) (\<lambda>i. js_upd (\<lambda>s. s\<lparr>ws := Some i\<rparr>)))
     (\<lambda>error. js_skip)"

text \<open>
  An exception inside the executor of a promise rejects the promise; the entry of the table
  is not removed.
\<close>

definition client_call :: "string \<Rightarrow> jsval \<Rightarrow> 'k \<Rightarrow> ('k, 'h, 't, 'a, 'z, unit) rpc_js" where
  "client_call method params k = js_get connected (\<lambda>c.
     if \<not> c then settle k (Inl (Error ''Not connected to server''))
     else js_block [
       js_upd (\<lambda>s. s\<lparr>requestId := requestId s + 1\<rparr>),
       js_get requestId (\<lambda>id. js_block [
         js_upd (\<lambda>s. s\<lparr>pendingRequests := map_set (pendingRequests s) id k\<rparr>),
         js_try (ws_send (json_text (rpc_request id method params))) (\<lambda>error. settle k (Inl error))])])"

text \<open>\<open>reconnect\<close> is the timer whose expiry calls \<open>connect()\<close>.\<close>

definition client_handleReconnect :: "('h \<Rightarrow> jsval \<Rightarrow> ('k, 'h, 't, 'a, 'z, unit) rpc_js) \<Rightarrow> 't \<Rightarrow>
    ('k, 'h, 't, 'a, 'z, unit) rpc_js" where
  "client_handleReconnect invoke reconnect = js_get (\<lambda>s. reconnectAttempts s < maxReconnectAttempts s) (\<lambda>b.
     if b then js_block [
       js_upd (\<lambda>s. s\<lparr>reconnectAttempts := reconnectAttempts s + 1\<rparr>),
       js_upd (\<lambda>s. s\<lparr>timers := timers s @ [reconnect]\<rparr>)]
     else emit invoke ''reconnect_failed'' Undefined)"

definition client_onclose :: "('h \<Rightarrow> jsval \<Rightarrow> ('k, 'h, 't, 'a, 'z, unit) rpc_js) \<Rightarrow> 't \<Rightarrow>
    ('k, 'h, 't, 'a, 'z, unit) rpc_js" where
  "client_onclose invoke reconnect = js_block [
     js_upd (\<lambda>s. s\<lparr>connected := False\<rparr>),
     emit invoke ''disconnected'' Undefined,
     client_handleReconnect invoke reconnect]"

definition client_disconnect :: "('k, 'h, 't, 'a, 'z, unit) rpc_js" where
  "client_disconnect = js_block [
     js_upd (\<lambda>s. s\<lparr>connected := False\<rparr>),
     js_upd (\<lambda>s. s\<lparr>reconnectAttempts := maxReconnectAttempts s\<rparr>),
     js_get ws (\<lambda>w. case w of Some i \<Rightarrow> socket_close i | None \<Rightarrow> js_skip)]"

subsection \<open>Evaluation\<close>

lemma client_call_offline:
  "\<not> connected s \<Longrightarrow>
   client_call m p k s = (Inr (), s\<lparr>jobs := jobs s @ [(k, Inl (Error ''Not connected to server''))]\<rparr>)"
  by (simp add: client_call_def js_run)

lemma client_call_sends:
  assumes "connected s" "ws s = Some i" "socket_state s i = Some OPEN"
  shows "client_call m p k s = call m p k s"
  using assms by (simp add: call_sends client_call_def ws_send_def js_run socket_state_def split: if_splits)

lemma no_throw_client_call [simp]: "no_throw (client_call m p k)"
  unfolding client_call_def by (auto intro!: no_throw_intros)

text \<open>The \<open>try\<close> and the \<open>async\<close> around a call have nothing to catch.\<close>

lemma client_call_caught:
  "js_try (client_call m p k) h = client_call m p k" "js_report (client_call m p k) = client_call m p k"
proof -
  have "js_try (client_call m p k) h s = client_call m p k s" for s
    using no_throw_client_call [of m p k] by (cases "client_call m p k s") (auto simp: js_try_run no_throw_def split: sum.split)
  then show "js_try (client_call m p k) h = client_call m p k" by blast
  show "js_report (client_call m p k) = client_call m p k"
    by (rule ext) (rule js_report_no_throw, simp)
qed

lemma client_connect_run:
  "client_connect u s = (Inr (), if url_ok s u then s\<lparr>sockets := sockets s @ [\<lparr>sk_url = u, sk_protocol = None,
     readyState = CONNECTING, sent = []\<rparr>], ws := Some (length (sockets s))\<rparr> else s)"
  by (simp add: client_connect_def new_WebSocket_def js_run)

lemma evolves_client_call:
  fixes k :: 'k
  shows "relates rpc_evolves (client_call m p k :: ('k, 'h, 't, 'a, 'z, unit) rpc_js)"
proof (rule relatesI)
  fix s :: "('k, 'h, 't, 'a, 'z) rpc_page_scheme"
  let ?n = "requestId s + 1"
  have put: "rpc_evolves s (s\<lparr>requestId := ?n, pendingRequests := map_set (pendingRequests s) ?n k\<rparr>)"
    and put_sent: "rpc_evolves s (s\<lparr>requestId := ?n, pendingRequests := map_set (pendingRequests s) ?n k, sockets := x\<rparr>)"
    and put_rej: "rpc_evolves s (s\<lparr>requestId := ?n, pendingRequests := map_set (pendingRequests s) ?n k, jobs := y\<rparr>)"
    for x y
    by (auto simp: rpc_evolves_def rpc_inv_def jsm.distinct_put jsm.set_keys_put jsm.get_put)
  have rej: "rpc_evolves s (s\<lparr>jobs := y\<rparr>)" for y by (simp add: rpc_evolves_same)
  show "rpc_evolves s (snd (client_call m p k s))"
    using put put_sent put_rej rej
    by (auto simp: client_call_def ws_send_def js_run socket_state_def split: option.split ready_state.split)
qed

subsection \<open>Relations through the client\<close>

text \<open>What a relation has to tolerate, beyond the common client, to pass through this one.\<close>

locale client_relation = rpc_relation R invoke + socket_relation R
  for R :: "('k, 'h, 't, 'a, 'z) rpc_page_scheme \<Rightarrow> ('k, 'h, 't, 'a, 'z) rpc_page_scheme \<Rightarrow> bool"
    and invoke :: "'h \<Rightarrow> jsval \<Rightarrow> ('k, 'h, 't, 'a, 'z, unit) rpc_js" +
  fixes reconnect :: 't
  assumes R_retry: "reconnectAttempts s < maxReconnectAttempts s \<Longrightarrow>
      R s (s\<lparr>reconnectAttempts := reconnectAttempts s + 1\<rparr>)"
    and R_set_timer: "R s (s\<lparr>timers := timers s @ [reconnect]\<rparr>)"
    and R_ws: "R s (s\<lparr>ws := w\<rparr>)"
begin

lemma rel_client_connect: "relates R (client_connect u)"
  unfolding client_connect_def by (intro rel_intros rel_upd R_ws rel_new_WebSocket)

lemma rel_client_onclose: "relates R (client_onclose invoke reconnect)"
proof -
  have "relates R (client_handleReconnect invoke reconnect)"
  proof (rule relatesI)
    fix s :: "('k, 'h, 't, 'a, 'z) rpc_page_scheme"
    show "R s (snd (client_handleReconnect invoke reconnect s))"
    proof (cases "reconnectAttempts s < maxReconnectAttempts s")
      case True
      let ?t = "s\<lparr>reconnectAttempts := reconnectAttempts s + 1\<rparr>"
      have "R s ?t" using True by (rule R_retry)
      moreover have "R ?t (?t\<lparr>timers := timers ?t @ [reconnect]\<rparr>)" by (rule R_set_timer)
      ultimately have "R s (?t\<lparr>timers := timers ?t @ [reconnect]\<rparr>)" by (rule R_trans)
      then show ?thesis using True by (simp add: client_handleReconnect_def js_run)
    next
      case False
      then show ?thesis
        using relatesD [OF rel_emit] by (simp add: client_handleReconnect_def js_run)
    qed
  qed
  then show ?thesis
    unfolding client_onclose_def by (auto intro!: rel_intros rel_upd rel_emit R_connected)
qed

end

lemma advance_client_call: "relates sockets_advance (client_call m p k)"
  unfolding client_call_def settle_def
  by (auto intro!: swi.rel_intros swi.rel_upd advance_ws_send sockets_advance_same)

end
