(* ===== verification/Monitoring.thy ===== *)
theory Monitoring
  imports ClientRpc
begin

text \<open>
  \<open>web/client/js/monitoring.js\<close>: the monitoring page. Its state extends the client's with the
  fields of \<open>MonitoringSystem\<close>. As on the operator page, an \<open>async\<close> method is split at its
  \<open>await\<close>. The class declares \<open>updateMetrics\<close> twice; the second declaration is the method, and
  the one modelled. What only reaches the console is left out.
\<close>

subsection \<open>State, handlers, timers, actions, continuations\<close>

datatype mon_handler = M_connected | M_disconnected | M_error | M_valueChanged | M_chargingStarted
  | M_chargingStopped | M_metricsUpdate

datatype mon_timer = T_reconnect | T_debugMetrics | T_updateMetrics

datatype mon_cont = K_startMonitoring | K_updateMetrics | K_debugMetrics | K_sendCommand string
  | K_testRpcConnection | K_testMetricsDirectly

datatype mon_action = B_startCharging | B_stopCharging | B_resetSystem | B_setMaxPower | B_debugTest

record mon_page = "(mon_cont, mon_handler, mon_timer, mon_action) rpc_page" +
  shown_values :: "(string, jsval) jsmap"
  connectionState :: string

type_synonym 'r mon = "(mon_page, 'r) js"

subsection \<open>The event log\<close>

definition is_element :: "node \<Rightarrow> bool" where
  "is_element n = (case n of ElementNode c h \<Rightarrow> True | _ \<Rightarrow> False)"

text \<open>\<open>children\<close> counts elements, \<open>firstChild\<close> is the first node of any kind.\<close>

definition log_children :: "node list \<Rightarrow> node \<Rightarrow> node list" where
  "log_children ns n = (let ns' = ns @ [n] in if 50 < length (filter is_element ns') then tl ns' else ns')"

definition addLog :: "string \<Rightarrow> unit mon" where
  "addLog message = js_get clock (\<lambda>time. set_el ''eventLog'' (\<lambda>e. e\<lparr>childNodes :=
     log_children (childNodes e) (ElementNode ''log-entry'' (''['' @ time @ ''] '' @ message))\<rparr>))"

subsection \<open>Displayed values\<close>

definition shown_value :: "mon_page \<Rightarrow> string \<Rightarrow> jsval" where
  "shown_value s k = (case map_get (shown_values s) k of Some v \<Rightarrow> v | None \<Rightarrow> Undefined)"

definition updateButtonStates :: "bool \<Rightarrow> unit mon" where
  "updateButtonStates chargingEnabled =
     (if chargingEnabled then js_block [
        set_disabled ''startCharging'' True,
        set_disabled ''stopCharging'' False,
        set_style ''startCharging'' ''opacity'' ''0.6'',
        set_style ''stopCharging'' ''opacity'' ''1'']
      else js_block [
        set_disabled ''startCharging'' False,
        set_disabled ''stopCharging'' True,
        set_style ''startCharging'' ''opacity'' ''1'',
        set_style ''stopCharging'' ''opacity'' ''0.6''])"

definition status_color :: "string \<Rightarrow> string" where
  "status_color status = (case map_get [(''ready'', ''#27ae60''), (''charging'', ''#3498db''),
       (''error'', ''#e74c3c''), (''maintenance'', ''#f39c12'')] status of
     Some c \<Rightarrow> c | None \<Rightarrow> ''#2c3e50'')"

definition updateStatusColor :: "string \<Rightarrow> string \<Rightarrow> unit mon" where
  "updateStatusColor status element = set_style element ''color'' (status_color status)"

text \<open>\<open>Math.min((power / maxPower) * 100, 100)\<close> and the colour of the bar at that load.\<close>

definition power_percentage :: "jsval \<Rightarrow> jsnum \<Rightarrow> jsnum" where
  "power_percentage max_value pw = (let maxPower = parse_int (to_string (js_or max_value (num_of_int 50)))
     in math_min (num_mul (num_div pw maxPower) (Fin 100)) (Fin 100))"

definition bar_background :: "jsnum \<Rightarrow> string" where
  "bar_background percentage =
     (if num_less (Fin 90) percentage then ''linear-gradient(90deg, #e74c3c, #c0392b)''
      else if num_less (Fin 70) percentage then ''linear-gradient(90deg, #f39c12, #e67e22)''
      else ''linear-gradient(90deg, #27ae60, #2ecc71)'')"

definition updatePowerBar :: "jsnum \<Rightarrow> unit mon" where
  "updatePowerBar pw = js_get (\<lambda>s. power_percentage (shown_value s ''maxPower'') pw) (\<lambda>percentage.
     if_el ''powerBar'' (js_block [
       set_style ''powerBar'' ''width'' (num_to_string percentage @ ''%''),
       set_style ''powerBar'' ''background'' (bar_background percentage)]))"

definition temperature_color :: "jsnum \<Rightarrow> string" where
  "temperature_color temp = (if num_less (Fin 60) temp then ''#e74c3c''
     else if num_less (Fin 45) temp then ''#f39c12'' else ''#27ae60'')"

definition updateTemperatureColor :: "jsnum \<Rightarrow> string \<Rightarrow> unit mon" where
  "updateTemperatureColor temp element = set_style element ''color'' (temperature_color temp)"

definition formatUptime :: "jsnum \<Rightarrow> string" where
  "formatUptime seconds =
     (let days = num_floor (num_div seconds (Fin 86400));
          hours = num_floor (num_div (num_rem seconds (Fin 86400)) (Fin 3600));
          minutes = num_floor (num_div (num_rem seconds (Fin 3600)) (Fin 60));
          secs = num_rem seconds (Fin 60)
      in if num_less (Fin 0) days
         then num_to_string days @ ''d '' @ num_to_string hours @ ''h '' @ num_to_string minutes @ ''m''
         else if num_less (Fin 0) hours
         then num_to_string hours @ ''h '' @ num_to_string minutes @ ''m '' @ num_to_string secs @ ''s''
         else num_to_string minutes @ ''m '' @ num_to_string secs @ ''s'')"

definition updateConnectionStatus :: "bool \<Rightarrow> unit mon" where
  "updateConnectionStatus flag = (if flag
     then js_block [set_text ''connectionStatus'' ''Online'', set_class ''connectionStatus'' ''status-online'']
     else js_block [set_text ''connectionStatus'' ''Offline'', set_class ''connectionStatus'' ''status-offline''])"

definition updateSystemStatus :: "jsval \<Rightarrow> unit mon" where
  "updateSystemStatus status = if_el ''systemStatus'' (js_lift (get_prop status ''status'') (\<lambda>st. js_block [
     set_text ''systemStatus'' (text_of st),
     set_style ''systemStatus'' ''color'' (if st = Str ''running'' then ''#27ae60''
       else if st = Str ''warning'' then ''#f39c12'' else ''#e74c3c'')]))"

definition degrees :: string where
  "degrees = [CHR 0xC2, CHR 0xB0, CHR ''C'']"

text \<open>The \<open>switch\<close> of \<open>updateValue\<close>: what is shown in the element of the key.\<close>

definition showValue :: "jsval \<Rightarrow> string \<Rightarrow> string \<Rightarrow> unit mon" where
  "showValue key element stringValue =
     (if key = Str ''currentPower'' then
        (let powerValue = parse_float stringValue in if \<not> is_nan powerValue then js_block [
           set_text element (num_to_string (parse_float (num_to_string powerValue)) @ '' kW''),
           updatePowerBar powerValue]
         else js_block [set_text element ''0.00 kW'', updatePowerBar (Fin 0)])
      else if key = Str ''voltage'' then
        (let voltageValue = parse_float stringValue in if \<not> is_nan voltageValue
         then set_text element (num_to_string (parse_float (num_to_string voltageValue)) @ '' V'')
         else set_text element ''0.0 V'')
      else if key = Str ''temperature'' then
        (let tempValue = parse_float stringValue in if \<not> is_nan tempValue then js_block [
           set_text element (num_to_string (parse_float (num_to_string tempValue)) @ degrees),
           updateTemperatureColor tempValue element]
         else js_block [set_text element (''0.0'' @ degrees), updateTemperatureColor (Fin 0) element])
      else if key = Str ''uptime'' then
        (let uptimeValue = parse_int stringValue in if \<not> is_nan uptimeValue
         then set_text element (formatUptime uptimeValue) else set_text element ''0s'')
      else if key = Str ''systemStatus'' then js_block [
         set_text element stringValue,
         updateStatusColor stringValue element]
      else if key = Str ''chargingEnabled'' then
         updateButtonStates (stringValue = ''true'' \<or> stringValue = ''1'')
      else set_text element stringValue)"

definition updateValue :: "jsval \<Rightarrow> jsval \<Rightarrow> unit mon" where
  "updateValue key v = js_try
     (let v' = (if nullish v then Str ''N/A'' else v); k = to_string key in js_block [
        js_upd (\<lambda>s. s\<lparr>shown_values := map_set (shown_values s) k v'\<rparr>),
        if_el k (showValue key k (to_string v'))])
     (\<lambda>error. js_skip)"

subsection \<open>Monitoring\<close>

definition startMonitoring :: "unit mon" where
  "startMonitoring = js_async (js_try (client_call ''getValues'' (Obj []) K_startMonitoring)
     (\<lambda>error. js_get (\<lambda>s. error_message s error) (\<lambda>m. addLog (''Error starting monitoring: '' @ m))))"

text \<open>Unpacking of the answer to \<open>getValues\<close>.\<close>

definition monitoring_values :: "jsval \<Rightarrow> js_error + jsval" where
  "monitoring_values valuesResponse = (case valuesResponse of
       Str t \<Rightarrow> Inr (case json_parse t of Inl e \<Rightarrow> valuesResponse
         | Inr parsed \<Rightarrow> (case get_prop parsed ''result'' of Inl e \<Rightarrow> valuesResponse
             | Inr r \<Rightarrow> if truthy r then (case json_parse (to_string r) of Inl e \<Rightarrow> valuesResponse | Inr v \<Rightarrow> v)
                        else parsed))
     | _ \<Rightarrow> (case (if truthy valuesResponse then get_prop valuesResponse ''result'' else Inr Undefined) of
           Inr (Str t) \<Rightarrow> json_parse t
         | _ \<Rightarrow> Inr valuesResponse))"

definition startMonitoring_resume :: "js_error + jsval \<Rightarrow> unit mon" where
  "startMonitoring_resume r = js_try (js_lift r (\<lambda>valuesResponse.
       js_lift (monitoring_values valuesResponse) (\<lambda>vs. js_block [
         if truthy vs \<and> is_object vs
         then js_block (map (\<lambda>(k, x). updateValue (Str k) x) (object_entries vs)) else js_skip,
         js_upd (\<lambda>s. s\<lparr>timers := timers s @ [T_updateMetrics]\<rparr>),
         addLog ''Monitoring started successfully''])))
     (\<lambda>error. js_get (\<lambda>s. error_message s error) (\<lambda>m. addLog (''Error starting monitoring: '' @ m)))"

text \<open>The values shown when the metrics are missing or cannot be read.\<close>

definition default_metrics :: "unit mon" where
  "default_metrics = js_block [
     updateValue (Str ''currentPower'') (Str ''0.00''),
     updateValue (Str ''voltage'') (Str ''0.0''),
     updateValue (Str ''temperature'') (Str ''0.0''),
     updateValue (Str ''connectedClients'') (Str ''0''),
     updateValue (Str ''uptime'') (Str ''0'')]"

definition metrics_failed :: "js_error \<Rightarrow> unit mon" where
  "metrics_failed error = js_get (\<lambda>s. error_message s error) (\<lambda>m. js_block [
     addLog (''Error updating metrics: '' @ m),
     default_metrics])"

definition updateMetrics :: "unit mon" where
  "updateMetrics = js_async (js_try (client_call ''getMetrics'' (Obj []) K_updateMetrics) metrics_failed)"

text \<open>A metric that has to be a number, with its default.\<close>

definition number_metric :: "string \<Rightarrow> string \<Rightarrow> jsval \<Rightarrow> unit mon" where
  "number_metric key dflt metricsData = js_lift (get_prop metricsData key) (\<lambda>v.
     if \<not> nullish v then
       (let n = parse_float (to_string v) in if \<not> is_nan n
        then updateValue (Str key) (Num (parse_float (num_to_string n)))
        else updateValue (Str key) (Str dflt))
     else updateValue (Str key) (Str dflt))"

definition plain_metric :: "string \<Rightarrow> string \<Rightarrow> jsval \<Rightarrow> unit mon" where
  "plain_metric key dflt metricsData = js_lift (get_prop metricsData key) (\<lambda>v.
     if \<not> nullish v then updateValue (Str key) v else updateValue (Str key) (Str dflt))"

definition metrics_data :: "jsval \<Rightarrow> jsval option" where
  "metrics_data response =
     (let r = (if truthy response then (case get_prop response ''result'' of Inr x \<Rightarrow> x | Inl _ \<Rightarrow> Undefined) else Undefined) in
      if truthy response \<and> truthy r then
        (case r of Str t \<Rightarrow> Some (case json_parse t of Inr v \<Rightarrow> v | Inl e \<Rightarrow> r) | _ \<Rightarrow> Some r)
      else if truthy response \<and> is_object response then Some response
      else None)"

definition updateMetrics_resume :: "js_error + jsval \<Rightarrow> unit mon" where
  "updateMetrics_resume r = js_try (js_lift r (\<lambda>response. case metrics_data response of
       None \<Rightarrow> addLog ''Error: Unexpected metrics format''
     | Some metricsData \<Rightarrow> js_block [
         if truthy metricsData \<and> is_object metricsData then js_block [
           number_metric ''currentPower'' ''0.00'' metricsData,
           number_metric ''voltage'' ''0.0'' metricsData,
           number_metric ''temperature'' ''0.0'' metricsData,
           plain_metric ''connectedClients'' ''0'' metricsData,
           plain_metric ''uptime'' ''0'' metricsData]
         else js_block [
           addLog ''Error: Metrics data format invalid'',
           default_metrics],
         if_el ''serverTime'' (js_get clock (\<lambda>t. set_text ''serverTime'' t))]))
     metrics_failed"

text \<open>The debugging calls only report to the console; their answers change nothing.\<close>

definition debugMetrics :: "unit mon" where
  "debugMetrics = js_async (js_try (client_call ''getMetrics'' (Obj []) K_debugMetrics) (\<lambda>error. js_skip))"

definition testMetricsDirectly :: "unit mon" where
  "testMetricsDirectly = js_async (js_try (client_call ''getMetrics'' (Obj []) K_testMetricsDirectly) (\<lambda>error. js_skip))"

definition testRpcConnection :: "unit mon" where
  "testRpcConnection = js_async (js_try (js_block [
       addLog ''Testing RPC connection...'',
       client_call ''getValue'' (Obj [(''key'', Str ''systemStatus'')]) K_testRpcConnection])
     (\<lambda>error. js_get (\<lambda>s. error_message s error) (\<lambda>m. addLog (''RPC test failed: '' @ m))))"

definition testRpcConnection_resume :: "js_error + jsval \<Rightarrow> unit mon" where
  "testRpcConnection_resume r = js_try (js_lift r (\<lambda>result. addLog (''RPC test successful: '' @ to_string result)))
     (\<lambda>error. js_get (\<lambda>s. error_message s error) (\<lambda>m. addLog (''RPC test failed: '' @ m)))"

subsection \<open>Commands\<close>

definition command_failed :: "string \<Rightarrow> js_error \<Rightarrow> unit mon" where
  "command_failed command error = js_get (\<lambda>s. ''Error executing '' @ command @ '': '' @ error_message s error)
     (\<lambda>errorMsg. js_block [addLog errorMsg, alert errorMsg])"

definition sendCommand :: "string \<Rightarrow> jsval \<Rightarrow> unit mon" where
  "sendCommand command params = js_async (js_bind (addLog (''Sending command: '' @ command)) (\<lambda>_.
     js_get (\<lambda>s. (connectionState s, ws s, map_option (\<lambda>i. socket_state s i) (ws s))) (\<lambda>(st, w, ready).
       if st \<noteq> ''connected'' then js_block [
         addLog ''Error: Not connected to server. Please check connection.'',
         alert ''Not connected to server. Please check connection.'']
       else if w = None then alert ''WebSocket not initialized''
       else if ready \<noteq> Some (Some OPEN) then alert ''WebSocket connection not open''
       else js_try (client_call command params (K_sendCommand command)) (command_failed command))))"

definition sendCommand_resume :: "string \<Rightarrow> js_error + jsval \<Rightarrow> unit mon" where
  "sendCommand_resume command r =
     js_try (js_lift r (\<lambda>result. addLog (''Command '' @ command @ '' executed: '' @ to_string result)))
       (command_failed command)"

definition setMaxPower_clicked :: "unit mon" where
  "setMaxPower_clicked = with_el ''maxPower'' (\<lambda>e. let maxPower = el_value e in
     if maxPower \<noteq> [] \<and> num_le (Fin 1) (string_to_number maxPower) \<and> num_le (string_to_number maxPower) (Fin 100)
     then sendCommand ''setMaxPower'' (Obj [(''value'', Num (parse_int maxPower))])
     else alert ''Please enter a valid power value between 1 and 100 kW'')"

text \<open>The message of the debug button is sent past the client, with the fixed id 1.\<close>

definition raw_getValue :: "int \<Rightarrow> jsval" where
  "raw_getValue i = Obj [(''jsonrpc'', Str ''2.0''), (''id'', num_of_int i), (''method'', Str ''getValue''),
     (''params'', Obj [(''key'', Str ''systemStatus'')])]"

definition debugTest :: "unit mon" where
  "debugTest = js_get ws (\<lambda>w. if w = None then js_skip
     else js_try (ws_send (json_text (raw_getValue 1))) (\<lambda>error. js_skip))"

definition testRpc :: "unit mon" where
  "testRpc = js_get connected (\<lambda>c. if \<not> c then alert ''Please connect first''
     else ws_send (json_text (raw_getValue 999)))"

text \<open>The test button has no id; the model addresses it as \<open>.controls > button\<close>.\<close>

definition addTestButton :: "unit mon" where
  "addTestButton = js_block [
     append_child ''.controls'' (ElementNode ''btn btn-secondary'' ''Debug Test''),
     js_upd (\<lambda>s. s\<lparr>dom := (dom s)(''.controls > button'' \<mapsto>
       blank_element\<lparr>textContent := ''Debug Test'', className := ''btn btn-secondary''\<rparr>)\<rparr>),
     add_listener ''.controls > button'' ''click'' B_debugTest]"

definition setupEventHandlers :: "unit mon" where
  "setupEventHandlers = js_block [
     add_listener ''startCharging'' ''click'' B_startCharging,
     add_listener ''stopCharging'' ''click'' B_stopCharging,
     add_listener ''resetSystem'' ''click'' B_resetSystem,
     add_listener ''setMaxPower'' ''click'' B_setMaxPower,
     addTestButton]"

definition init :: "unit mon" where
  "init = js_block [
     on ''connected'' M_connected,
     on ''disconnected'' M_disconnected,
     on ''error'' M_error,
     on ''valueChanged'' M_valueChanged,
     on ''chargingStarted'' M_chargingStarted,
     on ''chargingStopped'' M_chargingStopped,
     on ''metricsUpdate'' M_metricsUpdate,
     client_connect default_url,
     setupEventHandlers]"

definition mon_constructor :: "unit mon" where
  "mon_constructor = js_block [
     js_upd (\<lambda>s. s\<lparr>shown_values := [], connectionState := ''disconnected''\<rparr>),
     init]"

subsection \<open>What a handler, an action, a timer and a continuation run\<close>

text \<open>A metric of \<open>metricsUpdate\<close> is taken over when it is present.\<close>

definition pushed_metric :: "jsval \<Rightarrow> string \<Rightarrow> unit mon" where
  "pushed_metric params key = js_lift (get_prop params key) (\<lambda>v. if v = Undefined then js_skip
     else updateValue (Str key) (Num (parse_float (to_string v))))"

fun mon_invoke :: "mon_handler \<Rightarrow> jsval \<Rightarrow> unit mon" where
  "mon_invoke M_connected _ = js_block [
     updateConnectionStatus True,
     js_upd (\<lambda>s. s\<lparr>connectionState := ''connected''\<rparr>),
     startMonitoring,
     js_upd (\<lambda>s. s\<lparr>timers := timers s @ [T_debugMetrics]\<rparr>)]"
| "mon_invoke M_disconnected _ = js_block [
     updateConnectionStatus False,
     js_upd (\<lambda>s. s\<lparr>connectionState := ''disconnected''\<rparr>)]"
| "mon_invoke M_error error = js_lift (get_prop error ''message'') (\<lambda>m. addLog (''Connection error: '' @ to_string m))"
| "mon_invoke M_valueChanged params = js_lift (get_prop params ''key'') (\<lambda>k.
     js_lift (get_prop params ''value'') (\<lambda>v. updateValue k v))"
| "mon_invoke M_chargingStarted params = js_lift (get_prop params ''sessionId'') (\<lambda>i. js_block [
     addLog (''Charging started - Session: '' @ to_string i),
     updateValue (Str ''systemStatus'') (Str ''charging''),
     updateValue (Str ''chargingEnabled'') (Str ''true'')])"
| "mon_invoke M_chargingStopped params = js_lift (get_prop params ''energyConsumed'') (\<lambda>v. js_block [
     addLog (''Charging stopped - Energy: '' @ num_to_string (parse_float (to_string v)) @ '' kWh''),
     updateValue (Str ''systemStatus'') (Str ''ready''),
     updateValue (Str ''chargingEnabled'') (Str ''false'')])"
| "mon_invoke M_metricsUpdate params = js_block [
     pushed_metric params ''currentPower'',
     pushed_metric params ''voltage'',
     pushed_metric params ''temperature'']"

fun mon_act :: "mon_action \<Rightarrow> unit mon" where
  "mon_act B_startCharging = sendCommand ''startCharging'' (Obj [])"
| "mon_act B_stopCharging = sendCommand ''stopCharging'' (Obj [])"
| "mon_act B_resetSystem = sendCommand ''resetSystem'' (Obj [])"
| "mon_act B_setMaxPower = setMaxPower_clicked"
| "mon_act B_debugTest = debugTest"

fun mon_fire :: "mon_timer \<Rightarrow> unit mon" where
  "mon_fire T_reconnect = client_connect default_url"
| "mon_fire T_debugMetrics = debugMetrics"
| "mon_fire T_updateMetrics = updateMetrics"

fun mon_resume :: "mon_cont \<Rightarrow> js_error + jsval \<Rightarrow> unit mon" where
  "mon_resume K_startMonitoring r = startMonitoring_resume r"
| "mon_resume K_updateMetrics r = updateMetrics_resume r"
| "mon_resume K_debugMetrics r = js_skip"
| "mon_resume K_testMetricsDirectly r = js_skip"
| "mon_resume K_testRpcConnection r = testRpcConnection_resume r"
| "mon_resume (K_sendCommand command) r = sendCommand_resume command r"

end
