(* ===== verification/MonitoringPage.thy ===== *)
theory MonitoringPage
  imports Monitoring
begin

text \<open>
  The monitoring page at run time: its turns of the event loop, timers included, and the
  relations that follow every run of it.
\<close>

subsection \<open>Turns of the event loop\<close>

text \<open>The metrics interval stays when it fires; a closed socket is reconnected.\<close>

definition deliver :: "page_event \<Rightarrow> unit mon" where
  "deliver = page_deliver mon_invoke (client_onclose mon_invoke T_reconnect) mon_act
     (\<lambda>t. t = T_updateMetrics) mon_fire"

inductive mon_step :: "mon_page \<Rightarrow> mon_page \<Rightarrow> bool" where
  job: "jobs s \<noteq> [] \<Longrightarrow> mon_step s (snd (run_next mon_resume s))"
| event: "jobs s = [] \<Longrightarrow> page_enabled s ev \<Longrightarrow> mon_step s (snd (deliver ev s))"

inductive_cases mon_stepE: "mon_step s t"

inductive mon_steps :: "mon_page \<Rightarrow> mon_page \<Rightarrow> bool" where
  refl: "mon_steps s s"
| step: "mon_steps s t \<Longrightarrow> mon_step t u \<Longrightarrow> mon_steps s u"

definition mon_window :: "(string \<rightharpoonup> element) \<Rightarrow> (string \<Rightarrow> bool) \<Rightarrow> (js_error \<Rightarrow> string) \<Rightarrow> string \<Rightarrow> mon_page" where
  "mon_window d ok msg t = \<lparr>dom = d, listeners = [], sockets = [], clock = t, alerts = [], unhandled = [],
     url_ok = ok, engine_message = msg, ws = None, connected = False, requestId = 0,
     pendingRequests = [], eventHandlers = [], reconnectInterval = 0, maxReconnectAttempts = 0,
     reconnectAttempts = 0, debug = False, url = [], jobs = [], timers = [],
     shown_values = [], connectionState = []\<rparr>"

definition mon_start :: "(string \<rightharpoonup> element) \<Rightarrow> (string \<Rightarrow> bool) \<Rightarrow> (js_error \<Rightarrow> string) \<Rightarrow> string \<Rightarrow> mon_page" where
  "mon_start d ok msg t = snd (js_report mon_constructor (client_constructor (mon_window d ok msg t)))"

subsection \<open>Relations through the whole page\<close>

text \<open>Relations that ignore the document pass through what only draws.\<close>

locale mon_view = dom_relation R
  for R :: "mon_page \<Rightarrow> mon_page \<Rightarrow> bool"
begin

lemma rel_addLog: "relates R (addLog m)"
  unfolding addLog_def by (intro dom_rel_intros)

lemma rel_block_steps:
  "relates R (js_block [])" "relates R c \<Longrightarrow> relates R (js_block cs) \<Longrightarrow> relates R (js_block (c # cs))"
  by (simp_all add: js_block.simps rel_skip rel_bind)

lemma rel_show:
  "relates R (updateButtonStates b)" "relates R (updateStatusColor c i)" "relates R (updatePowerBar n)"
  "relates R (updateTemperatureColor n i)" "relates R (updateConnectionStatus b)"
  unfolding updateButtonStates_def updateStatusColor_def updatePowerBar_def updateTemperatureColor_def
    updateConnectionStatus_def
  by (intro rel_if rel_get rel_if_el rel_block_steps rel_dom_ops)+

lemma rel_showValue: "relates R (showValue k i t)"
  unfolding showValue_def Let_def
  by (intro rel_if rel_block_steps rel_dom_ops rel_show)

end

text \<open>What a relation has to tolerate to pass through every handler, action, timer and continuation.\<close>

locale mon_relation = mon_view R + socket_relation R
  for R :: "mon_page \<Rightarrow> mon_page \<Rightarrow> bool" +
  assumes R_call: "relates R (client_call m p k)"
    and R_forget: "relates R (forget n)"
    and R_jobs: "R s (s\<lparr>jobs := js\<rparr>)"
    and R_connected: "R s (s\<lparr>connected := c\<rparr>)"
    and R_reset: "R s (s\<lparr>reconnectAttempts := 0\<rparr>)"
    and R_retry: "reconnectAttempts s < maxReconnectAttempts s \<Longrightarrow>
      R s (s\<lparr>reconnectAttempts := reconnectAttempts s + 1\<rparr>)"
    and R_set_timer: "R s (s\<lparr>timers := timers s @ [t]\<rparr>)"
    and R_expired: "n < length (timers s) \<Longrightarrow> timers s ! n \<noteq> T_updateMetrics \<Longrightarrow>
      R s (s\<lparr>timers := take n (timers s) @ drop (Suc n) (timers s)\<rparr>)"
    and R_ws: "R s (s\<lparr>ws := w\<rparr>)"
    and R_shown: "R s (s\<lparr>shown_values := vs\<rparr>)"
    and R_state: "R s (s\<lparr>connectionState := st\<rparr>)"
    and R_clock: "R s (s\<lparr>clock := tm\<rparr>)"
begin

lemmas R_fields = R_jobs R_connected R_reset R_set_timer R_ws R_shown R_state R_clock

lemma rel_updateValue: "relates R (updateValue k v)"
  unfolding updateValue_def Let_def
  by (intro rel_try rel_block_steps rel_if_el rel_showValue rel_upd R_shown rel_skip)

lemmas mon_rel_intros = dom_rel_intros rel_addLog rel_updateValue R_call

lemma rel_default_metrics: "relates R default_metrics" "relates R (metrics_failed e)"
  unfolding default_metrics_def metrics_failed_def by (auto intro!: mon_rel_intros)

lemma rel_metric: "relates R (number_metric k d v)" "relates R (plain_metric k d v)" "relates R (pushed_metric v k)"
  unfolding number_metric_def plain_metric_def pushed_metric_def Let_def
  by (auto intro!: mon_rel_intros)

lemma rel_calls:
  "relates R startMonitoring" "relates R updateMetrics" "relates R debugMetrics"
  unfolding startMonitoring_def updateMetrics_def debugMetrics_def
  by (auto intro!: mon_rel_intros rel_default_metrics)

lemma rel_mon_invoke: "relates R (mon_invoke h d)"
  by (cases h) (auto intro!: mon_rel_intros rel_show rel_calls rel_metric rel_upd R_fields)

lemma rel_command: "relates R (sendCommand c p)" "relates R (command_failed c e)"
  unfolding sendCommand_def command_failed_def
  by (auto intro!: mon_rel_intros split: prod.split)

lemma rel_ws_send: "relates R (ws_send t)"
  unfolding ws_send_def by (auto intro!: rel_intros rel_socket_send split: option.split)

lemma rel_mon_act: "relates R (mon_act a)"
  by (cases a) (auto simp: setMaxPower_clicked_def debugTest_def Let_def
      intro!: mon_rel_intros rel_command rel_ws_send)

lemma rel_mon_resume: "relates R (mon_resume k r)"
  by (cases k) (auto simp: startMonitoring_resume_def updateMetrics_resume_def testRpcConnection_resume_def
      sendCommand_resume_def intro!: mon_rel_intros rel_metric rel_default_metrics rel_command rel_upd R_fields
      split: option.split)

end

sublocale mon_relation \<subseteq> rpc: rpc_relation R mon_invoke
proof
  show "relates R (settle k r)" for k r by (simp add: settle_def rel_upd R_jobs)
qed (auto intro: rel_mon_invoke R_forget R_connected R_reset)

sublocale mon_relation \<subseteq> client: client_relation R mon_invoke T_reconnect
  by unfold_locales (rule R_retry R_set_timer R_ws R_sockets, assumption?)+

context mon_relation
begin

lemma rel_mon_fire: "relates R (mon_fire t)"
  by (cases t) (auto intro: client.rel_client_connect rel_calls)

end

sublocale mon_relation \<subseteq> turn: page_relation R mon_invoke "client_onclose mon_invoke T_reconnect" mon_act
  "\<lambda>t. t = T_updateMetrics" mon_fire
  by unfold_locales (auto intro: client.rel_client_onclose rel_mon_act rel_mon_fire R_expired R_clock R_jobs)

context mon_relation
begin

lemma rel_mon_deliver: "page_enabled s ev \<Longrightarrow> R s (snd (deliver ev s))"
  unfolding deliver_def by (rule turn.rel_page_deliver)

lemma rel_mon_next: "relates R (run_next mon_resume)"
  by (rule turn.rel_run_next [OF rel_mon_resume])

lemma rel_mon_step: "mon_step s t \<Longrightarrow> R s t"
  by (erule mon_stepE) (auto intro: relatesD rel_mon_next rel_mon_deliver)

lemma rel_mon_steps: "mon_steps s t \<Longrightarrow> R s t"
  by (induction rule: mon_steps.induct) (auto intro: R_refl R_trans rel_mon_step)

end

subsection \<open>The relations of the page\<close>

interpretation mev: mon_relation "rpc_evolves :: mon_page \<Rightarrow> mon_page \<Rightarrow> bool"
  by unfold_locales (auto simp: rpc_evolves_same intro: evolves_client_call evolves_forget)

interpretation mso: mon_relation "sockets_advance :: mon_page \<Rightarrow> mon_page \<Rightarrow> bool"
  by unfold_locales (auto intro: advance_client_call advance_forget sockets_advance_same)

lemma client_call_keeps:
  fixes s :: mon_page
  shows "eventHandlers (snd (client_call m p k s)) = eventHandlers s"
    "listeners (snd (client_call m p k s)) = listeners s" "timers (snd (client_call m p k s)) = timers s"
    "reconnectAttempts (snd (client_call m p k s)) = reconnectAttempts s"
    "maxReconnectAttempts (snd (client_call m p k s)) = maxReconnectAttempts s"
  by (auto simp: client_call_def ws_send_def js_run split: option.split ready_state.split)

definition mon_same_wiring :: "mon_page \<Rightarrow> mon_page \<Rightarrow> bool" where
  "mon_same_wiring s t \<longleftrightarrow> eventHandlers t = eventHandlers s \<and> listeners t = listeners s"

interpretation mwi: mon_relation mon_same_wiring
  by unfold_locales (auto simp: mon_same_wiring_def relates_def client_call_keeps js_run)

interpretation mhc: handler_contract mon_invoke
  by unfold_locales (use mwi.rel_mon_invoke in \<open>auto simp: relates_def mon_same_wiring_def\<close>)

text \<open>The number of reconnection attempts stays within its maximum.\<close>

definition attempts_bounded :: "mon_page \<Rightarrow> mon_page \<Rightarrow> bool" where
  "attempts_bounded s t \<longleftrightarrow> maxReconnectAttempts t = maxReconnectAttempts s \<and>
     (reconnectAttempts s \<le> maxReconnectAttempts s \<longrightarrow> reconnectAttempts t \<le> maxReconnectAttempts t)"

interpretation mab: mon_relation attempts_bounded
  by unfold_locales (auto simp: attempts_bounded_def relates_def client_call_keeps js_run)

text \<open>No interval is ever cleared.\<close>

definition polls :: "mon_page \<Rightarrow> nat" where
  "polls s = length (filter (\<lambda>t. t = T_updateMetrics) (timers s))"

definition polls_grow :: "mon_page \<Rightarrow> mon_page \<Rightarrow> bool" where
  "polls_grow s t \<longleftrightarrow> polls s \<le> polls t"

lemma polls_expired:
  assumes "n < length (timers s)" "timers s ! n \<noteq> T_updateMetrics"
  shows "polls (s\<lparr>timers := take n (timers s) @ drop (Suc n) (timers s)\<rparr>) = polls s"
proof -
  have "timers s = take n (timers s) @ timers s ! n # drop (Suc n) (timers s)"
    using assms(1) by (rule id_take_nth_drop)
  then have "filter (\<lambda>t. t = T_updateMetrics) (timers s)
      = filter (\<lambda>t. t = T_updateMetrics) (take n (timers s) @ timers s ! n # drop (Suc n) (timers s))"
    by simp
  then show ?thesis using assms(2) by (simp add: polls_def)
qed

interpretation mpg: mon_relation polls_grow
  by unfold_locales (auto simp: polls_grow_def relates_def polls_expired, auto simp: polls_def client_call_keeps js_run)

text \<open>A part of the page that only draws changes the document and nothing else.\<close>

definition mon_same_but_view :: "mon_page \<Rightarrow> mon_page \<Rightarrow> bool" where
  "mon_same_but_view s t \<longleftrightarrow>
     t = s\<lparr>dom := dom t, alerts := alerts t, unhandled := unhandled t\<rparr>"

interpretation mvw: mon_view mon_same_but_view
proof
  show "mon_same_but_view s u" if "mon_same_but_view s t" "mon_same_but_view t u" for s t u
    using that by (cases s, cases t, cases u) (auto simp: mon_same_but_view_def)
qed (simp_all add: mon_same_but_view_def)

end
