(* ===== verification/OcppSystem.thy ===== *)
theory OcppSystem
  imports ClientRpc
begin

text \<open>
  \<open>web/js/index.js\<close>: the first version of the operator page, which keeps the stations with
  their connectors in the browser and works without a server in a demo mode. It uses the
  global \<open>rpcClient\<close>, the client of \<open>web/client/js/rpc-client.js\<close>, when the page defines one;
  the field \<open>rpc_defined\<close> says whether it does.
\<close>

subsection \<open>State, handlers, actions, continuations\<close>

record oc_connector =
  c_type :: string
  c_status :: jsval
  c_meter :: jsval
  c_power :: jsval

record oc_station =
  st_name :: jsval
  st_status :: jsval
  connectorCount :: nat
  maxPower :: nat
  st_connectors :: "(string, oc_connector) jsmap"

datatype oc_handler = O_connected | O_disconnected | O_error | O_statusNotification | O_meterValues | O_heartbeat

datatype oc_timer = O_reconnect

datatype oc_cont =
    L_count
  | L_ids
  | L_station "jsval list"  \<comment> \<open>the ids still to be loaded\<close>
  | L_getBaseReport
  | L_sendVariables
  | L_sendStatusNotification
  | L_sendMeterValues
  | L_sendHeartbit

datatype oc_action = D_stationSelect | D_connectorSelect | D_disconnect | D_getReport | D_sendVariables
  | D_sendStatus | D_sendMeter | D_sendHeartbit | D_clearLog

record oc_page = "(oc_cont, oc_handler, oc_timer, oc_action) rpc_page" +
  rpc_defined :: bool
  stations :: "(string, oc_station) jsmap"
  selectedStationId :: jsval
  selectedConnectorId :: jsval
  connectionState :: string

type_synonym 'r oc = "(oc_page, 'r) js"

subsection \<open>Logging\<close>

definition addLog :: "string \<Rightarrow> unit oc" where
  "addLog message = js_get clock (\<lambda>timestamp. append_child ''log-content'' (ElementNode ''log-entry''
     (''<span class=\"log-timestamp\">['' @ timestamp @ '']</span> '' @ message)))"

definition clearLog :: "unit oc" where
  "clearLog = js_block [set_inner_html ''log-content'' [], addLog (ru ''Log o^i]en'')]"

text \<open>\<open>catch (error) { this.addLog(`...: ${error.message}`) }\<close>\<close>

definition log_failure :: "string \<Rightarrow> js_error \<Rightarrow> unit oc" where
  "log_failure text error = js_get (\<lambda>s. error_message s error) (\<lambda>m. addLog (text @ '': '' @ m))"

subsection \<open>The stations\<close>

definition parseResponse :: "jsval \<Rightarrow> jsval" where
  "parseResponse response = (case response of
       Str t \<Rightarrow> (case json_parse t of Inr v \<Rightarrow> v | Inl e \<Rightarrow> response)
     | _ \<Rightarrow> if truthy response \<and> truthy (field_of response ''result'')
            then (case field_of response ''result'' of
                    Str t \<Rightarrow> (case json_parse t of Inr v \<Rightarrow> v | Inl e \<Rightarrow> Str t)
                  | r \<Rightarrow> r)
            else response)"

definition updateStationsList :: "unit oc" where
  "updateStationsList = js_block [
     clear_options ''station-select'',
     append_option ''station-select'' [] (ru ''-- Wyberite stanci@ --''),
     js_get (\<lambda>s. own_entries (stations s)) (\<lambda>sts. js_block (map (\<lambda>(stationId, station).
       append_option ''station-select'' stationId (stationId @ '' - '' @ to_string (st_name station))) sts)),
     js_get (\<lambda>s. length (stations s)) (\<lambda>n. addLog ((ru ''Zagruveno stancij: '') @ show_nat n))]"

definition updateConnectionStatus :: "bool \<Rightarrow> unit oc" where
  "updateConnectionStatus flag = addLog ((ru ''Status soedineniq: '') @ (if flag then ''Connected'' else ''Disconnected''))"

definition default_connector :: "string \<Rightarrow> oc_connector" where
  "default_connector t = \<lparr>c_type = t, c_status = Str ''available'', c_meter = num_of_int 0, c_power = num_of_int 0\<rparr>"

definition loaded_station :: "jsval \<Rightarrow> oc_station" where
  "loaded_station stationId = \<lparr>st_name = stationId, st_status = Str ''connected'', connectorCount = 2, maxPower = 150,
     st_connectors = [(''1'', default_connector ''TYPE2''), (''2'', default_connector ''CCS2'')]\<rparr>"

definition loadStationInfo :: "jsval \<Rightarrow> unit oc" where
  "loadStationInfo stationId = js_try (js_block [
       js_upd (\<lambda>s. s\<lparr>stations := map_set (stations s) (to_string stationId) (loaded_station stationId)\<rparr>),
       updateStationsList])
     (\<lambda>error. js_skip)"

text \<open>The \<open>catch\<close> clause of \<open>loadStations\<close>.\<close>

definition loading_failed :: "js_error \<Rightarrow> unit oc" where
  "loading_failed error = js_block [log_failure ''Error loading stations'' error, updateStationsList]"

definition loadStations :: "unit oc" where
  "loadStations = js_async (js_try (js_get connectionState (\<lambda>st.
       if st = ''connected'' then client_call ''getChargePointsCount'' (Obj []) L_count
       else updateStationsList))
     loading_failed)"

text \<open>The count is fetched and not used.\<close>

definition loadStations_count :: "js_error + jsval \<Rightarrow> unit oc" where
  "loadStations_count r = js_try (js_lift r (\<lambda>countResponse. client_call ''getChargePointIds'' (Obj []) L_ids))
     loading_failed"

text \<open>\<open>for (const stationId of stationIds) { await this.loadStationInfo(stationId); }\<close>\<close>

definition load_next :: "jsval list \<Rightarrow> unit oc" where
  "load_next ids = (case ids of [] \<Rightarrow> js_skip
     | stationId # rest \<Rightarrow> js_block [loadStationInfo stationId, settle (L_station rest) (Inr Undefined)])"

text \<open>What \<open>for ... of\<close> visits: an array's elements, a string's characters; other values throw.\<close>

fun iterated :: "jsval \<Rightarrow> js_error + jsval list" where
  "iterated (Arr vs) = Inr vs"
| "iterated (Str t) = Inr (map (\<lambda>c. Str [c]) t)"
| "iterated _ = Inl TypeError"

definition loadStations_ids :: "js_error + jsval \<Rightarrow> unit oc" where
  "loadStations_ids r = js_try (js_lift r (\<lambda>idsResponse.
       js_lift (iterated (parseResponse idsResponse)) load_next))
     loading_failed"

definition loadStations_station :: "jsval list \<Rightarrow> js_error + jsval \<Rightarrow> unit oc" where
  "loadStations_station rest r = js_try (js_lift r (\<lambda>_. load_next rest)) loading_failed"

definition connector_of :: "string \<Rightarrow> string \<Rightarrow> int \<Rightarrow> int \<Rightarrow> oc_connector" where
  "connector_of t st m p = \<lparr>c_type = t, c_status = Str st, c_meter = num_of_int m, c_power = num_of_int p\<rparr>"

definition demo_stations :: "(string, oc_station) jsmap" where
  "demo_stations = [
     (''CS001'', \<lparr>st_name = Str (ru ''Stanciq 001''), st_status = Str ''connected'', connectorCount = 4, maxPower = 150,
       st_connectors = [
         (''1'', connector_of ''GBT'' ''ok'' 1250 0),
         (''2'', connector_of ''CCS2'' ''charge'' 3200 50),
         (''3'', connector_of ''TYPE2'' ''unavailable'' 0 0),
         (''4'', connector_of ''CHADEMO'' ''alarm-ev'' 0 0)]\<rparr>),
     (''CS002'', \<lparr>st_name = Str (ru ''Stanciq 002''), st_status = Str ''disconnected'', connectorCount = 2, maxPower = 100,
       st_connectors = [
         (''1'', connector_of ''TYPE2'' ''ok'' 500 0),
         (''2'', connector_of ''CCS2'' ''ok'' 800 0)]\<rparr>),
     (''CS003'', \<lparr>st_name = Str (ru ''Stanciq 003''), st_status = Str ''error'', connectorCount = 3, maxPower = 120,
       st_connectors = [
         (''1'', connector_of ''GBT'' ''alarm-cp'' 0 0),
         (''2'', connector_of ''TYPE2'' ''in'' 1500 22),
         (''3'', connector_of ''CHADEMO'' ''charge'' 2100 45)]\<rparr>)]"

definition initDemoMode :: "unit oc" where
  "initDemoMode = js_block [
     js_upd (\<lambda>s. s\<lparr>stations := demo_stations\<rparr>),
     updateConnectionStatus True,
     loadStations]"

subsection \<open>Selecting\<close>

definition hide :: "string \<Rightarrow> unit oc" where
  "hide i = set_style i ''display'' ''none''"

text \<open>Text and colour of a station status.\<close>

definition station_display :: "jsval \<Rightarrow> string \<times> string" where
  "station_display status =
     (if status = Str ''connected'' then (''Connected'', ''#27ae60'')
      else if status = Str ''disconnected'' then (''Disconnected'', ''#95a5a6'')
      else if status = Str ''error'' then (''Error'', ''#e74c3c'')
      else if status = Str ''charging'' then (''Charging'', ''#3498db'')
      else (''Unknown'', ''#95a5a6''))"

definition updateStationDisplay :: "jsval \<Rightarrow> unit oc" where
  "updateStationDisplay status = (case station_display status of (statusText, statusColor) \<Rightarrow> js_block [
     set_text ''station-status'' statusText,
     set_style ''station-icon'' ''backgroundColor'' statusColor])"

text \<open>\<open>this.stations[id]\<close>, used as an object.\<close>

definition with_station :: "string \<Rightarrow> (oc_station \<Rightarrow> unit oc) \<Rightarrow> unit oc" where
  "with_station i k = js_get (\<lambda>s. map_get (stations s) i) (\<lambda>r. case r of None \<Rightarrow> js_throw TypeError | Some st \<Rightarrow> k st)"

definition updateConnectorsList :: "string \<Rightarrow> unit oc" where
  "updateConnectorsList stationId = js_block [
     clear_options ''connector-select'',
     append_option ''connector-select'' [] (ru ''-- Wyberite konnektor --''),
     with_station stationId (\<lambda>station. js_block (map (\<lambda>(connectorId, c).
       append_option ''connector-select'' connectorId ((ru ''Konnektor '') @ connectorId))
       (own_entries (st_connectors station))))]"

definition handleStationSelect :: "string \<Rightarrow> unit oc" where
  "handleStationSelect stationId =
     (if stationId = [] then js_block [hide ''station-info'', hide ''connector-selector'', hide ''connector-info'']
      else js_block [
        js_upd (\<lambda>s. s\<lparr>selectedStationId := Str stationId\<rparr>),
        with_station stationId (\<lambda>station. js_block [
          set_text ''station-id'' (stationId @ '' - '' @ to_string (st_name station)),
          set_text ''connector-count'' (''Connector count: '' @ show_nat (connectorCount station)),
          set_text ''max-power'' ((ru ''Maksimalxnaq mo]nostx: '') @ show_nat (maxPower station) @ '' kW''),
          updateStationDisplay (st_status station),
          set_style ''station-info'' ''display'' ''flex'',
          updateConnectorsList stationId,
          set_style ''connector-selector'' ''display'' ''block'',
          addLog ((ru ''Wybrana stanciq: '') @ stationId)])])"

text \<open>Text and class of a connector status.\<close>

definition connector_display :: "jsval \<Rightarrow> string \<times> string" where
  "connector_display status =
     (if status = Str ''alarm-ev'' then (''Alarm EV'', ''status-alarm-ev'')
      else if status = Str ''alarm-cp'' then (''Alarm CP'', ''status-alarm-cp'')
      else if status = Str ''ok'' \<or> status = Str ''available'' then (''OK'', ''status-ok'')
      else if status = Str ''charge'' \<or> status = Str ''charging'' then (''Charge'', ''status-charge'')
      else if status = Str ''in'' \<or> status = Str ''occupied'' then (''In'', ''status-in'')
      else if status = Str ''unavailable'' then (''Unavailable'', ''status-unavailable'')
      else (''Unknown'', ''status-unavailable''))"

definition updateConnectorStatusDisplay :: "jsval \<Rightarrow> unit oc" where
  "updateConnectorStatusDisplay status = (case connector_display status of (statusText, statusClass) \<Rightarrow> js_block [
     set_text ''connector-status'' statusText,
     set_class ''connector-status'' (''connector-status '' @ statusClass)])"

definition handleConnectorSelect :: "string \<Rightarrow> unit oc" where
  "handleConnectorSelect connectorId =
     (if connectorId = [] then hide ''connector-info''
      else js_block [
        js_upd (\<lambda>s. s\<lparr>selectedConnectorId := Str connectorId\<rparr>),
        js_get (\<lambda>s. to_string (selectedStationId s)) (\<lambda>st. with_station st (\<lambda>station.
          case map_get (st_connectors station) connectorId of None \<Rightarrow> js_throw TypeError
          | Some connector \<Rightarrow> js_block [
              set_text ''connector-type'' (c_type connector),
              set_text ''connector-meter'' (text_of (c_meter connector)),
              set_text ''connector-power'' (text_of (c_power connector)),
              updateConnectorStatusDisplay (c_status connector),
              set_style ''connector-info'' ''display'' ''block'',
              addLog ((ru ''Wybran konnektor '') @ connectorId @ (ru '' na stancii '') @ st)]))])"

subsection \<open>Updates from the server\<close>

definition set_station :: "string \<Rightarrow> (oc_station \<Rightarrow> oc_station) \<Rightarrow> unit oc" where
  "set_station i f = with_station i (\<lambda>st. js_upd (\<lambda>s. s\<lparr>stations := map_set (stations s) i (f st)\<rparr>))"

definition updateStationStatus :: "jsval \<Rightarrow> jsval \<Rightarrow> unit oc" where
  "updateStationStatus chargePointId status = js_get (\<lambda>s. map_has (stations s) (to_string chargePointId)) (\<lambda>b.
     if b then js_block [
       set_station (to_string chargePointId) (\<lambda>st. st\<lparr>st_status := status\<rparr>),
       js_get selectedStationId (\<lambda>sel. if strict_eq sel chargePointId then updateStationDisplay status else js_skip)]
     else js_skip)"

text \<open>\<open>this.stations[id] && this.stations[id].connectors[c]\<close>\<close>

definition find_connector :: "(string, oc_station) jsmap \<Rightarrow> jsval \<Rightarrow> jsval \<Rightarrow> oc_connector option" where
  "find_connector sts chargePointId connectorId = (case map_get sts (to_string chargePointId) of None \<Rightarrow> None
     | Some st \<Rightarrow> map_get (st_connectors st) (to_string connectorId))"

definition set_connector :: "jsval \<Rightarrow> jsval \<Rightarrow> (oc_connector \<Rightarrow> oc_connector) \<Rightarrow> unit oc" where
  "set_connector chargePointId connectorId f = set_station (to_string chargePointId) (\<lambda>st.
     case map_get (st_connectors st) (to_string connectorId) of None \<Rightarrow> st
     | Some c \<Rightarrow> st\<lparr>st_connectors := map_set (st_connectors st) (to_string connectorId) (f c)\<rparr>)"

text \<open>\<open>this.selectedStationId === id && this.selectedConnectorId === c.toString()\<close>\<close>

definition if_selected :: "jsval \<Rightarrow> jsval \<Rightarrow> unit oc \<Rightarrow> unit oc" where
  "if_selected chargePointId connectorId m = js_get (\<lambda>s. strict_eq (selectedStationId s) chargePointId \<and>
     selectedConnectorId s = Str (to_string connectorId)) (\<lambda>b. if b then m else js_skip)"

definition updateConnectorStatus :: "jsval \<Rightarrow> jsval \<Rightarrow> jsval \<Rightarrow> unit oc" where
  "updateConnectorStatus chargePointId connectorId status =
     js_get (\<lambda>s. find_connector (stations s) chargePointId connectorId) (\<lambda>c. if c = None then js_skip
       else js_block [
         set_connector chargePointId connectorId (\<lambda>c. c\<lparr>c_status := status\<rparr>),
         if_selected chargePointId connectorId (updateConnectorStatusDisplay status)])"

text \<open>\<open>context\<close> decides which of the two values the sample is.\<close>

definition record_sample :: "jsval \<Rightarrow> jsval \<Rightarrow> oc_connector \<Rightarrow> oc_connector" where
  "record_sample cxt v c =
     (if cxt = Str ''Transaction.Begin'' \<or> cxt = Str ''Transaction.End'' then c\<lparr>c_meter := v\<rparr>
      else if cxt = Str ''Sample.Periodic'' then c\<lparr>c_power := v\<rparr>
      else c)"

definition show_connector_values :: "jsval \<Rightarrow> jsval \<Rightarrow> unit oc" where
  "show_connector_values chargePointId connectorId =
     js_get (\<lambda>s. find_connector (stations s) chargePointId connectorId) (\<lambda>r. case r of None \<Rightarrow> js_throw TypeError
       | Some c \<Rightarrow> js_block [
           set_text ''connector-meter'' (text_of (c_meter c)),
           set_text ''connector-power'' (text_of (c_power c))])"

definition updateConnectorMeterValues :: "jsval \<Rightarrow> jsval \<Rightarrow> jsval \<Rightarrow> unit oc" where
  "updateConnectorMeterValues chargePointId connectorId meterValue =
     js_get (\<lambda>s. find_connector (stations s) chargePointId connectorId) (\<lambda>c.
       if c = None \<or> \<not> has_items meterValue then js_skip
       else js_lift (get_index meterValue 0) (\<lambda>m. js_lift (get_prop m ''sampledValue'') (\<lambda>sampledValue.
         if \<not> has_items sampledValue then js_skip
         else js_lift (get_index sampledValue 0) (\<lambda>sample.
           js_lift (get_prop sample ''value'') (\<lambda>v. js_lift (get_prop sample ''context'') (\<lambda>cxt. js_block [
             set_connector chargePointId connectorId (record_sample cxt v),
             if_selected chargePointId connectorId (show_connector_values chargePointId connectorId)]))))))"

subsection \<open>Actions\<close>

text \<open>\<open>if (!this.selectedStationId) { alert(...); return; }\<close>\<close>

definition when_selected :: "string \<Rightarrow> (string \<Rightarrow> unit oc) \<Rightarrow> unit oc" where
  "when_selected msg k = js_get selectedStationId (\<lambda>st. if truthy st then k (to_string st) else alert msg)"

text \<open>The request when the page is connected, the note of the demo mode otherwise.\<close>

definition request_or_demo :: "string \<Rightarrow> jsval \<Rightarrow> oc_cont \<Rightarrow> string \<Rightarrow> string \<Rightarrow> unit oc" where
  "request_or_demo method params k failure demo = js_get connectionState (\<lambda>st. if st = ''connected''
     then js_try (client_call method params k) (log_failure failure) else addLog demo)"

text \<open>The rest of an action: the answer, or the failure, is logged.\<close>

definition answered :: "string \<Rightarrow> string \<Rightarrow> js_error + jsval \<Rightarrow> unit oc" where
  "answered text failure r = js_try
     (js_lift r (\<lambda>response. addLog (text @ to_string (json_stringify response)))) (log_failure failure)"

definition handleDisconnect :: "unit oc" where
  "handleDisconnect = js_async (when_selected ''Please select a station first'' (\<lambda>st. js_block [
     addLog ((ru ''Otprawka zaprosa na otkl@^enie stancii: '') @ st),
     js_get connectionState (\<lambda>c. if c = ''connected''
       then js_try (addLog ((ru ''Stanciq '') @ st @ (ru '' otkl@^ena''))) (log_failure (ru ''O[ibka otkl@^eniq stancii''))
       else js_block [
         set_station st (\<lambda>x. x\<lparr>st_status := Str ''disconnected''\<rparr>),
         updateStationDisplay (Str ''disconnected''),
         addLog ((ru ''Stanciq '') @ st @ (ru '' perewedena w status '' @ ''disconnected ('' @ ru ''demo)''))])]))"

definition handleGetBaseReport :: "unit oc" where
  "handleGetBaseReport = js_async (when_selected ''Please select a station first'' (\<lambda>st. js_block [
     addLog ((ru ''Otprawka '' @ ''GetBaseReport '' @ ru ''dlq stancii: '') @ st),
     request_or_demo ''sendGetBaseReport'' (Obj [(''chargePointId'', Str st)]) L_getBaseReport
       (ru ''O[ibka '' @ ''GetBaseReport'') ((''GetBaseReport '' @ ru ''wypolnen dlq '') @ st @ (ru '' (demo)''))]))"

definition handleGetBaseReport_resume :: "js_error + jsval \<Rightarrow> unit oc" where
  "handleGetBaseReport_resume r = answered (''GetBaseReport '' @ ru ''wypolnen: '') (ru ''O[ibka '' @ ''GetBaseReport'') r"

definition handleSendVariables :: "unit oc" where
  "handleSendVariables = js_async (with_el ''component-input'' (\<lambda>c. with_el ''variable-input'' (\<lambda>v.
     with_el ''attribute-input'' (\<lambda>a.
       if el_value c = [] \<or> el_value v = [] then alert ''Please fill Component and Variable fields''
       else js_block [
         addLog ((ru ''Otprawka '' @ ''SendVariables: Component='') @ el_value c @ '', Variable='' @ el_value v @ '', Attribute='' @ el_value a),
         request_or_demo ''sendVariablesReq'' (Obj [(''component'', Str (el_value c)), (''variable'', Str (el_value v)),
             (''attributeType'', js_or (Str (el_value a)) (Str ''Actual''))]) L_sendVariables
           (ru ''O[ibka '' @ ''SendVariables'') (''SendVariables '' @ ru ''wypolnen (demo)'')]))))"

definition handleSendVariables_resume :: "js_error + jsval \<Rightarrow> unit oc" where
  "handleSendVariables_resume r = answered (''SendVariables '' @ ru ''wypolnen: '') (ru ''O[ibka '' @ ''SendVariables'') r"

definition handleSendStatusNotification :: "unit oc" where
  "handleSendStatusNotification = js_async (js_get (\<lambda>s. (selectedStationId s, selectedConnectorId s)) (\<lambda>(st, c).
     if \<not> truthy st \<or> \<not> truthy c then alert ''Please select station and connector first''
     else js_block [
       addLog ((ru ''Otprawka '' @ ''TriggerStatusNotification '' @ ru ''dlq stancii: '') @ to_string st @ (ru '', konnektor: '') @ to_string c),
       request_or_demo ''sendTriggerStatusNotification''
           (Obj [(''chargePointId'', st), (''connectorId'', Num (parse_int (to_string c)))]) L_sendStatusNotification
         (ru ''O[ibka '' @ ''TriggerStatusNotification'') (''TriggerStatusNotification '' @ ru ''wypolnen (demo)'')]))"

definition handleSendStatusNotification_resume :: "js_error + jsval \<Rightarrow> unit oc" where
  "handleSendStatusNotification_resume r =
     answered (''TriggerStatusNotification '' @ ru ''wypolnen: '') (ru ''O[ibka '' @ ''TriggerStatusNotification'') r"

definition handleSendMeterValues :: "unit oc" where
  "handleSendMeterValues = js_async (with_el ''evse-id-input'' (\<lambda>e.
     js_get (\<lambda>s. (selectedStationId s, selectedConnectorId s)) (\<lambda>(st, c).
       let evseId = js_or (Str (el_value e)) c in
       if \<not> truthy evseId then alert ''Please enter EVSE ID or select connector''
       else if \<not> truthy st then alert ''Please select station first''
       else js_block [
         addLog ((ru ''Otprawka '' @ ''TriggerMeterValues '' @ ru ''dlq stancii: '') @ to_string st @ '', EVSE: '' @ to_string evseId),
         request_or_demo ''sendTriggerMeterValues''
             (Obj [(''chargePointId'', st), (''evseId'', Num (parse_int (to_string evseId)))]) L_sendMeterValues
           (ru ''O[ibka '' @ ''TriggerMeterValues'') (''TriggerMeterValues '' @ ru ''wypolnen (demo)'')])))"

definition handleSendMeterValues_resume :: "js_error + jsval \<Rightarrow> unit oc" where
  "handleSendMeterValues_resume r = answered (''TriggerMeterValues '' @ ru ''wypolnen: '') (ru ''O[ibka '' @ ''TriggerMeterValues'') r"

definition handleSendHeartbit :: "unit oc" where
  "handleSendHeartbit = js_async (when_selected ''Please select station first'' (\<lambda>st. js_block [
     addLog ((ru ''Otprawka '' @ ''TriggerHeartbit '' @ ru ''dlq stancii: '') @ st),
     request_or_demo ''sendTriggerHeartbit'' (Obj [(''chargePointId'', Str st)]) L_sendHeartbit
       (ru ''O[ibka '' @ ''TriggerHeartbit'') (''TriggerHeartbit '' @ ru ''wypolnen (demo)'')]))"

definition handleSendHeartbit_resume :: "js_error + jsval \<Rightarrow> unit oc" where
  "handleSendHeartbit_resume r = answered (''TriggerHeartbit '' @ ru ''wypolnen: '') (ru ''O[ibka '' @ ''TriggerHeartbit'') r"

subsection \<open>Start-up\<close>

definition setupRpcHandlers :: "unit oc" where
  "setupRpcHandlers = js_block [
     on ''connected'' O_connected,
     on ''disconnected'' O_disconnected,
     on ''error'' O_error,
     on ''statusNotification'' O_statusNotification,
     on ''meterValues'' O_meterValues,
     on ''heartbeat'' O_heartbeat,
     client_connect default_url]"

definition setupEventHandlers :: "unit oc" where
  "setupEventHandlers = js_block [
     add_listener ''station-select'' ''change'' D_stationSelect,
     add_listener ''connector-select'' ''change'' D_connectorSelect,
     add_listener ''disconnect-btn'' ''click'' D_disconnect,
     add_listener ''get-report-btn'' ''click'' D_getReport,
     add_listener ''send-variables-btn'' ''click'' D_sendVariables,
     add_listener ''send-status-btn'' ''click'' D_sendStatus,
     add_listener ''send-meter-btn'' ''click'' D_sendMeter,
     add_listener ''send-heartbit-btn'' ''click'' D_sendHeartbit,
     add_listener ''clear-log-btn'' ''click'' D_clearLog]"

definition init :: "unit oc" where
  "init = js_block [
     js_get rpc_defined (\<lambda>b. if b then setupRpcHandlers else initDemoMode),
     setupEventHandlers,
     addLog (ru ''Sistema '' @ ''OCPP 2.0.1 '' @ ru ''inicializirowana'')]"

definition oc_constructor :: "unit oc" where
  "oc_constructor = js_block [
     js_upd (\<lambda>s. s\<lparr>stations := [], selectedStationId := Null, selectedConnectorId := Null,
       connectionState := ''disconnected''\<rparr>),
     init]"

subsection \<open>What a handler, an action and a continuation run\<close>

fun oc_invoke :: "oc_handler \<Rightarrow> jsval \<Rightarrow> unit oc" where
  "oc_invoke O_connected _ = js_block [
     updateConnectionStatus True,
     js_upd (\<lambda>s. s\<lparr>connectionState := ''connected''\<rparr>),
     loadStations]"
| "oc_invoke O_disconnected _ = js_block [
     updateConnectionStatus False,
     js_upd (\<lambda>s. s\<lparr>connectionState := ''disconnected''\<rparr>)]"
| "oc_invoke O_error error = js_lift (get_prop error ''message'') (\<lambda>m. addLog (''Connection error: '' @ to_string m))"
| "oc_invoke O_statusNotification params = js_lift (get_prop params ''chargePointId'') (\<lambda>i.
     updateConnectorStatus i (field_of params ''connectorId'') (field_of params ''status''))"
| "oc_invoke O_meterValues params = js_lift (get_prop params ''chargePointId'') (\<lambda>i.
     updateConnectorMeterValues i (field_of params ''connectorId'') (field_of params ''meterValue''))"
| "oc_invoke O_heartbeat params = js_lift (get_prop params ''chargePointId'') (\<lambda>i.
     updateStationStatus i (Str ''connected''))"

fun oc_act :: "oc_action \<Rightarrow> unit oc" where
  "oc_act D_stationSelect = with_el ''station-select'' (\<lambda>e. handleStationSelect (selected_value e))"
| "oc_act D_connectorSelect = with_el ''connector-select'' (\<lambda>e. handleConnectorSelect (selected_value e))"
| "oc_act D_disconnect = handleDisconnect"
| "oc_act D_getReport = handleGetBaseReport"
| "oc_act D_sendVariables = handleSendVariables"
| "oc_act D_sendStatus = handleSendStatusNotification"
| "oc_act D_sendMeter = handleSendMeterValues"
| "oc_act D_sendHeartbit = handleSendHeartbit"
| "oc_act D_clearLog = clearLog"

fun oc_resume :: "oc_cont \<Rightarrow> js_error + jsval \<Rightarrow> unit oc" where
  "oc_resume L_count r = loadStations_count r"
| "oc_resume L_ids r = loadStations_ids r"
| "oc_resume (L_station rest) r = loadStations_station rest r"
| "oc_resume L_getBaseReport r = handleGetBaseReport_resume r"
| "oc_resume L_sendVariables r = handleSendVariables_resume r"
| "oc_resume L_sendStatusNotification r = handleSendStatusNotification_resume r"
| "oc_resume L_sendMeterValues r = handleSendMeterValues_resume r"
| "oc_resume L_sendHeartbit r = handleSendHeartbit_resume r"

fun oc_fire :: "oc_timer \<Rightarrow> unit oc" where
  "oc_fire O_reconnect = client_connect default_url"

end
