(* ===== verification/OcppPage.thy ===== *)
theory OcppPage
  imports OcppSystem
begin

text \<open>
  The page of \<open>index.js\<close> at run time, with and without the global client: its runs and the
  relations that follow them.
\<close>

definition deliver :: "page_event \<Rightarrow> unit oc" where
  "deliver = page_deliver oc_invoke (client_onclose oc_invoke O_reconnect) oc_act (\<lambda>_. False) oc_fire"

inductive oc_step :: "oc_page \<Rightarrow> oc_page \<Rightarrow> bool" where
  job: "jobs s \<noteq> [] \<Longrightarrow> oc_step s (snd (run_next oc_resume s))"
| event: "jobs s = [] \<Longrightarrow> page_enabled s ev \<Longrightarrow> oc_step s (snd (deliver ev s))"

inductive_cases oc_stepE: "oc_step s t"

inductive oc_steps :: "oc_page \<Rightarrow> oc_page \<Rightarrow> bool" where
  refl: "oc_steps s s"
| step: "oc_steps s t \<Longrightarrow> oc_step t u \<Longrightarrow> oc_steps s u"

definition oc_window :: "bool \<Rightarrow> (string \<rightharpoonup> element) \<Rightarrow> (string \<Rightarrow> bool) \<Rightarrow> (js_error \<Rightarrow> string) \<Rightarrow> string \<Rightarrow> oc_page" where
  "oc_window b d ok msg t = \<lparr>dom = d, listeners = [], sockets = [], clock = t, alerts = [], unhandled = [],
     url_ok = ok, engine_message = msg, ws = None, connected = False, requestId = 0,
     pendingRequests = [], eventHandlers = [], reconnectInterval = 0, maxReconnectAttempts = 0,
     reconnectAttempts = 0, debug = False, url = [], jobs = [], timers = [],
     rpc_defined = b, stations = [], selectedStationId = Undefined, selectedConnectorId = Undefined,
     connectionState = []\<rparr>"

text \<open>Without a client there is nothing to construct but the page.\<close>

definition oc_start :: "bool \<Rightarrow> (string \<rightharpoonup> element) \<Rightarrow> (string \<Rightarrow> bool) \<Rightarrow> (js_error \<Rightarrow> string) \<Rightarrow> string \<Rightarrow> oc_page" where
  "oc_start b d ok msg t = snd (js_report oc_constructor
     (if b then client_constructor (oc_window b d ok msg t) else oc_window b d ok msg t))"

subsection \<open>Relations\<close>

text \<open>Relations that ignore the document pass through what draws.\<close>

locale oc_drawing = dom_relation R
  for R :: "oc_page \<Rightarrow> oc_page \<Rightarrow> bool"
begin

lemma rel_addLog: "relates R (addLog m)" "relates R (log_failure t e)" "relates R clearLog"
  unfolding addLog_def log_failure_def clearLog_def by (auto intro!: dom_rel_intros)

lemma rel_block_steps:
  "relates R (js_block [])" "relates R c \<Longrightarrow> relates R (js_block cs) \<Longrightarrow> relates R (js_block (c # cs))"
  by (simp_all add: js_block.simps rel_skip rel_bind)

lemma rel_with_station: "(\<And>st. relates R (k st)) \<Longrightarrow> relates R (with_station i k)"
  unfolding with_station_def by (auto intro!: dom_rel_intros split: option.split)

lemma rel_updateStationsList: "relates R updateStationsList" "relates R (updateConnectorsList i)"
  unfolding updateStationsList_def updateConnectorsList_def
  by (auto intro!: dom_rel_intros rel_addLog rel_with_station)

lemma rel_displays: "relates R (updateStationDisplay v)" "relates R (updateConnectorStatusDisplay v)"
  "relates R (updateConnectionStatus b)"
  unfolding updateStationDisplay_def updateConnectorStatusDisplay_def updateConnectionStatus_def
  by (auto intro!: rel_block_steps rel_dom_ops rel_addLog split: prod.split)

end

text \<open>Relations that ignore the stations as well pass through what selects and records.\<close>

locale oc_view = oc_drawing R
  for R :: "oc_page \<Rightarrow> oc_page \<Rightarrow> bool" +
  assumes R_stations: "R s (s\<lparr>stations := m\<rparr>)"
    and R_station: "R s (s\<lparr>selectedStationId := v\<rparr>)"
    and R_connector: "R s (s\<lparr>selectedConnectorId := v\<rparr>)"
begin

lemma rel_selects: "relates R (handleStationSelect i)" "relates R (handleConnectorSelect c)"
  unfolding handleStationSelect_def handleConnectorSelect_def hide_def
  by (auto intro!: rel_block_steps dom_rel_intros rel_upd R_station R_connector rel_with_station rel_displays
      rel_updateStationsList rel_addLog split: option.split)

lemma rel_set: "relates R (set_station i f)" "relates R (set_connector i' c g)"
  unfolding set_connector_def set_station_def by (auto intro!: rel_with_station rel_upd R_stations)

lemma rel_updates:
  "relates R (updateStationStatus i v)" "relates R (updateConnectorStatus i c v)"
  "relates R (updateConnectorMeterValues i c v)"
  unfolding updateStationStatus_def updateConnectorStatus_def updateConnectorMeterValues_def if_selected_def
    show_connector_values_def
  by (auto intro!: dom_rel_intros rel_set rel_displays split: option.split)

end

text \<open>What a relation has to tolerate to follow a whole run with a client.\<close>

locale oc_relation = oc_view R + socket_relation R
  for R :: "oc_page \<Rightarrow> oc_page \<Rightarrow> bool" +
  assumes R_call: "relates R (client_call m p k)"
    and R_forget: "relates R (forget n)"
    and R_jobs: "R s (s\<lparr>jobs := js\<rparr>)"
    and R_connected: "R s (s\<lparr>connected := c\<rparr>)"
    and R_reset: "R s (s\<lparr>reconnectAttempts := 0\<rparr>)"
    and R_retry: "reconnectAttempts s < maxReconnectAttempts s \<Longrightarrow>
      R s (s\<lparr>reconnectAttempts := reconnectAttempts s + 1\<rparr>)"
    and R_timers: "R s (s\<lparr>timers := ts\<rparr>)"
    and R_ws: "R s (s\<lparr>ws := w\<rparr>)"
    and R_state: "R s (s\<lparr>connectionState := st\<rparr>)"
    and R_clock: "R s (s\<lparr>clock := tm\<rparr>)"
begin

lemmas oc_rel_intros = dom_rel_intros rel_addLog rel_updateStationsList R_call

lemma rel_settle: "relates R (settle k r)"
  by (simp add: settle_def rel_upd R_jobs)

lemma rel_loading: "relates R loadStations" "relates R (loading_failed e)"
  unfolding loadStations_def loading_failed_def by (auto intro!: oc_rel_intros)

lemma rel_load_next: "relates R (load_next ids)"
  unfolding load_next_def loadStationInfo_def
  by (auto intro!: oc_rel_intros rel_upd R_stations rel_settle split: list.split)

lemma rel_oc_invoke: "relates R (oc_invoke h d)"
  by (cases h) (auto intro!: oc_rel_intros rel_displays rel_loading rel_updates rel_upd R_state)

lemma rel_request: "relates R (request_or_demo m p k f t)" "relates R (answered t f r)"
  unfolding request_or_demo_def answered_def by (auto intro!: oc_rel_intros)

lemma rel_when_selected: "(\<And>st. relates R (k st)) \<Longrightarrow> relates R (when_selected m k)"
  unfolding when_selected_def by (auto intro!: oc_rel_intros)

lemma rel_oc_act: "relates R (oc_act a)"
  by (cases a) (auto simp: handleDisconnect_def handleGetBaseReport_def handleSendVariables_def
      handleSendStatusNotification_def handleSendMeterValues_def handleSendHeartbit_def Let_def
      intro!: oc_rel_intros rel_selects rel_when_selected rel_request rel_set rel_displays split: prod.split)

lemma rel_oc_resume: "relates R (oc_resume k r)"
  by (cases k) (auto simp: loadStations_count_def loadStations_ids_def loadStations_station_def
      handleGetBaseReport_resume_def handleSendVariables_resume_def handleSendStatusNotification_resume_def
      handleSendMeterValues_resume_def handleSendHeartbit_resume_def
      intro!: oc_rel_intros rel_loading rel_load_next rel_request)

end

sublocale oc_relation \<subseteq> rpc: rpc_relation R oc_invoke
  by unfold_locales (auto intro: rel_oc_invoke R_forget rel_settle R_connected R_reset)

sublocale oc_relation \<subseteq> client: client_relation R oc_invoke O_reconnect
  by unfold_locales (rule R_retry R_timers R_ws R_sockets, assumption?)+

context oc_relation
begin

lemma rel_oc_fire: "relates R (oc_fire t)"
  by (cases t) (auto intro: client.rel_client_connect)

end

sublocale oc_relation \<subseteq> turn: page_relation R oc_invoke "client_onclose oc_invoke O_reconnect" oc_act "\<lambda>_. False" oc_fire
  by unfold_locales (auto intro: client.rel_client_onclose rel_oc_act rel_oc_fire R_timers R_clock R_jobs)

context oc_relation
begin

lemma rel_oc_step: "oc_step s t \<Longrightarrow> R s t"
  by (erule oc_stepE)
    (auto simp: deliver_def intro: turn.rel_page_deliver relatesD [OF turn.rel_run_next [OF rel_oc_resume]])

lemma rel_oc_steps: "oc_steps s t \<Longrightarrow> R s t"
  by (induction rule: oc_steps.induct) (auto intro: R_refl R_trans rel_oc_step)

end

interpretation oev: oc_relation "rpc_evolves :: oc_page \<Rightarrow> oc_page \<Rightarrow> bool"
  by unfold_locales (auto simp: rpc_evolves_same intro: evolves_client_call evolves_forget)

interpretation oso: oc_relation "sockets_advance :: oc_page \<Rightarrow> oc_page \<Rightarrow> bool"
  by unfold_locales (auto intro: advance_client_call advance_forget sockets_advance_same)

text \<open>A handler, listener or continuation leaves the registrations and the environment alone.\<close>

definition oc_same_wiring :: "oc_page \<Rightarrow> oc_page \<Rightarrow> bool" where
  "oc_same_wiring s t \<longleftrightarrow> eventHandlers t = eventHandlers s \<and> rpc_defined t = rpc_defined s"

lemma oc_call_keeps:
  fixes s :: oc_page
  shows "eventHandlers (snd (client_call m p k s)) = eventHandlers s" "rpc_defined (snd (client_call m p k s)) = rpc_defined s"
  by (auto simp: client_call_def ws_send_def js_run split: option.split ready_state.split)

interpretation owi: oc_relation oc_same_wiring
  by unfold_locales (auto simp: oc_same_wiring_def relates_def oc_call_keeps js_run)

interpretation ohc: handler_contract oc_invoke
  by unfold_locales (use owi.rel_oc_invoke in \<open>auto simp: relates_def oc_same_wiring_def\<close>)

text \<open>Drawing changes the document only, what it shows and what it reports.\<close>

definition undrawn :: "oc_page \<Rightarrow> oc_page" where
  "undrawn s = s\<lparr>dom := Map.empty, alerts := [], unhandled := []\<rparr>"

definition only_drawn :: "oc_page \<Rightarrow> oc_page \<Rightarrow> bool" where
  "only_drawn s t \<longleftrightarrow> undrawn t = undrawn s"

interpretation odw: oc_drawing only_drawn
  by unfold_locales (simp_all add: only_drawn_def undrawn_def)

lemma only_drawn_fields:
  assumes "only_drawn s t"
  shows "stations t = stations s" "selectedStationId t = selectedStationId s"
    "selectedConnectorId t = selectedConnectorId s" "connectionState t = connectionState s" "jobs t = jobs s"
    "sockets t = sockets s"
proof -
  have e: "f t = f s" if "\<And>u. f (undrawn u) = f u" for f :: "oc_page \<Rightarrow> 'a"
    using assms that unfolding only_drawn_def by metis
  show "stations t = stations s" "selectedStationId t = selectedStationId s"
    "selectedConnectorId t = selectedConnectorId s" "connectionState t = connectionState s" "jobs t = jobs s"
    "sockets t = sockets s"
    by (rule e, simp add: undrawn_def)+
qed

subsection \<open>The demo mode\<close>

text \<open>A page that has no connection and never had one.\<close>

definition inert :: "oc_page \<Rightarrow> bool" where
  "inert s \<longleftrightarrow> connectionState s = ''disconnected'' \<and> sockets s = [] \<and> pendingRequests s = [] \<and> requestId s = 0 \<and>
     jobs s = [] \<and> timers s = [] \<and> eventHandlers s = [] \<and> \<not> connected s"

definition keeps_inert :: "oc_page \<Rightarrow> oc_page \<Rightarrow> bool" where
  "keeps_inert s t \<longleftrightarrow> (inert s \<longrightarrow> inert t)"

interpretation oin: oc_view keeps_inert
  by unfold_locales (auto simp: keeps_inert_def inert_def)

end
