(* ===== verification/StationManager.thy ===== *)
theory StationManager
  imports ClientRpc
begin

text \<open>
  \<open>web/js/central_system_bak.js\<close>: the class \<open>StationManager\<close>, the operator page before it was
  rewritten as \<open>CentralSystem\<close>. It works on the global \<open>window.rpcClient\<close>, the client of
  \<open>web/client/js/rpc-client.js\<close> when that script is loaded. It finds most elements by selectors, and what a
  selector finds depends on the document: the field \<open>query\<close> is the browser's answer, for the whole
  document or inside an element. As on the other pages an \<open>async\<close> method is split at its \<open>await\<close>.
\<close>

subsection \<open>State, handlers, actions, continuations\<close>

datatype sm_handler = S_connected | S_disconnected | S_StatusNotification | S_MeterValues | S_Heartbeat

datatype sm_timer = S_reconnect

datatype sm_cont =
    W_loadStationsList bool  \<comment> \<open>awaited by \<open>loadInitialData\<close>?\<close>
  | W_handleStationChange jsval
  | W_handleConnectorChange jsval
  | W_disableStation
  | W_getStationInfo
  | W_getConfiguration
  | W_getVariable
  | W_setVariable
  | W_rebootStation
  | W_clearCache
  | W_requestStartTransaction
  | W_requestStopTransaction
  | W_unlockConnector
  | W_triggerMeterValues jsval
  | W_triggerStatusNotification
  | W_triggerHeartbeat

datatype sm_action =
    S_stationSelect | S_connectorSelect | S_disableStation | S_getStationInfo | S_getConfiguration
  | S_getVariable | S_setVariable | S_rebootStation | S_clearCache | S_requestStartTransaction
  | S_requestStopTransaction | S_unlockConnector | S_triggerMeterValues | S_triggerStatusNotification
  | S_triggerHeartbeat

record sm_page = "(sm_cont, sm_handler, sm_timer, sm_action) rpc_page" +
  client_defined :: bool
  query :: "(string \<rightharpoonup> element) \<Rightarrow> string option \<Rightarrow> string \<Rightarrow> string list"
  currentStation :: jsval
  currentConnector :: jsval
  stations :: "(jsval, jsval) jsmap"
  isInitialized :: bool

type_synonym 'r sm = "(sm_page, 'r) js"

subsection \<open>Selectors and the client\<close>

definition querySelectorAll :: "string option \<Rightarrow> string \<Rightarrow> (string list \<Rightarrow> unit sm) \<Rightarrow> unit sm" where
  "querySelectorAll base sel k = js_get (\<lambda>s. query s (dom s) base sel) k"

definition querySelector :: "string option \<Rightarrow> string \<Rightarrow> (string option \<Rightarrow> unit sm) \<Rightarrow> unit sm" where
  "querySelector base sel k = querySelectorAll base sel (\<lambda>ns. k (case ns of [] \<Rightarrow> None | n # _ \<Rightarrow> Some n))"

text \<open>A result that is used as an element.\<close>

definition the_element :: "string option \<Rightarrow> (string \<Rightarrow> unit sm) \<Rightarrow> unit sm" where
  "the_element r k = (case r of None \<Rightarrow> js_throw TypeError | Some n \<Rightarrow> k n)"

text \<open>\<open>if (element) ...\<close>\<close>

definition if_found :: "string option \<Rightarrow> (string \<Rightarrow> unit sm) \<Rightarrow> unit sm" where
  "if_found r k = (case r of None \<Rightarrow> js_skip | Some n \<Rightarrow> k n)"

definition nth_element :: "string list \<Rightarrow> nat \<Rightarrow> string option" where
  "nth_element ns i = (if i < length ns then Some (ns ! i) else None)"

text \<open>\<open>this.rpcClient.call(method, params)\<close>\<close>

definition rpc_call :: "string \<Rightarrow> jsval \<Rightarrow> sm_cont \<Rightarrow> unit sm" where
  "rpc_call method params k = js_get client_defined (\<lambda>b. if b then client_call method params k else js_throw TypeError)"

subsection \<open>Logging\<close>

definition log_entry_html :: "string \<Rightarrow> string \<Rightarrow> string" where
  "log_entry_html time message =
     line 12 (''<span class=\"log-entry__time\">['' @ time @ '']</span>'') @
     line 12 (''<span class=\"log-entry__message\">'' @ message @ ''</span>'') @
     line 8 []"

definition addLogEntry :: "string \<Rightarrow> string \<Rightarrow> unit sm" where
  "addLogEntry message type = querySelector None ''.log-container'' (\<lambda>r. js_get clock (\<lambda>time. the_element r (\<lambda>n.
     append_child n (ElementNode (''log-entry log-entry--'' @ type) (log_entry_html time message)))))"

definition log :: "string \<Rightarrow> unit sm" where
  "log message = addLogEntry message ''info''"

definition logSuccess :: "string \<Rightarrow> unit sm" where
  "logSuccess message = addLogEntry message ''success''"

definition logError :: "string \<Rightarrow> unit sm" where
  "logError message = addLogEntry message ''error''"

definition handleRpcError :: "string \<Rightarrow> js_error \<Rightarrow> unit sm" where
  "handleRpcError userMessage error = js_get (\<lambda>s. error_message s error) (\<lambda>m.
     logError (userMessage @ '': '' @ (if m = [] then (ru ''Neizwestnaq o[ibka'') else m)))"

subsection \<open>Helpers\<close>

definition validateCurrentStation :: "bool sm" where
  "validateCurrentStation = js_get currentStation (\<lambda>c.
     if \<not> truthy c then js_bind (logError (ru ''Sna^ala wyberite stanci@'')) (\<lambda>_. js_return False)
     else js_return True)"

definition validateCurrentConnector :: "bool sm" where
  "validateCurrentConnector = js_get currentConnector (\<lambda>c.
     if \<not> truthy c then js_bind (logError (ru ''Sna^ala wyberite konnektor'')) (\<lambda>_. js_return False)
     else js_return True)"

text \<open>\<open>if (!this.validate...()) return;\<close> in front of the rest of the method.\<close>

definition when_valid :: "bool sm \<Rightarrow> unit sm \<Rightarrow> unit sm" where
  "when_valid check body = js_bind check (\<lambda>ok. if ok then body else js_skip)"

definition parseResponse :: "jsval \<Rightarrow> jsval" where
  "parseResponse response =
     (if truthy response \<and> truthy (field_of response ''result'')
      then (case field_of response ''result'' of
              Str t \<Rightarrow> (case json_parse t of Inr v \<Rightarrow> v | Inl e \<Rightarrow> Str t)
            | r \<Rightarrow> r)
      else response)"

definition cacheStationsData :: "jsval \<Rightarrow> unit sm" where
  "cacheStationsData sts = js_bind (js_upd (\<lambda>s. s\<lparr>stations := []\<rparr>)) (\<lambda>_.
     js_lift (array_elems sts) (\<lambda>xs. js_block (map (\<lambda>station.
       js_lift (get_prop station ''id'') (\<lambda>i.
         js_upd (\<lambda>s. s\<lparr>stations := map_set (stations s) i station\<rparr>))) xs)))"

text \<open>\<open>map[key] || key\<close>\<close>

definition looked_up :: "(string \<times> string) list \<Rightarrow> jsval \<Rightarrow> jsval" where
  "looked_up m key = (case map_get m (to_string key) of Some t \<Rightarrow> Str t | None \<Rightarrow> key)"

definition getStatusText :: "jsval \<Rightarrow> jsval" where
  "getStatusText status = looked_up
     [(''working'', (ru ''W rabote'')), (''alarm'', (ru ''Awariq'')), (''disabled'', (ru ''Otkl@^ena''))] status"

definition getConnectorTypeText :: "jsval \<Rightarrow> jsval" where
  "getConnectorTypeText type = looked_up
     [(''GBT'', ''GBT''), (''CCS2'', ''CCS2''), (''TYPE2'', ''TYPE2''), (''CHADEMO'', ''CHADEMO'')] type"

definition getConnectorStatusText :: "jsval \<Rightarrow> jsval" where
  "getConnectorStatusText status = looked_up
     [(''alarm-ev'', ''Alarm EV''), (''alarm-cp'', ''Alarm CP''), (''ok'', ''OK''), (''charge'', ''Charge''),
      (''in'', ''In''), (''unavailable'', ''Unavailable'')] status"

subsection \<open>Updating the page\<close>

definition updateStationsDropdown :: "jsval \<Rightarrow> unit sm" where
  "updateStationsDropdown sts = js_block [
     clear_options ''station-select'',
     js_lift (array_elems sts) (\<lambda>xs. js_block (map (\<lambda>station.
       js_lift (get_prop station ''id'') (\<lambda>i.
         append_option ''station-select'' (to_string i)
           (text_of (js_or (field_of station ''name'') (Str ((ru ''Stanciq '') @ to_string i)))))) xs))]"

definition updateConnectorsDropdown :: "jsval \<Rightarrow> unit sm" where
  "updateConnectorsDropdown connectors = js_block [
     clear_options ''connector-select'',
     if has_items connectors then
       js_lift (array_elems connectors) (\<lambda>xs. js_block (map (\<lambda>connector.
         js_lift (get_prop connector ''id'') (\<lambda>i.
           append_option ''connector-select'' (to_string i) ((ru ''Konnektor '') @ to_string i))) xs))
     else js_skip]"

definition updateStationInfo :: "jsval \<Rightarrow> unit sm" where
  "updateStationInfo stationData = js_block [
     querySelector None ''.station-info .status--working'' (\<lambda>r. if_found r (\<lambda>n.
       js_lift (get_prop stationData ''status'') (\<lambda>status. js_block [
         set_text n (text_of (getStatusText status)),
         set_class n (''info-item__value status--'' @ to_string status)]))),
     querySelector None ''.station-info__grid .info-item:nth-child(2) .info-item__value'' (\<lambda>r. if_found r (\<lambda>n.
       js_lift (get_prop stationData ''connectors'') (\<lambda>c.
         if truthy c then js_lift (get_prop c ''length'') (\<lambda>l. set_text n (text_of l)) else js_skip))),
     querySelector None ''.station-info__grid .info-item:nth-child(3) .info-item__value'' (\<lambda>r. if_found r (\<lambda>n.
       js_lift (get_prop stationData ''maxPower'') (\<lambda>p.
         if truthy p then set_text n (to_string p @ (ru '' kWt'')) else js_skip)))]"

text \<open>The value element of the i-th item of the connector's grid.\<close>

definition item_value :: "string list \<Rightarrow> nat \<Rightarrow> (string \<Rightarrow> unit sm) \<Rightarrow> unit sm" where
  "item_value infoItems i k = the_element (nth_element infoItems i) (\<lambda>item.
     querySelector (Some item) ''.info-item__value'' (\<lambda>r. the_element r k))"

definition updateConnectorInfo :: "jsval \<Rightarrow> unit sm" where
  "updateConnectorInfo connectorData = querySelector None ''.connector-info__grid'' (\<lambda>grid. the_element grid (\<lambda>g.
     querySelectorAll (Some g) ''.info-item'' (\<lambda>infoItems. js_block [
       item_value infoItems 0 (\<lambda>n. js_lift (get_prop connectorData ''type'') (\<lambda>t.
         set_text n (text_of (getConnectorTypeText t)))),
       item_value infoItems 1 (\<lambda>n. js_lift (get_prop connectorData ''status'') (\<lambda>status. js_block [
         set_text n (text_of (getConnectorStatusText status)),
         set_class n (''info-item__value status-indicator status-indicator--'' @ to_string status)])),
       js_lift (get_prop connectorData ''meter'') (\<lambda>m. if m = Undefined then js_skip
         else item_value infoItems 2 (\<lambda>n. set_text n (to_string m @ '' kWh''))),
       js_lift (get_prop connectorData ''power'') (\<lambda>p. if p = Undefined then js_skip
         else item_value infoItems 3 (\<lambda>n. set_text n (to_string p @ '' kW'')))])))"

definition updateStationStatus :: "jsval \<Rightarrow> unit sm" where
  "updateStationStatus status = querySelector None ''.station-info .info-item__value'' (\<lambda>r. if_found r (\<lambda>n. js_block [
     set_text n (text_of (getStatusText status)),
     set_class n (''info-item__value status--'' @ to_string status)]))"

definition updateConnectorStatus :: "jsval \<Rightarrow> unit sm" where
  "updateConnectorStatus status = querySelector None ''.connector-info .status-indicator'' (\<lambda>r. if_found r (\<lambda>n. js_block [
     set_text n (text_of (getConnectorStatusText status)),
     set_class n (''info-item__value status-indicator status-indicator--'' @ to_string status)]))"

definition updateMeterValues :: "jsval \<Rightarrow> unit sm" where
  "updateMeterValues values = js_block [
     js_lift (get_prop values ''meter'') (\<lambda>m. if m = Undefined then js_skip
       else querySelector None ''.connector-info__grid .info-item:nth-child(3) .info-item__value'' (\<lambda>r.
         if_found r (\<lambda>n. set_text n (to_string m @ '' kWh'')))),
     js_lift (get_prop values ''power'') (\<lambda>p. if p = Undefined then js_skip
       else querySelector None ''.connector-info__grid .info-item:nth-child(4) .info-item__value'' (\<lambda>r.
         if_found r (\<lambda>n. set_text n (to_string p @ '' kW''))))]"

text \<open>The new indicator takes the place of the old one, or is added to the header.\<close>

definition updateConnectionStatus :: "bool \<Rightarrow> unit sm" where
  "updateConnectionStatus flag =
     (let statusIndicator = blank_element\<lparr>
        className := ''connection-status '' @ (if flag then ''connected'' else ''disconnected''),
        textContent := (if flag then (ru ''Podkl@^eno'') else (ru ''Otkl@^eno''))\<rparr>
      in querySelector None ''.connection-status'' (\<lambda>existingStatus. case existingStatus of
           Some n \<Rightarrow> js_upd (\<lambda>s. s\<lparr>dom := (dom s)(n \<mapsto> statusIndicator)\<rparr>)
         | None \<Rightarrow> querySelector None ''.header'' (\<lambda>r. the_element r (\<lambda>_.
             js_upd (\<lambda>s. s\<lparr>dom := (dom s)(''.connection-status'' \<mapsto> statusIndicator)\<rparr>)))))"

subsection \<open>Loading and selecting\<close>

definition handleConnectorChange :: "jsval \<Rightarrow> unit sm" where
  "handleConnectorChange connectorId = js_async (js_try (js_block [
       log ((ru ''Wybor konnektora: '') @ to_string connectorId),
       js_get currentStation (\<lambda>st. rpc_call ''GetConnectorStatus''
         (Obj [(''stationId'', st), (''connectorId'', connectorId)]) (W_handleConnectorChange connectorId))])
     (\<lambda>error. logError ((ru ''O[ibka zagruzki dannyh konnektora '') @ to_string connectorId)))"

definition handleConnectorChange_resume :: "jsval \<Rightarrow> js_error + jsval \<Rightarrow> unit sm" where
  "handleConnectorChange_resume connectorId r = js_try (js_lift r (\<lambda>response. js_block [
         js_upd (\<lambda>s. s\<lparr>currentConnector := connectorId\<rparr>),
         updateConnectorInfo (parseResponse response)]))
     (\<lambda>error. logError ((ru ''O[ibka zagruzki dannyh konnektora '') @ to_string connectorId))"

definition handleStationChange :: "jsval \<Rightarrow> unit sm" where
  "handleStationChange stationId = js_async (js_try (js_block [
       log ((ru ''Wybor stancii: '') @ to_string stationId),
       rpc_call ''GetStationStatus'' (Obj [(''stationId'', stationId)]) (W_handleStationChange stationId)])
     (\<lambda>error. logError ((ru ''O[ibka zagruzki dannyh stancii '') @ to_string stationId)))"

definition handleStationChange_resume :: "jsval \<Rightarrow> js_error + jsval \<Rightarrow> unit sm" where
  "handleStationChange_resume stationId r = js_try (js_lift r (\<lambda>response.
       let stationData = parseResponse response in js_block [
         js_upd (\<lambda>s. s\<lparr>currentStation := stationId\<rparr>),
         updateStationInfo stationData,
         js_lift (get_prop stationData ''connectors'') updateConnectorsDropdown,
         js_lift (get_prop stationData ''connectors'') (\<lambda>cs. if has_items cs
           then js_lift (get_index cs 0) (\<lambda>c. js_lift (get_prop c ''id'') handleConnectorChange)
           else js_skip)]))
     (\<lambda>error. logError ((ru ''O[ibka zagruzki dannyh stancii '') @ to_string stationId))"

definition loadStationsList_body :: "bool \<Rightarrow> unit sm" where
  "loadStationsList_body from_init = js_try (js_block [
       log (ru ''Zagruzka spiska stancij...''),
       rpc_call ''GetStations'' (Obj []) (W_loadStationsList from_init)])
     (\<lambda>error. logError (ru ''O[ibka zagruzki spiska stancij''))"

definition loadStationsList :: "unit sm" where
  "loadStationsList = js_async (loadStationsList_body False)"

text \<open>\<open>stations.length > 0\<close> is evaluated after \<open>forEach\<close> succeeded, so \<open>stations\<close> is an array.\<close>

definition loadStationsList_resume :: "js_error + jsval \<Rightarrow> unit sm" where
  "loadStationsList_resume r = js_try (js_lift r (\<lambda>response.
       let sts = parseResponse response in js_block [
         updateStationsDropdown sts,
         cacheStationsData sts,
         js_get currentStation (\<lambda>c. if has_items sts \<and> \<not> truthy c
           then js_lift (get_index sts 0) (\<lambda>station. js_lift (get_prop station ''id'') handleStationChange)
           else js_skip)]))
     (\<lambda>error. logError (ru ''O[ibka zagruzki spiska stancij''))"

definition loadInitialData :: "unit sm" where
  "loadInitialData = js_async (js_try (js_get client_defined (\<lambda>b. if \<not> b then js_throw TypeError
       else js_get connected (\<lambda>c. if c then loadStationsList_body True else js_skip)))
     (\<lambda>error. logError (ru ''O[ibka zagruzki na^alxnyh dannyh'')))"

definition loadInitialData_resume :: "js_error + jsval \<Rightarrow> unit sm" where
  "loadInitialData_resume r = js_try (loadStationsList_resume r)
     (\<lambda>error. logError (ru ''O[ibka zagruzki na^alxnyh dannyh''))"

subsection \<open>Commands to the station\<close>

definition station_params :: "sm_page \<Rightarrow> jsval" where
  "station_params s = Obj [(''stationId'', currentStation s)]"

text \<open>
  A command without inputs: the check, then \<open>try { await call(...) } catch { handleRpcError(...) }\<close>;
  and the rest of it, which logs the success.
\<close>

definition command :: "bool sm \<Rightarrow> string \<Rightarrow> (sm_page \<Rightarrow> jsval) \<Rightarrow> sm_cont \<Rightarrow> string \<Rightarrow> unit sm" where
  "command check method params k failure = js_async (when_valid check
     (js_try (js_get params (\<lambda>p. rpc_call method p k)) (handleRpcError failure)))"

definition succeeded :: "(jsval \<Rightarrow> unit sm) \<Rightarrow> string \<Rightarrow> js_error + jsval \<Rightarrow> unit sm" where
  "succeeded report failure r = js_try (js_lift r report) (handleRpcError failure)"

definition disableStation :: "unit sm" where
  "disableStation = js_async (when_valid validateCurrentStation (js_try (js_block [
       js_get currentStation (\<lambda>st. log ((ru ''Otkl@^enie stancii '') @ to_string st)),
       js_get station_params (\<lambda>p. rpc_call ''DisableStation'' p W_disableStation)])
     (handleRpcError (ru ''O[ibka otkl@^eniq stancii''))))"

definition disableStation_resume :: "js_error + jsval \<Rightarrow> unit sm" where
  "disableStation_resume r = succeeded (\<lambda>_. logSuccess (ru ''Stanciq uspe[no otkl@^ena'')) (ru ''O[ibka otkl@^eniq stancii'') r"

definition getStationInfo :: "unit sm" where
  "getStationInfo = command validateCurrentStation ''GetStationInfo'' station_params W_getStationInfo
     (ru ''O[ibka polu^eniq informacii o stancii'')"

definition getStationInfo_resume :: "js_error + jsval \<Rightarrow> unit sm" where
  "getStationInfo_resume r = succeeded (\<lambda>response. js_block [
       logSuccess (ru ''Informaciq o stancii polu^ena''),
       log ((ru ''Informaciq o stancii: '') @ to_string (json_stringify (parseResponse response)))])
     (ru ''O[ibka polu^eniq informacii o stancii'') r"

definition getConfiguration :: "unit sm" where
  "getConfiguration = command validateCurrentStation ''GetConfiguration'' station_params W_getConfiguration
     (ru ''O[ibka polu^eniq konfiguracii'')"

definition getConfiguration_resume :: "js_error + jsval \<Rightarrow> unit sm" where
  "getConfiguration_resume r = succeeded (\<lambda>response. js_block [
       logSuccess (ru ''Konfiguraciq polu^ena''),
       log ((ru ''Konfiguraciq: '') @ to_string (json_stringify (parseResponse response)))])
     (ru ''O[ibka polu^eniq konfiguracii'') r"

definition getVariable :: "unit sm" where
  "getVariable = command validateCurrentStation ''GetVariable'' station_params W_getVariable
     (ru ''O[ibka polu^eniq peremennyh'')"

definition getVariable_resume :: "js_error + jsval \<Rightarrow> unit sm" where
  "getVariable_resume r = succeeded (\<lambda>response. js_block [
       logSuccess (ru ''Peremennye polu^eny''),
       log ((ru ''Peremennye: '') @ to_string (json_stringify (parseResponse response)))])
     (ru ''O[ibka polu^eniq peremennyh'') r"

text \<open>The values of the fields; a field that is missing is \<open>undefined\<close>.\<close>

definition input_value :: "sm_page \<Rightarrow> string list \<Rightarrow> nat \<Rightarrow> jsval" where
  "input_value s inputs i = (case nth_element inputs i of None \<Rightarrow> Undefined
     | Some n \<Rightarrow> (case dom s n of None \<Rightarrow> Undefined | Some e \<Rightarrow> Str (el_value e)))"

definition setVariable :: "unit sm" where
  "setVariable = js_async (when_valid validateCurrentStation
     (querySelectorAll None ''.variable-control__inputs .input-field'' (\<lambda>inputs.
       js_get (\<lambda>s. (input_value s inputs 0, input_value s inputs 1, input_value s inputs 2))
         (\<lambda>(component, variable, attribute).
         if \<not> truthy component \<or> \<not> truthy variable
         then logError (ru ''Zapolnite obqzatelxnye polq: '' @ ''Component '' @ ru ''i '' @ ''Variable'')
         else js_try (js_get currentStation (\<lambda>st. rpc_call ''SetVariable''
             (Obj [(''stationId'', st), (''component'', component), (''variable'', variable),
                   (''attribute'', js_or attribute Undefined)]) W_setVariable))
           (handleRpcError (ru ''O[ibka zapisi peremennoj''))))))"

definition setVariable_resume :: "js_error + jsval \<Rightarrow> unit sm" where
  "setVariable_resume r = succeeded (\<lambda>_. logSuccess (ru ''Peremennaq uspe[no zapisana'')) (ru ''O[ibka zapisi peremennoj'') r"

definition rebootStation :: "unit sm" where
  "rebootStation = command validateCurrentStation ''RebootStation'' station_params W_rebootStation
     (ru ''O[ibka perezagruzki stancii'')"

definition rebootStation_resume :: "js_error + jsval \<Rightarrow> unit sm" where
  "rebootStation_resume r = succeeded (\<lambda>_. logSuccess (ru ''Komanda perezagruzki otprawlena'')) (ru ''O[ibka perezagruzki stancii'') r"

definition clearCache :: "unit sm" where
  "clearCache = command validateCurrentStation ''ClearCache'' station_params W_clearCache (ru ''O[ibka o^istki k|[a'')"

definition clearCache_resume :: "js_error + jsval \<Rightarrow> unit sm" where
  "clearCache_resume r = succeeded (\<lambda>_. logSuccess (ru ''K|[ uspe[no o^i]en'')) (ru ''O[ibka o^istki k|[a'') r"

subsection \<open>Commands to the connector\<close>

definition connector_params :: "sm_page \<Rightarrow> jsval" where
  "connector_params s = Obj [(''stationId'', currentStation s), (''connectorId'', currentConnector s)]"

definition requestStartTransaction :: "unit sm" where
  "requestStartTransaction = command validateCurrentConnector ''RequestStartTransaction'' connector_params
     W_requestStartTransaction (ru ''O[ibka na^ala tranzakcii'')"

definition requestStartTransaction_resume :: "js_error + jsval \<Rightarrow> unit sm" where
  "requestStartTransaction_resume r =
     succeeded (\<lambda>_. logSuccess (ru ''Zapros na na^alo tranzakcii otprawlen'')) (ru ''O[ibka na^ala tranzakcii'') r"

definition requestStopTransaction :: "unit sm" where
  "requestStopTransaction = command validateCurrentConnector ''RequestStopTransaction'' connector_params
     W_requestStopTransaction (ru ''O[ibka ostanowki tranzakcii'')"

definition requestStopTransaction_resume :: "js_error + jsval \<Rightarrow> unit sm" where
  "requestStopTransaction_resume r =
     succeeded (\<lambda>_. logSuccess (ru ''Zapros na ostanowku tranzakcii otprawlen'')) (ru ''O[ibka ostanowki tranzakcii'') r"

definition unlockConnector :: "unit sm" where
  "unlockConnector = command validateCurrentConnector ''UnlockConnector'' connector_params
     W_unlockConnector (ru ''O[ibka razblokirowki konnektora'')"

definition unlockConnector_resume :: "js_error + jsval \<Rightarrow> unit sm" where
  "unlockConnector_resume r =
     succeeded (\<lambda>_. logSuccess (ru ''Komanda razblokirowki konnektora otprawlena'')) (ru ''O[ibka razblokirowki konnektora'') r"

subsection \<open>Trigger commands\<close>

definition triggerMeterValues :: "unit sm" where
  "triggerMeterValues = js_async (when_valid validateCurrentStation
     (querySelector None ''.trigger-item .input-field'' (\<lambda>evseIdInput. the_element evseIdInput (\<lambda>n.
       with_el n (\<lambda>e. js_get (\<lambda>s. (currentStation s, currentConnector s)) (\<lambda>(st, conn).
         let evseId = js_or (Str (el_value e)) conn in
         js_try (rpc_call ''TriggerMeterValues'' (Obj [(''stationId'', st), (''evseId'', evseId)]) (W_triggerMeterValues evseId))
           (handleRpcError (ru ''O[ibka '' @ ''trigger MeterValues''))))))))"

definition triggerMeterValues_resume :: "jsval \<Rightarrow> js_error + jsval \<Rightarrow> unit sm" where
  "triggerMeterValues_resume evseId r =
     succeeded (\<lambda>_. logSuccess (''Meter values triggered for EVSE: '' @ to_string evseId)) (ru ''O[ibka '' @ ''trigger MeterValues'') r"

definition triggerStatusNotification :: "unit sm" where
  "triggerStatusNotification = command validateCurrentStation ''TriggerStatusNotification'' station_params
     W_triggerStatusNotification (ru ''O[ibka '' @ ''trigger StatusNotification'')"

definition triggerStatusNotification_resume :: "js_error + jsval \<Rightarrow> unit sm" where
  "triggerStatusNotification_resume r =
     succeeded (\<lambda>_. logSuccess ''Status notification triggered'') (ru ''O[ibka '' @ ''trigger StatusNotification'') r"

definition triggerHeartbeat :: "unit sm" where
  "triggerHeartbeat = command validateCurrentStation ''TriggerHeartbeat'' station_params W_triggerHeartbeat
     (ru ''O[ibka '' @ ''trigger Heartbeat'')"

definition triggerHeartbeat_resume :: "js_error + jsval \<Rightarrow> unit sm" where
  "triggerHeartbeat_resume r = succeeded (\<lambda>_. logSuccess ''Heartbeat triggered'') (ru ''O[ibka '' @ ''trigger Heartbeat'') r"

subsection \<open>Notifications\<close>

definition handleStatusNotification :: "jsval \<Rightarrow> unit sm" where
  "handleStatusNotification data = js_block [
     log (''StatusNotification: '' @ to_string (json_stringify data)),
     js_lift (get_prop data ''stationId'') (\<lambda>sid. js_get currentStation (\<lambda>st.
       if strict_eq sid st then js_block [
         js_lift (get_prop data ''status'') updateStationStatus,
         js_lift (get_prop data ''connectorId'') (\<lambda>cid. js_get currentConnector (\<lambda>conn.
           if strict_eq cid conn
           then js_lift (get_prop data ''connectorStatus'') updateConnectorStatus
           else js_skip))]
       else js_skip))]"

definition handleMeterValues :: "jsval \<Rightarrow> unit sm" where
  "handleMeterValues data = js_block [
     log (''MeterValues: '' @ to_string (json_stringify data)),
     js_lift (get_prop data ''stationId'') (\<lambda>sid.
       js_get (\<lambda>s. (currentStation s, currentConnector s)) (\<lambda>(st, conn).
         if strict_eq sid st \<and> strict_eq (field_of data ''connectorId'') conn
         then js_lift (get_prop data ''values'') updateMeterValues
         else js_skip))]"

definition handleHeartbeat :: "jsval \<Rightarrow> unit sm" where
  "handleHeartbeat data = js_lift (get_prop data ''stationId'') (\<lambda>sid.
     log (''Heartbeat received from station: '' @ to_string sid))"

subsection \<open>Start-up\<close>

definition on_rpc :: "string \<Rightarrow> sm_handler \<Rightarrow> unit sm" where
  "on_rpc ev h = js_get client_defined (\<lambda>b. if b then on ev h else js_throw TypeError)"

definition setupRpcHandlers :: "unit sm" where
  "setupRpcHandlers = js_block [
     on_rpc ''connected'' S_connected,
     on_rpc ''disconnected'' S_disconnected,
     on_rpc ''StatusNotification'' S_StatusNotification,
     on_rpc ''MeterValues'' S_MeterValues,
     on_rpc ''Heartbeat'' S_Heartbeat]"

text \<open>\<open>document.querySelector(sel).addEventListener('click', ...)\<close>, and the same for one of many.\<close>

definition bind_first :: "string \<Rightarrow> sm_action \<Rightarrow> unit sm" where
  "bind_first sel a = querySelector None sel (\<lambda>r. the_element r (\<lambda>n. add_listener n ''click'' a))"

definition bind_nth :: "string list \<Rightarrow> nat \<Rightarrow> sm_action \<Rightarrow> unit sm" where
  "bind_nth ns i a = the_element (nth_element ns i) (\<lambda>n. add_listener n ''click'' a)"

definition bindStationControls :: "unit sm" where
  "bindStationControls = js_block [
     bind_first ''.btn--danger'' S_disableStation,
     bind_first ''.btn-with-tooltip .btn--primary'' S_getStationInfo,
     querySelectorAll None ''.btn--primary'' (\<lambda>ns. bind_nth ns 2 S_getConfiguration),
     querySelectorAll None ''.btn-with-tooltip .btn--primary'' (\<lambda>ns. bind_nth ns 1 S_getVariable),
     bind_first ''.variable-control .btn--primary'' S_setVariable,
     querySelectorAll None ''.btn-with-tooltip .btn--warning'' (\<lambda>ns. bind_nth ns 0 S_rebootStation),
     querySelectorAll None ''.btn-with-tooltip .btn--warning'' (\<lambda>ns. bind_nth ns 1 S_clearCache)]"

definition bindConnectorControls :: "unit sm" where
  "bindConnectorControls = querySelectorAll None ''.connector-controls .btn--primary'' (\<lambda>connectorButtons. js_block [
     bind_nth connectorButtons 0 S_requestStartTransaction,
     bind_nth connectorButtons 1 S_requestStopTransaction,
     bind_nth connectorButtons 2 S_unlockConnector])"

definition bindTriggerControls :: "unit sm" where
  "bindTriggerControls = querySelectorAll None ''.trigger-controls .btn--secondary'' (\<lambda>triggerButtons. js_block [
     bind_nth triggerButtons 0 S_triggerMeterValues,
     bind_nth triggerButtons 1 S_triggerStatusNotification,
     bind_nth triggerButtons 2 S_triggerHeartbeat])"

definition bindEvents :: "unit sm" where
  "bindEvents = js_block [
     add_listener ''station-select'' ''change'' S_stationSelect,
     add_listener ''connector-select'' ''change'' S_connectorSelect,
     bindStationControls,
     bindConnectorControls,
     bindTriggerControls]"

definition init :: "unit sm" where
  "init = js_get isInitialized (\<lambda>b. if b then js_skip else js_block [
     bindEvents,
     setupRpcHandlers,
     loadInitialData,
     js_upd (\<lambda>s. s\<lparr>isInitialized := True\<rparr>)])"

definition sm_constructor :: "unit sm" where
  "sm_constructor = js_block [
     js_upd (\<lambda>s. s\<lparr>currentStation := Null, currentConnector := Null, stations := [], isInitialized := False\<rparr>),
     init]"

subsection \<open>What a handler, an action and a continuation run\<close>

fun sm_invoke :: "sm_handler \<Rightarrow> jsval \<Rightarrow> unit sm" where
  "sm_invoke S_connected _ = js_block [updateConnectionStatus True, loadStationsList]"
| "sm_invoke S_disconnected _ = updateConnectionStatus False"
| "sm_invoke S_StatusNotification data = handleStatusNotification data"
| "sm_invoke S_MeterValues data = handleMeterValues data"
| "sm_invoke S_Heartbeat data = handleHeartbeat data"

fun sm_act :: "sm_action \<Rightarrow> unit sm" where
  "sm_act S_stationSelect = with_el ''station-select'' (\<lambda>e. handleStationChange (Str (selected_value e)))"
| "sm_act S_connectorSelect = with_el ''connector-select'' (\<lambda>e. handleConnectorChange (Str (selected_value e)))"
| "sm_act S_disableStation = disableStation"
| "sm_act S_getStationInfo = getStationInfo"
| "sm_act S_getConfiguration = getConfiguration"
| "sm_act S_getVariable = getVariable"
| "sm_act S_setVariable = setVariable"
| "sm_act S_rebootStation = rebootStation"
| "sm_act S_clearCache = clearCache"
| "sm_act S_requestStartTransaction = requestStartTransaction"
| "sm_act S_requestStopTransaction = requestStopTransaction"
| "sm_act S_unlockConnector = unlockConnector"
| "sm_act S_triggerMeterValues = triggerMeterValues"
| "sm_act S_triggerStatusNotification = triggerStatusNotification"
| "sm_act S_triggerHeartbeat = triggerHeartbeat"

fun sm_resume :: "sm_cont \<Rightarrow> js_error + jsval \<Rightarrow> unit sm" where
  "sm_resume (W_loadStationsList b) r = (if b then loadInitialData_resume r else loadStationsList_resume r)"
| "sm_resume (W_handleStationChange i) r = handleStationChange_resume i r"
| "sm_resume (W_handleConnectorChange c) r = handleConnectorChange_resume c r"
| "sm_resume W_disableStation r = disableStation_resume r"
| "sm_resume W_getStationInfo r = getStationInfo_resume r"
| "sm_resume W_getConfiguration r = getConfiguration_resume r"
| "sm_resume W_getVariable r = getVariable_resume r"
| "sm_resume W_setVariable r = setVariable_resume r"
| "sm_resume W_rebootStation r = rebootStation_resume r"
| "sm_resume W_clearCache r = clearCache_resume r"
| "sm_resume W_requestStartTransaction r = requestStartTransaction_resume r"
| "sm_resume W_requestStopTransaction r = requestStopTransaction_resume r"
| "sm_resume W_unlockConnector r = unlockConnector_resume r"
| "sm_resume (W_triggerMeterValues v) r = triggerMeterValues_resume v r"
| "sm_resume W_triggerStatusNotification r = triggerStatusNotification_resume r"
| "sm_resume W_triggerHeartbeat r = triggerHeartbeat_resume r"

text \<open>The client's only timer calls \<open>connect()\<close>.\<close>

fun sm_fire :: "sm_timer \<Rightarrow> unit sm" where
  "sm_fire S_reconnect = client_connect default_url"

end
