(* ===== verification/StationPage.thy ===== *)
theory StationPage
  imports StationManager
begin

text \<open>
  The page of \<open>central_system_bak.js\<close> at run time, and the relations that follow its runs.
\<close>

definition deliver :: "page_event \<Rightarrow> unit sm" where
  "deliver = page_deliver sm_invoke (client_onclose sm_invoke S_reconnect) sm_act (\<lambda>_. False) sm_fire"

inductive sm_step :: "sm_page \<Rightarrow> sm_page \<Rightarrow> bool" where
  job: "jobs s \<noteq> [] \<Longrightarrow> sm_step s (snd (run_next sm_resume s))"
| event: "jobs s = [] \<Longrightarrow> page_enabled s ev \<Longrightarrow> sm_step s (snd (deliver ev s))"

inductive_cases sm_stepE: "sm_step s t"

inductive sm_steps :: "sm_page \<Rightarrow> sm_page \<Rightarrow> bool" where
  refl: "sm_steps s s"
| step: "sm_steps s t \<Longrightarrow> sm_step t u \<Longrightarrow> sm_steps s u"

definition sm_window :: "bool \<Rightarrow> ((string \<rightharpoonup> element) \<Rightarrow> string option \<Rightarrow> string \<Rightarrow> string list) \<Rightarrow>
    (string \<rightharpoonup> element) \<Rightarrow> (string \<Rightarrow> bool) \<Rightarrow> (js_error \<Rightarrow> string) \<Rightarrow> string \<Rightarrow> sm_page" where
  "sm_window b q d ok msg t = \<lparr>dom = d, listeners = [], sockets = [], clock = t, alerts = [], unhandled = [],
     url_ok = ok, engine_message = msg, ws = None, connected = False, requestId = 0,
     pendingRequests = [], eventHandlers = [], reconnectInterval = 0, maxReconnectAttempts = 0,
     reconnectAttempts = 0, debug = False, url = [], jobs = [], timers = [],
     client_defined = b, query = q, currentStation = Undefined, currentConnector = Undefined, stations = [],
     isInitialized = False\<rparr>"

definition sm_start :: "bool \<Rightarrow> ((string \<rightharpoonup> element) \<Rightarrow> string option \<Rightarrow> string \<Rightarrow> string list) \<Rightarrow>
    (string \<rightharpoonup> element) \<Rightarrow> (string \<Rightarrow> bool) \<Rightarrow> (js_error \<Rightarrow> string) \<Rightarrow> string \<Rightarrow> sm_page" where
  "sm_start b q d ok msg t = snd (js_report sm_constructor
     (if b then client_constructor (sm_window b q d ok msg t) else sm_window b q d ok msg t))"

subsection \<open>Relations\<close>

text \<open>Relations that ignore the document pass through what draws and logs.\<close>

locale sm_drawing = dom_relation R
  for R :: "sm_page \<Rightarrow> sm_page \<Rightarrow> bool"
begin

lemma rel_query:
  "(\<And>ns. relates R (k ns)) \<Longrightarrow> relates R (querySelectorAll b sel k)"
  "(\<And>r. relates R (k' r)) \<Longrightarrow> relates R (querySelector b sel k')"
  "(\<And>n. relates R (f n)) \<Longrightarrow> relates R (the_element r f)"
  "(\<And>n. relates R (f n)) \<Longrightarrow> relates R (if_found r f)"
  unfolding querySelector_def querySelectorAll_def the_element_def if_found_def
  by (auto intro!: rel_get rel_throw rel_skip split: option.split)

lemma rel_log: "relates R (addLogEntry m t)" "relates R (log m)" "relates R (logSuccess m)" "relates R (logError m)"
  unfolding log_def logSuccess_def logError_def addLogEntry_def
  by (auto intro!: dom_rel_intros rel_query)

lemma rel_handleRpcError: "relates R (handleRpcError u e)"
  unfolding handleRpcError_def by (intro rel_get rel_log)

lemma rel_block_steps:
  "relates R (js_block [])" "relates R c \<Longrightarrow> relates R (js_block cs) \<Longrightarrow> relates R (js_block (c # cs))"
  by (simp_all add: js_block.simps rel_skip rel_bind)

lemma rel_valid:
  "relates R body \<Longrightarrow> relates R (when_valid validateCurrentStation body)"
  "relates R body \<Longrightarrow> relates R (when_valid validateCurrentConnector body)"
  unfolding when_valid_def validateCurrentStation_def validateCurrentConnector_def
  by (auto intro!: rel_intros rel_log)

lemma rel_dropdowns: "relates R (updateStationsDropdown v)" "relates R (updateConnectorsDropdown v)"
  unfolding updateStationsDropdown_def updateConnectorsDropdown_def
  by (auto intro!: dom_rel_intros)

lemma rel_item: "(\<And>n. relates R (k n)) \<Longrightarrow> relates R (item_value ns i k)"
  unfolding item_value_def by (intro rel_query)

lemma rel_infos: "relates R (updateStationInfo v)" "relates R (updateConnectorInfo v)"
  "relates R (updateStationStatus v)" "relates R (updateConnectorStatus v)" "relates R (updateMeterValues v)"
  unfolding updateStationInfo_def updateConnectorInfo_def updateStationStatus_def updateConnectorStatus_def
    updateMeterValues_def
  by (intro rel_block_steps rel_query rel_item rel_lift rel_if rel_skip rel_dom_ops)+

lemma rel_updateConnectionStatus: "relates R (updateConnectionStatus b)"
  unfolding updateConnectionStatus_def Let_def
  by (auto intro!: rel_query rel_upd R_dom split: option.split)

lemma rel_notified: "relates R (handleStatusNotification v)" "relates R (handleMeterValues v)" "relates R (handleHeartbeat v)"
  unfolding handleStatusNotification_def handleMeterValues_def handleHeartbeat_def
  by (auto intro!: rel_block_steps rel_intros rel_log rel_infos)

lemma rel_succeeded: "(\<And>v. relates R (report v)) \<Longrightarrow> relates R (succeeded report f r)"
  unfolding succeeded_def by (intro rel_try rel_lift rel_handleRpcError)

end

text \<open>With calls and the fields of the class, a relation passes through every method.\<close>

locale sm_view = sm_drawing R
  for R :: "sm_page \<Rightarrow> sm_page \<Rightarrow> bool" +
  assumes R_call: "relates R (client_call m p k)"
    and R_station: "R s (s\<lparr>currentStation := v\<rparr>)"
    and R_connector: "R s (s\<lparr>currentConnector := v\<rparr>)"
    and R_stations: "R s (s\<lparr>stations := sts\<rparr>)"
begin

lemma rel_call: "relates R (rpc_call m p k)"
  unfolding rpc_call_def by (intro rel_get rel_if R_call rel_throw)

lemmas sm_rel_intros = rel_block_steps rel_intros rel_query rel_log rel_handleRpcError rel_call rel_valid rel_report

lemma rel_changes: "relates R (handleStationChange v)" "relates R (handleConnectorChange v)"
  unfolding handleStationChange_def handleConnectorChange_def
  by (intro rel_report rel_try rel_block_steps rel_log rel_get rel_call)+

lemma rel_changed: "relates R (handleStationChange_resume v r)" "relates R (handleConnectorChange_resume v r)"
  unfolding handleStationChange_resume_def handleConnectorChange_resume_def Let_def
  by (intro rel_try rel_lift rel_block_steps rel_upd R_station R_connector rel_infos rel_dropdowns rel_if
      rel_changes rel_skip rel_log)+

lemma rel_cache: "relates R (cacheStationsData v)"
  unfolding cacheStationsData_def by (auto intro!: rel_intros rel_upd R_stations)

lemma rel_loads: "relates R (loadStationsList_body b)" "relates R loadStationsList" "relates R loadInitialData"
  unfolding loadStationsList_def loadInitialData_def loadStationsList_body_def
  by (intro rel_report rel_try rel_block_steps rel_log rel_get rel_if rel_call rel_throw rel_skip)+

lemma rel_loaded: "relates R (loadStationsList_resume r)" "relates R (loadInitialData_resume r)"
  unfolding loadStationsList_resume_def loadInitialData_resume_def Let_def
  by (intro rel_try rel_lift rel_block_steps rel_dropdowns rel_cache rel_get rel_if rel_changes rel_skip rel_log)+

lemma rel_command: "relates R (command validateCurrentStation m p k f)" "relates R (command validateCurrentConnector m p k f)"
  unfolding command_def by (intro rel_report rel_valid rel_try rel_get rel_call rel_handleRpcError)+

lemma rel_commands: "relates R disableStation" "relates R setVariable" "relates R triggerMeterValues"
  unfolding disableStation_def setVariable_def triggerMeterValues_def Let_def
  by (auto intro!: rel_report rel_valid rel_try rel_block_steps rel_get rel_log rel_call rel_handleRpcError rel_query
      rel_with_el split: prod.split)

lemma rel_sm_invoke: "relates R (sm_invoke h d)"
  by (cases h) (auto intro!: rel_block_steps rel_updateConnectionStatus rel_loads rel_notified)

lemma rel_sm_act: "relates R (sm_act a)"
  by (cases a) (auto intro!: rel_with_el rel_changes rel_commands rel_command
      simp: getStationInfo_def getConfiguration_def getVariable_def rebootStation_def clearCache_def
        requestStartTransaction_def requestStopTransaction_def unlockConnector_def triggerStatusNotification_def
        triggerHeartbeat_def)

lemma rel_sm_resume: "relates R (sm_resume k r)"
  by (cases k) (auto intro!: rel_loaded rel_changed rel_succeeded rel_block_steps rel_log
      simp: disableStation_resume_def getStationInfo_resume_def getConfiguration_resume_def getVariable_resume_def
        setVariable_resume_def rebootStation_resume_def clearCache_resume_def requestStartTransaction_resume_def
        requestStopTransaction_resume_def unlockConnector_resume_def triggerMeterValues_resume_def
        triggerStatusNotification_resume_def triggerHeartbeat_resume_def)

end

text \<open>What a relation has to tolerate to follow a whole run.\<close>

locale sm_relation = sm_view R + socket_relation R
  for R :: "sm_page \<Rightarrow> sm_page \<Rightarrow> bool" +
  assumes R_forget: "relates R (forget n)"
    and R_jobs: "R s (s\<lparr>jobs := js\<rparr>)"
    and R_connected: "R s (s\<lparr>connected := c\<rparr>)"
    and R_reset: "R s (s\<lparr>reconnectAttempts := 0\<rparr>)"
    and R_retry: "reconnectAttempts s < maxReconnectAttempts s \<Longrightarrow>
      R s (s\<lparr>reconnectAttempts := reconnectAttempts s + 1\<rparr>)"
    and R_timers: "R s (s\<lparr>timers := ts\<rparr>)"
    and R_ws: "R s (s\<lparr>ws := w\<rparr>)"
    and R_clock: "R s (s\<lparr>clock := tm\<rparr>)"

sublocale sm_relation \<subseteq> rpc: rpc_relation R sm_invoke
  by unfold_locales (auto intro: rel_sm_invoke R_forget R_connected R_reset simp: settle_def rel_upd R_jobs)

sublocale sm_relation \<subseteq> client: client_relation R sm_invoke S_reconnect
  by unfold_locales (rule R_retry R_timers R_ws R_sockets, assumption?)+

context sm_relation
begin

lemma rel_sm_fire: "relates R (sm_fire t)"
  by (cases t) (auto intro: client.rel_client_connect)

end

sublocale sm_relation \<subseteq> turn: page_relation R sm_invoke "client_onclose sm_invoke S_reconnect" sm_act "\<lambda>_. False" sm_fire
  by unfold_locales (auto intro: client.rel_client_onclose rel_sm_act rel_sm_fire R_timers R_clock R_jobs)

context sm_relation
begin

lemma rel_sm_step: "sm_step s t \<Longrightarrow> R s t"
  by (erule sm_stepE)
    (auto simp: deliver_def intro: turn.rel_page_deliver relatesD [OF turn.rel_run_next [OF rel_sm_resume]])

lemma rel_sm_steps: "sm_steps s t \<Longrightarrow> R s t"
  by (induction rule: sm_steps.induct) (auto intro: R_refl R_trans rel_sm_step)

end

interpretation sev: sm_relation "rpc_evolves :: sm_page \<Rightarrow> sm_page \<Rightarrow> bool"
  by unfold_locales (auto simp: rpc_evolves_same intro: evolves_client_call evolves_forget)

interpretation sso: sm_relation "sockets_advance :: sm_page \<Rightarrow> sm_page \<Rightarrow> bool"
  by unfold_locales (auto intro: advance_client_call advance_forget sockets_advance_same)

subsection \<open>A client nobody connects\<close>

definition idle :: "sm_page \<Rightarrow> bool" where
  "idle s \<longleftrightarrow> \<not> connected s \<and> sockets s = [] \<and> timers s = [] \<and> ws s = None \<and> pendingRequests s = [] \<and> requestId s = 0"

definition keeps_idle :: "sm_page \<Rightarrow> sm_page \<Rightarrow> bool" where
  "keeps_idle s t \<longleftrightarrow> (idle s \<longrightarrow> idle t)"

lemma idle_call: "relates keeps_idle (client_call m p k)"
  by (rule relatesI) (auto simp: keeps_idle_def idle_def client_call_def js_run)

interpretation sid: sm_view keeps_idle
  by unfold_locales (auto simp: keeps_idle_def idle_def idle_call)

interpretation squ: quiet_relation keeps_idle sm_act
  by unfold_locales (auto intro: sid.rel_sm_act simp: keeps_idle_def idle_def)

end
