(* ===== verification/AdminPanel.thy ===== *)
theory AdminPanel
  imports ClientRpc
begin

text \<open>
  \<open>web/client/admin/js/admin.js\<close>: the administration page, which shows what the server answers to
  \<open>getValues\<close> and changes values after asking the user. Its buttons are markup with inline
  handlers, so they are actions of the event loop, not listeners. What the user answers
  to \<open>prompt\<close> and \<open>confirm\<close> belongs to the host; two fields of the state hold it.
\<close>

subsection \<open>State, handlers, actions, continuations\<close>

datatype ap_handler = P_connected | P_disconnected

datatype ap_timer = P_reconnect

datatype ap_cont = V_loadSystemInfo | V_setValue string string | V_rebootSystem

datatype ap_action = B_editValue string string | B_rebootSystem | B_clearLogs | B_exportConfig

record ap_page = "(ap_cont, ap_handler, ap_timer, ap_action) rpc_page" +
  prompt_answer :: "string \<Rightarrow> string \<Rightarrow> string option"
  confirm_answer :: "string \<Rightarrow> bool"

type_synonym 'r ap = "(ap_page, 'r) js"

subsection \<open>The panel\<close>

definition panel_head :: string where
  "panel_head =
     line 12 ''<div class=\"admin-section\">'' @
     line 16 ''<h2>System Configuration</h2>'' @
     line 16 ''<div class=\"config-grid\">'' @
     line 8 []"

definition panel_item :: "string \<Rightarrow> string \<Rightarrow> string" where
  "panel_item key v =
     line 16 ''<div class=\"config-item\">'' @
     line 20 (''<label>'' @ key @ '':</label>'') @
     line 20 (''<span class=\"config-value\">'' @ v @ ''</span>'') @
     line 20 (''<button onclick=\"adminPanel.editValue('' @ [CHR 0x27] @ key @ [CHR 0x27] @ '', '' @ [CHR 0x27] @ v @ [CHR 0x27] @ '')\" '') @
     line 28 ''class=\"btn btn-small\">Edit</button>'' @
     line 16 ''</div>'' @
     line 12 []"

definition panel_commands :: string where
  "panel_commands =
     line 16 ''</div>'' @
     line 12 ''</div>'' @
     line 12 ''<div class=\"admin-section\">'' @
     line 16 ''<h2>System Commands</h2>'' @
     line 16 ''<div class=\"command-panel\">'' @
     line 20 ''<button onclick=\"adminPanel.rebootSystem()\" class=\"btn btn-warning\">Reboot System</button>'' @
     line 20 ''<button onclick=\"adminPanel.clearLogs()\" class=\"btn btn-secondary\">Clear Logs</button>'' @
     line 20 ''<button onclick=\"adminPanel.exportConfig()\" class=\"btn btn-primary\">Export Config</button>'' @
     line 16 ''</div>'' @
     line 12 ''</div>'' @
     line 8 []"

definition panel_html :: "(string \<times> jsval) list \<Rightarrow> string" where
  "panel_html entries = panel_head @ concat (map (\<lambda>(key, v). panel_item key (to_string v)) entries) @ panel_commands"

text \<open>\<open>Object.entries\<close> throws for \<open>null\<close> and \<open>undefined\<close>.\<close>

definition displaySystemInfo :: "jsval \<Rightarrow> unit ap" where
  "displaySystemInfo values = (if nullish values then js_throw TypeError
     else set_inner_html ''.admin-panel'' (panel_html (object_entries values)))"

definition loadSystemInfo :: "unit ap" where
  "loadSystemInfo = js_async (js_try (client_call ''getValues'' (Obj []) V_loadSystemInfo) (\<lambda>error. js_skip))"

definition loadSystemInfo_resume :: "js_error + jsval \<Rightarrow> unit ap" where
  "loadSystemInfo_resume r = js_try (js_lift r displaySystemInfo) (\<lambda>error. js_skip)"

subsection \<open>Commands\<close>

text \<open>\<open>this.addLog\<close> writes to the console only.\<close>

definition addLog :: "string \<Rightarrow> unit ap" where
  "addLog message = js_skip"

text \<open>\<open>catch (error) { alert(`...: ${error.message}`) }\<close>\<close>

definition alert_failure :: "string \<Rightarrow> js_error \<Rightarrow> unit ap" where
  "alert_failure text error = js_get (\<lambda>s. error_message s error) (\<lambda>m. alert (text @ '': '' @ m))"

definition setValue :: "string \<Rightarrow> string \<Rightarrow> unit ap" where
  "setValue key v = js_async (js_try
     (client_call ''setValue'' (Obj [(''key'', Str key), (''value'', Str v)]) (V_setValue key v))
     (alert_failure ''Error setting value''))"

definition setValue_resume :: "string \<Rightarrow> string \<Rightarrow> js_error + jsval \<Rightarrow> unit ap" where
  "setValue_resume key v r = js_try
     (js_lift r (\<lambda>_. addLog (''Configuration updated: '' @ key @ '' = '' @ v)))
     (alert_failure ''Error setting value'')"

definition editValue :: "string \<Rightarrow> string \<Rightarrow> unit ap" where
  "editValue key currentValue = js_get (\<lambda>s. prompt_answer s (''Edit '' @ key @ '':'') currentValue)
     (\<lambda>newValue. case newValue of None \<Rightarrow> js_skip | Some v \<Rightarrow> setValue key v)"

definition rebootSystem :: "unit ap" where
  "rebootSystem = js_async (js_get (\<lambda>s. confirm_answer s ''Are you sure you want to reboot the system?'') (\<lambda>b.
     if b then js_try (client_call ''resetSystem'' (Obj []) V_rebootSystem) (alert_failure ''Error rebooting system'')
     else js_skip))"

definition rebootSystem_resume :: "js_error + jsval \<Rightarrow> unit ap" where
  "rebootSystem_resume r = js_try (js_lift r (\<lambda>_. addLog ''System reboot initiated''))
     (alert_failure ''Error rebooting system'')"

definition clearLogs :: "unit ap" where
  "clearLogs = addLog ''Logs cleared''"

definition exportConfig :: "unit ap" where
  "exportConfig = addLog ''Configuration exported''"

subsection \<open>Start-up\<close>

definition updateConnectionStatus :: "bool \<Rightarrow> unit ap" where
  "updateConnectionStatus flag =
     (if flag then js_block [
        set_text ''connectionStatus'' ''Online'',
        set_class ''connectionStatus'' ''status-online'']
      else js_block [
        set_text ''connectionStatus'' ''Offline'',
        set_class ''connectionStatus'' ''status-offline''])"

definition setupEventHandlers :: "unit ap" where
  "setupEventHandlers = js_skip"

definition init :: "unit ap" where
  "init = js_block [
     on ''connected'' P_connected,
     on ''disconnected'' P_disconnected,
     client_connect default_url,
     setupEventHandlers]"

definition ap_constructor :: "unit ap" where
  "ap_constructor = js_block [init]"

subsection \<open>What a handler, an action and a continuation run\<close>

fun ap_invoke :: "ap_handler \<Rightarrow> jsval \<Rightarrow> unit ap" where
  "ap_invoke P_connected _ = js_block [updateConnectionStatus True, loadSystemInfo]"
| "ap_invoke P_disconnected _ = updateConnectionStatus False"

fun ap_act :: "ap_action \<Rightarrow> unit ap" where
  "ap_act (B_editValue key v) = editValue key v"
| "ap_act B_rebootSystem = rebootSystem"
| "ap_act B_clearLogs = clearLogs"
| "ap_act B_exportConfig = exportConfig"

fun ap_resume :: "ap_cont \<Rightarrow> js_error + jsval \<Rightarrow> unit ap" where
  "ap_resume V_loadSystemInfo r = loadSystemInfo_resume r"
| "ap_resume (V_setValue key v) r = setValue_resume key v r"
| "ap_resume V_rebootSystem r = rebootSystem_resume r"

fun ap_fire :: "ap_timer \<Rightarrow> unit ap" where
  "ap_fire P_reconnect = client_connect default_url"

end
