(* ===== verification/AdminPage.thy ===== *)
theory AdminPage
  imports AdminPanel
begin

text \<open>
  The administration page at run time, and what it guarantees: no request without the user's
  consent, and a refused command is reported.
\<close>

text \<open>
  Beside the events every page can meet, the user presses a button of the panel, or changes
  the answers to be given to the dialogs.
\<close>

datatype ap_event = Page page_event | Inline ap_action
  | Answers "string \<Rightarrow> string \<Rightarrow> string option" "string \<Rightarrow> bool"

definition deliver :: "ap_event \<Rightarrow> unit ap" where
  "deliver ev = (case ev of
       Page e \<Rightarrow> page_deliver ap_invoke (client_onclose ap_invoke P_reconnect) ap_act (\<lambda>_. False) ap_fire e
     | Inline a \<Rightarrow> js_report (ap_act a)
     | Answers p c \<Rightarrow> js_upd (\<lambda>s. s\<lparr>prompt_answer := p, confirm_answer := c\<rparr>))"

definition ap_enabled :: "ap_page \<Rightarrow> ap_event \<Rightarrow> bool" where
  "ap_enabled s ev = (case ev of Page e \<Rightarrow> page_enabled s e | _ \<Rightarrow> True)"

inductive ap_step :: "ap_page \<Rightarrow> ap_page \<Rightarrow> bool" where
  job: "jobs s \<noteq> [] \<Longrightarrow> ap_step s (snd (run_next ap_resume s))"
| event: "jobs s = [] \<Longrightarrow> ap_enabled s ev \<Longrightarrow> ap_step s (snd (deliver ev s))"

inductive_cases ap_stepE: "ap_step s t"

inductive ap_steps :: "ap_page \<Rightarrow> ap_page \<Rightarrow> bool" where
  refl: "ap_steps s s"
| step: "ap_steps s t \<Longrightarrow> ap_step t u \<Longrightarrow> ap_steps s u"

definition ap_window :: "(string \<rightharpoonup> element) \<Rightarrow> (string \<Rightarrow> bool) \<Rightarrow> (js_error \<Rightarrow> string) \<Rightarrow>
    (string \<Rightarrow> string \<Rightarrow> string option) \<Rightarrow> (string \<Rightarrow> bool) \<Rightarrow> ap_page" where
  "ap_window d ok msg p c = \<lparr>dom = d, listeners = [], sockets = [], clock = [], alerts = [], unhandled = [],
     url_ok = ok, engine_message = msg, ws = None, connected = False, requestId = 0,
     pendingRequests = [], eventHandlers = [], reconnectInterval = 0, maxReconnectAttempts = 0,
     reconnectAttempts = 0, debug = False, url = [], jobs = [], timers = [],
     prompt_answer = p, confirm_answer = c\<rparr>"

definition ap_start :: "(string \<rightharpoonup> element) \<Rightarrow> (string \<Rightarrow> bool) \<Rightarrow> (js_error \<Rightarrow> string) \<Rightarrow>
    (string \<Rightarrow> string \<Rightarrow> string option) \<Rightarrow> (string \<Rightarrow> bool) \<Rightarrow> ap_page" where
  "ap_start d ok msg p c = snd (js_report ap_constructor (client_constructor (ap_window d ok msg p c)))"

subsection \<open>Relations\<close>

locale ap_relation = dom_relation R + socket_relation R
  for R :: "ap_page \<Rightarrow> ap_page \<Rightarrow> bool" +
  assumes R_call: "relates R (client_call m p k)"
    and R_forget: "relates R (forget n)"
    and R_jobs: "R s (s\<lparr>jobs := js\<rparr>)"
    and R_connected: "R s (s\<lparr>connected := c\<rparr>)"
    and R_reset: "R s (s\<lparr>reconnectAttempts := 0\<rparr>)"
    and R_retry: "reconnectAttempts s < maxReconnectAttempts s \<Longrightarrow>
      R s (s\<lparr>reconnectAttempts := reconnectAttempts s + 1\<rparr>)"
    and R_timers: "R s (s\<lparr>timers := ts\<rparr>)"
    and R_ws: "R s (s\<lparr>ws := w\<rparr>)"
    and R_clock: "R s (s\<lparr>clock := tm\<rparr>)"
    and R_answers: "R s (s\<lparr>prompt_answer := pr, confirm_answer := co\<rparr>)"
begin

lemma rel_settle: "relates R (settle k r)"
  by (simp add: settle_def rel_upd R_jobs)

lemma rel_failure: "relates R (alert_failure t e)"
  unfolding alert_failure_def by (intro dom_rel_intros)

lemma rel_ap_invoke: "relates R (ap_invoke h d)"
  by (cases h) (auto simp: updateConnectionStatus_def loadSystemInfo_def intro!: dom_rel_intros R_call)

lemma rel_ap_act: "relates R (ap_act a)"
  by (cases a) (auto simp: editValue_def setValue_def rebootSystem_def clearLogs_def exportConfig_def addLog_def
      intro!: dom_rel_intros R_call rel_failure split: option.split)

lemma rel_ap_resume: "relates R (ap_resume k r)"
  by (cases k) (auto simp: loadSystemInfo_resume_def setValue_resume_def rebootSystem_resume_def displaySystemInfo_def
      addLog_def intro!: dom_rel_intros rel_failure)

end

sublocale ap_relation \<subseteq> rpc: rpc_relation R ap_invoke
  by unfold_locales (auto intro: rel_ap_invoke R_forget rel_settle R_connected R_reset)

sublocale ap_relation \<subseteq> client: client_relation R ap_invoke P_reconnect
  by unfold_locales (rule R_retry R_timers R_ws R_sockets, assumption?)+

context ap_relation
begin

lemma rel_ap_fire: "relates R (ap_fire t)"
  by (cases t) (auto intro: client.rel_client_connect)

end

sublocale ap_relation \<subseteq> turn: page_relation R ap_invoke "client_onclose ap_invoke P_reconnect" ap_act "\<lambda>_. False" ap_fire
  by unfold_locales (auto intro: client.rel_client_onclose rel_ap_act rel_ap_fire R_timers R_clock R_jobs)

context ap_relation
begin

lemma rel_deliver: "ap_enabled s ev \<Longrightarrow> R s (snd (deliver ev s))"
  by (cases ev) (auto simp: deliver_def ap_enabled_def js_upd_run R_answers
      intro: turn.rel_page_deliver relatesD rel_report rel_ap_act)

lemma rel_ap_step: "ap_step s t \<Longrightarrow> R s t"
  by (erule ap_stepE) (auto intro: rel_deliver relatesD [OF turn.rel_run_next [OF rel_ap_resume]])

lemma rel_ap_steps: "ap_steps s t \<Longrightarrow> R s t"
  by (induction rule: ap_steps.induct) (auto intro: R_refl R_trans rel_ap_step)

end

interpretation aev: ap_relation "rpc_evolves :: ap_page \<Rightarrow> ap_page \<Rightarrow> bool"
  by unfold_locales (auto simp: rpc_evolves_same intro: evolves_client_call evolves_forget)

interpretation aso: ap_relation "sockets_advance :: ap_page \<Rightarrow> ap_page \<Rightarrow> bool"
  by unfold_locales (auto intro: advance_client_call advance_forget sockets_advance_same)

subsection \<open>Consent\<close>

text \<open>What the user has agreed to ask of the server when an action of the panel is taken.\<close>

fun agreed :: "ap_page \<Rightarrow> ap_action \<Rightarrow> (string \<times> jsval) option" where
  "agreed s (B_editValue key v) = (case prompt_answer s (''Edit '' @ key @ '':'') v of
       Some w \<Rightarrow> Some (''setValue'', Obj [(''key'', Str key), (''value'', Str w)]) | None \<Rightarrow> None)"
| "agreed s B_rebootSystem = (if confirm_answer s ''Are you sure you want to reboot the system?''
     then Some (''resetSystem'', Obj []) else None)"
| "agreed s B_clearLogs = None"
| "agreed s B_exportConfig = None"

fun failure_text :: "ap_action \<Rightarrow> string" where
  "failure_text (B_editValue key v) = ''Error setting value''"
| "failure_text B_rebootSystem = ''Error rebooting system''"
| "failure_text _ = []"

definition awaiting :: "ap_page \<Rightarrow> ap_action \<Rightarrow> ap_cont" where
  "awaiting s a = (case a of
       B_editValue key v \<Rightarrow> V_setValue key (the (prompt_answer s (''Edit '' @ key @ '':'') v))
     | _ \<Rightarrow> V_rebootSystem)"

text \<open>What is agreed is what is called, under one continuation.\<close>

lemma act_calls_agreed:
  "js_report (ap_act a) s = (case agreed s a of None \<Rightarrow> (Inr (), s) | Some (m, p) \<Rightarrow>
     client_call m p (awaiting s a) s)"
proof (cases a)
  case B_rebootSystem
  then show ?thesis
    by (simp add: awaiting_def rebootSystem_def js_report_no_throw js_get_run client_call_caught no_throw_get js_skip_run)
qed (simp_all add: awaiting_def editValue_def setValue_def clearLogs_def exportConfig_def addLog_def js_report_no_throw js_get_run
    client_call_caught no_throw_get js_skip_run split: option.split)

lemma refusal_reported:
  assumes "agreed s a = Some (m, p)" "jobs t = [(awaiting s a, Inl (Error e))]"
  shows "snd (run_next ap_resume t) = t\<lparr>jobs := [], alerts := alerts t @ [failure_text a @ '': '' @ e]\<rparr>"
  using assms
  by (cases a) (auto simp: run_next_Cons awaiting_def setValue_resume_def rebootSystem_resume_def alert_failure_def
      error_message_def js_run split: option.split_asm if_split_asm)


definition demo_admin :: "bool \<Rightarrow> ap_page" where
  "demo_admin c = (ap_window (blank_dom [''.admin-panel'']) (\<lambda>u. True) (\<lambda>e. []) (\<lambda>t v. Some ''7'') (\<lambda>t. True))
     \<lparr>connected := c, ws := Some 0, sockets := [\<lparr>sk_url = default_url, sk_protocol = None, readyState = OPEN, sent = []\<rparr>]\<rparr>"


subsection \<open>What the panel shows\<close>

text \<open>
  The client resolves a call with the whole message. The panel lists the members of that message,
  not those of the configuration in it.
\<close>

lemma panel_shows_envelope:
  assumes "dom s ''.admin-panel'' = Some e"
  shows "ap_resume V_loadSystemInfo (Inr (Obj [(''jsonrpc'', Str ''2.0''), (''id'', num_of_int n), (''result'', v)])) s =
    (Inr (), s\<lparr>dom := (dom s)(''.admin-panel'' \<mapsto> e\<lparr>childNodes := [Markup (panel_head @
       panel_item ''jsonrpc'' ''2.0'' @ panel_item ''id'' (to_string (num_of_int n)) @ panel_item ''result'' (to_string v) @
       panel_commands)]\<rparr>)\<rparr>)"
proof -
  have "\<not> is_index (c # k)" if "\<not> is_digit c" for c k
    using that show_nat_Cons [of "digits_val (c # k)"] by (auto simp: is_index_def)
  then have "own_entries [(''jsonrpc'', Str ''2.0''), (''id'', num_of_int n), (''result'', v)] =
      [(''jsonrpc'', Str ''2.0''), (''id'', num_of_int n), (''result'', v)]"
    by (simp add: own_entries_def is_digit_def)
  then show ?thesis
    using assms by (simp add: loadSystemInfo_resume_def displaySystemInfo_def nullish_def object_entries_def panel_html_def
        panel_head_def line_def js_run set_inner_html_def)
qed

end
