(* ===== verification/AllPages.thy ===== *)
theory AllPages
  imports CentralPage MonitoringPage OcppPage StationPage AdminPage
begin

text \<open>
  The five pages as one system: what they have in common whatever class owns the document, the
  requests their client has open and the sockets it has used.
\<close>

datatype page = Operator cs_page | Monitor mon_page | First oc_page | Manager sm_page | Administration ap_page

text \<open>The page as it stands after its scripts were loaded.\<close>

inductive page_begins :: "page \<Rightarrow> bool" where
  "page_begins (Operator (cs_start d ok msg t))"
| "page_begins (Monitor (mon_start d ok msg t))"
| "page_begins (First (oc_start b d ok msg t))"
| "page_begins (Manager (sm_start b q d ok msg t))"
| "page_begins (Administration (ap_start d ok msg p c))"

inductive page_run :: "page \<Rightarrow> page \<Rightarrow> bool" where
  "cs_steps s t \<Longrightarrow> page_run (Operator s) (Operator t)"
| "mon_steps s' t' \<Longrightarrow> page_run (Monitor s') (Monitor t')"
| "oc_steps s1 t1 \<Longrightarrow> page_run (First s1) (First t1)"
| "sm_steps s2 t2 \<Longrightarrow> page_run (Manager s2) (Manager t2)"
| "ap_steps s3 t3 \<Longrightarrow> page_run (Administration s3) (Administration t3)"

inductive_cases page_runE: "page_run p q"

text \<open>The sockets, the ids of the open requests and the last id of a page.\<close>

fun page_sockets :: "page \<Rightarrow> socket list" where
  "page_sockets (Operator s) = sockets s"
| "page_sockets (Monitor s) = sockets s"
| "page_sockets (First s) = sockets s"
| "page_sockets (Manager s) = sockets s"
| "page_sockets (Administration s) = sockets s"

fun page_pending :: "page \<Rightarrow> nat list" where
  "page_pending (Operator s) = map_keys (pendingRequests s)"
| "page_pending (Monitor s) = map_keys (pendingRequests s)"
| "page_pending (First s) = map_keys (pendingRequests s)"
| "page_pending (Manager s) = map_keys (pendingRequests s)"
| "page_pending (Administration s) = map_keys (pendingRequests s)"

fun page_id :: "page \<Rightarrow> nat" where
  "page_id (Operator s) = requestId s"
| "page_id (Monitor s) = requestId s"
| "page_id (First s) = requestId s"
| "page_id (Manager s) = requestId s"
| "page_id (Administration s) = requestId s"

subsection \<open>The books at the start\<close>

lemma evolves_add_listener: "relates rpc_evolves (add_listener i ev a :: ('k, 'h, 't, 'a, 'z, unit) rpc_js)"
  by (rule relatesI) (auto simp: js_run rpc_evolves_same split: option.split)

lemma inv_begins:
  fixes m :: "('k, 'h, 't, 'a, 'z, unit) rpc_js"
  assumes "relates rpc_evolves m" "pendingRequests s = []"
  shows "rpc_inv (snd (js_report m s))"
proof -
  have "rpc_evolves u (snd (js_report m u))" for u
    using relatesD [OF assms(1), of u] evolves.R_trans rpc_evolves_same
    by (auto simp: js_report_run rpc_evolves_def rpc_inv_def split: prod.split sum.split)
  moreover have "rpc_inv s" using assms(2) by (simp add: rpc_inv_def map_keys_def)
  ultimately show ?thesis by (simp add: rpc_evolves_def)
qed

lemmas begins_intros = evolves.rel_upd evolves_add_listener evolves_rel_on rpc_evolves_same

lemma cs_begins: "rpc_inv (cs_start d ok msg t)"
proof -
  have "relates rpc_evolves (cs_constructor :: unit cs)"
    unfolding cs_constructor_def CentralSystem.init_def CentralSystem.bindEvents_def CentralSystem.bindStationControls_def
      bindChangeAvailabilityRadioButtons_def CentralSystem.bindConnectorControls_def CentralSystem.bindTriggerControls_def
      bindWebsocketControls_def CentralSystem.setupRpcHandlers_def CentralSystem.loadInitialData_def
    by (auto intro!: csr.page_rel_intros csr.rel_loadStationsList begins_intros)
  then show ?thesis unfolding cs_start_def by (rule inv_begins) (simp add: rpc_constructor_def)
qed

lemma mon_begins: "rpc_inv (mon_start d ok msg t)"
proof -
  have "relates rpc_evolves (mon_constructor :: unit mon)"
    unfolding mon_constructor_def Monitoring.init_def Monitoring.setupEventHandlers_def addTestButton_def
    by (intro mev.rel_block_steps mev.client.rel_client_connect mev.rel_with_el mev.rel_dom_ops begins_intros) simp_all
  then show ?thesis unfolding mon_start_def by (rule inv_begins) (simp add: client_constructor_def)
qed

lemma oc_begins: "rpc_inv (oc_start b d ok msg t)"
proof -
  have "relates rpc_evolves (oc_constructor :: unit oc)"
    unfolding oc_constructor_def OcppSystem.init_def OcppSystem.setupRpcHandlers_def OcppSystem.setupEventHandlers_def
      initDemoMode_def
    by (auto intro!: oev.rel_block_steps oev.rel_displays oev.rel_loading oev.rel_addLog oev.client.rel_client_connect
        evolves.rel_get begins_intros)
  then show ?thesis
    unfolding oc_start_def by (rule inv_begins) (simp add: client_constructor_def oc_window_def)
qed

lemma sm_begins: "rpc_inv (sm_start b q d ok msg t)"
proof -
  have heard: "relates rpc_evolves (on_rpc ev h)" for ev h
    unfolding on_rpc_def by (intro evolves.rel_intros evolves_rel_on)
  have bound: "relates rpc_evolves (bind_first sel a)" "relates rpc_evolves (bind_nth ns i a)" for sel a ns i
    unfolding bind_first_def bind_nth_def by (intro sev.rel_query evolves_add_listener)+
  have "relates rpc_evolves sm_constructor"
    unfolding sm_constructor_def StationManager.init_def StationManager.setupRpcHandlers_def StationManager.bindEvents_def
      StationManager.bindStationControls_def StationManager.bindConnectorControls_def StationManager.bindTriggerControls_def
    by (auto intro!: sev.rel_block_steps sev.rel_query sev.rel_loads evolves.rel_get evolves.rel_skip heard bound begins_intros)
  then show ?thesis
    unfolding sm_start_def by (rule inv_begins) (simp add: client_constructor_def sm_window_def)
qed

lemma ap_begins: "rpc_inv (ap_start d ok msg p c)"
proof -
  have "relates rpc_evolves (ap_constructor :: unit ap)"
    unfolding ap_constructor_def AdminPanel.init_def AdminPanel.setupEventHandlers_def
    by (auto intro!: evolves.rel_block evolves.rel_skip aev.client.rel_client_connect begins_intros)
  then show ?thesis
    unfolding ap_start_def by (rule inv_begins) (simp add: client_constructor_def)
qed

subsection \<open>Runs\<close>

fun page_inv :: "page \<Rightarrow> bool" where
  "page_inv p \<longleftrightarrow> distinct (page_pending p) \<and> (\<forall>n \<in> set (page_pending p). 0 < n \<and> n \<le> page_id p)"

lemma page_inv_begins: "page_begins p \<Longrightarrow> page_inv p"
  using cs_begins mon_begins oc_begins sm_begins ap_begins
  by (auto simp: rpc_inv_def elim!: page_begins.cases)

definition page_evolves :: "page \<Rightarrow> page \<Rightarrow> bool" where
  "page_evolves p q \<longleftrightarrow> (page_inv p \<longrightarrow> page_inv q) \<and> page_id p \<le> page_id q \<and>
     (\<forall>n. n \<le> page_id p \<longrightarrow> n \<notin> set (page_pending p) \<longrightarrow> n \<notin> set (page_pending q))"

lemma page_evolves_rpc:
  "rpc_evolves s t \<Longrightarrow> page_evolves (Operator s) (Operator t)"
  "rpc_evolves s1 t1 \<Longrightarrow> page_evolves (Monitor s1) (Monitor t1)"
  "rpc_evolves s2 t2 \<Longrightarrow> page_evolves (First s2) (First t2)"
  "rpc_evolves s3 t3 \<Longrightarrow> page_evolves (Manager s3) (Manager t3)"
  "rpc_evolves s4 t4 \<Longrightarrow> page_evolves (Administration s4) (Administration t4)"
  by (simp_all add: page_evolves_def rpc_evolves_def rpc_inv_def jsm.get_keys)

lemma page_run_evolves: "page_run p q \<Longrightarrow> page_evolves p q"
  by (auto elim!: page_runE intro: page_evolves_rpc csr.rel_steps mev.rel_mon_steps oev.rel_oc_steps sev.rel_sm_steps
      aev.rel_ap_steps)

lemma page_run_sockets: "page_run p q \<Longrightarrow> sockets_next (page_sockets p) (page_sockets q)"
  by (auto elim!: page_runE simp: sockets_advance_def [symmetric] intro: cso.rel_steps mso.rel_mon_steps oso.rel_oc_steps
      sso.rel_sm_steps aso.rel_ap_steps)

end
