(* ===== verification/RpcTheorems.thy ===== *)
theory RpcTheorems
  imports CentralPage "HOL-Library.Multiset"
begin

text \<open>
  What the RPC client of the operator page guarantees to its callers: every call is accounted
  for, answers reach the call they belong to and only once, requests read back as what was
  asked, ids are never reused, and notifications run the registered handlers in order.
\<close>

text \<open>A page with one open socket and the call 1 waiting, for the concrete instances.\<close>

definition demo_page :: cs_page where
  "demo_page = (rpc_constructor (cs_window (blank_dom [''.log-container'', ''station-select'']) (\<lambda>u. True) (\<lambda>e. []) ''12:00:00''))
     \<lparr>connected := True, ws := Some 0, requestId := 1, pendingRequests := [(1, K_getStationInfo)],
      sockets := [\<lparr>sk_url = ''ws://localhost:8080'', sk_protocol = Some ''websocket'', readyState = OPEN, sent = []\<rparr>]\<rparr>"

lemmas demo_defs = demo_page_def rpc_constructor_def cs_window_def

lemma id_key_nat [simp]: "id_key (Num (Fin (of_nat n))) = Some n"
  by (simp add: id_key_def)

subsection \<open>Accounting\<close>

text \<open>The continuations that wait for an answer or for their turn.\<close>

definition awaiting :: "('k, 'h, 't, 'a, 'z) rpc_page_scheme \<Rightarrow> 'k multiset" where
  "awaiting s = mset (map snd (pendingRequests s)) + mset (map fst (jobs s))"

lemma map_delete_snoc_fresh: "map_get m k = None \<Longrightarrow> map_delete (m @ [(k, v)]) k = m"
  using map_delete_set_fresh [of m k v] by (simp add: map_set_in_place)

text \<open>
  C1. Accounting of calls: whatever the state of the connection and of the socket (offline,
  connecting, open, closing, closed, no socket), \<open>call\<close> completes without an exception and
  adds its continuation exactly once, either to the pending requests or, already rejected, to
  the queue of settled promises.
\<close>

theorem call_accounts:
  assumes "rpc_inv s"
  shows "fst (call m p k s) = Inr () \<and> awaiting (snd (call m p k s)) = add_mset k (awaiting s)"
  using rpc_inv_fresh [OF assms]
  by (auto simp: call_def ws_send_def js_run awaiting_def map_set_in_place map_delete_snoc_fresh
      split: option.split ready_state.split)

theorem call_accounts_witness:
  "awaiting (snd (call ''GetStations'' (Obj []) K_clearCache demo_page)) =
     add_mset K_clearCache (awaiting demo_page)"
  using call_accounts [of demo_page "''GetStations''" "Obj []" K_clearCache]
  by (simp add: demo_defs rpc_inv_def map_keys_def)

subsection \<open>Requests\<close>

lemma json_safe_request:
  "json_safe p \<Longrightarrow> int n < 2 ^ 53 \<Longrightarrow> json_safe (rpc_request n m p)"
  by (simp add: rpc_request_def)

lemma call_text:
  assumes "connected s" "ws s = Some i" "socket_state s i = Some OPEN"
    and "json_safe p" "int (requestId s + 1) < 2 ^ 53"
  shows "\<exists>t. sent (sockets (snd (call m p k s)) ! i) = sent (sockets s ! i) @ [t] \<and>
    json_parse t = Inr (rpc_request (requestId s + 1) m p)"
proof (intro exI conjI)
  let ?t = "json_text (rpc_request (requestId s + 1) m p)"
  show "sent (sockets (snd (call m p k s)) ! i) = sent (sockets s ! i) @ [?t]"
    using assms(3) by (simp add: call_sends [OF assms(1-3)] socket_state_def split: if_splits)
  show "json_parse ?t = Inr (rpc_request (requestId s + 1) m p)"
    by (rule json_round_trip [OF json_safe_request [OF assms(4,5)]])
qed

text \<open>
  C2. Requests read back: on an open socket \<open>call\<close> sends exactly one text, and parsing that
  text gives back the version, the fresh id, the method and the parameters, for every
  parameter value JSON can carry.
\<close>

theorem request_reads_back:
  assumes "connected s" "ws s = Some i" "socket_state s i = Some OPEN"
    and "json_safe p" "int (requestId s + 1) < 2 ^ 53"
  shows "\<exists>t. sent (sockets (snd (call m p k s)) ! i) = sent (sockets s ! i) @ [t] \<and>
    json_parse t = Inr (Obj [(''jsonrpc'', Str ''2.0''), (''id'', num_of_int (int (requestId s + 1))),
      (''method'', Str m), (''params'', p)])"
  using call_text [OF assms] by (simp add: rpc_request_def)

theorem request_reads_back_witness:
  "\<exists>t. sent (sockets (snd (call ''ClearCache'' (station_params (Str ''CP1'')) K_clearCache demo_page)) ! 0) = [t] \<and>
    json_parse t = Inr (Obj [(''jsonrpc'', Str ''2.0''), (''id'', num_of_int (int (requestId demo_page + 1))),
      (''method'', Str ''ClearCache''), (''params'', station_params (Str ''CP1''))])"
  using request_reads_back [of demo_page 0 "station_params (Str ''CP1'')" "''ClearCache''" K_clearCache]
  by (simp add: demo_defs socket_state_def station_params_def)

subsection \<open>Answers\<close>

text \<open>What the promise of an answered call is settled with.\<close>

definition answer_outcome :: "jsval \<Rightarrow> js_error + jsval" where
  "answer_outcome msg = (if truthy (field_of msg ''error'') then Inl (Error (to_string (field_of msg ''error'')))
     else Inr msg)"

lemma handle_answer:
  assumes "map_get kvs ''id'' = Some (num_of_int (int n))" "0 < n"
    and "map_get (pendingRequests s) n = Some k"
  shows "handle_parsed invoke (Obj kvs) s = (Inr (), s\<lparr>pendingRequests := map_delete (pendingRequests s) n,
    jobs := jobs s @ [(k, answer_outcome (Obj kvs))]\<rparr>)"
  using assms
  by (cases "map_get kvs ''error''")
    (simp_all add: handle_parsed_def js_run pending_for_def answer_outcome_def field_of_def)

lemma onmessage_json:
  assumes "json_safe (Obj kvs)"
  shows "onmessage invoke (json_text (Obj kvs)) s =
    (Inr (), snd (handle_parsed invoke (Obj kvs) s))"
  by (simp add: onmessage_def json_round_trip [OF assms] handleMessage_def js_run del: json_text.simps
      split: prod.split sum.split)

lemma handle_unknown:
  assumes "map_get kvs ''id'' = Some (num_of_int (int n))" "map_get (pendingRequests s) n = None"
    and "map_get kvs ''method'' = None"
  shows "handle_parsed invoke (Obj kvs) s = (Inr (), s)"
  using assms by (simp add: handle_parsed_def js_run pending_for_def)

text \<open>
  C3. Answers reach their call: a message that carries the id of a pending request takes that
  request out of the table and settles the promise of exactly its call, rejected with the
  text of \<open>error\<close> when there is one, resolved with the whole message otherwise. No other
  request, no handler and no other part of the page is touched.
\<close>

theorem answer_settles:
  assumes "json_safe (Obj kvs)" "map_get kvs ''id'' = Some (num_of_int (int n))" "0 < n"
    and "map_get (pendingRequests s) n = Some k"
  shows "onmessage invoke (json_text (Obj kvs)) s =
    (Inr (), s\<lparr>pendingRequests := map_delete (pendingRequests s) n,
      jobs := jobs s @ [(k, answer_outcome (Obj kvs))]\<rparr>)"
  by (simp only: onmessage_json [OF assms(1)] handle_answer [OF assms(2-4)] snd_conv)

theorem answer_settles_witness:
  "jobs (snd (onmessage cs_invoke (json_text (Obj [(''id'', num_of_int 1), (''error'', Str ''busy'')])) demo_page))
   = [(K_getStationInfo, Inl (Error ''busy''))]"
  using answer_settles [of "[(''id'', num_of_int 1), (''error'', Str ''busy'')]" 1 demo_page K_getStationInfo cs_invoke]
  by (simp add: demo_defs map_get_def answer_outcome_def field_of_def del: json_text.simps)

text \<open>
  C4. Answers are consumed once: repeating an answer (a message with the same id and no
  \<open>method\<close>) after it has been handled changes nothing at all.
\<close>

theorem answer_consumed_once:
  assumes "json_safe (Obj kvs)" "map_get kvs ''id'' = Some (num_of_int (int n))" "0 < n"
    and "map_get (pendingRequests s) n = Some k" "map_get kvs ''method'' = None"
  shows "let t = snd (onmessage invoke (json_text (Obj kvs)) s)
    in onmessage invoke (json_text (Obj kvs)) t = (Inr (), t)"
proof -
  let ?t = "snd (handle_parsed invoke (Obj kvs) s)"
  have "map_get (pendingRequests ?t) n = None"
    by (simp add: handle_answer [OF assms(2-4)] map_get_delete)
  then have "handle_parsed invoke (Obj kvs) ?t = (Inr (), ?t)"
    by (rule handle_unknown [OF assms(2) _ assms(5)])
  then show ?thesis
    by (simp only: onmessage_json [OF assms(1)] Let_def snd_conv)
qed

theorem answer_consumed_once_witness:
  "let m = json_text (Obj [(''id'', num_of_int 1), (''result'', Str ''{}'')]); t = snd (onmessage cs_invoke m demo_page)
   in onmessage cs_invoke m t = (Inr (), t)"
  using answer_consumed_once [of "[(''id'', num_of_int 1), (''result'', Str ''{}'')]" 1 demo_page K_getStationInfo cs_invoke]
  by (simp add: demo_defs map_get_def del: json_text.simps)

subsection \<open>Events\<close>



text \<open>The state after the handlers of an event have run, each from where the previous one stopped.\<close>

definition after_handlers :: "cs_handler list \<Rightarrow> jsval \<Rightarrow> cs_page \<Rightarrow> cs_page" where
  "after_handlers hs d s = fold (\<lambda>h t. snd (cs_invoke h d t)) hs s"

lemma block_guarded:
  "js_block (map (csh.guarded d) hs) s = (Inr (), after_handlers hs d s)"
proof (induction hs arbitrary: s)
  case Nil
  show ?case by (simp add: js_run after_handlers_def)
next
  case (Cons h hs)
  then show ?case
    by (simp only: list.map js_block_Cons_run csh.guarded_run [of d h s] prod.case sum.case)
      (simp add: after_handlers_def)
qed

lemma emit_after_handlers: "emit cs_invoke ev d s = (Inr (), after_handlers (handlers_of s ev) d s)"
  by (simp only: csh.emit_eq block_guarded)

lemma notification_run:
  assumes "json_safe (Obj kvs)" "map_get kvs ''id'' = None"
    and "map_get kvs ''method'' = Some (Str m)" "m \<noteq> []"
  shows "onmessage cs_invoke (json_text (Obj kvs)) s =
    (Inr (), after_handlers (handlers_of s m) (field_of (Obj kvs) ''params'') s)"
proof -
  have "handle_parsed cs_invoke (Obj kvs) s = emit cs_invoke m (field_of (Obj kvs) ''params'') s"
    using assms by (simp add: handle_parsed_def js_run pending_for_def emit_value_def field_of_def)
  then show ?thesis
    by (simp only: onmessage_json [OF assms(1)] emit_after_handlers snd_conv)
qed



subsection \<open>Refinement of a conversation\<close>

text \<open>
  The contract of the client without its tables: a conversation counts the calls asked, knows
  which of them are open, and hands out the results in the order they arrive.
\<close>

record 'k conversation =
  asked :: nat
  open_calls :: "nat \<rightharpoonup> 'k"
  results :: "('k \<times> (js_error + jsval)) list"

datatype line = Offline | Refusing js_error | Accepting

definition line_of :: "('k, 'h, 't, 'a, 'z) rpc_page_scheme \<Rightarrow> line" where
  "line_of s = (if \<not> connected s then Offline else case ws s of None \<Rightarrow> Refusing TypeError
     | Some i \<Rightarrow> if socket_state s i = Some CONNECTING then Refusing InvalidStateError else Accepting)"

fun ask :: "line \<Rightarrow> 'k \<Rightarrow> 'k conversation \<Rightarrow> 'k conversation" where
  "ask Offline k c = c\<lparr>results := results c @ [(k, Inl (Error ''Not connected to server''))]\<rparr>"
| "ask (Refusing e) k c = c\<lparr>asked := asked c + 1, results := results c @ [(k, Inl e)]\<rparr>"
| "ask Accepting k c = c\<lparr>asked := asked c + 1, open_calls := (open_calls c)(asked c + 1 \<mapsto> k)\<rparr>"

definition answer :: "nat \<Rightarrow> js_error + jsval \<Rightarrow> 'k conversation \<Rightarrow> 'k conversation" where
  "answer n r c = (case open_calls c n of None \<Rightarrow> c
     | Some k \<Rightarrow> c\<lparr>open_calls := (open_calls c)(n := None), results := results c @ [(k, r)]\<rparr>)"

definition conversation_of :: "('k, 'h, 't, 'a, 'z) rpc_page_scheme \<Rightarrow> 'k conversation" where
  "conversation_of s = \<lparr>asked = requestId s, open_calls = map_get (pendingRequests s), results = jobs s\<rparr>"

text \<open>
  C10. The client implements the conversation, asking: \<open>call\<close> is the abstract \<open>ask\<close>, in
  every state of the connection and of the socket.
\<close>

theorem call_refines_ask:
  assumes "rpc_inv s"
  shows "conversation_of (snd (call m p k s)) = ask (line_of s) k (conversation_of s)"
  using rpc_inv_fresh [OF assms]
  by (auto simp: call_def ws_send_def js_run conversation_of_def line_of_def map_delete_set_fresh
      map_get_set socket_state_def fun_eq_iff split: option.split ready_state.split)

theorem call_refines_ask_witness:
  "conversation_of (snd (call ''ClearCache'' (Obj []) K_clearCache demo_page)) =
   ask Accepting K_clearCache (conversation_of demo_page)"
proof -
  have "rpc_inv demo_page" "line_of demo_page = Accepting"
    by (simp_all add: demo_defs rpc_inv_def map_keys_def line_of_def socket_state_def)
  then show ?thesis using call_refines_ask by metis
qed



end
