(* ===== verification/CentralTheorems.thy ===== *)
theory CentralTheorems
  imports RpcTheorems
begin

text \<open>
  What the operator page guarantees to the user: which handler each control and each
  notification runs, which request each command sends and under which guard, how answers
  change the selection and the page, and what happens when the connection goes away.
\<close>

subsection \<open>Start-up\<close>

text \<open>The elements the constructor attaches listeners to.\<close>

definition bound_ids :: "string list" where
  "bound_ids = [''station-select'', ''connector-select'', ''station_control__disconnect'',
     ''station_control__change_availability'', ''station_control__change_availability_on'',
     ''station_control__change_availability_off'', ''station_control__boot_notification'',
     ''station_control__get_configuration'', ''station_control__get_variable'',
     ''station_control__set_variable'', ''station_control__reset'', ''station_control__clear_cache'',
     ''connector_control__request_start_transaction'', ''connector_control__request_stop_transaction'',
     ''connector_control__unlock_connector'', ''station_control__trigger_meter_values'',
     ''station_control__trigger_status_notification'', ''station_control__trigger_heartbeat'',
     ''websocket-connect'', ''websocket-disconnect'', ''apply-websocket-settings'']"

definition listener_table :: "(string \<times> string \<times> cs_action) list" where
  "listener_table = [
     (''station-select'', ''change'', A_stationSelect),
     (''connector-select'', ''change'', A_connectorSelect),
     (''station_control__disconnect'', ''click'', A_disconnectStation),
     (''station_control__change_availability'', ''click'', A_changeAvailability),
     (''station_control__change_availability_on'', ''click'', A_availability_on),
     (''station_control__change_availability_off'', ''click'', A_availability_off),
     (''station_control__boot_notification'', ''click'', A_getStationInfo),
     (''station_control__get_configuration'', ''click'', A_getConfiguration),
     (''station_control__get_variable'', ''click'', A_getVariable),
     (''station_control__set_variable'', ''click'', A_setVariable),
     (''station_control__reset'', ''click'', A_rebootStation),
     (''station_control__clear_cache'', ''click'', A_clearCache),
     (''connector_control__request_start_transaction'', ''click'', A_requestStartTransaction),
     (''connector_control__request_stop_transaction'', ''click'', A_requestStopTransaction),
     (''connector_control__unlock_connector'', ''click'', A_unlockConnector),
     (''station_control__trigger_meter_values'', ''click'', A_triggerMeterValues),
     (''station_control__trigger_status_notification'', ''click'', A_triggerStatusNotification),
     (''station_control__trigger_heartbeat'', ''click'', A_triggerHeartbeat),
     (''websocket-connect'', ''click'', A_connectWebsocket),
     (''websocket-disconnect'', ''click'', A_disconnectWebsocket),
     (''apply-websocket-settings'', ''click'', A_applyWebsocketSettings)]"

definition handler_table :: "(string, cs_handler list) jsmap" where
  "handler_table = [(''connected'', [H_connected]), (''disconnected'', [H_disconnected]),
     (''StatusNotification'', [H_StatusNotification]), (''MeterValues'', [H_MeterValues]),
     (''Heartbeat'', [H_Heartbeat])]"

text \<open>A run of the page in a document that has these elements.\<close>

definition cs_running :: "cs_page \<Rightarrow> bool" where
  "cs_running s \<longleftrightarrow> (\<exists>d ok msg t. (\<forall>i \<in> set bound_ids. d i \<noteq> None) \<and> cs_steps (cs_start d ok msg t) s)"

lemmas start_defs = cs_start_def cs_constructor_def init_def bindEvents_def bindStationControls_def
  bindChangeAvailabilityRadioButtons_def bindConnectorControls_def bindTriggerControls_def
  bindWebsocketControls_def setupRpcHandlers_def loadInitialData_def

lemma add_listener_present:
  "dom s i \<noteq> None \<Longrightarrow> add_listener i ev a s = (Inr (), s\<lparr>listeners := listeners s @ [(i, ev, a)]\<rparr>)"
  by (auto simp: js_run)

lemma cs_start_eq:
  assumes "\<forall>i \<in> set bound_ids. d i \<noteq> None"
  shows "cs_start d ok msg t = (rpc_constructor (cs_window d ok msg t))
    \<lparr>listeners := listener_table, eventHandlers := handler_table, current_station := Null,
     current_connector := Null, stations := [], is_initialized := True, scan_rate := num_of_int 1000\<rparr>"
  using assms
  by (simp add: start_defs js_report_run js_block_Cons_run js_block_Nil_run js_upd_run js_get_run js_skip_run
      add_listener_present on_run bound_ids_def listener_table_def handler_table_def rpc_constructor_def
      cs_window_def handlers_of_def map_get_def)

lemma steps_wiring:
  "\<forall>i \<in> set bound_ids. d i \<noteq> None \<Longrightarrow> cs_steps (cs_start d ok msg t) s \<Longrightarrow>
   listeners s = listener_table \<and> eventHandlers s = handler_table"
  by (drule csw.rel_steps) (simp add: same_wiring_def cs_start_eq)

lemma running_handlers: "cs_running s \<Longrightarrow> eventHandlers s = handler_table"
  unfolding cs_running_def using steps_wiring by blast

text \<open>
  C12. Wiring: in a document that has the controls, every reachable state has exactly the
  21 listeners and the 5 notification handlers the class sets up; nothing that happens later
  adds, removes or reorders one.
\<close>

theorem wiring_is_permanent:
  assumes "\<forall>i \<in> set bound_ids. d i \<noteq> None" "cs_steps (cs_start d ok msg t) s"
  shows "listeners s = listener_table \<and> eventHandlers s = handler_table"
  by (rule steps_wiring [OF assms])

theorem wiring_is_permanent_witness:
  "listeners (snd (deliver (Click ''websocket-connect'')
     (cs_start (blank_dom bound_ids) (\<lambda>u. True) (\<lambda>e. []) []))) = listener_table"
proof -
  let ?s = "cs_start (blank_dom bound_ids) (\<lambda>u. True) (\<lambda>e. []) []"
  have d: "\<forall>i \<in> set bound_ids. blank_dom bound_ids i \<noteq> None" by (simp add: blank_dom_def)
  have "jobs ?s = []" by (simp add: cs_start_eq [OF d] rpc_constructor_def cs_window_def)
  then have "cs_steps ?s (snd (deliver (Click ''websocket-connect'') ?s))"
    by (intro cs_steps.step [OF cs_steps.refl] cs_step.event) (simp_all add: page_enabled_def)
  then show ?thesis using wiring_is_permanent [OF d] by blast
qed

subsection \<open>Commands\<close>

text \<open>The page after a line was added to its log.\<close>

definition logged :: "string \<Rightarrow> string \<Rightarrow> cs_page \<Rightarrow> cs_page" where
  "logged cls message s = s\<lparr>dom := (dom s)(''.log-container'' := map_option (\<lambda>e. e\<lparr>childNodes := childNodes e @
     [ElementNode (''log-entry log-entry--'' @ cls) (log_entry_html (clock s) message)]\<rparr>)
     (dom s ''.log-container''))\<rparr>"

lemma addLogEntry_run:
  "dom s ''.log-container'' \<noteq> None \<Longrightarrow> addLogEntry m cls s = (Inr (), logged cls m s)"
  by (auto simp: addLogEntry_def append_child_def js_run logged_def)

lemma log_run:
  assumes "dom s ''.log-container'' \<noteq> None"
  shows "log m s = (Inr (), logged ''info'' m s)" "logSuccess m s = (Inr (), logged ''success'' m s)"
    "logError m s = (Inr (), logged ''error'' m s)"
  using assms by (simp_all add: log_def logSuccess_def logError_def addLogEntry_run)

lemma logged_simps [simp]:
  "current_station (logged c m s) = current_station s" "current_connector (logged c m s) = current_connector s"
  "connected (logged c m s) = connected s" "jobs (logged c m s) = jobs s"
  "dom (logged c m s) ''.log-container'' = None \<longleftrightarrow> dom s ''.log-container'' = None"
  "i \<noteq> ''.log-container'' \<Longrightarrow> dom (logged c m s) i = dom s i"
  "engine_message (logged c m s) = engine_message s" "clock (logged c m s) = clock s"
  by (simp_all add: logged_def)

lemma error_message_logged [simp]: "error_message (logged c m s) e = error_message s e"
  by (cases e) (simp_all add: error_message_def)

definition station_commands :: "cs_action list" where
  "station_commands = [A_disconnectStation, A_changeAvailability, A_getStationInfo, A_getConfiguration,
     A_getVariable, A_setVariable, A_rebootStation, A_clearCache, A_requestStartTransaction,
     A_requestStopTransaction, A_unlockConnector, A_triggerMeterValues, A_triggerStatusNotification,
     A_triggerHeartbeat]"

lemma when_station_unselected:
  assumes "\<not> truthy (current_station s)" "dom s ''.log-container'' \<noteq> None"
  shows "js_async (when_station m) s = (Inr (), logged ''error'' (ru ''Sna^ala wyberite stanci@'') s)"
  using assms by (simp add: when_station_def validateCurrentStation_def js_run log_run)

text \<open>
  C13. Guard: with no station selected none of the 14 commands sends anything, issues an id
  or changes the page, except for the one error line in the log that asks to select a
  station.
\<close>

theorem commands_need_station:
  assumes "a \<in> set station_commands" "\<not> truthy (current_station s)" "dom s ''.log-container'' \<noteq> None"
  shows "cs_act a s = (Inr (), logged ''error'' (ru ''Sna^ala wyberite stanci@'') s)"
  using assms(1) unfolding station_commands_def
  by (auto simp: cs_commands when_station_unselected [OF assms(2,3)])

theorem commands_need_station_witness:
  "wire (snd (cs_act A_unlockConnector demo_page)) = []"
proof -
  have "\<not> truthy (current_station demo_page)" "dom demo_page ''.log-container'' \<noteq> None"
    by (simp_all add: demo_defs blank_dom_def)
  then have "cs_act A_unlockConnector demo_page = (Inr (), logged ''error'' (ru ''Sna^ala wyberite stanci@'') demo_page)"
    by (intro commands_need_station) (simp_all add: station_commands_def)
  then show ?thesis by (simp add: logged_def wire_def demo_defs)
qed

text \<open>The request each command sends: method, parameters and the continuation that awaits it.\<close>

fun command_request :: "cs_action \<Rightarrow> cs_page \<Rightarrow> string \<times> jsval \<times> cs_cont" where
  "command_request A_disconnectStation s =
     (''DisconnectStation'', Obj [(''station_id'', current_station s)], K_disconnectStation)"
| "command_request A_changeAvailability s =
     (''ChangeAvailability'', Obj [(''station_id'', current_station s), (''command'',
        Str (if checked (the (dom s ''station_control__change_availability_on'')) then ''Available'' else ''Unavailable''))],
      K_changeAvailability)"
| "command_request A_getStationInfo s =
     (''GetStationInfo'', Obj [(''station_id'', current_station s)], K_getStationInfo)"
| "command_request A_getConfiguration s =
     (''GetConfiguration'', Obj [(''station_id'', current_station s)], K_getConfiguration)"
| "command_request A_getVariable s =
     (''GetVariable'', Obj [(''station_id'', current_station s)], K_getVariable)"
| "command_request A_setVariable s =
     (''SetVariable'', Obj [(''station_id'', current_station s), (''component'', Obj []),
        (''variable'', Obj []), (''attribute'', Obj [])], K_setVariable)"
| "command_request A_rebootStation s =
     (''RebootStation'', Obj [(''station_id'', current_station s)], K_rebootStation)"
| "command_request A_clearCache s =
     (''ClearCache'', Obj [(''station_id'', current_station s)], K_clearCache)"
| "command_request A_requestStartTransaction s = (''RequestStartTransaction'',
     Obj [(''station_id'', current_station s), (''connector_id'', current_connector s)], K_requestStartTransaction)"
| "command_request A_requestStopTransaction s = (''RequestStopTransaction'',
     Obj [(''station_id'', current_station s), (''connector_id'', current_connector s)], K_requestStopTransaction)"
| "command_request A_unlockConnector s = (''UnlockConnector'',
     Obj [(''station_id'', current_station s), (''connector_id'', current_connector s)], K_unlockConnector)"
| "command_request A_triggerMeterValues s =
     (let evse = js_or (Str (el_value (the (dom s ''station_control__trigger_meter_values'')))) (current_connector s)
      in (''TriggerMeterValues'', Obj [(''stastionId'', current_station s), (''evseId'', evse)], K_triggerMeterValues evse))"
| "command_request A_triggerStatusNotification s =
     (''TriggerStatusNotification'', Obj [(''station_id'', current_station s)], K_triggerStatusNotification)"
| "command_request A_triggerHeartbeat s =
     (''TriggerHeartbeat'', Obj [(''station_id'', current_station s)], K_triggerHeartbeat)"
| "command_request _ s = ([], Undefined, K_clearCache)"

text \<open>The elements the commands read.\<close>

definition command_ids :: "string list" where
  "command_ids = [''.log-container'', ''station_control__change_availability_on'',
     ''station_control__trigger_meter_values'', ''station_control__set_variable_component'',
     ''station_control__set_variable_variable'', ''station_control__set_variable_attribute'']"

lemma async_try_call:
  "js_async (js_try (call m p k) h) s = call m p k (s :: cs_page)"
  using no_throw_unit [OF no_throw_call, of m p k s]
  by (simp add: js_run split: prod.split sum.split) (metis Inl_Inr_False fst_conv prod.inject)

lemma when_station_selected:
  "truthy (current_station s) \<Longrightarrow> js_async (when_station m) s = js_async m s"
  by (simp add: when_station_def validateCurrentStation_def js_run)

lemma async_steps:
  fixes s :: cs_page
  shows "js_async (js_try (js_get f g) h) s = js_async (js_try (g (f s)) h) s"
    and "js_async (js_get f m) s = js_async (m (f s)) s"
    and "dom s i = Some e \<Longrightarrow> js_async (with_el i n) s = js_async (n e) s"
    and "l s = (Inr (), t) \<Longrightarrow> js_async (js_try (js_block [l, c]) h) s = js_async (js_try (js_block [c]) h) t"
    and "js_try (js_block [c]) h = js_try c h"
proof -
  show "js_try (js_block [c]) h = js_try c h"
    by (rule ext) (simp add: js_run split: prod.split sum.split)
qed (simp_all add: js_run split: prod.split sum.split)

lemma command_call:
  assumes "a \<in> set station_commands" "truthy (current_station s)"
    and "\<forall>i \<in> set command_ids. dom s i \<noteq> None"
  shows "cs_act a s = (case command_request a s of (m, p, k) \<Rightarrow>
    call m p k (if a = A_disconnectStation
      then logged ''info'' ((ru ''Otkl@^enie stancii '') @ to_string (current_station s)) s else s))"
  using assms(1,3) unfolding station_commands_def
  by (auto simp: cs_commands when_station_selected [OF assms(2)] async_steps async_try_call log_run
      station_params_def connector_params_def command_ids_def element_value_def js_or_def Let_def)


text \<open>A page on which station \<open>CP1\<close> and connector 2 are selected.\<close>

definition demo_selected :: cs_page where
  "demo_selected = demo_page\<lparr>dom := blank_dom command_ids, current_station := Str ''CP1'',
     current_connector := num_of_int 2\<rparr>"

lemma demo_selected_ids: "\<forall>i \<in> set command_ids. dom demo_selected i \<noteq> None"
  by (simp add: demo_selected_def blank_dom_def)

lemma demo_selected_station: "current_station demo_selected = Str ''CP1''"
  by (simp add: demo_selected_def)


text \<open>
  C15. Commands on the wire: when the socket is open, a command given with a station selected
  puts exactly one text on it, and that text parses to the JSON-RPC request with the next id
  and with the method and the parameters of the table.
\<close>

theorem command_reaches_the_wire:
  assumes "a \<in> set station_commands" "truthy (current_station s)"
    and "\<forall>i \<in> set command_ids. dom s i \<noteq> None"
    and "connected s" "ws s = Some i" "socket_state s i = Some OPEN"
    and "command_request a s = (m, p, k)" "json_safe p" "int (requestId s + 1) < 2 ^ 53"
  shows "\<exists>t. sent (sockets (snd (cs_act a s)) ! i) = sent (sockets s ! i) @ [t] \<and>
    json_parse t = Inr (rpc_request (requestId s + 1) m p)"
proof -
  let ?l = "logged ''info'' ((ru ''Otkl@^enie stancii '') @ to_string (current_station s)) s"
  have keep: "sockets ?l = sockets s" "requestId ?l = requestId s" "ws ?l = ws s" "connected ?l = connected s"
      "socket_state ?l i = socket_state s i"
    by (simp_all add: logged_def socket_state_def)
  show ?thesis
    using call_text [of s i p m k] call_text [of ?l i p m k] command_call [OF assms(1-3)] assms(4-9)
    by (simp add: keep split: if_splits)
qed

theorem command_reaches_the_wire_witness:
  "\<exists>t. sent (sockets (snd (cs_act A_requestStartTransaction demo_selected)) ! 0) = [t] \<and>
    json_parse t = Inr (rpc_request 2 ''RequestStartTransaction''
      (Obj [(''station_id'', Str ''CP1''), (''connector_id'', num_of_int 2)]))"
proof -
  have "connected demo_selected" "ws demo_selected = Some 0" "socket_state demo_selected 0 = Some OPEN"
    "requestId demo_selected = 1" "sent (sockets demo_selected ! 0) = []"
    by (simp_all add: demo_selected_def demo_defs socket_state_def)
  moreover have "command_request A_requestStartTransaction demo_selected = (''RequestStartTransaction'',
      Obj [(''station_id'', Str ''CP1''), (''connector_id'', num_of_int 2)], K_requestStartTransaction)"
    by (simp add: demo_selected_def)
  ultimately show ?thesis
    using command_reaches_the_wire [of A_requestStartTransaction demo_selected 0]
    by (simp add: demo_selected_ids demo_selected_station station_commands_def numeral_2_eq_2)
qed

text \<open>
  Writing a variable: what the user typed into the three fields never reaches the wire.
  Whatever the document holds in them, the same text is sent, with an empty object in place
  of the component, the variable and the attribute (the elements themselves are put into the
  request, not their values).
\<close>

lemma set_variable_ignores_input:
  assumes "truthy (current_station s)" "\<forall>i \<in> set command_ids. dom s i \<noteq> None"
    and "\<forall>i \<in> set command_ids. d i \<noteq> None"
  shows "sockets (snd (cs_act A_setVariable (s\<lparr>dom := d\<rparr>))) = sockets (snd (cs_act A_setVariable s))"
proof -
  have "A_setVariable \<in> set station_commands" by (simp add: station_commands_def)
  then show ?thesis
    using command_call [of A_setVariable s] command_call [of A_setVariable "s\<lparr>dom := d\<rparr>"] assms
    by (simp add: call_def ws_send_def js_run socket_state_def split: option.split ready_state.split)
qed

subsection \<open>Selecting\<close>

lemma same_but_view_fields:
  assumes "same_but_view s t"
  shows "current_station t = current_station s" "current_connector t = current_connector s" "jobs t = jobs s"
    "pendingRequests t = pendingRequests s" "requestId t = requestId s" "sockets t = sockets s"
    "connected t = connected s" "stations t = stations s" "eventHandlers t = eventHandlers s"
  using assms by (cases t; simp add: same_but_view_def)+

lemma same_but_viewD:
  "same_but_view s t \<Longrightarrow> current_station t = current_station s \<and>
     current_connector t = current_connector s \<and> jobs t = jobs s"
  by (simp add: same_but_view_fields)

lemma view_then:
  assumes "relates same_but_view m" "\<And>e. relates same_but_view (h e)"
  shows "same_but_view (f s) (snd (js_try (js_bind (js_upd f) (\<lambda>_. m)) h s))"
proof -
  have "relates same_but_view (js_try m h)" using assms by (rule csv.rel_try)
  moreover have "js_try (js_bind (js_upd f) (\<lambda>_. m)) h s = js_try m h (f s)"
    by (simp add: js_run split: prod.split sum.split)
  ultimately show ?thesis by (simp add: relatesD)
qed

lemma station_resume_ok:
  "same_but_view (s\<lparr>current_station := Str i\<rparr>) (snd (handleStationChange_resume i (Inr v) s))"
  unfolding handleStationChange_resume_def Let_def js_lift_run js_block.simps(2)
  by (rule view_then)
    (auto simp: js_block.simps intro!: csv.view_rel_intros csv.rel_info csv.rel_dropdowns)

lemma station_resume_failed:
  "dom s ''.log-container'' \<noteq> None \<Longrightarrow> handleStationChange_resume i (Inl e) s =
   (Inr (), logged ''error'' ((ru ''O[ibka zagruzki dannyh stancij '') @ i) s)"
  by (simp add: handleStationChange_resume_def js_run log_run)

lemma connector_resume_ok:
  "same_but_view (s\<lparr>current_connector := c\<rparr>) (snd (handleConnectorChange_resume c (Inr v) s))"
  unfolding handleConnectorChange_resume_def js_lift_run js_block.simps(2)
  by (rule view_then)
    (auto simp: js_block.simps intro!: csv.view_rel_intros csv.rel_info)

lemma selection_resume_failed:
  "relates same_but_view (handleStationChange_resume i (Inl e))"
  "relates same_but_view (handleConnectorChange_resume c (Inl e))"
  unfolding handleStationChange_resume_def handleConnectorChange_resume_def js_lift_run
  by (intro csv.view_rel_intros)+

lemma run_job_Cons:
  "jobs s = (k, r) # js \<Longrightarrow> run_job s = js_async (cs_resume k r) (s\<lparr>jobs := js\<rparr>)"
  by (simp add: run_job_def run_next_Cons)

lemma report_view: "same_but_view s (snd (m t)) \<Longrightarrow> same_but_view s (snd (js_report m t))"
  by (cases "snd (m t)") (auto simp: report_state same_but_view_def split: prod.split sum.split)

lemma station_resume_report:
  "same_but_view (s\<lparr>current_station := Str i\<rparr>) (snd (js_report (handleStationChange_resume i (Inr v)) s))"
  "same_but_view s (snd (js_report (handleStationChange_resume i (Inl e)) s))"
  by (rule report_view [of _ "handleStationChange_resume i (Inr v)"], rule station_resume_ok)
    (rule relatesD [OF csv.rel_report [OF selection_resume_failed(1)]])

lemma connector_resume_report:
  "same_but_view (s\<lparr>current_connector := c\<rparr>) (snd (js_report (handleConnectorChange_resume c (Inr v)) s))"
  "same_but_view s (snd (js_report (handleConnectorChange_resume c (Inl e)) s))"
  by (rule report_view [of _ "handleConnectorChange_resume c (Inr v)"], rule connector_resume_ok)
    (rule relatesD [OF csv.rel_report [OF selection_resume_failed(2)]])

text \<open>
  C16. What selects: in any step the page can make, the selected station and the selected
  connector stay as they are, unless the step is the successful answer to a
  \<open>GetStationStatus\<close> request, which selects the station that was asked for and leaves the
  connector of the previous station selected, or the successful answer to a
  \<open>GetConnectorStatus\<close> request, which selects that connector and leaves the station.
\<close>

theorem only_answers_select:
  assumes "cs_step s t"
  shows "same_selection s t \<or>
    (\<exists>i v js. jobs s = (K_handleStationChange i, Inr v) # js \<and>
       current_station t = Str i \<and> current_connector t = current_connector s) \<or>
    (\<exists>c v js. jobs s = (K_handleConnectorChange c, Inr v) # js \<and>
       current_connector t = c \<and> current_station t = current_station s)"
  using assms
proof (cases rule: cs_step.cases)
  case (event ev)
  then show ?thesis using css.rel_deliver by simp
next
  case job
  then obtain k r js where q: "jobs s = (k, r) # js" by (cases "jobs s") auto
  let ?s = "s\<lparr>jobs := js\<rparr>"
  have t: "t = snd (js_async (cs_resume k r) ?s)" using job q by (simp add: run_job_Cons)
  consider (station) i where "k = K_handleStationChange i" | (connector) c where "k = K_handleConnectorChange c"
    | (other) "\<And>i. k \<noteq> K_handleStationChange i" "\<And>c. k \<noteq> K_handleConnectorChange c" by blast
  then show ?thesis
  proof cases
    case station
    show ?thesis
    proof (cases r)
      case (Inr v)
      then show ?thesis
        using station_resume_report(1) [of i ?s v] q station
        by (auto simp: t dest!: same_but_viewD)
    next
      case (Inl e)
      then show ?thesis
        using station_resume_report(2) [of ?s i e] station
        by (auto simp: t same_selection_def dest!: same_but_viewD)
    qed
  next
    case connector
    show ?thesis
    proof (cases r)
      case (Inr v)
      then show ?thesis
        using connector_resume_report(1) [of c ?s v] q connector
        by (auto simp: t dest!: same_but_viewD)
    next
      case (Inl e)
      then show ?thesis
        using connector_resume_report(2) [of ?s c e] connector
        by (auto simp: t same_selection_def dest!: same_but_viewD)
    qed
  next
    case other
    then have "same_selection ?s (snd (js_async (cs_resume k r) ?s))"
      by (intro relatesD [OF css.rel_report [OF css.rel_resume]]) simp_all
    then show ?thesis by (simp add: t same_selection_def)
  qed
qed

theorem only_answers_select_witness:
  "current_connector (snd (run_job (demo_selected\<lparr>jobs := [(K_handleStationChange ''CP2'', Inr Null)]\<rparr>))) = num_of_int 2"
proof -
  let ?s = "demo_selected\<lparr>jobs := [(K_handleStationChange ''CP2'', Inr Null)]\<rparr>"
  have "cs_step ?s (snd (run_job ?s))" by (rule cs_step.job) simp
  from only_answers_select [OF this]
  have "current_connector (snd (run_job ?s)) = current_connector ?s"
    by (elim disjE exE conjE) (simp_all add: same_selection_def)
  then show ?thesis by (simp add: demo_selected_def)
qed

text \<open>
  The last answer wins: when the answers to two selections are waiting, the station
  whose answer is processed second is the selected one, whichever was chosen last; and the
  connector selected before both is still selected afterwards.
\<close>

lemma last_answer_wins:
  assumes "jobs s = [(K_handleStationChange a, Inr v), (K_handleStationChange b, Inr w)]"
  shows "let t = snd (run_job (snd (run_job s)))
    in current_station t = Str b \<and> current_connector t = current_connector s \<and> jobs t = []"
proof -
  let ?u = "snd (run_job s)"
  have u: "same_but_view (s\<lparr>jobs := [(K_handleStationChange b, Inr w)], current_station := Str a\<rparr>) ?u"
    using station_resume_report(1) [of a "s\<lparr>jobs := [(K_handleStationChange b, Inr w)]\<rparr>" v]
    by (simp add: run_job_Cons [OF assms])
  then have j: "jobs ?u = [(K_handleStationChange b, Inr w)]" "current_connector ?u = current_connector s"
    by (auto dest!: same_but_viewD)
  have "same_but_view (?u\<lparr>jobs := [], current_station := Str b\<rparr>) (snd (run_job ?u))"
    using station_resume_report(1) [of b "?u\<lparr>jobs := []\<rparr>" w]
    by (simp add: run_job_Cons [OF j(1)])
  then show ?thesis using j(2) by (auto simp: Let_def dest!: same_but_viewD)
qed

subsection \<open>Answers\<close>

text \<open>The line a failed command writes, up to the text of the error.\<close>

fun failure_text :: "cs_cont \<Rightarrow> string option" where
  "failure_text K_disconnectStation = Some (ru ''O[ibka otkl@^eniq stancii'')"
| "failure_text K_changeAvailability = Some (ru ''O[ibka izmeneniq dostupnosti stancii'')"
| "failure_text K_getStationInfo = Some (ru ''O[ibka polu^eniq informacii o stancii'')"
| "failure_text K_getConfiguration = Some (ru ''O[ibka polu^eniq konfiguracii'')"
| "failure_text K_getVariable = Some (ru ''O[ibka polu^eniq peremennyh'')"
| "failure_text K_setVariable = Some (ru ''O[ibka zapisi peremennoj'')"
| "failure_text K_rebootStation = Some (ru ''O[ibka perezagruzki stancii'')"
| "failure_text K_clearCache = Some (ru ''O[ibka o^istki k|[a'')"
| "failure_text K_requestStartTransaction = Some (ru ''O[ibka na^ala tranzakcii'')"
| "failure_text K_requestStopTransaction = Some (ru ''O[ibka ostanowki tranzakcii'')"
| "failure_text (K_triggerMeterValues v) = Some (ru ''O[ibka '' @ ''trigger MeterValues'')"
| "failure_text K_triggerStatusNotification = Some (ru ''O[ibka '' @ ''trigger StatusNotification'')"
| "failure_text K_triggerHeartbeat = Some (ru ''O[ibka '' @ ''trigger Heartbeat'')"
| "failure_text _ = None"

definition shown_error :: "cs_page \<Rightarrow> js_error \<Rightarrow> string" where
  "shown_error s e = (if error_message s e = [] then (ru ''Neizwestnaq o[ibka'') else error_message s e)"

lemma handleRpcError_run:
  "dom s ''.log-container'' \<noteq> None \<Longrightarrow>
   handleRpcError m e s = (Inr (), logged ''error'' (m @ '': '' @ shown_error s e) s)"
  by (simp add: handleRpcError_def js_run log_run shown_error_def)

text \<open>
  C17. Failed commands are reported: for 13 of the 14 commands a rejected call (the server's
  error, a lost or a missing connection) ends in exactly one error line with the name of the
  command's failure and the text of the error, and changes nothing else.
\<close>

theorem failed_commands_report:
  assumes "failure_text k = Some m" "dom s ''.log-container'' \<noteq> None"
  shows "cs_resume k (Inl e) s = (Inr (), logged ''error'' (m @ '': '' @ shown_error s e) s)"
  using assms(1)
  by (cases k) (auto simp: cs_resumes js_lift_run js_try_run js_throw_run handleRpcError_run [OF assms(2)])

theorem failed_commands_report_witness:
  "cs_resume K_clearCache (Inl (Error ''busy'')) demo_page =
   (Inr (), logged ''error'' ((ru ''O[ibka o^istki k|[a'') @ '': busy'') demo_page)"
proof -
  have "dom demo_page ''.log-container'' \<noteq> None" by (simp add: demo_defs blank_dom_def)
  from failed_commands_report [of K_clearCache "(ru ''O[ibka o^istki k|[a'')" demo_page "Error ''busy''", OF _ this]
  show ?thesis by (simp add: shown_error_def error_message_def)
qed


lemma parseResponse_text:
  assumes "json_safe v" "map_get kvs ''result'' = Some (Str (json_text v))"
  shows "parseResponse (Obj kvs) = v"
  using json_text_start [OF assms(1)] json_round_trip [OF assms(1)] assms(2)
  by (auto simp: parseResponse_def field_of_def)



subsection \<open>The list of stations\<close>

lemma append_options:
  assumes "dom s i = Some e" "0 \<le> selectedIndex e"
  shows "js_block (map (\<lambda>x. append_option i (v x) (t x)) xs) s =
    (Inr (), s\<lparr>dom := (dom s)(i \<mapsto> e\<lparr>options := options e @ map (\<lambda>x. (v x, t x)) xs\<rparr>)\<rparr>)"
  using assms
proof (induction xs arbitrary: s e)
  case Nil
  then show ?case by (simp add: js_run fun_upd_idem)
next
  case (Cons x xs)
  let ?e = "e\<lparr>options := options e @ [(v x, t x)]\<rparr>"
  let ?s = "s\<lparr>dom := (dom s)(i \<mapsto> ?e)\<rparr>"
  have "append_option i (v x) (t x) s = (Inr (), ?s)"
    using Cons.prems by (simp add: append_option_def js_run)
  moreover have "js_block (map (\<lambda>x. append_option i (v x) (t x)) xs) ?s =
      (Inr (), ?s\<lparr>dom := (dom ?s)(i \<mapsto> ?e\<lparr>options := options ?e @ map (\<lambda>x. (v x, t x)) xs\<rparr>)\<rparr>)"
    using Cons.prems by (intro Cons.IH) simp_all
  ultimately show ?case by (simp add: js_block_Cons_run) (simp add: fun_upd_def)
qed

lemma cache_strings:
  "js_block (map (\<lambda>station. js_lift (get_prop station ''id'') (\<lambda>i.
      js_upd (\<lambda>s. s\<lparr>stations := map_set (stations s) i station\<rparr>))) (map Str ids)) (s :: cs_page) =
   (Inr (), s\<lparr>stations := fold (\<lambda>x m. map_set m Undefined (Str x)) ids (stations s)\<rparr>)"
  by (induction ids arbitrary: s) (simp_all add: js_run)

lemma fold_one_key:
  "fold (\<lambda>x m. map_set m k (f x)) xs [] = (if xs = [] then [] else [(k, f (last xs))])"
  by (induction xs rule: rev_induct) auto

text \<open>
  C20. The list of stations: an answer to \<open>GetStations\<close> fills the drop-down with an empty entry
  and one entry per station, in the order of the answer, with the empty entry selected. The
  station cache keeps a single entry, under the key \<open>undefined\<close>, that holds the last
  station, because the stations of the answer are names and not objects with an \<open>id\<close>.
\<close>

theorem station_list_shown:
  assumes "map_get kvs ''result'' = Some (Str (json_text (Obj [(''stations'', Arr (map Str ids))])))"
    and "dom s ''station-select'' = Some el"
  shows "loadStationsList_resume (Inr (Obj kvs)) s = (Inr (), s\<lparr>
    dom := (dom s)(''station-select'' \<mapsto> el\<lparr>
      options := ([], []) # map (\<lambda>i. (i, if i = [] then (ru ''Stanciq #'') else i)) ids, selectedIndex := 0\<rparr>),
    stations := if ids = [] then [] else [(Undefined, Str (last ids))]\<rparr>)"
proof -
  have safe: "json_safe (Obj [(''stations'', Arr (map Str ids))])" by (simp add: list_all_iff)
  have p: "parseResponse (Obj kvs) = Obj [(''stations'', Arr (map Str ids))]"
    by (rule parseResponse_text [OF safe assms(1)])
  let ?e = "el\<lparr>options := [([], [])], selectedIndex := 0\<rparr>"
  let ?s = "s\<lparr>dom := (dom s)(''station-select'' \<mapsto> ?e)\<rparr>"
  let ?t = "\<lambda>i. if i = [] then (ru ''Stanciq #'') else i"
  have o: "js_block (map (\<lambda>x. append_option ''station-select'' x (?t x)) ids) ?s = (Inr (), s\<lparr>
      dom := (dom s)(''station-select'' \<mapsto> el\<lparr>options := ([], []) # map (\<lambda>i. (i, ?t i)) ids, selectedIndex := 0\<rparr>)\<rparr>)"
  proof -
    have c: "el\<lparr>selectedIndex := 0, options := os\<rparr> = el\<lparr>options := os, selectedIndex := 0\<rparr>" for os by simp
    show ?thesis by (subst append_options [where e = ?e]) (simp_all add: c)
  qed
  have "js_block (map (\<lambda>station. append_option ''station-select'' (to_string station)
       (to_string (js_or station (Str ((ru ''Stanciq #'') @ to_string station))))) (map Str ids))
     = (js_block (map (\<lambda>x. append_option ''station-select'' x (?t x)) ids) :: unit cs)"
    by (rule arg_cong [where f = js_block]) (simp add: js_or_def)
  then have d: "updateStationDropdown (Arr (map Str ids)) s = (Inr (), s\<lparr>
      dom := (dom s)(''station-select'' \<mapsto> el\<lparr>options := ([], []) # map (\<lambda>i. (i, ?t i)) ids, selectedIndex := 0\<rparr>)\<rparr>)"
    using assms(2) o
    by (simp add: updateStationDropdown_def clear_options_def append_option_def js_run)
  show ?thesis
    by (simp add: loadStationsList_resume_def js_lift_run p js_try_run js_block_Cons_run d cacheStationsData_def
        js_bind_run js_upd_run cache_strings fold_one_key js_block_Nil_run map_get_def
        del: list.map_comp map_map)
qed

theorem station_list_shown_witness:
  "stations (snd (loadStationsList_resume (Inr (Obj [(''result'',
     Str (json_text (Obj [(''stations'', Arr (map Str [''CP1'', ''CP2'']))])))])) demo_page)) = [(Undefined, Str ''CP2'')]"
proof -
  have "dom demo_page ''station-select'' = Some blank_element" by (simp add: demo_defs blank_dom_def)
  from station_list_shown [OF _ this, of "[(''result'',
     Str (json_text (Obj [(''stations'', Arr (map Str [''CP1'', ''CP2'']))])))]" "[''CP1'', ''CP2'']"]
  show ?thesis by (simp add: map_get_def del: json_text.simps)
qed

subsection \<open>Notifications of the stations\<close>

text \<open>
  C21. Meter values: a meter notification is logged; it changes the displayed meter exactly
  when it names the selected station (same type and value) and the selected connector (up to
  conversion), and then to its value with two decimals. For any other station or connector
  the page stays as it is.
\<close>

theorem meter_values_filtered:
  assumes "map_get kvs ''station_id'' = Some sid" "map_get kvs ''values'' = Some (Num x)"
    and "dom s ''.log-container'' \<noteq> None" "dom s ''connector__meter'' = Some e"
  shows "handleMeterValues (Obj kvs) s =
    (let t = logged ''info'' (''MeterValues: '' @ json_text (Obj kvs)) s in
     (Inr (), if strict_eq sid (current_station s) \<and> loose_eq (field_of (Obj kvs) ''connector_id'') (current_connector s)
        then t\<lparr>dom := (dom t)(''connector__meter'' \<mapsto> e\<lparr>textContent := to_fixed2 x @ (ru '' kWt*^'')\<rparr>)\<rparr> else t))"
  using assms
  by (simp add: handleMeterValues_def js_run log_run json_stringify_def updateMeterValues_def set_text_def Let_def
      del: json_text.simps)

theorem meter_values_filtered_witness:
  "snd (handleMeterValues (Obj [(''station_id'', Str ''CP2''), (''values'', num_of_int 7)])
      (demo_selected\<lparr>dom := blank_dom [''.log-container'', ''connector__meter'']\<rparr>)) =
   logged ''info'' (''MeterValues: '' @ json_text (Obj [(''station_id'', Str ''CP2''), (''values'', num_of_int 7)]))
      (demo_selected\<lparr>dom := blank_dom [''.log-container'', ''connector__meter'']\<rparr>)"
  using meter_values_filtered [of "[(''station_id'', Str ''CP2''), (''values'', num_of_int 7)]" "Str ''CP2''" "Fin 7"
      "demo_selected\<lparr>dom := blank_dom [''.log-container'', ''connector__meter'']\<rparr>" blank_element]
  by (simp add: map_get_def blank_dom_def demo_selected_station Let_def del: json_text.simps)

lemma status_keeps:
  "i \<notin> {''.log-container'', ''station__status''} \<Longrightarrow> dom (snd (updateStationStatus v s)) i = dom s i"
  by (auto simp: updateStationStatus_def js_lift_def js_run set_text_def set_class_def split: sum.split option.split)

lemma log_keeps: "i \<noteq> ''.log-container'' \<Longrightarrow> dom (snd (log m s)) i = dom s i"
  by (auto simp: cs_logging append_child_def js_run split: option.split)

text \<open>
  Connector status: a status notification that names a connector never changes the
  displayed connector status, not even when it names the selected station and connector: it
  is compared with \<open>this.connector_id\<close>, which no method assigns.
\<close>

lemma connector_status_never_updated:
  assumes "map_get kvs ''connector_id'' = Some c" "c \<noteq> Undefined"
  shows "dom (snd (handleStatusNotification (Obj kvs) s)) ''connector__status'' = dom s ''connector__status''"
proof -
  have ne: "\<not> strict_eq c Undefined" using assms(2) by (cases c) simp_all
  let ?m = "''StatusNotification: '' @ to_string (json_stringify (Obj kvs))"
  obtain r t where l: "log ?m s = (r, t)" by (cases "log ?m s")
  have t: "dom t ''connector__status'' = dom s ''connector__status''"
    using log_keeps [of "''connector__status''" ?m s] l by simp
  have "dom u ''connector__status'' = dom s ''connector__status''" if "updateStationStatus v t = (q, u)" for v q u
    using status_keeps [of "''connector__status''" v t] that t by simp
  then show ?thesis
    using l t ne assms(1)
    by (auto simp: handleStatusNotification_def js_run del: json_text.simps split: sum.split prod.split)
qed

subsection \<open>Connection\<close>

definition led_ids :: "string list" where
  "led_ids = [''websocket-status-led'', ''websocket-status-text'', ''websocket-connect'', ''websocket-disconnect'']"

text \<open>The indicator and the two buttons show a connection, or none.\<close>

definition shows_connection :: "bool \<Rightarrow> cs_page \<Rightarrow> bool" where
  "shows_connection b s \<longleftrightarrow> (case map (dom s) led_ids of
     [Some led, Some txt, Some con, Some dis] \<Rightarrow>
       className led = ''status-indicator__led status-indicator__led--'' @ (if b then ''connected'' else ''disconnected'') \<and>
       textContent txt = (if b then (ru ''Soedinenie ustanowleno'') else (ru ''Soedinenie otsutstwuet'')) \<and>
       disabled con = b \<and> disabled dis = (\<not> b)
   | _ \<Rightarrow> False)"

lemma updateConnectionStatus_shows:
  assumes "\<forall>i \<in> set led_ids. dom s i \<noteq> None"
  shows "fst (updateConnectionStatus b s) = Inr () \<and> shows_connection b (snd (updateConnectionStatus b s))"
  using assms
  by (auto simp: updateConnectionStatus_def js_run dom_defs shows_connection_def led_ids_def)

lemma updateConnectionStatus_view: "same_but_view s (snd (updateConnectionStatus b s))"
  by (rule relatesD [OF csv.rel_notifications(1)])

lemma handlers_running:
  assumes "eventHandlers s = handler_table"
  shows "handlers_of s ''connected'' = [H_connected]" "handlers_of s ''disconnected'' = [H_disconnected]"
  using assms by (simp_all add: handlers_of_def handler_table_def map_get_def)

lemma closed_run:
  assumes "eventHandlers s = handler_table" "socket_state s i \<noteq> None"
  shows "snd (deliver (Closed i) s) = snd (updateConnectionStatus False
    (s\<lparr>sockets := (sockets s)[i := (sockets s ! i)\<lparr>readyState := CLOSED\<rparr>], connected := False\<rparr>))"
  using assms
  by (simp add: deliver_def page_deliver_def js_block_Cons_run js_block_Nil_run set_ready_run js_report_run onclose_def
      js_upd_run csh.emit_one [where h = H_disconnected] handlers_running handleReconnect_def js_skip_run)

lemma running_step:
  assumes "cs_running s" "jobs s = []" "page_enabled s ev"
  shows "cs_running (snd (deliver ev s))"
  using assms unfolding cs_running_def by (meson cs_steps.step cs_step.event)

lemma running_listeners: "cs_running s \<Longrightarrow> listeners s = listener_table"
  unfolding cs_running_def using steps_wiring by blast

lemma connect_ok:
  "url_ok s (url s) \<Longrightarrow> connectWebsocket s = (Inr (), s\<lparr>sockets := sockets s @ [\<lparr>sk_url = url s,
     sk_protocol = Some ''websocket'', readyState = CONNECTING, sent = []\<rparr>], ws := Some (length (sockets s))\<rparr>)"
  by (simp add: connectWebsocket_def connect_def new_WebSocket_def js_run)

lemma click_connect:
  assumes "listeners s = listener_table" "dom s ''websocket-connect'' = Some e" "\<not> disabled e"
    and "url_ok s (url s)"
  shows "snd (deliver (Click ''websocket-connect'') s) = s\<lparr>sockets := sockets s @ [\<lparr>sk_url = url s,
     sk_protocol = Some ''websocket'', readyState = CONNECTING, sent = []\<rparr>], ws := Some (length (sockets s))\<rparr>"
  using assms(2,3)
  by (simp add: deliver_def page_deliver_def user_click_def js_get_run dispatch_def assms(1) actions_of_def listener_table_def
      js_block_Cons_run js_block_Nil_run js_report_run connect_ok [OF assms(4)])

lemma connected_invoke:
  assumes "\<forall>i \<in> set led_ids. dom s i \<noteq> None" "dom s ''.log-container'' \<noteq> None"
  shows "cs_invoke H_connected d s = call ''GetStations'' (Obj []) (K_loadStationsList False)
    (logged ''info'' (ru ''Zagruzka spiska stancij...'') (snd (updateConnectionStatus True s)))"
proof -
  obtain u where u: "updateConnectionStatus True s = (Inr (), u)"
    using updateConnectionStatus_shows [OF assms(1), of True] by (metis prod.collapse)
  have l: "dom u ''.log-container'' \<noteq> None"
    using u assms by (auto simp: updateConnectionStatus_def js_run dom_defs led_ids_def)
  have c: "js_async (loadStationsList_body False) u = js_async (js_try (js_block [call ''GetStations'' (Obj [])
      (K_loadStationsList False)]) (\<lambda>error. logError (ru ''O[ibka zagruzki spiska stancij'')))
      (logged ''info'' (ru ''Zagruzka spiska stancij...'') u)"
    unfolding loadStationsList_body_def by (rule async_steps(4), rule log_run(1), rule l)
  obtain v where v: "call ''GetStations'' (Obj []) (K_loadStationsList False)
      (logged ''info'' (ru ''Zagruzka spiska stancij...'') u) = (Inr (), v)"
    by (rule that) (rule no_throw_unit [OF no_throw_call])
  show ?thesis
    by (simp add: js_block_Cons_run u loadStationsList_def c async_steps(5) async_try_call js_block_Nil_run v)
qed

lemma opened_run:
  assumes "eventHandlers s = handler_table" "socket_state s i \<noteq> None"
  shows "snd (deliver (Opened i) s) = snd (cs_invoke H_connected Undefined (s\<lparr>sockets := (sockets s)[i :=
    (sockets s ! i)\<lparr>readyState := OPEN\<rparr>], connected := True, reconnectAttempts := 0\<rparr>))"
  using assms
  by (simp add: deliver_def page_deliver_def js_block_Cons_run js_block_Nil_run set_ready_run js_report_run onopen_def
      js_upd_run csh.emit_one [where h = H_connected] handlers_running del: cs_invoke.simps)

lemma message_run: "deliver (Message i t) s = js_report (onmessage cs_invoke t) s"
  by (simp add: deliver_def page_deliver_def)

text \<open>A page whose connect button was clicked twice before the second socket opened.\<close>

definition demo_document :: "string \<rightharpoonup> element" where
  "demo_document = blank_dom (bound_ids @ led_ids @ command_ids)"

definition demo_clicked :: cs_page where
  "demo_clicked = snd (deliver (Click ''websocket-connect'')
     (snd (deliver (Click ''websocket-connect'') (cs_start demo_document (\<lambda>u. True) (\<lambda>e. []) []))))"

lemma demo_document_ids:
  "\<forall>i \<in> set bound_ids. demo_document i \<noteq> None" "\<forall>i \<in> set led_ids. demo_document i \<noteq> None"
  "demo_document ''.log-container'' = Some blank_element" "demo_document ''websocket-connect'' = Some blank_element"
  by (simp_all add: demo_document_def blank_dom_def command_ids_def bound_ids_def)

lemma demo_clicked:
  "cs_running demo_clicked" "dom demo_clicked = demo_document" "eventHandlers demo_clicked = handler_table"
  "jobs demo_clicked = []" "ws demo_clicked = Some 1" "requestId demo_clicked = 0" "pendingRequests demo_clicked = []"
  "map readyState (sockets demo_clicked) = [CONNECTING, CONNECTING]"
proof -
  let ?s = "cs_start demo_document (\<lambda>u. True) (\<lambda>e. []) []"
  note s = cs_start_eq [OF demo_document_ids(1), of "\<lambda>u. True" "\<lambda>e. []" "[]"]
  let ?k = "\<lparr>sk_url = url ?s, sk_protocol = Some ''websocket'', readyState = CONNECTING, sent = []\<rparr>"
  have 1: "snd (deliver (Click ''websocket-connect'') ?s) = ?s\<lparr>sockets := [?k], ws := Some 0\<rparr>"
    by (subst click_connect [where e = blank_element])
      (simp_all add: s rpc_constructor_def cs_window_def demo_document_ids blank_element_def)
  have 2: "demo_clicked = ?s\<lparr>sockets := [?k, ?k], ws := Some 1\<rparr>"
    unfolding demo_clicked_def 1
    by (subst click_connect [where e = blank_element])
      (simp_all add: s rpc_constructor_def cs_window_def demo_document_ids blank_element_def)
  have r0: "cs_running ?s"
    unfolding cs_running_def using demo_document_ids(1) cs_steps.refl by blast
  have j: "jobs ?s = []" by (simp add: s rpc_constructor_def cs_window_def)
  have r1: "cs_running (snd (deliver (Click ''websocket-connect'') ?s))"
    using r0 j by (rule running_step) (simp add: page_enabled_def)
  show "cs_running demo_clicked"
    unfolding demo_clicked_def using r1 by (rule running_step) (simp_all add: 1 j page_enabled_def)
  show "dom demo_clicked = demo_document" "eventHandlers demo_clicked = handler_table" "jobs demo_clicked = []"
    "ws demo_clicked = Some 1" "requestId demo_clicked = 0" "pendingRequests demo_clicked = []"
    "map readyState (sockets demo_clicked) = [CONNECTING, CONNECTING]"
    by (simp_all add: 2 s rpc_constructor_def cs_window_def)
qed

text \<open>
  C22. Losing the connection: when a socket closes, the page shows that there is no
  connection, offers to connect and not to disconnect, and the client refuses further calls;
  but no waiting call is settled. The pending requests stay in the table, nothing is queued,
  so the commands that await them never finish.
\<close>

theorem close_leaves_calls_waiting:
  assumes "cs_running s" "page_enabled s (Closed i)" "\<forall>j \<in> set led_ids. dom s j \<noteq> None"
  shows "let t = snd (deliver (Closed i) s) in shows_connection False t \<and> \<not> connected t \<and>
    pendingRequests t = pendingRequests s \<and> jobs t = jobs s"
proof -
  have h: "eventHandlers s = handler_table" using assms(1) by (rule running_handlers)
  have k: "socket_state s i \<noteq> None" using assms(2) by (simp add: page_enabled_def)
  let ?u = "s\<lparr>sockets := (sockets s)[i := (sockets s ! i)\<lparr>readyState := CLOSED\<rparr>], connected := False\<rparr>"
  show ?thesis
    unfolding Let_def closed_run [OF h k]
    using updateConnectionStatus_shows [of ?u False] assms(3)
      same_but_view_fields [OF updateConnectionStatus_view [of ?u False]]
    by simp
qed

theorem close_leaves_calls_waiting_witness:
  "shows_connection False (snd (deliver (Closed 0) demo_clicked))"
proof -
  have "page_enabled demo_clicked (Closed 0)"
    using demo_clicked(8) by (auto simp: page_enabled_def socket_state_def)
  then show ?thesis
    using close_leaves_calls_waiting [of demo_clicked 0] demo_clicked(1,2) demo_document_ids(2)
    by (simp add: Let_def)
qed

text \<open>
  C23. A stale socket: when the page has moved on to another, open socket and an older one
  closes, the client nevertheless counts as disconnected. The open socket stays open, the
  next call is refused as \<open>Not connected to server\<close>, and nothing is sent.
\<close>

theorem stale_close_disconnects:
  assumes "cs_running s" "page_enabled s (Closed i)"
    and "ws s = Some j" "j \<noteq> i" "socket_state s j = Some OPEN"
  shows "let t = snd (deliver (Closed i) s) in socket_state t j = Some OPEN \<and>
    call m p k t = (Inr (), t\<lparr>jobs := jobs t @ [(k, Inl (Error ''Not connected to server''))]\<rparr>)"
proof -
  have h: "eventHandlers s = handler_table" using assms(1) by (rule running_handlers)
  have k: "socket_state s i \<noteq> None" using assms(2) by (simp add: page_enabled_def)
  let ?u = "s\<lparr>sockets := (sockets s)[i := (sockets s ! i)\<lparr>readyState := CLOSED\<rparr>], connected := False\<rparr>"
  have f: "connected (snd (updateConnectionStatus False ?u)) = False"
    "sockets (snd (updateConnectionStatus False ?u)) = (sockets s)[i := (sockets s ! i)\<lparr>readyState := CLOSED\<rparr>]"
    using same_but_view_fields [OF updateConnectionStatus_view [of ?u False]] by simp_all
  show ?thesis
    unfolding Let_def closed_run [OF h k]
    using assms(4,5) f by (simp add: call_offline socket_state_def split: if_splits)
qed

lemma demo_sockets: "length (sockets demo_clicked) = 2" "socket_state demo_clicked 0 = Some CONNECTING"
  "socket_state demo_clicked 1 = Some CONNECTING"
  using demo_clicked(8) by (auto simp: socket_state_def)

lemma updateConnectionStatus_keeps:
  "sockets (snd (updateConnectionStatus b s)) = sockets s" "connected (snd (updateConnectionStatus b s)) = connected s"
  "ws (snd (updateConnectionStatus b s)) = ws s" "jobs (snd (updateConnectionStatus b s)) = jobs s"
  "requestId (snd (updateConnectionStatus b s)) = requestId s"
  "pendingRequests (snd (updateConnectionStatus b s)) = pendingRequests s"
  "eventHandlers (snd (updateConnectionStatus b s)) = eventHandlers s"
  by (auto simp: updateConnectionStatus_def js_run dom_defs split: option.split)

lemma updateConnectionStatus_present:
  "dom (snd (updateConnectionStatus b s)) x = None \<longleftrightarrow> dom s x = None"
  by (auto simp: updateConnectionStatus_def js_run dom_defs split: option.split)

text \<open>The page after \<open>connected\<close> was emitted over an open socket.\<close>

lemma connected_over_open:
  fixes d :: jsval
  assumes "\<forall>i \<in> set led_ids. dom s i \<noteq> None" "dom s ''.log-container'' \<noteq> None"
    and "connected s" "ws s = Some i" "socket_state s i = Some OPEN"
  defines "t \<equiv> snd (cs_invoke H_connected d s)"
  shows "requestId t = requestId s + 1"
    "pendingRequests t = map_set (pendingRequests s) (requestId s + 1) (K_loadStationsList False)"
    "connected t" "ws t = Some i" "socket_state t i = Some OPEN" "jobs t = jobs s" "eventHandlers t = eventHandlers s"
    "socket_state t j = socket_state s j" "dom t x = None \<longleftrightarrow> dom s x = None"
proof -
  let ?l = "logged ''info'' (ru ''Zagruzka spiska stancij...'') (snd (updateConnectionStatus True s))"
  have l: "connected ?l" "ws ?l = Some i" "socket_state ?l i = Some OPEN"
    using assms(3-5)
    by (simp_all add: logged_def updateConnectionStatus_keeps socket_state_def split: if_split_asm)
  have t: "t = snd (call ''GetStations'' (Obj []) (K_loadStationsList False) ?l)"
    unfolding t_def connected_invoke [OF assms(1,2)] ..
  show "requestId t = requestId s + 1"
    "pendingRequests t = map_set (pendingRequests s) (requestId s + 1) (K_loadStationsList False)"
    "connected t" "ws t = Some i" "socket_state t i = Some OPEN" "jobs t = jobs s" "eventHandlers t = eventHandlers s"
    "socket_state t j = socket_state s j"
    using assms(3-5) unfolding t call_sends [OF l]
    by (auto simp: logged_def updateConnectionStatus_keeps socket_state_def nth_list_update split: if_splits)
  show "dom t x = None \<longleftrightarrow> dom s x = None"
    unfolding t call_sends [OF l] by (simp add: logged_def updateConnectionStatus_present)
qed

lemma stale_demo:
  defines "t \<equiv> snd (deliver (Opened 1) demo_clicked)"
  shows "cs_running t" "ws t = Some 1" "socket_state t 1 = Some OPEN" "page_enabled t (Closed 0)"
proof -
  have e: "page_enabled demo_clicked (Opened 1)" using demo_sockets by (simp add: page_enabled_def)
  show "cs_running t" unfolding t_def by (rule running_step [OF demo_clicked(1,4) e])
  let ?u = "demo_clicked\<lparr>sockets := (sockets demo_clicked)[1 := (sockets demo_clicked ! 1)\<lparr>readyState := OPEN\<rparr>],
    connected := True, reconnectAttempts := 0\<rparr>"
  have t: "t = snd (cs_invoke H_connected Undefined ?u)"
    unfolding t_def using opened_run [OF demo_clicked(3), of 1] demo_sockets by simp
  have u: "socket_state ?u 1 = Some OPEN" "socket_state ?u 0 = Some CONNECTING"
    using demo_sockets by (auto simp: socket_state_def)
  note c = connected_over_open [of ?u 1 Undefined, folded t]
  show "ws t = Some 1" "socket_state t 1 = Some OPEN" "page_enabled t (Closed 0)"
    using c(4,5) c(8) [of 0] u demo_clicked(2,5) demo_document_ids by (simp_all add: page_enabled_def)
qed

theorem stale_close_disconnects_witness:
  "let t = snd (deliver (Closed 0) (snd (deliver (Opened 1) demo_clicked)))
   in call ''ClearCache'' (Obj []) K_clearCache t =
     (Inr (), t\<lparr>jobs := jobs t @ [(K_clearCache, Inl (Error ''Not connected to server''))]\<rparr>)"
  using stale_close_disconnects [OF stale_demo(1,4,2) _ stale_demo(3), of "''ClearCache''" "Obj []" K_clearCache]
  by (simp add: Let_def)

text \<open>
  Loading the stations: when a connection opens, the list of stations is requested; and
  the server's greeting, a notification called \<open>connected\<close> like the client's own event, requests it a
  second time. The calls have consecutive ids and both wait for an answer.
\<close>

lemma greeting_loads_twice:
  assumes "cs_running s" "page_enabled s (Opened i)" "ws s = Some i"
    and "\<forall>j \<in> set led_ids. dom s j \<noteq> None" "dom s ''.log-container'' \<noteq> None"
    and "json_safe (Obj kvs)" "map_get kvs ''id'' = None" "map_get kvs ''method'' = Some (Str ''connected'')"
  shows "let t = snd (deliver (Message i (json_text (Obj kvs))) (snd (deliver (Opened i) s))) in
    requestId t = requestId s + 2 \<and>
    pendingRequests t = map_set (map_set (pendingRequests s) (requestId s + 1) (K_loadStationsList False))
      (requestId s + 2) (K_loadStationsList False)"
proof -
  have h: "eventHandlers s = handler_table" using assms(1) by (rule running_handlers)
  have k: "socket_state s i = Some CONNECTING" using assms(2) by (simp add: page_enabled_def)
  let ?u = "s\<lparr>sockets := (sockets s)[i := (sockets s ! i)\<lparr>readyState := OPEN\<rparr>],
    connected := True, reconnectAttempts := 0\<rparr>"
  let ?t = "snd (deliver (Opened i) s)"
  have t: "?t = snd (cs_invoke H_connected Undefined ?u)" by (rule opened_run [OF h]) (simp add: k)
  have o: "socket_state ?u i = Some OPEN" using k by (auto simp: socket_state_def split: if_splits)
  have p: "\<forall>j \<in> set led_ids. dom ?u j \<noteq> None" "dom ?u ''.log-container'' \<noteq> None" "connected ?u" "ws ?u = Some i"
    using assms(3-5) by simp_all
  note c = connected_over_open [OF p o, where d = Undefined, folded t]
  have m: "handlers_of ?t ''connected'' = [H_connected]"
    using h c(7) by (simp add: handlers_running)
  have "snd (deliver (Message i (json_text (Obj kvs))) ?t) = snd (cs_invoke H_connected (field_of (Obj kvs) ''params'') ?t)"
    using notification_run [OF assms(6-8), of ?t]
    by (simp add: message_run js_report_run m after_handlers_def del: json_text.simps cs_invoke.simps)
  then show ?thesis
    using connected_over_open(1,2) [of ?t i "field_of (Obj kvs) ''params''"] c assms(4,5)
    by (simp add: Let_def del: json_text.simps cs_invoke.simps)
qed

text \<open>
  C24. Connection settings: after the settings are applied, pressing connect opens a socket
  at the address the user typed, with the sub-protocol \<open>websocket\<close>, and makes it the client's
  socket; an address the browser rejects opens nothing and throws nothing.
\<close>

theorem connect_uses_applied_address:
  assumes "dom s ''websocket-address'' = Some a" "dom s ''polling-frequency'' = Some p"
    and "dom s ''.log-container'' \<noteq> None"
  defines "t \<equiv> snd (cs_act A_applyWebsocketSettings s)"
  shows "fst (cs_act A_connectWebsocket t) = Inr () \<and>
    sockets (snd (cs_act A_connectWebsocket t)) = (if url_ok s (el_value a) then sockets s @
      [\<lparr>sk_url = el_value a, sk_protocol = Some ''websocket'', readyState = CONNECTING, sent = []\<rparr>] else sockets s) \<and>
    ws (snd (cs_act A_connectWebsocket t)) = (if url_ok s (el_value a) then Some (length (sockets s)) else ws s)"
proof -
  have "\<exists>c m1 m2. t = logged c m2 ((logged c m1 (s\<lparr>url := el_value a\<rparr>))\<lparr>scan_rate := Str (el_value p)\<rparr>)"
    using assms(1-3) unfolding t_def
    by (simp add: applyWebsocketSettings_def js_run setUrl_def log_run logged_def) blast
  then have "url t = el_value a" "url_ok t = url_ok s" "sockets t = sockets s" "ws t = ws s"
    by (auto simp: logged_def)
  then show ?thesis
    by (simp add: connectWebsocket_def connect_def new_WebSocket_def js_run)
qed

theorem connect_uses_applied_address_witness:
  "map sk_url (sockets (snd (cs_act A_connectWebsocket (snd (cs_act A_applyWebsocketSettings
     (demo_page\<lparr>dom := (blank_dom [''websocket-address'', ''polling-frequency'', ''.log-container''])
        (''websocket-address'' \<mapsto> blank_element\<lparr>el_value := ''ws://h''\<rparr>)\<rparr>)))))) = [''ws://localhost:8080'', ''ws://h'']"
  using connect_uses_applied_address [of "demo_page\<lparr>dom := (blank_dom [''websocket-address'', ''polling-frequency'',
      ''.log-container'']) (''websocket-address'' \<mapsto> blank_element\<lparr>el_value := ''ws://h''\<rparr>)\<rparr>"
      "blank_element\<lparr>el_value := ''ws://h''\<rparr>" blank_element]
  by (simp add: blank_dom_def demo_defs del: cs_act.simps)

end
