(* ===== verification/MonitoringTheorems.thy ===== *)
theory MonitoringTheorems
  imports MonitoringPage "HOL-Library.Multiset"
begin

text \<open>
  What the monitoring page guarantees to its user, and where it falls short: the arithmetic
  of the displayed values, the bounds of the log, of the power bar and of the reconnection
  attempts, the guards of the commands, the defaults on failure, the polling that is never
  switched off and the calls that are rejected and yet stay pending.
\<close>

subsection \<open>Displayed values\<close>

lemma num_rem_nat: "0 < d \<Longrightarrow> num_rem (Fin (of_nat n)) (Fin (of_nat d)) = Fin (of_nat (n mod d))"
proof -
  assume d: "0 < d"
  have "\<lfloor>of_nat n / of_nat d :: rat\<rfloor> = int (n div d)"
    using floor_divide_of_nat_eq [of n d, where ?'a = rat] by simp
  moreover have "rat_of_nat n = of_nat (n div d) * of_nat d + of_nat (n mod d)"
    by (metis div_mult_mod_eq of_nat_add of_nat_mult)
  ultimately show ?thesis using d by (simp add: rat_trunc_def)
qed

lemma floor_div_nat:
  assumes "n < 2 ^ 53" "0 < d" "d \<le> 2 ^ 53"
  shows "num_floor (num_div (Fin (of_nat n)) (Fin (of_nat d))) = Fin (of_nat (n div d))"
proof -
  have "int n < 2 ^ 53" "int d \<le> 2 ^ 53"
    using assms by (metis of_nat_less_iff of_nat_numeral of_nat_power, metis of_nat_le_iff of_nat_numeral of_nat_power)
  then obtain r where "to_double (of_int (int n) / of_int (int d)) = Fin r" "\<lfloor>r\<rfloor> = int n div int d"
    using floor_double_quotient [of "int n" "int d"] assms(2) by auto
  moreover have "rat_of_int (int n div int d) = of_nat (n div d)"
    by (metis of_int_of_nat_eq zdiv_int)
  ultimately show ?thesis using assms(2) by simp
qed

text \<open>The decomposition of a number of seconds the page shows.\<close>

definition uptime_text :: "nat \<Rightarrow> string" where
  "uptime_text n =
     (let d = n div 86400; h = n mod 86400 div 3600; m = n mod 3600 div 60; s = n mod 60
      in if 0 < d then show_nat d @ ''d '' @ show_nat h @ ''h '' @ show_nat m @ ''m''
         else if 0 < h then show_nat h @ ''h '' @ show_nat m @ ''m '' @ show_nat s @ ''s''
         else show_nat m @ ''m '' @ show_nat s @ ''s'')"

text \<open>
  C25. Uptime: for every whole number of seconds a double holds exactly, the floating-point
  divisions and remainders of \<open>formatUptime\<close> give the days, hours, minutes and seconds of
  integer division, and the text shows days, hours and minutes from one day on, hours,
  minutes and seconds from one hour on, and minutes and seconds below.
\<close>

theorem formatUptime_exact:
  assumes "n < 2 ^ 53"
  shows "formatUptime (Fin (of_nat n)) = uptime_text n"
proof -
  have d: "num_floor (num_div (Fin (of_nat n)) (Fin 86400)) = Fin (of_nat (n div 86400))"
    using floor_div_nat [of n 86400] assms by simp
  have r: "num_rem (Fin (of_nat n)) (Fin 86400) = Fin (of_nat (n mod 86400))"
    "num_rem (Fin (of_nat n)) (Fin 3600) = Fin (of_nat (n mod 3600))"
    "num_rem (Fin (of_nat n)) (Fin 60) = Fin (of_nat (n mod 60))"
    using num_rem_nat [of 86400 n] num_rem_nat [of 3600 n] num_rem_nat [of 60 n] by simp_all
  have s: "n mod 86400 < 2 ^ 53" "n mod 3600 < 2 ^ 53" "n mod 60 < 2 ^ 53"
    using mod_less_divisor [of 86400 n] mod_less_divisor [of 3600 n] mod_less_divisor [of 60 n] by simp_all
  have q: "num_floor (num_div (Fin (of_nat (n mod 86400))) (Fin 3600)) = Fin (of_nat (n mod 86400 div 3600))"
    "num_floor (num_div (Fin (of_nat (n mod 3600))) (Fin 60)) = Fin (of_nat (n mod 3600 div 60))"
    using floor_div_nat [OF s(1), of 3600] floor_div_nat [OF s(2), of 60] by simp_all
  have t: "num_to_string (Fin (of_nat (k div j))) = show_nat (k div j)" if "k < 2 ^ 53" for k j
    using that by (intro num_to_string_nat le_less_trans [OF div_le_dividend])
  show ?thesis
    by (simp add: formatUptime_def Let_def d r q uptime_text_def t [OF assms] t [OF s(1)] t [OF s(2)]
        num_to_string_nat [OF s(3)] del: num_to_string.simps num_rem.simps num_div.simps num_floor.simps)
qed

theorem formatUptime_exact_witness:
  "formatUptime (Fin 93784) = ''1d 2h 3m''"
  using formatUptime_exact [of 93784] by (simp add: uptime_text_def Let_def digit_char_def show_nat.simps char_of_def bit_Suc_0_iff)



lemma same_view_fields:
  assumes "mon_same_but_view s t"
  shows "shown_values t = shown_values s" "timers t = timers s" "jobs t = jobs s"
    "pendingRequests t = pendingRequests s" "requestId t = requestId s" "connectionState t = connectionState s"
    "connected t = connected s" "clock t = clock s" "sockets t = sockets s"
  using assms by (cases t; simp add: mon_same_but_view_def)+

lemma updateValue_view:
  "mon_same_but_view (s\<lparr>shown_values := map_set (shown_values s) (to_string k) (if nullish v then Str ''N/A'' else v)\<rparr>)
     (snd (updateValue k v s))"
proof -
  let ?v = "if nullish v then Str ''N/A'' else v" let ?k = "to_string k"
  let ?s = "s\<lparr>shown_values := map_set (shown_values s) ?k ?v\<rparr>"
  let ?m = "if_el ?k (showValue k ?k (to_string ?v))"
  have "updateValue k v s = js_try (js_block [?m]) (\<lambda>error. js_skip) ?s"
    by (simp only: updateValue_def Let_def js_try_run js_block_Cons_run js_upd_run prod.case sum.case)
  moreover have "relates mon_same_but_view (js_try (js_block [?m]) (\<lambda>error. js_skip))"
    by (intro mvw.rel_try mvw.rel_block_steps mvw.rel_if_el mvw.rel_showValue mvw.rel_skip)
  ultimately show ?thesis by (simp add: relatesD)
qed

lemma no_throw_updateValue: "fst (updateValue k v s) = Inr ()"
  by (simp add: updateValue_def js_try_run js_skip_run split: prod.split sum.split)

text \<open>
  Values are always recorded: \<open>updateValue\<close> never throws, whatever the key, the value and
  the document, and afterwards the page remembers under the key the value it was given, or
  \<open>N/A\<close> for \<open>null\<close> and \<open>undefined\<close>; no other remembered value changes.
\<close>

lemma updateValue_records:
  "fst (updateValue k v s) = Inr () \<and>
   shown_values (snd (updateValue k v s)) = map_set (shown_values s) (to_string k) (if nullish v then Str ''N/A'' else v)"
  using same_view_fields(1) [OF updateValue_view [of s k v]] by (simp add: no_throw_updateValue)

subsection \<open>The event log\<close>

definition texts :: "node list \<Rightarrow> nat" where
  "texts ns = length (filter (\<lambda>n. \<not> is_element n) ns)"

definition elements :: "node list \<Rightarrow> nat" where
  "elements ns = length (filter is_element ns)"

lemma nodes_split: "length ns = elements ns + texts ns"
  by (simp add: elements_def texts_def sum_length_filter_compl)

lemma log_children_bound:
  assumes "length ns \<le> 50 + b" "texts ns \<le> b" "is_element n"
  shows "length (log_children ns n) \<le> 50 + b \<and> texts (log_children ns n) \<le> b \<and> last (log_children ns n) = n"
proof (cases ns)
  case Nil
  then show ?thesis using assms by (simp add: log_children_def texts_def)
next
  case (Cons x xs)
  then show ?thesis
    using assms nodes_split [of ns] by (auto simp: log_children_def Let_def elements_def texts_def)
qed

lemma addLog_run:
  "dom s ''eventLog'' = Some e \<Longrightarrow> addLog m s = (Inr (), s\<lparr>dom := (dom s)(''eventLog'' \<mapsto> e\<lparr>childNodes :=
     log_children (childNodes e) (ElementNode ''log-entry'' (''['' @ clock s @ ''] '' @ m))\<rparr>)\<rparr>)"
  by (simp add: addLog_def js_run)

lemma addLogs_bound:
  assumes "dom s ''eventLog'' = Some e" "length (childNodes e) \<le> 50 + b" "texts (childNodes e) \<le> b"
  shows "\<exists>t e'. js_block (map addLog ms) s = (Inr (), t) \<and> clock t = clock s \<and> dom t ''eventLog'' = Some e' \<and>
    length (childNodes e') \<le> 50 + b \<and> texts (childNodes e') \<le> b"
  using assms
proof (induction ms arbitrary: s e)
  case Nil
  then show ?case by (simp add: js_run)
next
  case (Cons m ms)
  let ?n = "ElementNode ''log-entry'' (''['' @ clock s @ ''] '' @ m)"
  let ?e = "e\<lparr>childNodes := log_children (childNodes e) ?n\<rparr>"
  let ?s = "s\<lparr>dom := (dom s)(''eventLog'' \<mapsto> ?e)\<rparr>"
  have "is_element ?n" by (simp add: is_element_def)
  note b = log_children_bound [OF Cons.prems(2,3) this]
  obtain t e' where "js_block (map addLog ms) ?s = (Inr (), t)" "clock t = clock ?s" "dom t ''eventLog'' = Some e'"
    "length (childNodes e') \<le> 50 + b" "texts (childNodes e') \<le> b"
    using Cons.IH [of ?s ?e] b by auto
  then show ?case by (simp add: js_block_Cons_run addLog_run [OF Cons.prems(1)])
qed

text \<open>
  C27. The log is bounded: however many messages are written, a log that started with at most
  50 entries and some text nodes between them never holds more than 50 nodes beyond the
  number of those text nodes, and its last entry is always the newest message. (A text node
  in front is removed before an entry is, so the entries alone may exceed 50.)
\<close>

theorem log_bounded:
  assumes "dom s ''eventLog'' = Some e" "elements (childNodes e) \<le> 50"
  shows "\<exists>e'. dom (snd (js_block (map addLog (ms @ [m])) s)) ''eventLog'' = Some e' \<and>
    length (childNodes e') \<le> 50 + texts (childNodes e) \<and>
    last (childNodes e') = ElementNode ''log-entry'' (''['' @ clock s @ ''] '' @ m)"
proof -
  have "length (childNodes e) \<le> 50 + texts (childNodes e)" using nodes_split [of "childNodes e"] assms(2) by simp
  from addLogs_bound [OF assms(1) this order.refl, of ms]
  obtain t e' where t: "js_block (map addLog ms) s = (Inr (), t)" "clock t = clock s" "dom t ''eventLog'' = Some e'"
    "length (childNodes e') \<le> 50 + texts (childNodes e)" "texts (childNodes e') \<le> texts (childNodes e)" by auto
  have "is_element (ElementNode ''log-entry'' (''['' @ clock s @ ''] '' @ m))" by (simp add: is_element_def)
  note log_children_bound [OF t(4,5) this]
  moreover have "js_block (map addLog (ms @ [m])) s = js_block [addLog m] t"
    by (simp add: js_block_append js_bind_run t(1))
  ultimately show ?thesis by (simp add: js_block_Cons_run js_block_Nil_run addLog_run [OF t(3)] t(2))
qed

theorem log_bounded_witness:
  "\<exists>e'. dom (snd (js_block (map addLog ([''a''] @ [''b''])) (mon_window (blank_dom [''eventLog'']) (\<lambda>u. True) (\<lambda>e. []) [])))
      ''eventLog'' = Some e' \<and> length (childNodes e') \<le> 50"
proof -
  have "dom (mon_window (blank_dom [''eventLog'']) (\<lambda>u. True) (\<lambda>e. []) []) ''eventLog'' = Some blank_element"
    by (simp add: mon_window_def blank_dom_def)
  from log_bounded [OF this, of "[''a'']" "''b''"] show ?thesis
    by (auto simp: blank_element_def elements_def texts_def)
qed

subsection \<open>Polling\<close>

lemma updateValues_polls:
  "fst (js_block (map (\<lambda>(k, x). updateValue (Str k) x) kvs) s) = Inr () \<and>
   timers (snd (js_block (map (\<lambda>(k, x). updateValue (Str k) x) kvs) s)) = timers s"
proof (induction kvs arbitrary: s)
  case Nil
  show ?case by (simp add: js_run)
next
  case (Cons kv kvs)
  obtain k x where kv: "kv = (k, x)" by (cases kv)
  have "timers (snd (updateValue (Str k) x s)) = timers s"
    using same_view_fields(2) [OF updateValue_view [of s "Str k" x]] by simp
  moreover have "updateValue (Str k) x s = (Inr (), snd (updateValue (Str k) x s))"
    by (rule prod_eqI) (simp_all add: no_throw_updateValue)
  ultimately show ?case using Cons.IH [of "snd (updateValue (Str k) x s)"]
    by (simp add: kv js_block_Cons_run) (metis (no_types, lifting) prod.case sum.case(2))
qed

text \<open>
  C28. Every successful start adds a poll: when the answer to \<open>getValues\<close> can be read, the page
  has one more interval that asks for the metrics every second than before, whatever is
  already running. Since the start is repeated at every \<open>connected\<close> event, the polls multiply.
\<close>

theorem start_adds_poll:
  assumes "monitoring_values response = Inr vs"
  shows "polls (snd (startMonitoring_resume (Inr response) s)) = polls s + 1"
proof -
  let ?m = "if truthy vs \<and> is_object vs
    then js_block (map (\<lambda>(k, x). updateValue (Str k) x) (object_entries vs)) else js_skip"
  let ?h = "\<lambda>error. js_get (\<lambda>s. error_message s error) (\<lambda>m. addLog (''Error starting monitoring: '' @ m))"
  let ?l = "js_block [addLog ''Monitoring started successfully'']"
  obtain t where t: "?m s = (Inr (), t)" "timers t = timers s"
    using updateValues_polls [of "object_entries vs" s] by (cases "?m s") (auto simp: js_skip_run split: if_splits)
  let ?u = "t\<lparr>timers := timers t @ [T_updateMetrics]\<rparr>"
  have "startMonitoring_resume (Inr response) s = js_try ?l ?h ?u"
    by (simp only: startMonitoring_resume_def js_lift_run assms js_try_run js_block_Cons_run t(1) js_upd_run
        prod.case sum.case)
  moreover have "relates mon_same_but_view (js_try ?l ?h)"
    by (intro mvw.rel_try mvw.rel_block_steps mvw.rel_get mvw.rel_addLog)
  ultimately have "mon_same_but_view ?u (snd (startMonitoring_resume (Inr response) s))"
    by (simp add: relatesD)
  then show ?thesis using same_view_fields(2) t(2) by (fastforce simp: polls_def)
qed

theorem start_adds_poll_witness:
  "polls (snd (startMonitoring_resume (Inr (Obj [(''result'', Str (json_text (Obj [])))]))
     (mon_window (blank_dom []) (\<lambda>u. True) (\<lambda>e. []) []))) = 1"
proof -
  have "json_parse (json_text (Obj [])) = Inr (Obj [])" by (rule json_round_trip) simp
  then have "monitoring_values (Obj [(''result'', Str (json_text (Obj [])))]) = Inr (Obj [])"
    by (simp add: monitoring_values_def map_get_def del: json_text.simps)
  from start_adds_poll [OF this, of "mon_window (blank_dom []) (\<lambda>u. True) (\<lambda>e. []) []"]
  show ?thesis by (simp add: polls_def mon_window_def)
qed

text \<open>
  C29. Polls are never switched off: along every run of the page, through disconnections and
  reconnections, the number of running intervals never decreases.
\<close>

theorem polls_never_stop:
  assumes "mon_steps s t"
  shows "polls s \<le> polls t"
  using mpg.rel_mon_steps [OF assms] by (simp add: polls_grow_def)

text \<open>A page whose monitoring has started over an open socket.\<close>

definition demo_monitoring :: mon_page where
  "demo_monitoring = (client_constructor (mon_window (blank_dom [''connectionStatus'', ''eventLog'', ''maxPower'']) (\<lambda>u. True) (\<lambda>e. []) ''12:00:00''))
     \<lparr>connected := True, ws := Some 0, connectionState := ''connected'', timers := [T_updateMetrics],
      sockets := [\<lparr>sk_url = default_url, sk_protocol = None, readyState = OPEN, sent = []\<rparr>]\<rparr>"

lemmas demo_monitoring_defs = demo_monitoring_def client_constructor_def mon_window_def

theorem polls_never_stop_witness:
  "1 \<le> polls (snd (deliver (Closed 0) demo_monitoring))"
proof -
  have "mon_steps demo_monitoring (snd (deliver (Closed 0) demo_monitoring))"
    by (rule mon_steps.step [OF mon_steps.refl], rule mon_step.event)
      (simp_all add: page_enabled_def demo_monitoring_defs socket_state_def)
  from polls_never_stop [OF this] show ?thesis by (simp add: polls_def demo_monitoring_defs)
qed

subsection \<open>Commands\<close>

text \<open>
  C30. Guarded commands: a command reaches the client only when the page is connected and its
  socket is open; in every other case nothing is sent and no id is issued, the command is
  logged, and exactly one alert says why.
\<close>

theorem commands_are_guarded:
  assumes "dom s ''eventLog'' = Some e"
    and "\<not> (connectionState s = ''connected'' \<and> (\<exists>i. ws s = Some i \<and> socket_state s i = Some OPEN))"
  shows "let t = snd (sendCommand command params s) in
    wire t = wire s \<and> requestId t = requestId s \<and> pendingRequests t = pendingRequests s \<and> jobs t = jobs s \<and>
    (\<exists>a. alerts t = alerts s @ [a])"
proof -
  obtain e' where l: "addLog (''Sending command: '' @ command) s = (Inr (), s\<lparr>dom := (dom s)(''eventLog'' \<mapsto> e')\<rparr>)"
    using addLog_run [OF assms(1)] by blast
  let ?s = "s\<lparr>dom := (dom s)(''eventLog'' \<mapsto> e')\<rparr>"
  obtain e'' where l': "addLog ''Error: Not connected to server. Please check connection.'' ?s =
      (Inr (), ?s\<lparr>dom := (dom ?s)(''eventLog'' \<mapsto> e'')\<rparr>)"
    using addLog_run [of ?s e'] by fastforce
  have k: "socket_state ?s i = socket_state s i" for i by (simp add: socket_state_def)
  show ?thesis
    using assms(2) l'
    by (cases "ws s") (auto simp: sendCommand_def js_report_run js_bind_run l [simplified] js_get_run js_block_Cons_run
        js_block_Nil_run alert_run k wire_def Let_def)
qed

theorem commands_are_guarded_witness:
  "wire (snd (sendCommand ''startCharging'' (Obj []) (demo_monitoring\<lparr>connectionState := ''disconnected''\<rparr>))) = []"
proof -
  let ?s = "demo_monitoring\<lparr>connectionState := ''disconnected''\<rparr>"
  have "dom ?s ''eventLog'' = Some blank_element" "wire ?s = []"
    by (simp_all add: demo_monitoring_defs blank_dom_def wire_def)
  with commands_are_guarded [of ?s blank_element "''startCharging''" "Obj []"] show ?thesis
    by (simp add: Let_def)
qed

text \<open>
  C31. Maximum power: when the field holds a whole number in decimal notation, the command
  \<open>setMaxPower\<close> is given exactly when the number is between 1 and 100, and it carries that
  number; otherwise nothing happens but the alert that asks for a valid value.
\<close>

theorem max_power_checked:
  assumes "dom s ''maxPower'' = Some e" "el_value e = show_nat n" "n < 2 ^ 53"
  shows "setMaxPower_clicked s =
    (if 1 \<le> n \<and> n \<le> 100 then sendCommand ''setMaxPower'' (Obj [(''value'', num_of_int (int n))]) s
     else (Inr (), s\<lparr>alerts := alerts s @ [''Please enter a valid power value between 1 and 100 kW'']\<rparr>))"
proof -
  have "num_le (Fin 1) (Fin (of_nat n)) \<longleftrightarrow> 1 \<le> n" "num_le (Fin (of_nat n)) (Fin 100) \<longleftrightarrow> n \<le> 100"
    by (metis num_le_Fin of_nat_1 of_nat_le_iff, metis num_le_Fin of_nat_le_iff of_nat_numeral)
  then show ?thesis
    using assms(1,2) show_nat_nonempty [of n]
    by (simp add: setMaxPower_clicked_def with_el_run Let_def string_to_number_show_nat [OF assms(3)]
        parse_int_show_nat [OF assms(3)] alert_run)
qed

theorem max_power_checked_witness:
  "setMaxPower_clicked (demo_monitoring\<lparr>dom := [''maxPower'' \<mapsto> blank_element\<lparr>el_value := show_nat 101\<rparr>]\<rparr>) =
   (Inr (), demo_monitoring\<lparr>dom := [''maxPower'' \<mapsto> blank_element\<lparr>el_value := show_nat 101\<rparr>],
      alerts := [''Please enter a valid power value between 1 and 100 kW'']\<rparr>)"
proof -
  let ?s = "demo_monitoring\<lparr>dom := [''maxPower'' \<mapsto> blank_element\<lparr>el_value := show_nat 101\<rparr>]\<rparr>"
  have "dom ?s ''maxPower'' = Some (blank_element\<lparr>el_value := show_nat 101\<rparr>)" by simp
  from max_power_checked [OF this, of 101] show ?thesis by (simp add: demo_monitoring_defs)
qed

text \<open>
  Maximum power, exponents: the check converts the whole text to a number and the
  command only its leading digits. The input \<open>1e2\<close> passes the check as 100 and is sent as 1.
\<close>

lemma max_power_exponent:
  assumes "dom s ''maxPower'' = Some e" "el_value e = ''1e2''"
  shows "string_to_number (el_value e) = Fin 100 \<and>
    setMaxPower_clicked s = sendCommand ''setMaxPower'' (Obj [(''value'', num_of_int 1)]) s"
proof -
  have "string_to_number ''1e2'' = Fin 100"
    using to_double_nat [of 100]
    by (simp add: string_to_number_def trim_def trim_left_def is_ws_def strip_sign_def parse_udec_def split_digits_def
        is_digit_def parse_exp_def digits_val_def hex_prefix_def digit_val_def signed_double_def)
  moreover have "parse_int ''1e2'' = Fin 1"
    using to_double_nat [of 1]
    by (simp add: parse_int_def trim_left_def is_ws_def strip_sign_def is_digit_def digits_val_def hex_prefix_def
        digit_val_def signed_double_def)
  ultimately show ?thesis
    using assms by (simp add: setMaxPower_clicked_def with_el_run Let_def)
qed

subsection \<open>Failed metrics\<close>

text \<open>What is remembered for the metrics after a failure.\<close>

definition shows_defaults :: "mon_page \<Rightarrow> bool" where
  "shows_defaults s \<longleftrightarrow> shown_value s ''currentPower'' = Str ''0.00'' \<and> shown_value s ''voltage'' = Str ''0.0'' \<and>
     shown_value s ''temperature'' = Str ''0.0'' \<and> shown_value s ''connectedClients'' = Str ''0'' \<and>
     shown_value s ''uptime'' = Str ''0''"

lemma update_then: "js_block (updateValue k v # cs) s = js_block cs (snd (updateValue k v s))"
proof -
  obtain t where "updateValue k v s = (Inr (), t)"
    using no_throw_updateValue [of k v s] by (cases "updateValue k v s") auto
  then show ?thesis by (simp add: js_block_Cons_run)
qed

lemma shown_after_update:
  "shown_value (snd (updateValue (Str k) (Str v) s)) k' = (if k' = k then Str v else shown_value s k')"
  using same_view_fields(1) [OF updateValue_view [of s "Str k" "Str v"]]
  by (simp add: shown_value_def map_get_set nullish_def)

lemma default_metrics_run: "\<exists>t. default_metrics s = (Inr (), t) \<and> shows_defaults t"
  unfolding default_metrics_def update_then js_block_Nil_run
  by (simp add: shows_defaults_def shown_after_update)

lemma metrics_failed_run:
  assumes "dom s ''eventLog'' \<noteq> None"
  shows "shows_defaults (snd (metrics_failed e s))"
proof -
  obtain l where l: "dom s ''eventLog'' = Some l" using assms by blast
  obtain u where u: "addLog (''Error updating metrics: '' @ error_message s e) s = (Inr (), u)"
    using addLog_run [OF l] by blast
  obtain t where "default_metrics u = (Inr (), t)" "shows_defaults t" using default_metrics_run by blast
  then show ?thesis
    by (simp only: metrics_failed_def js_get_run js_block_Cons_run u prod.case sum.case js_block_Nil_run snd_conv)
qed

text \<open>
  C32. Failed metrics: when the answer to \<open>getMetrics\<close> is an error, or carries data that is not an
  object, the page remembers the default of all five metrics, whatever it showed before.
\<close>

theorem failed_metrics_reset:
  assumes "dom s ''eventLog'' = Some e"
    and "r = Inl err \<or> (\<exists>response data. r = Inr response \<and> metrics_data response = Some data \<and>
      \<not> (truthy data \<and> is_object data))"
  shows "shows_defaults (snd (updateMetrics_resume r s))"
  using assms(2)
proof (elim disjE exE conjE)
  assume "r = Inl err"
  then show ?thesis
    using metrics_failed_run assms(1) by (simp add: updateMetrics_resume_def js_lift_run js_try_run js_throw_run)
next
  fix response data
  assume r: "r = Inr response" "metrics_data response = Some data" "\<not> (truthy data \<and> is_object data)"
  obtain u where u: "addLog ''Error: Metrics data format invalid'' s = (Inr (), u)"
    using addLog_run [OF assms(1)] by blast
  obtain t where t: "default_metrics u = (Inr (), t)" "shows_defaults t" using default_metrics_run by blast
  have "shown_values (snd (if_el ''serverTime'' (js_get clock (\<lambda>x. set_text ''serverTime'' x)) t)) = shown_values t"
    "fst (if_el ''serverTime'' (js_get clock (\<lambda>x. set_text ''serverTime'' x)) t) = Inr ()"
    by (auto simp: js_run set_text_def)
  then obtain v where v: "if_el ''serverTime'' (js_get clock (\<lambda>x. set_text ''serverTime'' x)) t = (Inr (), v)"
    "shown_values v = shown_values t" by (metis prod.collapse)
  have "updateMetrics_resume r s = (Inr (), v)"
    by (simp only: updateMetrics_resume_def r js_lift_run option.case if_False js_try_run js_block_Cons_run u t(1) v(1)
        js_block_Nil_run prod.case sum.case)
  then show ?thesis using t(2) v(2) by (simp add: shows_defaults_def shown_value_def)
qed

theorem failed_metrics_reset_witness:
  "shows_defaults (snd (updateMetrics_resume (Inl (Error ''Not connected to server'')) demo_monitoring))"
proof -
  have "dom demo_monitoring ''eventLog'' = Some blank_element"
    by (simp add: demo_monitoring_defs blank_dom_def)
  then show ?thesis by (rule failed_metrics_reset) simp
qed

subsection \<open>Reconnecting\<close>

lemma attempts_on: "relates attempts_bounded (on ev h)"
  by (rule relatesI) (simp add: on_run attempts_bounded_def)

lemma start_attempts: "maxReconnectAttempts (mon_start d ok msg t) = 5 \<and> reconnectAttempts (mon_start d ok msg t) \<le> 5"
proof -
  have "relates attempts_bounded mon_constructor"
    unfolding mon_constructor_def init_def setupEventHandlers_def addTestButton_def add_listener_def
    by (intro mab.rel_block_steps mab.rel_upd mab.client.rel_client_connect mab.rel_with_el mab.rel_dom_ops attempts_on)
      (simp_all add: attempts_bounded_def)
  then have "relates attempts_bounded (js_report mon_constructor)" by (rule mab.rel_report)
  then have "attempts_bounded (client_constructor (mon_window d ok msg t)) (mon_start d ok msg t)"
    unfolding mon_start_def by (rule relatesD)
  then show ?thesis by (simp add: attempts_bounded_def client_constructor_def)
qed

text \<open>
  C33. Reconnection is bounded: in every state the page can reach, at most five attempts have
  been counted since the last connection was established, however often the connection fails.
\<close>

theorem reconnect_attempts_bounded:
  assumes "mon_steps (mon_start d ok msg t) s"
  shows "reconnectAttempts s \<le> 5"
  using mab.rel_mon_steps [OF assms] start_attempts [of d ok msg t] by (simp add: attempts_bounded_def)

theorem reconnect_attempts_bounded_witness:
  "reconnectAttempts (mon_start (blank_dom [''eventLog'']) (\<lambda>u. True) (\<lambda>e. []) []) \<le> 5"
  by (rule reconnect_attempts_bounded, rule mon_steps.refl)

text \<open>
  C34. Rejected and still pending: when the socket is not open yet, this client's \<open>call\<close> rejects
  the promise and keeps the request in its table. The operator page's client takes the request
  out; here the entry stays until an answer with its id arrives, which never was asked for.
\<close>

theorem refused_call_stays_pending:
  assumes "connected s" "ws s = Some i" "socket_state s i = Some CONNECTING" "rpc_inv s"
  shows "jobs (snd (client_call m p k s)) = jobs s @ [(k, Inl InvalidStateError)] \<and>
    pendingRequests (snd (client_call m p k s)) = pendingRequests s @ [(requestId s + 1, k)] \<and>
    pendingRequests (snd (call m p k s)) = pendingRequests s"
proof -
  have f: "map_get (pendingRequests s) (requestId s + 1) = None" using assms(4) by (rule rpc_inv_fresh)
  have "pendingRequests (snd (call m p k s)) = pendingRequests s"
    by (simp add: call_refused [OF assms(1-3) f])
  then show ?thesis
    using assms(1-3) map_set_in_place [OF f]
    by (simp add: client_call_def ws_send_def js_run socket_state_def split: if_split_asm)
qed

theorem refused_call_stays_pending_witness:
  "pendingRequests (snd (client_call ''getMetrics'' (Obj []) K_updateMetrics (demo_monitoring\<lparr>sockets :=
     [\<lparr>sk_url = default_url, sk_protocol = None, readyState = CONNECTING, sent = []\<rparr>]\<rparr>))) = [(1, K_updateMetrics)]"
  using refused_call_stays_pending [of "demo_monitoring\<lparr>sockets :=
     [\<lparr>sk_url = default_url, sk_protocol = None, readyState = CONNECTING, sent = []\<rparr>]\<rparr>" 0 "''getMetrics''" "Obj []" K_updateMetrics]
  by (simp add: demo_monitoring_defs socket_state_def rpc_inv_def map_keys_def)

end
