(* ===== verification/OcppTheorems.thy ===== *)
theory OcppTheorems
  imports OcppPage
begin

text \<open>
  What the page of \<open>index.js\<close> guarantees: without a client it never leaves the demo mode and
  touches nothing outside the browser, the loop over the stations ends, and a sample is
  recorded at the connector it names.
\<close>

subsection \<open>The demo mode\<close>

lemma demo_request: "relates keeps_inert (request_or_demo m p k f t)"
proof (rule relatesI)
  fix s :: oc_page
  show "keeps_inert s (snd (request_or_demo m p k f t s))"
    using relatesD [OF oin.rel_addLog(1) [of t], of s]
    by (auto simp: keeps_inert_def request_or_demo_def js_get_run) (auto simp: inert_def)
qed

lemma demo_act: "relates keeps_inert (oc_act a)"
  by (cases a) (auto simp: handleDisconnect_def handleGetBaseReport_def handleSendVariables_def
      handleSendStatusNotification_def handleSendMeterValues_def handleSendHeartbit_def when_selected_def Let_def
      intro!: oin.dom_rel_intros oin.rel_addLog oin.rel_selects oin.rel_set oin.rel_displays demo_request split: prod.split)

interpretation oqu: quiet_relation keeps_inert oc_act
  by unfold_locales (auto intro: demo_act simp: keeps_inert_def inert_def)

lemma demo_turn: "inert s \<Longrightarrow> page_enabled s ev \<Longrightarrow> inert (snd (deliver ev s))"
  using oqu.quiet_turn by (auto simp: deliver_def inert_def keeps_inert_def)

lemma demo_init: "relates keeps_inert (initDemoMode :: unit oc)"
proof -
  have "relates keeps_inert (loadStations :: unit oc)"
    unfolding loadStations_def loading_failed_def
  proof (intro oin.rel_report oin.rel_try relatesI)
    fix s :: oc_page
    show "keeps_inert s (snd (js_get connectionState (\<lambda>st. if st = ''connected''
        then client_call ''getChargePointsCount'' (Obj []) L_count else updateStationsList) s))"
      using relatesD [OF oin.rel_updateStationsList(1), of s]
      by (auto simp: keeps_inert_def js_get_run) (auto simp: inert_def)
  next
    fix e and s :: oc_page
    show "keeps_inert s (snd (js_block [log_failure ''Error loading stations'' e, updateStationsList] s))"
      by (rule relatesD) (intro oin.rel_block_steps oin.rel_addLog oin.rel_updateStationsList)
  qed
  then show ?thesis
    unfolding initDemoMode_def by (intro oin.rel_block_steps oin.rel_upd oin.R_stations oin.rel_displays)
qed

lemma demo_start: "inert (oc_start False d ok msg t)"
proof -
  let ?s = "oc_window False d ok msg t"
  let ?c = "?s\<lparr>stations := [], selectedStationId := Null, selectedConnectorId := Null,
    connectionState := ''disconnected''\<rparr>"
  have listen: "relates keeps_inert (add_listener i e a :: unit oc)" for i e a
    unfolding add_listener_def
    by (intro oin.dom_rel_intros oin.rel_upd) (simp add: keeps_inert_def inert_def)
  have events: "relates keeps_inert (setupEventHandlers :: unit oc)"
    unfolding setupEventHandlers_def by (intro oin.rel_block_steps listen)
  obtain m where m: "init ?c = js_block [initDemoMode, setupEventHandlers, addLog m] ?c"
    by (simp add: init_def js_block_Cons_run js_get_run oc_window_def)
  have "keeps_inert ?c (snd (js_report init ?c))"
  proof -
    have "relates keeps_inert (js_report (js_block [initDemoMode, setupEventHandlers, addLog m]))"
      by (intro oin.rel_report oin.rel_block_steps demo_init events oin.rel_addLog)
    from relatesD [OF this, of ?c] show ?thesis by (simp add: report_state m)
  qed
  moreover have "inert ?c" by (simp add: inert_def oc_window_def)
  moreover have "oc_start False d ok msg t = snd (js_report init ?c)"
    by (simp add: oc_start_def oc_constructor_def report_state js_block_Cons_run js_upd_run js_block_Nil_run
        split: prod.split sum.split)
  ultimately show ?thesis by (simp add: keeps_inert_def)
qed

lemma demo_run: "oc_steps s t \<Longrightarrow> inert s \<Longrightarrow> inert t"
proof (induction rule: oc_steps.induct)
  case (step s t u)
  then have "inert t" by simp
  with step.hyps(2) show ?case by (auto elim!: oc_stepE simp: demo_turn) (simp add: inert_def)
qed

text \<open>
  C35. Demo mode: a page that found no client at its start stays disconnected for ever, whatever
  the user does: it opens no socket, asks for nothing, awaits nothing and sets no timer.
\<close>

theorem demo_stays_offline:
  assumes "oc_steps (oc_start False d ok msg t) s"
  shows "connectionState s = ''disconnected'' \<and> sockets s = [] \<and> pendingRequests s = [] \<and> jobs s = [] \<and> timers s = []"
  using demo_run [OF assms demo_start] by (simp add: inert_def)

theorem demo_stays_offline_witness:
  "sockets (snd (deliver (Click ''get-report-btn'') (oc_start False (blank_dom [''get-report-btn'', ''log-content''])
     (\<lambda>u. True) (\<lambda>e. []) ''12:00:00''))) = []"
proof -
  let ?s = "oc_start False (blank_dom [''get-report-btn'', ''log-content'']) (\<lambda>u. True) (\<lambda>e. []) ''12:00:00''"
  have "jobs ?s = []"
    using demo_stays_offline [OF oc_steps.refl] by blast
  then have "oc_step ?s (snd (deliver (Click ''get-report-btn'') ?s))"
    by (rule oc_step.event) (simp add: page_enabled_def)
  with oc_steps.refl have "oc_steps ?s (snd (deliver (Click ''get-report-btn'') ?s))" by (rule oc_steps.step)
  from demo_stays_offline [OF this] show ?thesis by simp
qed

subsection \<open>Loading the stations\<close>

lemma loadStationInfo_run:
  "\<exists>u. loadStationInfo v s = (Inr (), u) \<and>
     stations u = map_set (stations s) (to_string v) (loaded_station v) \<and> jobs u = jobs s"
proof -
  let ?s = "s\<lparr>stations := map_set (stations s) (to_string v) (loaded_station v)\<rparr>"
  have "no_throw (loadStationInfo v)"
    unfolding loadStationInfo_def by (rule no_throw_try) simp
  moreover have "snd (loadStationInfo v s) = snd (updateStationsList ?s)"
    by (simp add: loadStationInfo_def js_try_run js_block_Cons_run js_upd_run js_block_Nil_run js_skip_run
        split: prod.split sum.split)
  moreover have "only_drawn ?s (snd (updateStationsList ?s))"
    by (rule relatesD) (rule odw.rel_updateStationsList)
  ultimately show ?thesis
    using no_throw_unit [of "loadStationInfo v" s] only_drawn_fields(1,5) by fastforce
qed

text \<open>One turn of the loop: the first of the ids is stored, the rest waits in the queue.\<close>

lemma load_next_run:
  "\<exists>u. load_next (v # vs) s = (Inr (), u) \<and>
     stations u = map_set (stations s) (to_string v) (loaded_station v) \<and>
     jobs u = jobs s @ [(L_station vs, Inr Undefined)]"
proof -
  obtain u where u: "loadStationInfo v s = (Inr (), u)"
    "stations u = map_set (stations s) (to_string v) (loaded_station v)" "jobs u = jobs s"
    using loadStationInfo_run by blast
  then show ?thesis by (simp add: load_next_def js_block_Cons_run js_block_Nil_run settle_def js_upd_run)
qed

lemma loading_turn:
  assumes "jobs s = [(k, Inr r)]" "oc_resume k (Inr r) = js_try (load_next (v # vs)) loading_failed"
  shows "\<exists>u. run_next oc_resume s = (Inr (), u) \<and> jobs u = [(L_station vs, Inr Undefined)] \<and>
    stations u = map_set (stations s) (to_string v) (loaded_station v)"
proof -
  obtain u where "load_next (v # vs) (s\<lparr>jobs := []\<rparr>) = (Inr (), u)"
    "stations u = map_set (stations s) (to_string v) (loaded_station v)" "jobs u = [(L_station vs, Inr Undefined)]"
    using load_next_run [of v vs "s\<lparr>jobs := []\<rparr>"] by auto
  then show ?thesis
    by (simp add: run_next_Cons [OF assms(1)] assms(2) js_report_run js_try_run)
qed

fun turns :: "nat \<Rightarrow> oc_page \<Rightarrow> oc_page" where
  "turns 0 s = s"
| "turns (Suc n) s = turns n (snd (run_next oc_resume s))"

lemma loading_rest:
  assumes "jobs s = [(L_station (map Str ids), Inr Undefined)]"
  shows "jobs (turns (length ids + 1) s) = [] \<and>
    map_get (stations (turns (length ids + 1) s)) i =
      (if i \<in> set ids then Some (loaded_station (Str i)) else map_get (stations s) i)"
  using assms
proof (induction ids arbitrary: s)
  case Nil
  then show ?case
    by (simp add: run_next_Cons loadStations_station_def load_next_def js_run)
next
  case (Cons j ids)
  then obtain u where u: "run_next oc_resume s = (Inr (), u)" "jobs u = [(L_station (map Str ids), Inr Undefined)]"
    "stations u = map_set (stations s) j (loaded_station (Str j))"
    using loading_turn [of s "L_station (map Str (j # ids))" Undefined "Str j" "map Str ids"]
    by (auto simp: loadStations_station_def js_lift_run)
  have "turns (length (j # ids) + 1) s = turns (length ids + 1) u"
    using u(1) by simp
  then show ?case using Cons.IH [OF u(2)] by (auto simp: u(3) map_get_set)
qed

text \<open>
  C36. Loading ends: when the list of ids has arrived and nothing else is waiting, one turn of
  the event loop for every id and one more empty the queue, and then exactly the listed
  stations are stored as connected stations with the default connectors; the others are as
  they were. It holds with and without the elements that show the list.
\<close>

theorem loading_ends:
  assumes "jobs s = [(L_ids, Inr response)]" "parseResponse response = Arr (map Str ids)"
  shows "jobs (turns (length ids + 1) s) = [] \<and>
    map_get (stations (turns (length ids + 1) s)) i =
      (if i \<in> set ids then Some (loaded_station (Str i)) else map_get (stations s) i)"
proof (cases ids)
  case Nil
  then show ?thesis
    using assms by (simp add: run_next_Cons loadStations_ids_def load_next_def js_run)
next
  case (Cons j js)
  then obtain u where u: "run_next oc_resume s = (Inr (), u)" "jobs u = [(L_station (map Str js), Inr Undefined)]"
    "stations u = map_set (stations s) j (loaded_station (Str j))"
    using loading_turn [OF assms(1), of "Str j" "map Str js"] assms(2)
    by (auto simp: loadStations_ids_def js_lift_run)
  have "turns (length ids + 1) s = turns (length js + 1) u"
    using u(1) Cons by simp
  then show ?thesis using loading_rest [OF u(2), of i] Cons by (auto simp: u(3) map_get_set)
qed

theorem loading_ends_witness:
  "map_get (stations (turns 3 ((oc_window True (blank_dom []) (\<lambda>u. True) (\<lambda>e. []) [])
     \<lparr>jobs := [(L_ids, Inr (Arr [Str ''CS1'', Str ''CS2'']))]\<rparr>))) ''CS2'' = Some (loaded_station (Str ''CS2''))"
proof -
  let ?s = "(oc_window True (blank_dom []) (\<lambda>u. True) (\<lambda>e. []) [])\<lparr>jobs := [(L_ids, Inr (Arr [Str ''CS1'', Str ''CS2'']))]\<rparr>"
  have "parseResponse (Arr [Str ''CS1'', Str ''CS2'']) = Arr (map Str [''CS1'', ''CS2''])"
    by (simp add: parseResponse_def field_of_def)
  with loading_ends [of ?s _ "[''CS1'', ''CS2'']" "''CS2''"] show ?thesis
    by (simp add: numeral_3_eq_3 oc_window_def)
qed

subsection \<open>Meter values\<close>

lemma set_connector_run:
  assumes "find_connector (stations s) i c = Some k"
  shows "\<exists>m. set_connector i c f s = (Inr (), s\<lparr>stations := m\<rparr>) \<and>
    (\<forall>i' c'. find_connector m i' c' = (if to_string i' = to_string i \<and> to_string c' = to_string c then Some (f k)
      else find_connector (stations s) i' c'))"
proof -
  obtain st where "map_get (stations s) (to_string i) = Some st" "map_get (st_connectors st) (to_string c) = Some k"
    using assms by (auto simp: find_connector_def split: option.split_asm)
  then show ?thesis
    by (auto simp: set_connector_def set_station_def with_station_def js_run find_connector_def map_get_set)
qed

lemma has_items_Cons: "has_items (Arr (x # xs))"
  by (simp add: has_items_def field_of_def to_prim_def)

text \<open>
  C37. Meter values: a sample for a known connector is stored at that connector, as the meter
  reading at the beginning and the end of a transaction and as the power when it is periodic;
  other samples store nothing, and no other connector changes. When the connector is the one
  on display, its new reading and power are what the page shows.
\<close>

theorem sample_recorded:
  assumes "find_connector (stations s) i c = Some k"
    and "meterValue = Arr (Obj m # ms)" "map_get m ''sampledValue'' = Some (Arr (Obj sample # rest))"
    and "map_get sample ''value'' = Some v" "map_get sample ''context'' = Some cxt"
    and "dom s ''connector-meter'' = Some e" "dom s ''connector-power'' = Some e'"
  shows "let t = snd (updateConnectorMeterValues i c meterValue s);
      k' = (if cxt \<in> {Str ''Transaction.Begin'', Str ''Transaction.End''} then k\<lparr>c_meter := v\<rparr>
        else if cxt = Str ''Sample.Periodic'' then k\<lparr>c_power := v\<rparr> else k)
    in find_connector (stations t) i' c' = (if to_string i' = to_string i \<and> to_string c' = to_string c then Some k'
        else find_connector (stations s) i' c') \<and>
      (if strict_eq (selectedStationId s) i \<and> selectedConnectorId s = Str (to_string c)
       then dom t = (dom s)(''connector-meter'' \<mapsto> e\<lparr>textContent := text_of (c_meter k')\<rparr>,
         ''connector-power'' \<mapsto> e'\<lparr>textContent := text_of (c_power k')\<rparr>)
       else dom t = dom s)"
proof -
  obtain n where n: "set_connector i c (record_sample cxt v) s = (Inr (), s\<lparr>stations := n\<rparr>)"
    "\<And>i' c'. find_connector n i' c' = (if to_string i' = to_string i \<and> to_string c' = to_string c
      then Some (record_sample cxt v k) else find_connector (stations s) i' c')"
    using set_connector_run [OF assms(1)] by blast
  let ?shows = "if_selected i c (show_connector_values i c)"
  have run: "updateConnectorMeterValues i c meterValue s = js_block [?shows] (s\<lparr>stations := n\<rparr>)"
    using assms(1-5) by (simp add: updateConnectorMeterValues_def js_get_run has_items_Cons js_lift_run js_block_Cons_run n(1))
  have shown: "js_block [?shows] (s\<lparr>stations := n\<rparr>) = (Inr (), s\<lparr>stations := n,
      dom := if strict_eq (selectedStationId s) i \<and> selectedConnectorId s = Str (to_string c)
        then (dom s)(''connector-meter'' \<mapsto> e\<lparr>textContent := text_of (c_meter (record_sample cxt v k))\<rparr>,
         ''connector-power'' \<mapsto> e'\<lparr>textContent := text_of (c_power (record_sample cxt v k))\<rparr>)
        else dom s\<rparr>)"
    using assms(6,7) by (simp add: if_selected_def show_connector_values_def n(2) js_run set_text_def)
  show ?thesis
    unfolding run shown by (simp add: n(2) Let_def record_sample_def)
qed

definition demo_ocpp :: oc_page where
  "demo_ocpp = (oc_window True (blank_dom [''connector-meter'', ''connector-power'']) (\<lambda>u. True) (\<lambda>e. []) [])
     \<lparr>stations := demo_stations, selectedStationId := Str ''CS003'', selectedConnectorId := Str ''2''\<rparr>"

theorem sample_recorded_witness:
  "find_connector (stations (snd (updateConnectorMeterValues (Str ''CS003'') (num_of_int 2)
      (Arr [Obj [(''sampledValue'', Arr [Obj [(''value'', num_of_int 11), (''context'', Str ''Sample.Periodic'')]])]])
      demo_ocpp))) (Str ''CS003'') (Str ''2'') = Some ((connector_of ''TYPE2'' ''in'' 1500 22)\<lparr>c_power := num_of_int 11\<rparr>)"
proof -
  have two: "to_string (num_of_int 2) = ''2''"
    using num_to_string_nat [of 2] by (simp add: show_nat.simps digit_char_def char_of_def bit_Suc_0_iff)
  have "find_connector (stations demo_ocpp) (Str ''CS003'') (num_of_int 2) = Some (connector_of ''TYPE2'' ''in'' 1500 22)"
    by (simp add: two [simplified] find_connector_def demo_ocpp_def demo_stations_def map_get_def)
  moreover have "dom demo_ocpp ''connector-meter'' = Some blank_element" "dom demo_ocpp ''connector-power'' = Some blank_element"
    by (simp_all add: demo_ocpp_def oc_window_def blank_dom_def)
  ultimately show ?thesis
    using sample_recorded [of demo_ocpp "Str ''CS003''" "num_of_int 2" "connector_of ''TYPE2'' ''in'' 1500 22" _ _ "[]"
      "[(''value'', num_of_int 11), (''context'', Str ''Sample.Periodic'')]" "[]" "num_of_int 11" "Str ''Sample.Periodic''"
      blank_element blank_element "Str ''CS003''" "Str ''2''"]
    by (simp add: map_get_def two [simplified] Let_def)
qed

end
