(* ===== verification/StationTheorems.thy ===== *)
theory StationTheorems
  imports StationPage
begin

text \<open>
  What the class \<open>StationManager\<close> does and does not do: nobody connects its client, and when the
  client is connected by other means, selecting a station leads on to its first connector.
\<close>

subsection \<open>The client stays unconnected\<close>

lemma idle_start: "idle (sm_start b q d ok msg t)"
proof -
  have listen: "relates keeps_idle (add_listener i e a :: unit sm)" for i e a
    unfolding add_listener_def by (intro sid.dom_rel_intros sid.rel_upd) (simp add: keeps_idle_def idle_def)
  have bind: "relates keeps_idle (bind_first sel a)" "relates keeps_idle (bind_nth ns i a)" for sel a ns i
    unfolding bind_first_def bind_nth_def by (intro sid.rel_query listen)+
  have events: "relates keeps_idle bindEvents"
    unfolding bindEvents_def bindStationControls_def bindConnectorControls_def bindTriggerControls_def
    by (intro sid.rel_block_steps listen bind sid.rel_query)+
  have heard: "relates keeps_idle (on_rpc ev h)" for ev h
    unfolding on_rpc_def
    by (intro sid.rel_get sid.rel_if sid.rel_throw relatesI) (simp add: on_run keeps_idle_def idle_def)
  have "relates keeps_idle sm_constructor"
    unfolding sm_constructor_def init_def setupRpcHandlers_def
    by (intro sid.rel_block_steps sid.rel_get sid.rel_if sid.rel_skip sid.rel_upd events heard sid.rel_loads)
      (simp_all add: keeps_idle_def idle_def)
  then have "relates keeps_idle (js_report sm_constructor)" by (rule sid.rel_report)
  moreover have "idle (sm_window b q d ok msg t)" "idle (client_constructor (sm_window b q d ok msg t))"
    by (simp_all add: idle_def sm_window_def client_constructor_def)
  ultimately show ?thesis
    unfolding sm_start_def using relatesD [of keeps_idle "js_report sm_constructor"] unfolding keeps_idle_def
    by (cases b) simp_all
qed

lemma idle_step:
  assumes "sm_step s t" "idle s"
  shows "idle t"
proof -
  have "relates keeps_idle (run_next sm_resume)"
    unfolding run_next_def
    by (auto intro!: sid.rel_block_steps sid.rel_report sid.rel_sm_resume sid.rel_get sid.rel_skip sid.rel_upd
        simp: keeps_idle_def idle_def split: list.split)
  then have "keeps_idle s (snd (run_next sm_resume s))" by (rule relatesD)
  moreover have "keeps_idle s (snd (deliver ev s))" if "page_enabled s ev" for ev
    using squ.quiet_turn [OF _ _ that] assms(2) by (simp add: deliver_def idle_def)
  ultimately show ?thesis using assms by (auto elim!: sm_stepE simp: keeps_idle_def)
qed

text \<open>
  C39. Never connected: nothing in the class opens the connection of its client. In every state
  the page reaches, with or without a client, there is no socket, no request was ever issued
  and none is pending: whatever the user presses, every call is rejected.
\<close>

theorem manager_never_connects:
  assumes "sm_steps (sm_start b q d ok msg t) s"
  shows "\<not> connected s \<and> sockets s = [] \<and> requestId s = 0 \<and> pendingRequests s = []"
proof -
  have "idle s" using assms
  proof (induction "sm_start b q d ok msg t" s rule: sm_steps.induct)
    case refl
    then show ?case by (rule idle_start)
  next
    case (step t u)
    then show ?case using idle_step by blast
  qed
  then show ?thesis by (simp add: idle_def)
qed

theorem manager_never_connects_witness:
  "sockets (snd (deliver (Choose ''station-select'' 0) (sm_start True (\<lambda>d b sel. []) (blank_dom [''station-select''])
     (\<lambda>u. True) (\<lambda>e. []) []))) = []"
proof -
  let ?s = "sm_start True (\<lambda>d b sel. []) (blank_dom [''station-select'']) (\<lambda>u. True) (\<lambda>e. []) []"
  have "jobs ?s = []"
    by (simp add: sm_start_def sm_constructor_def init_def bindEvents_def client_constructor_def sm_window_def
        blank_dom_def js_run)
  then have "sm_step ?s (snd (deliver (Choose ''station-select'' 0) ?s))"
    by (rule sm_step.event) (simp add: page_enabled_def)
  with sm_steps.refl have "sm_steps ?s (snd (deliver (Choose ''station-select'' 0) ?s))" by (rule sm_steps.step)
  then show ?thesis using manager_never_connects by blast
qed

subsection \<open>Drawing never fails on a sound document\<close>

text \<open>
  The browser's contract: what a selector finds exists, and the log is one fixed element. A
  document is sound when it has the log and the two drop-downs.
\<close>

definition sound :: "sm_page \<Rightarrow> bool" where
  "sound s \<longleftrightarrow> (\<forall>d b sel n. n \<in> set (query s d b sel) \<longrightarrow> d n \<noteq> None) \<and>
     (\<forall>d. d ''log'' \<noteq> None \<longrightarrow> query s d None ''.log-container'' = [''log'']) \<and>
     dom s ''log'' \<noteq> None \<and> dom s ''station-select'' \<noteq> None \<and> dom s ''connector-select'' \<noteq> None"

text \<open>The document afterwards has the same elements, and nothing else changed.\<close>

definition redrawn :: "sm_page \<Rightarrow> sm_page \<Rightarrow> bool" where
  "redrawn s t \<longleftrightarrow> (\<exists>d. (\<forall>i. d i = None \<longleftrightarrow> dom s i = None) \<and> t = s\<lparr>dom := d\<rparr>)"

definition draws :: "sm_page \<Rightarrow> unit sm \<Rightarrow> bool" where
  "draws s m \<longleftrightarrow> (\<exists>t. m s = (Inr (), t) \<and> redrawn s t)"

lemma redrawnI: "(\<And>i. d i = None \<longleftrightarrow> dom s i = None) \<Longrightarrow> redrawn s (s\<lparr>dom := d\<rparr>)"
  unfolding redrawn_def by blast

lemma redrawnE:
  assumes "redrawn s t"
  obtains d where "t = s\<lparr>dom := d\<rparr>" "\<And>i. d i = None \<longleftrightarrow> dom s i = None"
  using assms unfolding redrawn_def by blast

lemma redrawn_refl: "redrawn s s"
  using redrawnI [of "dom s" s] by simp

lemma redrawn_trans: "redrawn s t \<Longrightarrow> redrawn t u \<Longrightarrow> redrawn s u"
  by (elim redrawnE) (simp add: redrawnI)

lemma redrawn_present: "redrawn s t \<Longrightarrow> dom t i = None \<longleftrightarrow> dom s i = None"
  by (elim redrawnE) simp

lemma redrawn_query: "redrawn s t \<Longrightarrow> query t = query s"
  by (elim redrawnE) simp

lemma redrawn_sound: "redrawn s t \<Longrightarrow> sound s \<Longrightarrow> sound t"
  unfolding sound_def by (simp add: redrawn_present redrawn_query)

lemma draws_skip: "draws s js_skip"
  by (simp add: draws_def js_skip_run redrawn_refl)

lemma draws_set_el: "dom s n \<noteq> None \<Longrightarrow> draws s (set_el n f)"
  by (auto simp: draws_def js_run intro!: redrawnI split: if_splits)

lemma draws_ops:
  assumes "dom s n \<noteq> None"
  shows "draws s (set_text n t)" "draws s (set_class n c)" "draws s (clear_options n)"
    "draws s (append_option n v t)" "draws s (append_child n x)"
  by (simp_all add: dom_defs draws_set_el [OF assms])

lemma draws_block:
  assumes "draws s c" "\<And>t. redrawn s t \<Longrightarrow> draws t (js_block cs)"
  shows "draws s (js_block (c # cs))"
  using assms unfolding draws_def js_block_Cons_run by (fastforce intro: redrawn_trans)

lemma draws_Nil: "draws s (js_block [])"
  by (simp add: draws_def js_block_Nil_run redrawn_refl)

lemma draws_get: "draws s (k (f s)) \<Longrightarrow> draws s (js_get f k)"
  by (simp add: draws_def js_get_run)

lemma draws_found:
  assumes "sound s" "\<And>n. dom s n \<noteq> None \<Longrightarrow> draws s (k n)"
  shows "draws s (querySelector None sel (\<lambda>r. if_found r k))"
proof (cases "query s (dom s) None sel")
  case Nil
  then show ?thesis by (simp add: querySelector_def querySelectorAll_def draws_def js_get_run if_found_def js_skip_run redrawn_refl)
next
  case (Cons n ns)
  then have "n \<in> set (query s (dom s) None sel)" by simp
  then have "dom s n \<noteq> None" using assms(1) unfolding sound_def by blast
  then show ?thesis using assms(2) Cons
    by (simp add: querySelector_def querySelectorAll_def draws_def js_get_run if_found_def)
qed

lemma draws_two: "dom s n \<noteq> None \<Longrightarrow> draws s (js_block [set_text n x, set_class n y])"
  by (intro draws_block draws_Nil draws_ops) (simp_all add: redrawn_present)

lemma draws_log:
  assumes "sound s"
  shows "draws s (log m)"
proof -
  have "query s (dom s) None ''.log-container'' = [''log'']" and l: "dom s ''log'' \<noteq> None"
    using assms unfolding sound_def by blast+
  then have "log m s = append_child ''log''
      (ElementNode (''log-entry log-entry--'' @ ''info'') (log_entry_html (clock s) m)) s"
    by (simp add: log_def addLogEntry_def querySelector_def querySelectorAll_def js_get_run the_element_def)
  then show ?thesis using draws_ops(5) [OF l] by (simp add: draws_def)
qed

text \<open>The data of a station, as an object with a list of connectors, can be shown.\<close>

lemma draws_station:
  assumes "sound s" "map_get kvs ''connectors'' = Some (Arr cs)"
  shows "draws s (updateStationInfo (Obj kvs))"
proof -
  have status: "draws t (js_lift (get_prop (Obj kvs) ''status'') (\<lambda>status. js_block [set_text n (f status), set_class n (g status)]))"
    if "dom t n \<noteq> None" for t n f g
    using draws_two [OF that] by (simp add: js_lift_run)
  have count: "draws t (js_lift (get_prop (Obj kvs) ''connectors'') (\<lambda>c. if truthy c
      then js_lift (get_prop c ''length'') (\<lambda>l. set_text n (f l)) else js_skip))" if "dom t n \<noteq> None" for t n f
    using draws_ops(1) [OF that] draws_skip by (simp add: js_lift_run assms(2))
  have power: "draws t (js_lift (get_prop (Obj kvs) ''maxPower'') (\<lambda>p. if truthy p then set_text n (f p) else js_skip))"
    if "dom t n \<noteq> None" for t n f
    using draws_ops(1) [OF that] draws_skip by (simp add: js_lift_run)
  show ?thesis
    unfolding updateStationInfo_def
    by (intro draws_block draws_Nil draws_found status count power) (meson redrawn_sound assms(1))+
qed

lemma draws_options:
  assumes "dom s ''connector-select'' \<noteq> None"
  shows "draws s (js_block (map (\<lambda>connector. js_lift (get_prop connector ''id'')
    (\<lambda>i. append_option ''connector-select'' (to_string i) (f i))) (map Obj cs)))"
  using assms
proof (induction cs arbitrary: s)
  case Nil
  show ?case by (simp add: draws_Nil)
next
  case (Cons c cs)
  have "draws s (js_lift (get_prop (Obj c) ''id'') (\<lambda>i. append_option ''connector-select'' (to_string i) (f i)))"
    using draws_ops(4) [OF Cons.prems] by (simp add: js_lift_run)
  then show ?case
    unfolding list.map by (rule draws_block) (rule Cons.IH, simp add: redrawn_present Cons.prems)
qed

lemma draws_dropdown:
  assumes "sound s"
  shows "draws s (updateConnectorsDropdown (Arr (map Obj cs)))"
proof -
  have d: "dom s ''connector-select'' \<noteq> None" using assms unfolding sound_def by blast
  show ?thesis
    unfolding updateConnectorsDropdown_def
  proof (intro draws_block draws_Nil)
    show "draws s (clear_options ''connector-select'')" using d by (rule draws_ops)
    fix t
    assume "redrawn s t"
    then have "dom t ''connector-select'' \<noteq> None" using d by (simp add: redrawn_present)
    from draws_options [OF this] show "draws t (if has_items (Arr (map Obj cs))
        then js_lift (array_elems (Arr (map Obj cs))) (\<lambda>xs. js_block (map (\<lambda>connector. js_lift (get_prop connector ''id'')
          (\<lambda>i. append_option ''connector-select'' (to_string i) ((ru ''Konnektor '') @ to_string i))) xs)) else js_skip)"
      by (simp add: js_lift_run draws_skip del: list.map)
  qed
qed

subsection \<open>Selecting a station\<close>

lemma rpc_call_sends:
  assumes "client_defined s" "connected s" "ws s = Some i" "socket_state s i = Some OPEN"
  shows "rpc_call m p k s = (Inr (), s\<lparr>requestId := requestId s + 1,
     pendingRequests := map_set (pendingRequests s) (requestId s + 1) k,
     sockets := (sockets s)[i := (sockets s ! i)\<lparr>sent := sent (sockets s ! i) @
       [json_text (rpc_request (requestId s + 1) m p)]\<rparr>]\<rparr>)"
  using client_call_sends [OF assms(2-4)] call_sends [OF assms(2-4)] assms(1) by (simp add: rpc_call_def js_get_run)

text \<open>Choosing a connector, on a sound document over an open connection.\<close>

lemma connector_change_run:
  assumes "sound s" "client_defined s" "connected s" "ws s = Some i" "socket_state s i = Some OPEN"
  shows "\<exists>d. handleConnectorChange v s = (Inr (), s\<lparr>dom := d, requestId := requestId s + 1,
     pendingRequests := map_set (pendingRequests s) (requestId s + 1) (W_handleConnectorChange v),
     sockets := (sockets s)[i := (sockets s ! i)\<lparr>sent := sent (sockets s ! i) @
       [json_text (rpc_request (requestId s + 1) ''GetConnectorStatus''
         (Obj [(''stationId'', currentStation s), (''connectorId'', v)]))]\<rparr>]\<rparr>)"
proof -
  obtain t where "log ((ru ''Wybor konnektora: '') @ to_string v) s = (Inr (), t)" "redrawn s t"
    using draws_log [OF assms(1)] unfolding draws_def by blast
  moreover then obtain d where d: "t = s\<lparr>dom := d\<rparr>" by (elim redrawnE)
  moreover have "socket_state (s\<lparr>dom := d\<rparr>) i = Some OPEN" using assms(5) by (simp add: socket_state_def split: if_splits)
  moreover have "client_defined (s\<lparr>dom := d\<rparr>)" "connected (s\<lparr>dom := d\<rparr>)" "ws (s\<lparr>dom := d\<rparr>) = Some i"
    using assms(2-4) by simp_all
  ultimately show ?thesis
    using rpc_call_sends [of "s\<lparr>dom := d\<rparr>" i]
    by (auto simp: handleConnectorChange_def js_report_run js_try_run js_block_Cons_run js_block_Nil_run js_get_run)
qed


definition demo_manager :: sm_page where
  "demo_manager = (client_constructor (sm_window True (\<lambda>d b sel. if b = None \<and> sel = ''.log-container'' \<and> d ''log'' \<noteq> None
     then [''log''] else []) (blank_dom [''log'', ''station-select'', ''connector-select'']) (\<lambda>u. True) (\<lambda>e. []) []))
     \<lparr>connected := True, ws := Some 0, sockets := [\<lparr>sk_url = default_url, sk_protocol = None, readyState = OPEN, sent = []\<rparr>]\<rparr>"


end
