(* ===== verification/Tooltips.thy ===== *)
theory Tooltips
  imports Prelude
begin

text \<open>
  \<open>web/js/tooltips.js\<close>: every icon of class \<open>tooltip-icon\<close> gets a tooltip that is visible while the
  pointer is over the icon. The script is independent of the rest of the page.
\<close>

record tooltip =
  tip_text :: string
  classList :: "string list"

datatype pointer = Enter nat | Leave nat

text \<open>\<open>classList.add\<close> adds a token once, \<open>classList.remove\<close> removes it.\<close>

definition class_add :: "string \<Rightarrow> tooltip \<Rightarrow> tooltip" where
  "class_add c t = (if c \<in> set (classList t) then t else t\<lparr>classList := classList t @ [c]\<rparr>)"

definition class_remove :: "string \<Rightarrow> tooltip \<Rightarrow> tooltip" where
  "class_remove c t = t\<lparr>classList := filter (\<lambda>d. d \<noteq> c) (classList t)\<rparr>"

text \<open>
  The \<open>DOMContentLoaded\<close> listener, given the attribute \<open>data-tooltip\<close> of each icon; the text of a
  missing attribute is empty.
\<close>

definition add_tooltips :: "string option list \<Rightarrow> tooltip list" where
  "add_tooltips icons = map (\<lambda>tooltipText. \<lparr>tip_text = (case tooltipText of Some t \<Rightarrow> t | None \<Rightarrow> []),
     classList = [''tooltip'']\<rparr>) icons"

fun pointer_moves :: "pointer \<Rightarrow> tooltip list \<Rightarrow> tooltip list" where
  "pointer_moves (Enter i) ts = (if i < length ts then ts[i := class_add ''tooltip--visible'' (ts ! i)] else ts)"
| "pointer_moves (Leave i) ts = (if i < length ts then ts[i := class_remove ''tooltip--visible'' (ts ! i)] else ts)"

definition is_visible :: "tooltip \<Rightarrow> bool" where
  "is_visible t \<longleftrightarrow> ''tooltip--visible'' \<in> set (classList t)"

lemma length_moves [simp]: "length (fold pointer_moves ms ts) = length ts"
proof (induction ms arbitrary: ts)
  case (Cons m ms)
  then show ?case by (cases m) simp_all
qed simp

lemma visible_move:
  "i < length ts \<Longrightarrow> is_visible (pointer_moves m ts ! i) \<longleftrightarrow>
    m = Enter i \<or> (m \<noteq> Leave i \<and> is_visible (ts ! i))"
  by (cases m) (auto simp: is_visible_def class_add_def class_remove_def nth_list_update)

text \<open>
  A tooltip is visible exactly when, of all the times the pointer entered or left its icon, it
  entered last.
\<close>

lemma visible_while_entered:
  assumes "i < length icons"
  shows "is_visible (fold pointer_moves ms (add_tooltips icons) ! i) \<longleftrightarrow>
    (let own = filter (\<lambda>m. m = Enter i \<or> m = Leave i) ms in own \<noteq> [] \<and> last own = Enter i)"
proof (induction ms rule: rev_induct)
  case Nil
  show ?case using assms by (simp add: add_tooltips_def is_visible_def)
next
  case (snoc m ms)
  have "i < length (fold pointer_moves ms (add_tooltips icons))" using assms by (simp add: add_tooltips_def)
  then show ?case using snoc.IH by (auto simp: visible_move Let_def)
qed

end
